(* ===== verification/Prelude.thy ===== *)
theory Prelude
  imports Main
begin

text \<open>
  The shared vocabulary of the development.

  \<^item> Errors are values: a fallible Go function is a function into \<open>err + 'a\<close>, \<open>Inl\<close> being the
    returned error. \<open>bindE\<close> is the sequencing that Go writes \<^verbatim>\<open>if err != nil { return err }\<close>.
  \<^item> A transaction (\<^verbatim>\<open>Store.Tx\<close>) is a function from the database to \<open>err + ('db \<times> 'a)\<close>;
    \<open>run_tx\<close> commits on success and rolls back on an error.
  \<^item> A table is a list of rows in rowid order. \<open>sql_update\<close>, \<open>sql_count\<close> and \<open>next_id\<close> are the
    SQL statements the store writes over it.
  \<^item> A Go string is a \<open>string\<close>: a list of bytes. \<open>to_lower\<close> and \<open>trim_space\<close> are
    \<^verbatim>\<open>strings.ToLower\<close> and \<^verbatim>\<open>strings.TrimSpace\<close> on the ASCII range.
\<close>

section \<open>Errors and transactions\<close>

datatype err =
    ENoRows                  \<comment> \<open>\<^verbatim>\<open>sql.ErrNoRows\<close>\<close>
  | EConstraint              \<comment> \<open>a UNIQUE or PRIMARY KEY constraint of the schema\<close>
  | EReject                  \<comment> \<open>\<^verbatim>\<open>errReject\<close>\<close>
  | EPaused                  \<comment> \<open>\<^verbatim>\<open>errPaused\<close>\<close>
  | EHalted                  \<comment> \<open>\<^verbatim>\<open>errHalted\<close>\<close>
  | EPolicy                  \<comment> \<open>\<^verbatim>\<open>errPolicy\<close>\<close>
  | EBudget                  \<comment> \<open>\<^verbatim>\<open>errBudget\<close>\<close>
  | EArchived                \<comment> \<open>\<^verbatim>\<open>errArchived\<close>\<close>
  | ESecret                  \<comment> \<open>\<^verbatim>\<open>errSecret\<close>\<close>
  | EReviewBudget            \<comment> \<open>\<^verbatim>\<open>ErrReviewBudget\<close>\<close>
  | EReviewIneligible        \<comment> \<open>\<^verbatim>\<open>ErrReviewIneligible\<close>\<close>
  | EGuestNotAllowed         \<comment> \<open>\<^verbatim>\<open>ErrGuestNotAllowed\<close>\<close>
  | ERetentionExpired        \<comment> \<open>\<^verbatim>\<open>store.ErrRetentionExpired\<close>\<close>
  | EText string             \<comment> \<open>a one-off \<^verbatim>\<open>fmt.Errorf\<close>, by its leading text\<close>

type_synonym 'a res = "err + 'a"

definition bindE :: "'e + 'a \<Rightarrow> ('a \<Rightarrow> 'e + 'b) \<Rightarrow> 'e + 'b" where
  "bindE m f = (case m of Inl e \<Rightarrow> Inl e | Inr x \<Rightarrow> f x)"

lemma bindE_simps [simp]:
  "bindE (Inl e) f = Inl e"
  "bindE (Inr x) f = f x"
  by (simp_all add: bindE_def)

lemma bindE_eq_Inr:
  "bindE m f = Inr y \<longleftrightarrow> (\<exists>x. m = Inr x \<and> f x = Inr y)"
  by (cases m) auto

lemma bindE_eq_Inl:
  "bindE m f = Inl e \<longleftrightarrow> m = Inl e \<or> (\<exists>x. m = Inr x \<and> f x = Inl e)"
  by (cases m) auto

lemma bindE_InrE:
  assumes "bindE m f = Inr y"
  obtains x where "m = Inr x" "f x = Inr y"
  using assms by (auto simp: bindE_eq_Inr)

lemma bindE_cong [fundef_cong]:
  "m = m' \<Longrightarrow> (\<And>x. m' = Inr x \<Longrightarrow> f x = f' x) \<Longrightarrow> bindE m f = bindE m' f'"
  by (cases m') auto

text \<open>The row a query must return: \<^verbatim>\<open>Scan\<close> fails with \<^verbatim>\<open>sql.ErrNoRows\<close> when there is none.\<close>

definition the_row :: "'a option \<Rightarrow> 'a res" where
  "the_row r = (case r of None \<Rightarrow> Inl ENoRows | Some x \<Rightarrow> Inr x)"

lemma the_row_simps [simp]:
  "the_row None = Inl ENoRows"
  "the_row (Some x) = Inr x"
  by (simp_all add: the_row_def)

lemma the_row_eq_Inr [simp]: "the_row r = Inr x \<longleftrightarrow> r = Some x"
  by (cases r) auto

text \<open>\<^verbatim>\<open>Store.Tx\<close>: \<^verbatim>\<open>BEGIN IMMEDIATE\<close>, run the function, commit, or roll back on an error.\<close>

definition run_tx :: "('db \<Rightarrow> 'e + ('db \<times> 'a)) \<Rightarrow> 'db \<Rightarrow> 'db \<times> ('e + 'a)" where
  "run_tx fn db = (case fn db of Inl e \<Rightarrow> (db, Inl e) | Inr (db', x) \<Rightarrow> (db', Inr x))"

lemma run_tx_Inl: "fn db = Inl e \<Longrightarrow> run_tx fn db = (db, Inl e)"
  by (simp add: run_tx_def)

lemma run_tx_Inr: "fn db = Inr (db', x) \<Longrightarrow> run_tx fn db = (db', Inr x)"
  by (simp add: run_tx_def)

lemma run_tx_rollback: "snd (run_tx fn db) = Inl e \<Longrightarrow> fst (run_tx fn db) = db"
  by (auto simp: run_tx_def split: sum.splits prod.splits)

lemma run_tx_commit: "snd (run_tx fn db) = Inr x \<Longrightarrow> fn db = Inr (fst (run_tx fn db), x)"
  by (auto simp: run_tx_def split: sum.splits prod.splits)

lemma run_tx_cases:
  assumes "run_tx fn db = (db', r)"
  obtains (abort) e where "fn db = Inl e" "db' = db" "r = Inl e"
    | (commit) x where "fn db = Inr (db', x)" "r = Inr x"
  using assms by (auto simp: run_tx_def split: sum.splits prod.splits)

text \<open>An invariant that a transaction body keeps is kept by the transaction, committed or not.\<close>

lemma run_tx_keeps:
  assumes "I db" and "\<And>db' x. fn db = Inr (db', x) \<Longrightarrow> I db'"
  shows "I (fst (run_tx fn db))"
  using assms by (auto simp: run_tx_def split: sum.splits prod.splits)

section \<open>Postconditions\<close>

text \<open>\<open>post m Q\<close>: if the computation succeeds, its result satisfies \<open>Q\<close>. The rules follow the source from
  one statement to the next.\<close>

definition post :: "'e + 'a \<Rightarrow> ('a \<Rightarrow> bool) \<Rightarrow> bool" where
  "post m Q = (\<forall>x. m = Inr x \<longrightarrow> Q x)"

lemma post_simps [simp]:
  "post (Inr x) Q = Q x"
  "post (Inl e) Q = True"
  by (simp_all add: post_def)

lemma postD: "post m Q \<Longrightarrow> m = Inr x \<Longrightarrow> Q x"
  by (simp add: post_def)

lemma postI: "(\<And>x. m = Inr x \<Longrightarrow> Q x) \<Longrightarrow> post m Q"
  by (simp add: post_def)

lemma post_bind: "post (bindE m f) Q = post m (\<lambda>x. post (f x) Q)"
  by (cases m) simp_all

lemma post_bindI: "post m P \<Longrightarrow> (\<And>x. P x \<Longrightarrow> post (f x) Q) \<Longrightarrow> post (bindE m f) Q"
  by (cases m) simp_all

lemma post_mono: "post m P \<Longrightarrow> (\<And>x. P x \<Longrightarrow> Q x) \<Longrightarrow> post m Q"
  by (simp add: post_def)

lemma post_if: "(c \<Longrightarrow> post a Q) \<Longrightarrow> (\<not> c \<Longrightarrow> post b Q) \<Longrightarrow> post (if c then a else b) Q"
  by simp

lemma post_pair: "(\<And>a b. x = (a, b) \<Longrightarrow> post (f a b) Q) \<Longrightarrow> post (case x of (a, b) \<Rightarrow> f a b) Q"
  by (cases x) simp

lemma post_any: "(\<And>x. post (f x) Q) \<Longrightarrow> post (bindE m f) Q"
  by (cases m) simp_all

lemma run_tx_post: "I db \<Longrightarrow> post (fn db) (\<lambda>(d, x). I d) \<Longrightarrow> I (fst (run_tx fn db))"
  by (auto simp: run_tx_def post_def split: sum.splits prod.splits)

lemma post_row: "(\<And>x. r = Some x \<Longrightarrow> Q x) \<Longrightarrow> post (the_row r) Q"
  by (cases r) simp_all

section \<open>Loops over a slice inside a transaction\<close>

text \<open>\<^verbatim>\<open>for _, x := range xs { if err := step(x); err != nil { return err } }\<close>.\<close>

fun for_each :: "('a \<Rightarrow> 's \<Rightarrow> 'e + 's) \<Rightarrow> 'a list \<Rightarrow> 's \<Rightarrow> 'e + 's" where
  "for_each f [] s = Inr s"
| "for_each f (x # xs) s = bindE (f x s) (for_each f xs)"

lemma for_each_keeps:
  assumes "for_each f xs s = Inr s'" and "I s"
    and "\<And>x s s'. x \<in> set xs \<Longrightarrow> I s \<Longrightarrow> f x s = Inr s' \<Longrightarrow> I s'"
  shows "I s'"
  using assms by (induction xs arbitrary: s) (auto elim!: bindE_InrE)

lemma for_each_rel:
  assumes "for_each f xs s = Inr s'" and "I s"
    and "\<And>x s s'. x \<in> set xs \<Longrightarrow> I s \<Longrightarrow> f x s = Inr s' \<Longrightarrow> I s' \<and> R s s'"
    and "\<And>s. R s s" and "\<And>a b c. R a b \<Longrightarrow> R b c \<Longrightarrow> R a c"
  shows "R s s'"
  using assms(1-3)
proof (induction xs arbitrary: s)
  case Nil
  then show ?case using assms(4) by simp
next
  case (Cons x xs)
  from Cons.prems(1) obtain s1 where s1: "f x s = Inr s1" "for_each f xs s1 = Inr s'"
    by (auto elim!: bindE_InrE)
  from Cons.prems(2,3) s1(1) have "I s1" "R s s1"
    by (meson list.set_intros(1))+
  moreover have "R s1 s'"
    using Cons.IH [OF s1(2) \<open>I s1\<close>] Cons.prems(3) by (meson list.set_intros(2))
  ultimately show ?case using assms(5) by blast
qed

lemma post_for_each:
  assumes "I s" and "\<And>x s. x \<in> set xs \<Longrightarrow> I s \<Longrightarrow> post (f x s) I"
  shows "post (for_each f xs s) I"
  using assms by (intro postI) (blast intro: for_each_keeps dest: postD)

section \<open>SQL over row lists\<close>

text \<open>\<^verbatim>\<open>UPDATE t SET ... WHERE P\<close>.\<close>

definition sql_update :: "('r \<Rightarrow> bool) \<Rightarrow> ('r \<Rightarrow> 'r) \<Rightarrow> 'r list \<Rightarrow> 'r list" where
  "sql_update P f rows = map (\<lambda>r. if P r then f r else r) rows"

text \<open>\<^verbatim>\<open>SELECT COUNT(*) FROM t WHERE P\<close>, also \<^verbatim>\<open>RowsAffected\<close>.\<close>

definition sql_count :: "('r \<Rightarrow> bool) \<Rightarrow> 'r list \<Rightarrow> int" where
  "sql_count P rows = int (length (filter P rows))"

text \<open>The id an AUTOINCREMENT column gives the next row of a table that never deletes.\<close>

definition next_id :: "int list \<Rightarrow> int" where
  "next_id ids = fold max ids 0 + 1"

lemma fold_max_ge: "(m::int) \<le> fold max xs m" "x \<in> set xs \<Longrightarrow> x \<le> fold max xs m"
proof (induction xs arbitrary: m)
  case (Cons a xs)
  { case 1 show ?case using Cons.IH(1) [of "max a m"] by simp
  next
    case 2 then show ?case using Cons.IH(1) [of "max a m"] Cons.IH(2) [of "max a m"] by auto }
qed simp_all

lemma next_id_fresh [simp]: "next_id ids \<notin> set ids"
  using fold_max_ge(2) [of "next_id ids" ids 0] by (auto simp: next_id_def)

lemma next_id_pos: "0 < next_id ids"
  using fold_max_ge(1) [of 0 ids] by (simp add: next_id_def)

lemma next_id_gt: "x \<in> set ids \<Longrightarrow> x < next_id ids"
  using fold_max_ge(2) [of x ids 0] by (simp add: next_id_def)

lemma sql_update_Nil [simp]: "sql_update P f [] = []"
  by (simp add: sql_update_def)

lemma sql_update_Cons [simp]:
  "sql_update P f (r # rs) = (if P r then f r else r) # sql_update P f rs"
  by (simp add: sql_update_def)

lemma length_sql_update [simp]: "length (sql_update P f rows) = length rows"
  by (simp add: sql_update_def)

lemma map_sql_update:
  "(\<And>r. P r \<Longrightarrow> g (f r) = g r) \<Longrightarrow> map g (sql_update P f rows) = map g rows"
  by (simp add: sql_update_def)

lemma set_sql_update:
  "set (sql_update P f rows) = (\<lambda>r. if P r then f r else r) ` set rows"
  by (simp add: sql_update_def)

lemma in_sql_updateE:
  assumes "r \<in> set (sql_update P f rows)"
  obtains (hit) r0 where "r0 \<in> set rows" "P r0" "r = f r0"
    | (miss) "r \<in> set rows" "\<not> P r"
  using assms by (auto simp: set_sql_update split: if_splits)

lemma sql_count_nonneg [simp]: "0 \<le> sql_count P rows"
  by (simp add: sql_count_def)

lemma sql_count_0: "sql_count P rows = 0 \<longleftrightarrow> (\<forall>r \<in> set rows. \<not> P r)"
  by (auto simp: sql_count_def filter_empty_conv)

lemma find_Some_in: "find P xs = Some x \<Longrightarrow> x \<in> set xs \<and> P x"
  by (auto simp: find_Some_iff)

lemma find_distinct_key:
  assumes "distinct (map k xs)" and "x \<in> set xs"
  shows "find (\<lambda>y. k y = k x) xs = Some x"
  using assms by (induction xs) (auto simp: image_iff)

lemma find_key_iff:
  assumes "distinct (map k xs)"
  shows "find (\<lambda>y. k y = a) xs = Some x \<longleftrightarrow> x \<in> set xs \<and> k x = a"
  using assms find_distinct_key [OF assms] by (auto dest: find_Some_in)

lemma find_sql_update_key:
  assumes "\<And>r. P r \<Longrightarrow> k (f r) = k r"
  shows "find (\<lambda>r. k r = a) (sql_update P f rows)
    = map_option (\<lambda>r. if P r then f r else r) (find (\<lambda>r. k r = a) rows)"
  using assms by (induction rows) auto

text \<open>\<^verbatim>\<open>ORDER BY key LIMIT 1\<close>: the first row with the least key.\<close>

fun least_by :: "('r \<Rightarrow> int) \<Rightarrow> 'r list \<Rightarrow> 'r option" where
  "least_by k [] = None"
| "least_by k (r # rs) = (case least_by k rs of
     None \<Rightarrow> Some r | Some m \<Rightarrow> if k r \<le> k m then Some r else Some m)"

lemma least_by_None [simp]: "least_by k rs = None \<longleftrightarrow> rs = []"
  by (cases rs) (auto split: option.splits)

lemma least_by_SomeD:
  "least_by k rs = Some m \<Longrightarrow> m \<in> set rs \<and> (\<forall>r \<in> set rs. k m \<le> k r)"
proof (induction rs arbitrary: m)
  case (Cons r rs)
  then show ?case
    by (cases "least_by k rs") (fastforce split: if_splits)+
qed simp

section \<open>Go strings\<close>

definition is_space :: "char \<Rightarrow> bool" where
  "is_space c = (c \<in> {CHR 0x09, CHR 0x0A, CHR 0x0B, CHR 0x0C, CHR 0x0D, CHR '' ''})"

definition lower_char :: "char \<Rightarrow> char" where
  "lower_char c = (if 65 \<le> (of_char c :: nat) \<and> (of_char c :: nat) \<le> 90
     then char_of (of_char c + 32 :: nat) else c)"

definition to_lower :: "string \<Rightarrow> string" where
  "to_lower s = map lower_char s"

definition trim_space :: "string \<Rightarrow> string" where
  "trim_space s = rev (dropWhile is_space (rev (dropWhile is_space s)))"

fun has_prefix :: "string \<Rightarrow> string \<Rightarrow> bool" where
  "has_prefix s [] = True"
| "has_prefix [] (c # p) = False"
| "has_prefix (d # s) (c # p) = (c = d \<and> has_prefix s p)"

text \<open>\<^verbatim>\<open>strings.Contains(s, sub)\<close>.\<close>

fun contains :: "string \<Rightarrow> string \<Rightarrow> bool" where
  "contains [] sub = (sub = [])"
| "contains (c # s) sub = (has_prefix (c # s) sub \<or> contains s sub)"

lemma has_prefix_iff: "has_prefix s p \<longleftrightarrow> (\<exists>r. s = p @ r)"
  by (induction s p rule: has_prefix.induct) auto

lemma has_prefix_append [simp]: "has_prefix (p @ r) p"
  by (auto simp: has_prefix_iff)

lemma contains_iff: "contains s sub \<longleftrightarrow> (\<exists>a b. s = a @ sub @ b)"
proof (induction s)
  case (Cons c s)
  show ?case
  proof
    assume "contains (c # s) sub"
    then consider "has_prefix (c # s) sub" | "contains s sub" by auto
    then show "\<exists>a b. c # s = a @ sub @ b"
    proof cases
      case 1 then show ?thesis by (auto simp: has_prefix_iff intro: exI [of _ "[]"])
    next
      case 2 then show ?thesis using Cons.IH by (metis append_Cons)
    qed
  next
    assume "\<exists>a b. c # s = a @ sub @ b"
    then obtain a b where ab: "c # s = a @ sub @ b" by blast
    show "contains (c # s) sub"
    proof (cases a)
      case Nil
      with ab have "has_prefix (c # s) sub" by (auto simp: has_prefix_iff)
      then show ?thesis by simp
    next
      case (Cons x a') then show ?thesis using ab Cons.IH by auto
    qed
  qed
qed auto

section \<open>Durations\<close>

text \<open>A time is the number of nanoseconds since the Unix epoch, UTC; a duration is in nanoseconds.\<close>

type_synonym time = int

abbreviation second :: int where "second \<equiv> 1000000000"
abbreviation minute :: int where "minute \<equiv> 60 * second"
abbreviation hour :: int where "hour \<equiv> 60 * minute"

section \<open>Collections of the development\<close>

named_theorems store_defs \<open>definitions of the store's single statements\<close>
named_theorems frame \<open>which tables an operation leaves alone\<close>

end
