(* ===== verification/Guest.thy ===== *)
theory Guest
  imports Prelude
begin

text \<open>
  The guest registry, \<^verbatim>\<open>internal/guest/guest.go\<close>: the process a session is pinned to and the
  signed conformance receipt a generic ACP guest needs.

  SHA-256, HMAC-SHA-256 and the JSON encoding under them are two parameters: \<open>sha\<close> maps the encoded
  entry to its hex digest and \<open>hmac\<close> maps the key and the signed fields to the hex MAC. The theorems
  hold for every choice of them; where a theorem needs two keys to give two MACs, it says so in a
  hypothesis.
\<close>

record receipt =
  rc_suite :: string
  rc_entry :: string
  rc_image :: string
  rc_time :: time
  rc_mac :: string

record entry =
  en_protocol :: string
  en_argv :: "string list"
  en_probe :: "string list"
  en_pin :: string
  en_image :: string
  en_receipt :: "receipt option"

definition ConformanceSuite :: string where "ConformanceSuite = ''acp-subset-v2''"
definition ProtocolACP :: string where "ProtocolACP = ''acp''"
definition KindGrok :: string where "KindGrok = ''grok''"
definition KindClaude :: string where "KindClaude = ''claude''"

text \<open>Go's zero \<^verbatim>\<open>time.Time\<close>, 1 January of year 1.\<close>

definition zero_time :: time where "zero_time = - 62135596800 * second"

text \<open>The pattern \<^verbatim>\<open>^sha256:[0-9a-f]{64}$\<close>.\<close>

definition is_hex :: "char \<Rightarrow> bool" where
  "is_hex c = (c \<in> set ''0123456789abcdef'')"

definition image_digest :: "string \<Rightarrow> bool" where
  "image_digest ref = (has_prefix ref ''sha256:'' \<and> length ref = 71 \<and> list_all is_hex (drop 7 ref))"

text \<open>\<^verbatim>\<open>strings.LastIndexByte(ref, '@')\<close>, split there: what precedes the last \<^verbatim>\<open>@\<close> and what follows.\<close>

definition cut_last_at :: "string \<Rightarrow> (string \<times> string) option" where
  "cut_last_at ref = (let r = rev ref; tl_part = takeWhile (\<lambda>c. c \<noteq> CHR ''@'') r in
     if length tl_part = length r then None
     else Some (rev (drop (length tl_part + 1) r), rev tl_part))"

definition ImageDigest :: "string \<Rightarrow> string option" where
  "ImageDigest ref =
     (if image_digest ref then Some ref
      else case cut_last_at ref of
        None \<Rightarrow> None
      | Some (before, after) \<Rightarrow>
          if before = [] \<or> \<not> image_digest after then None else Some after)"

type_synonym entry_sha = "string \<times> string list \<times> string list \<times> string \<times> string \<Rightarrow> string"
type_synonym receipt_mac = "string \<Rightarrow> string \<times> string \<times> string \<times> int \<Rightarrow> string"

definition EntryDigest :: "entry_sha \<Rightarrow> entry \<Rightarrow> string option" where
  "EntryDigest sha e = (case ImageDigest (en_image e) of
     None \<Rightarrow> None
   | Some d \<Rightarrow> Some (sha (en_protocol e, en_argv e, en_probe e, en_pin e, d)))"

text \<open>\<^verbatim>\<open>Receipt.mac\<close>; the time is signed in RFC 3339 text, so to the second.\<close>

definition receipt_mac :: "receipt_mac \<Rightarrow> string \<Rightarrow> receipt \<Rightarrow> string" where
  "receipt_mac hmac key r = hmac key (rc_suite r, rc_entry r, rc_image r, rc_time r div second)"

definition SignReceipt ::
  "entry_sha \<Rightarrow> receipt_mac \<Rightarrow> string \<Rightarrow> entry \<Rightarrow> time \<Rightarrow> receipt option" where
  "SignReceipt sha hmac key e at =
     (if key = [] then None
      else case EntryDigest sha e of
        None \<Rightarrow> None
      | Some d \<Rightarrow>
          let r = \<lparr>rc_suite = ConformanceSuite, rc_entry = d,
                   rc_image = (case ImageDigest (en_image e) of None \<Rightarrow> [] | Some i \<Rightarrow> i),
                   rc_time = at - at mod second, rc_mac = []\<rparr>
          in Some (r\<lparr>rc_mac := receipt_mac hmac key r\<rparr>))"

definition Binds :: "entry_sha \<Rightarrow> receipt \<Rightarrow> entry \<Rightarrow> bool" where
  "Binds sha r e = (case EntryDigest sha e of
     None \<Rightarrow> False
   | Some d \<Rightarrow> rc_suite r = ConformanceSuite \<and> rc_entry r = d
       \<and> rc_image r = (case ImageDigest (en_image e) of None \<Rightarrow> [] | Some i \<Rightarrow> i)
       \<and> rc_time r \<noteq> zero_time)"

definition Verify :: "entry_sha \<Rightarrow> receipt_mac \<Rightarrow> string \<Rightarrow> receipt \<Rightarrow> entry \<Rightarrow> bool" where
  "Verify sha hmac key r e =
     (key \<noteq> [] \<and> Binds sha r e \<and> rc_mac r = receipt_mac hmac key r)"

definition Builtin :: "(string \<times> entry) list" where
  "Builtin =
    [(''grok'', \<lparr>en_protocol = ''acp'',
        en_argv = [''agent'', ''--permission-mode'', ''default'', ''agent'', ''stdio''],
        en_probe = [''agent'', ''--version''], en_pin = ''acp:1'', en_image = [], en_receipt = None\<rparr>),
     (''claude'', \<lparr>en_protocol = ''claude-stream-json'',
        en_argv = [''claude'', ''--print'', ''--input-format'', ''stream-json'', ''--output-format'',
          ''stream-json'', ''--verbose'', ''--permission-mode'', ''default'',
          ''--permission-prompt-tool'', ''stdio'', ''--settings'',
          ''{\"permissions\":{\"ask\":[\"Bash\"]}}''],
        en_probe = [''claude'', ''--version''], en_pin = ''2.1.283'', en_image = [], en_receipt = None\<rparr>),
     (''codex'', \<lparr>en_protocol = ''codex-app-server'',
        en_argv = [''codex'', ''app-server'', ''--listen'', ''stdio://''],
        en_probe = [''codex'', ''--version''], en_pin = ''app-server-2026-04-15'', en_image = [],
        en_receipt = None\<rparr>),
     (''shikigami'', \<lparr>en_protocol = ''acp'',
        en_argv = [''shikigami'', ''--state'', ''./state'', ''acp''],
        en_probe = [''shikigami'', ''--version''], en_pin = ''acp'', en_image = [], en_receipt = None\<rparr>)]"

section \<open>What an image reference pins\<close>

lemma cut_last_at_append:
  assumes "CHR ''@'' \<notin> set after"
  shows "cut_last_at (before @ CHR ''@'' # after) = Some (before, after)"
proof -
  have "takeWhile (\<lambda>c. c \<noteq> CHR ''@'') (rev after @ CHR ''@'' # rev before) = rev after"
    using assms by (subst takeWhile_append2) auto
  then show ?thesis by (simp add: cut_last_at_def)
qed

lemma is_hex_not_at: "is_hex c \<Longrightarrow> c \<noteq> CHR ''@''"
  by (auto simp: is_hex_def)

lemma image_digest_not_at: "image_digest d \<Longrightarrow> CHR ''@'' \<notin> set d"
proof -
  assume d: "image_digest d"
  then obtain r where r: "d = ''sha256:'' @ r" by (auto simp: image_digest_def has_prefix_iff)
  with d have "list_all is_hex r" by (simp add: image_digest_def)
  then have "CHR ''@'' \<notin> set r" by (auto simp: list_all_iff dest: is_hex_not_at)
  with r show ?thesis by simp
qed

lemma ImageDigest_bare: "image_digest d \<Longrightarrow> ImageDigest d = Some d"
  by (simp add: ImageDigest_def)

lemma ImageDigest_named:
  assumes "image_digest d" and "name \<noteq> []"
  shows "ImageDigest (name @ CHR ''@'' # d) = Some d"
proof -
  have "\<not> image_digest (name @ CHR ''@'' # d)"
    using image_digest_not_at by fastforce
  then show ?thesis
    using assms image_digest_not_at by (simp add: ImageDigest_def cut_last_at_append)
qed

lemma ImageDigest_pins: "ImageDigest ref = Some d \<Longrightarrow> image_digest d"
  by (auto simp: ImageDigest_def split: if_splits option.splits prod.splits)

section \<open>What a receipt is worth\<close>

lemma truncated_time: "(t - t mod second) div second = t div (second::int)"
  by (metis minus_mod_eq_mult_div nonzero_mult_div_cancel_left zero_neq_numeral)

lemma SignReceiptE:
  assumes "SignReceipt sha hmac key e at = Some r"
  obtains d i where "key \<noteq> []" "EntryDigest sha e = Some d" "ImageDigest (en_image e) = Some i"
    "rc_suite r = ConformanceSuite" "rc_entry r = d" "rc_image r = i"
    "rc_time r = at - at mod second" "rc_mac r = receipt_mac hmac key r"
  using assms by (auto simp: SignReceipt_def EntryDigest_def receipt_mac_def Let_def
      split: if_splits option.splits)


definition ex_digest :: string where
  "ex_digest = ''sha256:'' @ replicate 64 (CHR ''a'')"

definition ex_guest :: entry where
  "ex_guest = \<lparr>en_protocol = ''acp'', en_argv = [''run''], en_probe = [''run'', ''-v''], en_pin = ''1'',
     en_image = ''reg/img@'' @ ex_digest, en_receipt = None\<rparr>"

definition ex_sha :: entry_sha where
  "ex_sha t = concat (fst (snd t))"

definition ex_hmac :: receipt_mac where
  "ex_hmac key t = key @ fst t"

lemma ex_guest_image: "ImageDigest (en_image ex_guest) = Some ex_digest"
  by code_simp


end
