(* ===== verification/Policy.thy ===== *)
theory Policy
  imports Guest "HOL-Library.List_Lexorder" "HOL-Library.Char_ord"
begin

text \<open>
  Executable policy, \<^verbatim>\<open>internal/policy\<close>: the decoded \<^verbatim>\<open>policy.yaml\<close> (\<^verbatim>\<open>File\<close>), its validation into the
  \<^verbatim>\<open>Effective\<close> policy (\<^verbatim>\<open>Parse\<close>), the review decisions and the project keys.

  The YAML decoder is a third-party package, so \<open>Parse\<close> starts at the decoded \<open>policy_file\<close>, whose
  maps are association lists (a decoded map has each key once). \<^verbatim>\<open>url.Parse\<close> is the parameter
  \<open>parse_url\<close>, giving scheme, host and whether there is user information. Receipt checks take the
  \<open>sha\<close> parameter of \<open>Guest\<close>.
\<close>

section \<open>The decoded file\<close>

definition KindReview :: string where "KindReview = ''review''"
definition KindRun :: string where "KindRun = ''run''"
definition KindScheduled :: string where "KindScheduled = ''scheduled''"
definition KindLocal :: string where "KindLocal = ''local''"
definition BudgetMaxConcurrentLeases :: string where
  "BudgetMaxConcurrentLeases = ''max_concurrent_leases''"
definition LabelHold :: string where "LabelHold = ''rusui:hold''"
definition LabelSecurity :: string where "LabelSecurity = ''security''"
definition MCPGatewayName :: string where "MCPGatewayName = ''gateway''"

lemmas kind_defs = KindReview_def KindRun_def KindScheduled_def KindLocal_def

record mcp_server =
  mcp_name :: string
  mcp_url :: string

record allow_rule =
  ar_tool :: string
  ar_kind :: string
  ar_command :: string
  ar_action :: string

record defaults_yaml =
  dy_session_kinds :: "string list"
  dy_egress :: string
  dy_visibility :: string
  dy_review :: "bool option"
  dy_comments :: bool
  dy_comment :: bool
  dy_close :: bool
  dy_implement :: bool
  dy_land :: bool
  dy_repair :: string
  dy_protected_labels :: "string list"
  dy_max_reviews :: int
  dy_max_repairs :: int
  dy_mcp_gateway :: string

record project_guests =
  pg_default :: string
  pg_allowed :: "string list"

record local_runtime =
  lr_argv :: "string list"
  lr_cwd :: string

record repo_yaml =
  ry_visibility :: "string option"
  ry_review :: "bool option"
  ry_comments :: "bool option"
  ry_comment :: "bool option"
  ry_close :: "bool option"
  ry_implement :: "bool option"
  ry_land :: "bool option"
  ry_repair :: "string option"
  ry_protected_labels :: "string list"
  ry_max_reviews :: "int option"
  ry_max_repairs :: "int option"

record project_yaml =
  py_guests :: "project_guests option"
  py_repos :: "(string \<times> repo_yaml) list"
  py_session_kinds :: "string list"
  py_local_runtime :: "local_runtime option"
  py_egress :: string
  py_size :: string
  py_budgets :: "(string \<times> int) list"
  py_permissions :: "allow_rule list"
  py_secrets :: "string list"
  py_ship :: string
  py_tenant :: string
  py_mcp_servers :: "mcp_server list"

record policy_file =
  pf_guests :: "(string \<times> entry) list option"
  pf_version :: int
  pf_defaults :: defaults_yaml
  pf_projects :: "(string \<times> project_yaml) list option"

section \<open>The effective policy\<close>

record repo =
  rp_project :: string
  rp_visibility :: string
  rp_review :: bool
  rp_comments :: bool
  rp_comment :: bool
  rp_close :: bool
  rp_implement :: bool
  rp_land :: bool
  rp_repair :: string
  rp_protected_labels :: "string list"
  rp_max_reviews :: int
  rp_max_repairs :: int
  rp_never_release :: bool
  rp_never_leak :: bool

record project =
  pr_guests :: "project_guests option"
  pr_slug :: string
  pr_session_kinds :: "string list"
  pr_local_runtime :: "local_runtime option"
  pr_egress :: string
  pr_size :: string
  pr_budgets :: "(string \<times> int) list"
  pr_permissions :: "allow_rule list"
  pr_secrets :: "string list"
  pr_ship :: string
  pr_repos :: "string list"
  pr_tenant :: string
  pr_mcp_servers :: "mcp_server list"

record effective =
  ef_guests :: "(string \<times> entry) list"
  ef_projects :: "(string \<times> project) list"
  ef_repos :: "(string \<times> repo) list"
  ef_mcp_gateway :: string

definition Repo :: "effective \<Rightarrow> string \<Rightarrow> repo option" where
  "Repo e name = map_of (ef_repos e) name"

definition Project :: "effective \<Rightarrow> string \<Rightarrow> project option" where
  "Project e slug = map_of (ef_projects e) slug"

definition ProjectForRepo :: "effective \<Rightarrow> string \<Rightarrow> project option" where
  "ProjectForRepo e name = (case Repo e name of None \<Rightarrow> None | Some r \<Rightarrow> Project e (rp_project r))"

definition AllowsKind :: "project \<Rightarrow> string \<Rightarrow> bool" where
  "AllowsKind p kind = (kind \<in> set (pr_session_kinds p))"

text \<open>A missing budgets map and a missing key both read as zero, which is below one.\<close>

definition MaxConcurrentLeases :: "project \<Rightarrow> int" where
  "MaxConcurrentLeases p =
     (let n = (case map_of (pr_budgets p) BudgetMaxConcurrentLeases of None \<Rightarrow> 0 | Some v \<Rightarrow> v)
      in if n < 1 then 1 else n)"

lemma MaxConcurrentLeases_pos: "1 \<le> MaxConcurrentLeases p"
  by (simp add: MaxConcurrentLeases_def Let_def)

definition SessionMCPServers :: "effective \<Rightarrow> project \<Rightarrow> mcp_server list" where
  "SessionMCPServers e p =
     (if ef_mcp_gateway e \<noteq> [] then [\<lparr>mcp_name = MCPGatewayName, mcp_url = ef_mcp_gateway e\<rparr>]
      else pr_mcp_servers p)"

section \<open>Validation\<close>

definition is_lower :: "char \<Rightarrow> bool" where
  "is_lower c = (97 \<le> (of_char c :: nat) \<and> (of_char c :: nat) \<le> 122)"

definition is_digit :: "char \<Rightarrow> bool" where
  "is_digit c = (48 \<le> (of_char c :: nat) \<and> (of_char c :: nat) \<le> 57)"

text \<open>\<^verbatim>\<open>validSlug\<close>: lower-case letters, digits and inner dashes, a letter first.\<close>

definition validSlug :: "string \<Rightarrow> bool" where
  "validSlug slug = (case slug of
     [] \<Rightarrow> False
   | c # cs \<Rightarrow> (is_lower c \<or> is_digit c)
       \<and> list_all (\<lambda>d. is_lower d \<or> is_digit d \<or> d = CHR ''-'') cs
       \<and> is_lower c)"

definition validTenant :: "string \<Rightarrow> bool" where
  "validTenant tenant = (tenant = [] \<or> validSlug tenant)"

definition validRule :: "allow_rule \<Rightarrow> bool" where
  "validRule r =
     (if ar_action r = [] \<or> ar_action r = ''allow'' then True
      else if ar_action r = ''reject''
      then \<not> (ar_tool r = [] \<and> ar_kind r = [] \<and> ar_command r = [])
      else False)"

definition validRules :: "allow_rule list \<Rightarrow> bool" where
  "validRules rules = list_all validRule rules"

fun validKinds :: "string list \<Rightarrow> string list \<Rightarrow> bool" where
  "validKinds seen [] = True"
| "validKinds seen (k # ks) =
     (k \<in> set [KindReview, KindRun, KindScheduled, KindLocal] \<and> k \<notin> set seen
      \<and> validKinds (k # seen) ks)"

text \<open>\<^verbatim>\<open>filepath.Clean\<close> of an absolute path: split at the slashes, drop empty elements and dots,
  let a double dot remove the element before it.\<close>

fun split_on :: "char \<Rightarrow> string \<Rightarrow> string list" where
  "split_on c [] = [[]]"
| "split_on c (d # s) = (if d = c then [] # split_on c s
     else (case split_on c s of [] \<Rightarrow> [[d]] | w # ws \<Rightarrow> (d # w) # ws))"

fun join_with :: "string \<Rightarrow> string list \<Rightarrow> string" where
  "join_with sep [] = []"
| "join_with sep [w] = w"
| "join_with sep (w # v # ws) = w @ sep @ join_with sep (v # ws)"

definition clean_step :: "string \<Rightarrow> string list \<Rightarrow> string list" where
  "clean_step w st = (if w = [] \<or> w = ''.'' then st
     else if w = ''..'' then (case st of [] \<Rightarrow> [] | _ # t \<Rightarrow> t) else w # st)"

definition clean_abs :: "string \<Rightarrow> string" where
  "clean_abs p = ''/'' @ join_with ''/'' (rev (fold clean_step (split_on (CHR ''/'') p) []))"

definition has_nul :: "string \<Rightarrow> bool" where
  "has_nul s = (CHR 0x00 \<in> set s)"

definition validLocalRuntime :: "local_runtime option \<Rightarrow> string list \<Rightarrow> (local_runtime option) res" where
  "validLocalRuntime runtime kinds =
     (let enabled = KindLocal \<in> set kinds in
      if enabled \<noteq> (runtime \<noteq> None)
      then Inl (EText ''must configure local_runtime exactly when local is enabled'')
      else case runtime of
        None \<Rightarrow> Inr None
      | Some r \<Rightarrow>
          if lr_argv r = [] \<or> hd (lr_argv r) = []
          then Inl (EText ''local_runtime.argv must contain an executable'')
          else if list_ex has_nul (lr_argv r) then Inl (EText ''local_runtime.argv contains NUL'')
          else if lr_cwd r = [] \<or> has_nul (lr_cwd r) \<or> \<not> has_prefix (lr_cwd r) ''/''
                  \<or> clean_abs (lr_cwd r) \<noteq> lr_cwd r
          then Inl (EText ''local_runtime.cwd must be a clean absolute path'')
          else Inr (Some r))"

definition validEgress :: "string \<Rightarrow> bool" where
  "validEgress egress = (egress \<in> set [''none'', ''trusted'', ''custom'', ''full''])"

type_synonym url_parser = "string \<Rightarrow> (string \<times> string \<times> bool) option"

definition validMCPURL :: "url_parser \<Rightarrow> string \<Rightarrow> bool" where
  "validMCPURL parse_url raw = (case parse_url raw of
     None \<Rightarrow> False
   | Some (scheme, host, has_user) \<Rightarrow>
       (scheme = ''https'' \<or> scheme = ''http'') \<and> host \<noteq> [] \<and> \<not> has_user)"

text \<open>The pattern \<^verbatim>\<open>^[a-z0-9][a-z0-9_-]{0,31}$\<close>.\<close>

definition mcpName :: "string \<Rightarrow> bool" where
  "mcpName s = (case s of
     [] \<Rightarrow> False
   | c # cs \<Rightarrow> (is_lower c \<or> is_digit c) \<and> length cs \<le> 31
       \<and> list_all (\<lambda>d. is_lower d \<or> is_digit d \<or> d = CHR ''_'' \<or> d = CHR ''-'') cs)"

fun validMCPServers :: "url_parser \<Rightarrow> string \<Rightarrow> string list \<Rightarrow> mcp_server list \<Rightarrow> bool" where
  "validMCPServers parse_url gateway seen [] = True"
| "validMCPServers parse_url gateway seen (s # ss) =
     (gateway = [] \<and> mcpName (mcp_name s) \<and> mcp_name s \<noteq> MCPGatewayName
      \<and> mcp_name s \<notin> set seen \<and> validMCPURL parse_url (mcp_url s)
      \<and> validMCPServers parse_url gateway (mcp_name s # seen) ss)"

definition ValidSecretID :: "string \<Rightarrow> bool" where
  "ValidSecretID i = (case i of
     [] \<Rightarrow> False
   | c # cs \<Rightarrow> length i \<le> 32 \<and> (is_lower c \<or> is_digit c)
       \<and> list_all (\<lambda>d. is_lower d \<or> is_digit d \<or> d = CHR ''_'') cs \<and> is_lower c)"

fun validSecrets :: "string list \<Rightarrow> string list \<Rightarrow> bool" where
  "validSecrets seen [] = True"
| "validSecrets seen (i # is) = (ValidSecretID i \<and> i \<notin> set seen \<and> validSecrets (i # seen) is)"

definition AllowSecrets :: "string list \<Rightarrow> string list \<Rightarrow> bool" where
  "AllowSecrets allow want = list_all (\<lambda>i. i \<in> set allow) want"

definition validSize :: "string \<Rightarrow> bool" where
  "validSize sz = (sz \<in> set [[], ''small'', ''medium'', ''large''])"

definition validShip :: "string \<Rightarrow> string option" where
  "validShip ship = (if ship = [] \<or> ship = ''pull-request'' then Some ''pull-request''
     else if ship = ''push-base'' then Some ''push-base'' else None)"

definition validBudgets :: "(string \<times> int) list \<Rightarrow> (string \<times> int) list option" where
  "validBudgets xs =
     (if list_all (\<lambda>(k, v). k = BudgetMaxConcurrentLeases \<and> 1 \<le> v) xs
      then Some (case xs of [] \<Rightarrow> [(BudgetMaxConcurrentLeases, 1)]
                 | _ \<Rightarrow> [(BudgetMaxConcurrentLeases, snd (last xs))])
      else None)"

definition parseRepairCategory :: "string \<Rightarrow> string option" where
  "parseRepairCategory raw = (let s = to_lower (trim_space raw) in
     if s \<in> set [[], ''off'', ''false''] then Some []
     else if s = ''docs'' then Some ''docs'' else None)"

fun merge_labels :: "string list \<Rightarrow> string list \<Rightarrow> string list" where
  "merge_labels out [] = out"
| "merge_labels out (l # ls) = (if l = [] \<or> l \<in> set out then merge_labels out ls
     else merge_labels (out @ [l]) ls)"

definition mergeProtectedLabels :: "string list \<Rightarrow> string list" where
  "mergeProtectedLabels labels = merge_labels [LabelHold, LabelSecurity] labels"

definition guest_argv_ok :: "string list \<Rightarrow> bool" where
  "guest_argv_ok argv = (trim_space (hd argv) \<noteq> [] \<and> \<not> list_ex has_nul argv)"

text \<open>\<^verbatim>\<open>validGuests\<close>: a listed entry is a built-in with its protocol kept, or a generic ACP guest with
  a receipt that binds it; every built-in must be listed.\<close>

definition validGuest :: "entry_sha \<Rightarrow> string \<Rightarrow> entry \<Rightarrow> bool" where
  "validGuest sha name e = (case map_of Builtin name of
     None \<Rightarrow> en_protocol e = ProtocolACP
       \<and> (case en_receipt e of None \<Rightarrow> False | Some r \<Rightarrow> Binds sha r e)
       \<and> en_pin e \<noteq> [] \<and> en_argv e \<noteq> [] \<and> en_probe e \<noteq> []
   | Some pinned \<Rightarrow> en_protocol e = en_protocol pinned
       \<and> (name = KindClaude \<longrightarrow> en_pin e = en_pin pinned)
       \<and> en_pin e \<noteq> [] \<and> en_argv e \<noteq> [] \<and> en_probe e \<noteq> []
       \<and> guest_argv_ok (en_argv e) \<and> guest_argv_ok (en_probe e))"

definition validGuests ::
  "entry_sha \<Rightarrow> (string \<times> entry) list option \<Rightarrow> (string \<times> entry) list option" where
  "validGuests sha registry = (case registry of
     None \<Rightarrow> Some Builtin
   | Some reg \<Rightarrow>
       if list_all (\<lambda>(n, e). validGuest sha n e) reg \<and> list_all (\<lambda>(n, _). map_of reg n \<noteq> None) Builtin
       then Some reg else None)"

definition VerifyConformance ::
  "entry_sha \<Rightarrow> receipt_mac \<Rightarrow> string \<Rightarrow> effective \<Rightarrow> bool" where
  "VerifyConformance sha hmac key p =
     list_all (\<lambda>(n, e). map_of Builtin n \<noteq> None
        \<or> (case en_receipt e of None \<Rightarrow> False | Some r \<Rightarrow> Verify sha hmac key r e)) (ef_guests p)"

fun distinct_in :: "(string \<times> entry) list \<Rightarrow> string list \<Rightarrow> string list \<Rightarrow> bool" where
  "distinct_in reg seen [] = True"
| "distinct_in reg seen (n # ns) =
     (map_of reg n \<noteq> None \<and> n \<notin> set seen \<and> distinct_in reg (n # seen) ns)"

definition validProjectGuests :: "project_guests option \<Rightarrow> (string \<times> entry) list \<Rightarrow> bool" where
  "validProjectGuests choices reg = (case choices of
     None \<Rightarrow> True
   | Some g \<Rightarrow> pg_default g \<noteq> [] \<and> pg_default g \<in> set (pg_allowed g)
       \<and> distinct_in reg [] (pg_allowed g))"

section \<open>Parse\<close>

definition or_else :: "'a option \<Rightarrow> 'a \<Rightarrow> 'a" where
  "or_else v d = (case v of None \<Rightarrow> d | Some x \<Rightarrow> x)"

text \<open>The body of the inner loop of \<^verbatim>\<open>Parse\<close>: one bound repository. Hard defaults, then the file's
  defaults, then the repository's own values.\<close>

definition merge_repo :: "defaults_yaml \<Rightarrow> string \<Rightarrow> repo_yaml \<Rightarrow> string \<Rightarrow> repo" where
  "merge_repo d slug ry repair =
    (let def_labels = mergeProtectedLabels (dy_protected_labels d) in
     \<lparr>rp_project = slug,
      rp_visibility = or_else (ry_visibility ry)
        (if dy_visibility d \<noteq> [] then dy_visibility d else ''private''),
      rp_review = or_else (ry_review ry) (or_else (dy_review d) True),
      rp_comments = or_else (ry_comments ry) (dy_comments d),
      rp_comment = or_else (ry_comment ry) (dy_comment d),
      rp_close = or_else (ry_close ry) (dy_close d),
      rp_implement = or_else (ry_implement ry) (dy_implement d),
      rp_land = or_else (ry_land ry) (dy_land d),
      rp_repair = repair,
      rp_protected_labels = (if ry_protected_labels ry \<noteq> []
        then mergeProtectedLabels (def_labels @ ry_protected_labels ry) else def_labels),
      rp_max_reviews = or_else (ry_max_reviews ry)
        (if dy_max_reviews d \<noteq> 0 then dy_max_reviews d else 50),
      rp_max_repairs = or_else (ry_max_repairs ry)
        (if dy_max_repairs d \<noteq> 0 then dy_max_repairs d else 1),
      rp_never_release = True, rp_never_leak = True\<rparr>)"

definition parse_repo :: "defaults_yaml \<Rightarrow> string \<Rightarrow> repo_yaml \<Rightarrow> repo res" where
  "parse_repo d slug ry =
    (case parseRepairCategory (dy_repair d) of
       None \<Rightarrow> Inl (EText ''unknown repair category'')
     | Some def_repair \<Rightarrow>
    (case (case ry_repair ry of None \<Rightarrow> Some def_repair | Some s \<Rightarrow> parseRepairCategory s) of
       None \<Rightarrow> Inl (EText ''unknown repair category'')
     | Some repair \<Rightarrow>
    (let r = merge_repo d slug ry repair
     in if rp_max_repairs r < 0 then Inl (EText ''max_repairs_per_repo_per_utc_day must be >= 0'')
        else if rp_visibility r \<noteq> ''public'' \<and> rp_visibility r \<noteq> ''private''
        then Inl (EText ''invalid visibility'')
        else Inr r)))"

fun parse_repos ::
  "defaults_yaml \<Rightarrow> string \<Rightarrow> (string \<times> repo_yaml) list \<Rightarrow> (string \<times> repo) list
     \<Rightarrow> ((string \<times> repo) list) res" where
  "parse_repos d slug [] out = Inr out"
| "parse_repos d slug ((name, ry) # rest) out =
     (if map_of out name \<noteq> None then Inl (EText ''bound to more than one project'')
      else bindE (parse_repo d slug ry) (\<lambda>r. parse_repos d slug rest (out @ [(name, r)])))"

definition def_kinds :: "defaults_yaml \<Rightarrow> string list" where
  "def_kinds d = (if dy_session_kinds d = [] then [KindReview, KindRun, KindScheduled]
     else dy_session_kinds d)"

definition check :: "bool \<Rightarrow> string \<Rightarrow> unit res" where
  "check b msg = (if b then Inr () else Inl (EText msg))"

text \<open>The body of the outer loop of \<^verbatim>\<open>Parse\<close>: one project.\<close>

definition parse_project ::
  "entry_sha \<Rightarrow> url_parser \<Rightarrow> defaults_yaml \<Rightarrow> (string \<times> entry) list \<Rightarrow> string \<Rightarrow> project_yaml
     \<Rightarrow> (string \<times> repo) list \<Rightarrow> (project \<times> (string \<times> repo) list) res" where
  "parse_project sha parse_url d guests slug y repos =
    bindE (check (validSlug slug) ''invalid project slug'') (\<lambda>_.
    (let kinds = (if py_session_kinds y = [] then def_kinds d else py_session_kinds y);
         egress = (if py_egress y \<noteq> [] then py_egress y
                   else if dy_egress d \<noteq> [] then dy_egress d else ''trusted'')
     in
    bindE (check (validKinds [] kinds) ''invalid session kind'') (\<lambda>_.
    bindE (validLocalRuntime (py_local_runtime y) kinds) (\<lambda>runtime.
    bindE (check (validRules (py_permissions y)) ''permission'') (\<lambda>_.
    bindE (check (validEgress egress) ''invalid egress'') (\<lambda>_.
    bindE (case validBudgets (py_budgets y) of None \<Rightarrow> Inl (EText ''budget'') | Some b \<Rightarrow> Inr b) (\<lambda>budgets.
    bindE (check (validSize (py_size y)) ''invalid size'') (\<lambda>_.
    bindE (check (validSecrets [] (py_secrets y)) ''secret id'') (\<lambda>_.
    bindE (case validShip (py_ship y) of None \<Rightarrow> Inl (EText ''invalid ship'') | Some s \<Rightarrow> Inr s) (\<lambda>ship.
    bindE (check (validProjectGuests (py_guests y) guests) ''guest'') (\<lambda>_.
    bindE (check (validTenant (py_tenant y)) ''invalid tenant'') (\<lambda>_.
    bindE (check (validMCPServers parse_url (dy_mcp_gateway d) [] (py_mcp_servers y)) ''mcp server'') (\<lambda>_.
    bindE (parse_repos d slug (py_repos y) repos) (\<lambda>repos'.
      Inr (\<lparr>pr_guests = py_guests y, pr_slug = slug, pr_session_kinds = kinds,
            pr_local_runtime = runtime, pr_egress = egress, pr_size = py_size y,
            pr_budgets = budgets, pr_permissions = py_permissions y, pr_secrets = py_secrets y,
            pr_ship = ship, pr_repos = sort (map fst (py_repos y)), pr_tenant = py_tenant y,
            pr_mcp_servers = py_mcp_servers y\<rparr>, repos')))))))))))))))"

fun parse_projects ::
  "entry_sha \<Rightarrow> url_parser \<Rightarrow> defaults_yaml \<Rightarrow> (string \<times> entry) list
     \<Rightarrow> (string \<times> project_yaml) list \<Rightarrow> (string \<times> project) list \<times> (string \<times> repo) list
     \<Rightarrow> ((string \<times> project) list \<times> (string \<times> repo) list) res" where
  "parse_projects sha parse_url d guests [] acc = Inr acc"
| "parse_projects sha parse_url d guests ((slug, y) # rest) (ps, rs) =
     bindE (parse_project sha parse_url d guests slug y rs) (\<lambda>(p, rs').
       parse_projects sha parse_url d guests rest (ps @ [(slug, p)], rs'))"

definition Parse :: "entry_sha \<Rightarrow> url_parser \<Rightarrow> policy_file \<Rightarrow> effective res" where
  "Parse sha parse_url f =
    (if pf_version f \<noteq> 2 then Inl (EText ''unsupported version'')
     else case pf_projects f of
       None \<Rightarrow> Inl (EText ''projects required'')
     | Some projects \<Rightarrow>
    (case validGuests sha (pf_guests f) of
       None \<Rightarrow> Inl (EText ''guest'')
     | Some guests \<Rightarrow>
    (let d = pf_defaults f in
     if dy_mcp_gateway d \<noteq> [] \<and> \<not> validMCPURL parse_url (dy_mcp_gateway d)
     then Inl (EText ''mcp_gateway'')
     else if KindLocal \<in> set (def_kinds d)
     then Inl (EText ''local session kind cannot be enabled in defaults'')
     else bindE (parse_projects sha parse_url d guests projects ([], [])) (\<lambda>(ps, rs).
       Inr \<lparr>ef_guests = guests, ef_projects = ps, ef_repos = rs,
            ef_mcp_gateway = dy_mcp_gateway d\<rparr>))))"

section \<open>Review decisions\<close>

datatype review_reason =
    ReviewReasonAllowed
  | ReviewReasonInvalidRepo
  | ReviewReasonUnboundRepo
  | ReviewReasonMissingProject
  | ReviewReasonDisabled
  | ReviewReasonPaused
  | ReviewReasonDailyBudget

record review_decision =
  rd_allowed :: bool
  rd_reason :: review_reason

definition deny :: "review_reason \<Rightarrow> review_decision" where
  "deny r = \<lparr>rd_allowed = False, rd_reason = r\<rparr>"

definition ReviewAccess :: "effective \<Rightarrow> string \<Rightarrow> bool \<Rightarrow> review_decision" where
  "ReviewAccess e name paused =
     (if paused then deny ReviewReasonPaused
      else if name = [] then deny ReviewReasonInvalidRepo
      else case Repo e name of
        None \<Rightarrow> deny ReviewReasonUnboundRepo
      | Some r \<Rightarrow>
          if Project e (rp_project r) = None then deny ReviewReasonMissingProject
          else if \<not> rp_review r then deny ReviewReasonDisabled
          else \<lparr>rd_allowed = True, rd_reason = ReviewReasonAllowed\<rparr>)"

definition ReviewBudget :: "int \<Rightarrow> int \<Rightarrow> review_decision" where
  "ReviewBudget today limit =
     (if limit \<le> today then deny ReviewReasonDailyBudget
      else \<lparr>rd_allowed = True, rd_reason = ReviewReasonAllowed\<rparr>)"

definition DecideReview :: "effective \<Rightarrow> string \<Rightarrow> bool \<Rightarrow> int \<Rightarrow> review_decision" where
  "DecideReview e name paused today =
     (let access = ReviewAccess e name paused in
      if \<not> rd_allowed access then access
      else ReviewBudget today (case Repo e name of None \<Rightarrow> 0 | Some r \<Rightarrow> rp_max_reviews r))"

section \<open>Project keys\<close>

definition projectKeyPrefix :: string where "projectKeyPrefix = ''project:''"

definition ProjectKey :: "string \<Rightarrow> string" where
  "ProjectKey slug = projectKeyPrefix @ slug"

definition ParseProjectKey :: "string \<Rightarrow> string option" where
  "ParseProjectKey name =
     (if \<not> has_prefix name projectKeyPrefix then None
      else let slug = drop (length projectKeyPrefix) name
           in if validSlug slug then Some slug else None)"

definition IsProjectKey :: "string \<Rightarrow> bool" where
  "IsProjectKey name = (ParseProjectKey name \<noteq> None)"

section \<open>What a parsed policy guarantees\<close>

lemma check_eq_Inr [simp]: "check b msg = Inr u \<longleftrightarrow> b"
  by (simp add: check_def)

lemma merge_labels_keeps: "set out \<subseteq> set (merge_labels out ls)"
  by (induction out ls rule: merge_labels.induct) auto

lemma mergeProtectedLabels_hard:
  "LabelHold \<in> set (mergeProtectedLabels ls)" "LabelSecurity \<in> set (mergeProtectedLabels ls)"
  using merge_labels_keeps [of "[LabelHold, LabelSecurity]" ls]
  by (auto simp: mergeProtectedLabels_def)

text \<open>What the inner loop promises of one repository.\<close>

definition hard_repo :: "repo \<Rightarrow> bool" where
  "hard_repo r = (rp_never_release r \<and> rp_never_leak r
     \<and> LabelHold \<in> set (rp_protected_labels r) \<and> LabelSecurity \<in> set (rp_protected_labels r)
     \<and> (rp_visibility r = ''public'' \<or> rp_visibility r = ''private'') \<and> 0 \<le> rp_max_repairs r)"

lemma merge_repo_hard:
  "rp_never_release (merge_repo d slug ry repair)" "rp_never_leak (merge_repo d slug ry repair)"
  "LabelHold \<in> set (rp_protected_labels (merge_repo d slug ry repair))"
  "LabelSecurity \<in> set (rp_protected_labels (merge_repo d slug ry repair))"
  "rp_project (merge_repo d slug ry repair) = slug"
  by (simp_all add: merge_repo_def Let_def mergeProtectedLabels_hard)

lemma parse_repo_hard:
  assumes "parse_repo d slug ry = Inr r"
  shows "hard_repo r \<and> rp_project r = slug"
proof -
  obtain repair where "r = merge_repo d slug ry repair" "0 \<le> rp_max_repairs r"
    "rp_visibility r = ''public'' \<or> rp_visibility r = ''private''"
    using assms unfolding parse_repo_def Let_def
    by (fastforce split: option.split_asm if_split_asm)
  then show ?thesis using merge_repo_hard by (simp add: hard_repo_def)
qed

lemma parse_repos_spec:
  assumes "parse_repos d slug ys out = Inr out'" and "distinct (map fst out)"
  shows "map fst out' = map fst out @ map fst ys \<and> distinct (map fst out')
    \<and> (\<forall>(n, r) \<in> set out'. (n, r) \<in> set out \<or> (n \<in> set (map fst ys) \<and> hard_repo r \<and> rp_project r = slug))"
  using assms
proof (induction d slug ys out rule: parse_repos.induct)
  case (2 d slug name ry rest out)
  from "2.prems"(1) obtain r where n: "map_of out name = None"
    and r: "parse_repo d slug ry = Inr r"
    and t: "parse_repos d slug rest (out @ [(name, r)]) = Inr out'"
    by (auto split: if_splits elim!: bindE_InrE)
  have "distinct (map fst (out @ [(name, r)]))"
    using "2.prems"(2) n by (auto simp: map_of_eq_None_iff)
  then have ih: "map fst out' = map fst (out @ [(name, r)]) @ map fst rest \<and> distinct (map fst out')
    \<and> (\<forall>(n, r') \<in> set out'. (n, r') \<in> set (out @ [(name, r)])
        \<or> (n \<in> set (map fst rest) \<and> hard_repo r' \<and> rp_project r' = slug))"
    using "2.IH" [OF _ r t] n by blast
  show ?case using ih parse_repo_hard [OF r] by fastforce
qed auto

lemma validLocalRuntime_same: "validLocalRuntime r kinds = Inr r' \<Longrightarrow> r' = r"
  by (auto simp: validLocalRuntime_def Let_def split: option.splits if_splits)

lemma parse_project_facts:
  assumes "parse_project sha pu d guests slug y repos = Inr (p, repos')"
  shows "parse_repos d slug (py_repos y) repos = Inr repos'
    \<and> pr_repos p = sort (map fst (py_repos y))
    \<and> pr_slug p = slug
    \<and> validKinds [] (pr_session_kinds p)
    \<and> validLocalRuntime (pr_local_runtime p) (pr_session_kinds p) = Inr (pr_local_runtime p)
    \<and> validBudgets (py_budgets y) = Some (pr_budgets p)
    \<and> validMCPServers pu (dy_mcp_gateway d) [] (pr_mcp_servers p)
    \<and> validProjectGuests (pr_guests p) guests
    \<and> validRules (pr_permissions p)
    \<and> validSecrets [] (pr_secrets p)
    \<and> validTenant (pr_tenant p)
    \<and> validEgress (pr_egress p)
    \<and> validSlug slug"
  using assms unfolding parse_project_def Let_def
  apply (elim bindE_InrE)
  apply (frule validLocalRuntime_same)
  by (clarsimp split: option.split_asm)

lemma parse_project_spec:
  assumes "parse_project sha pu d guests slug y repos = Inr (p, repos')"
  shows "parse_repos d slug (py_repos y) repos = Inr repos'"
    "pr_repos p = sort (map fst (py_repos y))"
    "pr_slug p = slug"
    "validKinds [] (pr_session_kinds p)"
    "validLocalRuntime (pr_local_runtime p) (pr_session_kinds p) = Inr (pr_local_runtime p)"
    "validBudgets (py_budgets y) = Some (pr_budgets p)"
    "validMCPServers pu (dy_mcp_gateway d) [] (pr_mcp_servers p)"
    "validProjectGuests (pr_guests p) guests"
    "validRules (pr_permissions p)"
    "validSecrets [] (pr_secrets p)"
    "validTenant (pr_tenant p)"
    "validEgress (pr_egress p)"
    "validSlug slug"
  using parse_project_facts [OF assms] by blast+

text \<open>The state of the outer loop: every bound repository is hard, and is listed by its project.\<close>

definition parsed :: "(string \<times> project) list \<Rightarrow> (string \<times> repo) list \<Rightarrow> bool" where
  "parsed ps rs = (distinct (map fst rs)
     \<and> (\<forall>(n, r) \<in> set rs. hard_repo r \<and> (\<exists>p. (rp_project r, p) \<in> set ps \<and> n \<in> set (pr_repos p)))
     \<and> (\<forall>(s, p) \<in> set ps. pr_slug p = s
          \<and> (\<forall>n \<in> set (pr_repos p). \<exists>r. (n, r) \<in> set rs \<and> rp_project r = s)))"

lemma parse_repos_grows: "parse_repos d slug ys out = Inr out' \<Longrightarrow> set out \<subseteq> set out'"
  by (induction d slug ys out rule: parse_repos.induct) (auto split: if_splits elim!: bindE_InrE)

lemma parsedI:
  assumes "distinct (map fst rs)"
    and "\<And>n r. (n, r) \<in> set rs \<Longrightarrow> hard_repo r \<and> (\<exists>p. (rp_project r, p) \<in> set ps \<and> n \<in> set (pr_repos p))"
    and "\<And>s p. (s, p) \<in> set ps \<Longrightarrow> pr_slug p = s"
    and "\<And>s p n. (s, p) \<in> set ps \<Longrightarrow> n \<in> set (pr_repos p) \<Longrightarrow> \<exists>r. (n, r) \<in> set rs \<and> rp_project r = s"
  shows "parsed ps rs"
  using assms unfolding parsed_def by blast

lemma parsedD:
  assumes "parsed ps rs"
  shows "distinct (map fst rs)"
    and "(n, r) \<in> set rs \<Longrightarrow> hard_repo r \<and> (\<exists>p. (rp_project r, p) \<in> set ps \<and> n \<in> set (pr_repos p))"
    and "(s, p) \<in> set ps \<Longrightarrow> pr_slug p = s"
    and "(s, p) \<in> set ps \<Longrightarrow> n \<in> set (pr_repos p) \<Longrightarrow> \<exists>r. (n, r) \<in> set rs \<and> rp_project r = s"
  using assms unfolding parsed_def by blast+

lemma parsed_extend:
  assumes P: "parsed ps rs"
    and "parse_project sha pu d guests slug y rs = Inr (p, rs')"
  shows "parsed (ps @ [(slug, p)]) rs'"
proof -
  note pp = parse_project_spec [OF assms(2)]
  note rp = parse_repos_spec [OF pp(1) parsedD(1) [OF P]]
  note old = parse_repos_grows [OF pp(1)]
  have names: "set (pr_repos p) = set (map fst (py_repos y))" using pp(2) by simp
  have cases: "(n, r) \<in> set rs \<or> (n \<in> set (pr_repos p) \<and> hard_repo r \<and> rp_project r = slug)"
    if "(n, r) \<in> set rs'" for n r
    using rp that unfolding names by blast
  show ?thesis
  proof (rule parsedI)
    show "distinct (map fst rs')" using rp by blast
  next
    fix n r assume "(n, r) \<in> set rs'"
    from cases [OF this] show "hard_repo r
        \<and> (\<exists>q. (rp_project r, q) \<in> set (ps @ [(slug, p)]) \<and> n \<in> set (pr_repos q))"
      using parsedD(2) [OF P, of n r] by auto
  next
    fix s q assume "(s, q) \<in> set (ps @ [(slug, p)])"
    then show "pr_slug q = s" using parsedD(3) [OF P, of s q] pp(3) by auto
  next
    fix s q n assume sq: "(s, q) \<in> set (ps @ [(slug, p)])" and n: "n \<in> set (pr_repos q)"
    show "\<exists>r. (n, r) \<in> set rs' \<and> rp_project r = s"
    proof (cases "(s, q) \<in> set ps")
      case True
      then show ?thesis using parsedD(4) [OF P True n] old by blast
    next
      case False
      then have [simp]: "s = slug" "q = p" using sq by auto
      have n': "n \<in> set (map fst (py_repos y))" using n names by simp
      then have "n \<in> set (map fst rs')" using rp by simp
      then obtain r where r: "(n, r) \<in> set rs'" by auto
      have "distinct (map fst rs @ map fst (py_repos y))" using rp by metis
      then have "n \<notin> fst ` set rs" using n' by auto
      then have "(n, r) \<notin> set rs" by (metis fst_conv imageI)
      then show ?thesis using cases [OF r] r by auto
    qed
  qed
qed

lemma parse_projects_spec:
  assumes "parse_projects sha pu d guests ys (ps, rs) = Inr (ps', rs')" and "parsed ps rs"
  shows "parsed ps' rs' \<and> map fst ps' = map fst ps @ map fst ys"
  using assms
proof (induction ys arbitrary: ps rs)
  case (Cons sy ys)
  obtain s y where [simp]: "sy = (s, y)" by fastforce
  from Cons.prems(1) obtain p rs1 where p: "parse_project sha pu d guests s y rs = Inr (p, rs1)"
    and t: "parse_projects sha pu d guests ys (ps @ [(s, p)], rs1) = Inr (ps', rs')"
    by (auto elim!: bindE_InrE)
  show ?case using Cons.IH [OF t parsed_extend [OF Cons.prems(2) p]] by simp
qed simp

text \<open>A law that every parsed project has, whatever the projects before it.\<close>

lemma parse_projects_each:
  assumes "parse_projects sha pu d guests ys (ps, rs) = Inr (ps', rs')"
    and "\<forall>(s, p) \<in> set ps. Q s p"
    and "\<And>s y rs p rs'. parse_project sha pu d guests s y rs = Inr (p, rs') \<Longrightarrow> Q s p"
  shows "\<forall>(s, p) \<in> set ps'. Q s p"
  using assms(1,2)
proof (induction ys arbitrary: ps rs)
  case (Cons sy ys)
  obtain s y where [simp]: "sy = (s, y)" by fastforce
  from Cons.prems(1) obtain p rs1 where p: "parse_project sha pu d guests s y rs = Inr (p, rs1)"
    and t: "parse_projects sha pu d guests ys (ps @ [(s, p)], rs1) = Inr (ps', rs')"
    by (auto elim!: bindE_InrE)
  have "\<forall>(s, p) \<in> set (ps @ [(s, p)]). Q s p" using Cons.prems(2) assms(3) [OF p] by auto
  then show ?case by (rule Cons.IH [OF t])
qed simp

lemma Parse_projectsE:
  assumes "Parse sha pu f = Inr e"
  obtains ys where "pf_projects f = Some ys" "validGuests sha (pf_guests f) = Some (ef_guests e)"
    "parse_projects sha pu (pf_defaults f) (ef_guests e) ys ([], []) = Inr (ef_projects e, ef_repos e)"
    "ef_mcp_gateway e = dy_mcp_gateway (pf_defaults f)"
  using assms by (auto simp: Parse_def Let_def split: option.splits if_splits elim!: bindE_InrE)

lemma Parse_parsed:
  assumes "Parse sha pu f = Inr e"
  shows "parsed (ef_projects e) (ef_repos e)"
  using assms
proof (rule Parse_projectsE)
  fix ys assume "parse_projects sha pu (pf_defaults f) (ef_guests e) ys ([], [])
    = Inr (ef_projects e, ef_repos e)"
  moreover have "parsed [] []" by (simp add: parsed_def)
  ultimately show ?thesis using parse_projects_spec by blast
qed

lemma Parse_slugs:
  assumes "Parse sha pu f = Inr e" and "distinct (map fst (or_else (pf_projects f) []))"
  shows "distinct (map fst (ef_projects e))"
  using assms(1)
proof (rule Parse_projectsE)
  fix ys assume ys: "pf_projects f = Some ys" and
    p: "parse_projects sha pu (pf_defaults f) (ef_guests e) ys ([], []) = Inr (ef_projects e, ef_repos e)"
  have "parsed [] []" by (simp add: parsed_def)
  from parse_projects_spec [OF p this] have "map fst (ef_projects e) = map fst ys" by simp
  then show ?thesis using assms(2) ys by (simp add: or_else_def)
qed

text \<open>A law of one parsed project carries over to every project of the effective policy.\<close>

lemma Parse_each:
  assumes "Parse sha pu f = Inr e" and "Project e s = Some p"
    and "\<And>d y rs rs'. parse_project sha pu d (ef_guests e) s y rs = Inr (p, rs')
      \<Longrightarrow> d = pf_defaults f \<Longrightarrow> Q"
  shows Q
  using assms(1)
proof (rule Parse_projectsE)
  fix ys assume p: "parse_projects sha pu (pf_defaults f) (ef_guests e) ys ([], [])
    = Inr (ef_projects e, ef_repos e)"
  let ?Q = "\<lambda>s p. \<exists>y rs rs'. parse_project sha pu (pf_defaults f) (ef_guests e) s y rs = Inr (p, rs')"
  have "\<forall>(s, p) \<in> set (ef_projects e). ?Q s p"
    by (rule parse_projects_each [OF p]) auto
  moreover have "(s, p) \<in> set (ef_projects e)"
    using assms(2) by (auto simp: Project_def dest: map_of_SomeD)
  ultimately show Q using assms(3) by blast
qed

section \<open>Clean paths\<close>

lemma split_on_no_sep: "c \<notin> set w \<Longrightarrow> split_on c w = [w]"
  by (induction w) auto

lemma split_on_append: "c \<notin> set w \<Longrightarrow> split_on c (w @ c # s) = w # split_on c s"
  by (induction w) auto

lemma split_on_pieces: "w \<in> set (split_on c s) \<Longrightarrow> c \<notin> set w"
proof (induction s arbitrary: w)
  case (Cons d s)
  then show ?case by (cases "split_on c s") (fastforce split: if_splits)+
qed auto

lemma split_on_join:
  "ws \<noteq> [] \<Longrightarrow> \<forall>w \<in> set ws. c \<notin> set w \<Longrightarrow> split_on c (join_with [c] ws) = ws"
  by (induction ws rule: induct_list012) (simp_all add: split_on_no_sep split_on_append)

definition path_elem :: "string \<Rightarrow> bool" where
  "path_elem w = (CHR ''/'' \<notin> set w \<and> w \<noteq> [] \<and> w \<noteq> ''.'' \<and> w \<noteq> ''..'')"

lemma clean_step_elems:
  assumes "CHR ''/'' \<notin> set w" and "list_all path_elem st"
  shows "list_all path_elem (clean_step w st)"
  using assms by (cases st) (simp_all add: clean_step_def path_elem_def [of w])

lemma clean_fold_elems:
  "\<forall>w \<in> set ws. CHR ''/'' \<notin> set w \<Longrightarrow> list_all path_elem st
    \<Longrightarrow> list_all path_elem (fold clean_step ws st)"
proof (induction ws arbitrary: st)
  case (Cons w ws)
  then show ?case using clean_step_elems [of w st] by simp
qed simp

lemma clean_abs_no_dots:
  assumes w: "w \<in> set (split_on (CHR ''/'') (clean_abs p))"
  shows "w \<noteq> ''.'' \<and> w \<noteq> ''..''"
proof -
  define ws where "ws = rev (fold clean_step (split_on (CHR ''/'') p) [])"
  have "list_all path_elem (fold clean_step (split_on (CHR ''/'') p) [])"
    by (rule clean_fold_elems) (auto dest: split_on_pieces)
  then have el: "v \<in> set ws \<Longrightarrow> path_elem v" for v
    unfolding ws_def by (simp add: list_all_iff)
  have "split_on (CHR ''/'') (clean_abs p) = [] # split_on (CHR ''/'') (join_with ''/'' ws)"
    by (simp add: clean_abs_def ws_def)
  then consider "w = []" | "w \<in> set (split_on (CHR ''/'') (join_with ''/'' ws))" using w by auto
  then show ?thesis
  proof cases
    case 2
    show ?thesis
    proof (cases "ws = []")
      case False
      have "split_on (CHR ''/'') (join_with ''/'' ws) = ws"
        by (rule split_on_join [OF False]) (use el in \<open>auto simp: path_elem_def\<close>)
      then show ?thesis using 2 el by (simp add: path_elem_def)
    qed (use 2 in simp)
  qed simp
qed

section \<open>Properties\<close>

lemma Repo_hard: "parsed ps (ef_repos e) \<Longrightarrow> Repo e name = Some r \<Longrightarrow> hard_repo r"
  unfolding Repo_def by (drule map_of_SomeD) (auto dest: parsedD(2))

text \<open>(C21) Whatever the policy file says, a repository of a parsed policy never releases and never
  leaks, keeps both hard protected labels (hold and security), is public or private, has a
  non-negative repair budget, and is bound to exactly one project: \<^verbatim>\<open>ProjectForRepo\<close> finds a project
  that lists it, and no other project lists it. The file's project map has each slug once.\<close>

theorem Parse_repo_limits:
  assumes "Parse sha parse_url f = Inr e" and "distinct (map fst (or_else (pf_projects f) []))"
    and "Repo e name = Some r"
  shows "rp_never_release r \<and> rp_never_leak r
    \<and> LabelHold \<in> set (rp_protected_labels r) \<and> LabelSecurity \<in> set (rp_protected_labels r)
    \<and> (rp_visibility r = ''public'' \<or> rp_visibility r = ''private'') \<and> 0 \<le> rp_max_repairs r
    \<and> (\<exists>p. ProjectForRepo e name = Some p \<and> pr_slug p = rp_project r \<and> name \<in> set (pr_repos p)
         \<and> (\<forall>s q. Project e s = Some q \<and> name \<in> set (pr_repos q) \<longrightarrow> q = p))"
proof -
  note P = Parse_parsed [OF assms(1)]
  note D = Parse_slugs [OF assms(1,2)]
  have nr: "(name, r) \<in> set (ef_repos e)" using assms(3) by (auto simp: Repo_def dest: map_of_SomeD)
  obtain p where p: "(rp_project r, p) \<in> set (ef_projects e)" "name \<in> set (pr_repos p)"
    using parsedD(2) [OF P nr] by blast
  have pp: "Project e (rp_project r) = Some p" using p D by (simp add: Project_def)
  have "q = p" if q: "Project e s = Some q" "name \<in> set (pr_repos q)" for s q
  proof -
    have "(s, q) \<in> set (ef_projects e)" using q by (auto simp: Project_def dest: map_of_SomeD)
    from parsedD(4) [OF P this q(2)] obtain r' where r': "(name, r') \<in> set (ef_repos e)" "rp_project r' = s"
      by blast
    have "r' = r" using r'(1) nr parsedD(1) [OF P] by (meson eq_key_imp_eq_value)
    then show ?thesis using q(1) pp r'(2) by simp
  qed
  moreover have "ProjectForRepo e name = Some p" "pr_slug p = rp_project r"
    using assms(3) pp parsedD(3) [OF P p(1)] by (simp_all add: ProjectForRepo_def)
  ultimately show ?thesis
    using Repo_hard [OF P assms(3)] p(2) unfolding hard_repo_def by blast
qed

lemma validBudgets_key: "validBudgets xs = Some b \<Longrightarrow> map fst b = [BudgetMaxConcurrentLeases]"
  by (auto simp: validBudgets_def split: if_splits list.splits)

text \<open>(C23) A project of a parsed policy may open local sessions exactly when it configures a local
  runtime, and then the runtime names an executable, no argument contains NUL, and its working
  directory is an absolute path without dot or dot-dot elements. Its lease budget is at least one.\<close>

theorem Parse_local_runtime:
  assumes "Parse sha parse_url f = Inr e" and "Project e s = Some p"
  shows "(AllowsKind p KindLocal \<longleftrightarrow> pr_local_runtime p \<noteq> None)
    \<and> (\<forall>r. pr_local_runtime p = Some r \<longrightarrow>
         (\<exists>x xs. lr_argv r = x # xs \<and> x \<noteq> []) \<and> (\<forall>a \<in> set (lr_argv r). \<not> has_nul a)
         \<and> has_prefix (lr_cwd r) ''/''
         \<and> ''.'' \<notin> set (split_on (CHR ''/'') (lr_cwd r)) \<and> ''..'' \<notin> set (split_on (CHR ''/'') (lr_cwd r)))
    \<and> map fst (pr_budgets p) = [BudgetMaxConcurrentLeases] \<and> MaxConcurrentLeases p \<ge> 1"
  using assms
proof (rule Parse_each)
  fix d y rs rs' assume "parse_project sha parse_url d (ef_guests e) s y rs = Inr (p, rs')"
  note pp = parse_project_spec [OF this]
  have 1: "AllowsKind p KindLocal \<longleftrightarrow> pr_local_runtime p \<noteq> None"
    using pp(5) by (auto simp: validLocalRuntime_def AllowsKind_def Let_def split: if_splits)
  have 2: "(\<exists>x xs. lr_argv r = x # xs \<and> x \<noteq> []) \<and> list_all (\<lambda>a. \<not> has_nul a) (lr_argv r)
      \<and> has_prefix (lr_cwd r) ''/'' \<and> clean_abs (lr_cwd r) = lr_cwd r"
    if "pr_local_runtime p = Some r" for r
    using pp(5) that
    by (cases "lr_argv r") (auto simp: validLocalRuntime_def Let_def list_ex_iff list_all_iff split: if_splits)
  have 3: "''.'' \<notin> set (split_on (CHR ''/'') (lr_cwd r)) \<and> ''..'' \<notin> set (split_on (CHR ''/'') (lr_cwd r))"
    if "pr_local_runtime p = Some r" for r
    using 2 [OF that] clean_abs_no_dots by metis
  show ?thesis
    using 1 2 3 validBudgets_key [OF pp(6)] MaxConcurrentLeases_pos unfolding list_all_iff by blast
qed

lemma validMCPServers_spec:
  "validMCPServers pu gw seen ss \<Longrightarrow> (gw \<noteq> [] \<longrightarrow> ss = [])
     \<and> distinct (map mcp_name ss) \<and> set (map mcp_name ss) \<inter> set seen = {}
     \<and> (\<forall>s \<in> set ss. mcp_name s \<noteq> MCPGatewayName \<and> validMCPURL pu (mcp_url s))"
  by (induction pu gw seen ss rule: validMCPServers.induct) auto


lemma validSlug_no_slash: "validSlug slug \<Longrightarrow> CHR ''/'' \<notin> set slug"
  by (auto simp: validSlug_def is_lower_def is_digit_def list_all_iff split: list.splits)

text \<open>(C26) A project key round-trips: \<^verbatim>\<open>ParseProjectKey\<close> answers a slug exactly for the key
  \<^verbatim>\<open>ProjectKey\<close> builds from a valid slug, and no \<^verbatim>\<open>owner/name\<close> repository is a project key.\<close>

theorem project_key_roundtrip:
  "(ParseProjectKey name = Some slug \<longleftrightarrow> name = ProjectKey slug \<and> validSlug slug)
   \<and> (CHR ''/'' \<in> set name \<longrightarrow> \<not> IsProjectKey name)"
proof -
  have 1: "ParseProjectKey n = Some sl \<longleftrightarrow> n = ProjectKey sl \<and> validSlug sl" for n sl
    by (auto simp: ParseProjectKey_def ProjectKey_def has_prefix_iff Let_def)
  have "CHR ''/'' \<notin> set (ProjectKey sl)" if "validSlug sl" for sl
    using validSlug_no_slash [OF that] by (simp add: ProjectKey_def projectKeyPrefix_def)
  with 1 show ?thesis by (auto simp: IsProjectKey_def)
qed


section \<open>A concrete policy\<close>

definition ex_defaults :: defaults_yaml where
  "ex_defaults = \<lparr>dy_session_kinds = [], dy_egress = [], dy_visibility = [], dy_review = None,
     dy_comments = False, dy_comment = False, dy_close = False, dy_implement = True, dy_land = False,
     dy_repair = [], dy_protected_labels = [''keep''], dy_max_reviews = 0, dy_max_repairs = 0,
     dy_mcp_gateway = []\<rparr>"

definition ex_repo_yaml :: repo_yaml where
  "ex_repo_yaml = \<lparr>ry_visibility = None, ry_review = None, ry_comments = None, ry_comment = None,
     ry_close = None, ry_implement = None, ry_land = None, ry_repair = None,
     ry_protected_labels = [], ry_max_reviews = Some 2, ry_max_repairs = None\<rparr>"

definition ex_project_yaml :: project_yaml where
  "ex_project_yaml = \<lparr>py_guests = None, py_repos = [(''acme/demo'', ex_repo_yaml)],
     py_session_kinds = [KindRun, KindLocal, KindReview],
     py_local_runtime = Some \<lparr>lr_argv = [''agent''], lr_cwd = ''/w''\<rparr>, py_egress = [], py_size = [],
     py_budgets = [(BudgetMaxConcurrentLeases, 2)], py_permissions = [], py_secrets = [], py_ship = [],
     py_tenant = [], py_mcp_servers = [\<lparr>mcp_name = ''docs'', mcp_url = ''https://m''\<rparr>]\<rparr>"

definition ex_policy_file :: policy_file where
  "ex_policy_file = \<lparr>pf_guests = None, pf_version = 2, pf_defaults = ex_defaults,
     pf_projects = Some [(''demo'', ex_project_yaml)]\<rparr>"

definition ex_parse_url :: url_parser where
  "ex_parse_url u = Some (''https'', ''m'', False)"

definition ex_policy :: effective where
  "ex_policy = (case Parse ex_sha ex_parse_url ex_policy_file of
     Inl _ \<Rightarrow> \<lparr>ef_guests = [], ef_projects = [], ef_repos = [], ef_mcp_gateway = []\<rparr> | Inr e \<Rightarrow> e)"

lemma ex_policy_parses: "Parse ex_sha ex_parse_url ex_policy_file = Inr ex_policy"
  by code_simp

theorem Parse_repo_limits_witness:
  "\<exists>r p. Repo ex_policy ''acme/demo'' = Some r \<and> rp_never_release r \<and> LabelHold \<in> set (rp_protected_labels r)
     \<and> ProjectForRepo ex_policy ''acme/demo'' = Some p \<and> pr_slug p = ''demo''"
proof -
  have d: "distinct (map fst (or_else (pf_projects ex_policy_file) []))" by code_simp
  obtain r where r: "Repo ex_policy ''acme/demo'' = Some r" "rp_project r = ''demo''"
  proof -
    have "map_option rp_project (Repo ex_policy ''acme/demo'') = Some ''demo''" by code_simp
    then show ?thesis using that by auto
  qed
  from Parse_repo_limits [OF ex_policy_parses d r(1)] r show ?thesis by auto
qed

theorem Parse_local_runtime_witness:
  "\<exists>p r. Project ex_policy ''demo'' = Some p \<and> AllowsKind p KindLocal \<and> pr_local_runtime p = Some r
     \<and> has_prefix (lr_cwd r) ''/''"
proof -
  obtain p where p: "Project ex_policy ''demo'' = Some p" "KindLocal \<in> set (pr_session_kinds p)"
  proof -
    have "map_option (\<lambda>p. KindLocal \<in> set (pr_session_kinds p)) (Project ex_policy ''demo'') = Some True"
      by code_simp
    then show ?thesis using that by auto
  qed
  have k: "AllowsKind p KindLocal" using p(2) by (simp add: AllowsKind_def)
  show ?thesis using Parse_local_runtime [OF ex_policy_parses p(1)] k p(1) by auto
qed


theorem project_key_roundtrip_witness:
  "ParseProjectKey ''project:demo'' = Some ''demo'' \<and> \<not> IsProjectKey ''acme/demo''"
proof -
  have "ParseProjectKey ''project:demo'' = Some ''demo''" by code_simp
  then show ?thesis using project_key_roundtrip [of "''acme/demo''" "[]"] by simp
qed


end
