(* ===== verification/Stamps.thy ===== *)
theory Stamps
  imports Prelude "HOL-Library.List_Lexorder" "HOL-Library.Char_ord"
begin

text \<open>
  The text form of a time. The store writes every time with \<^verbatim>\<open>Format(time.RFC3339Nano)\<close> in UTC
  and several queries compare those texts inside SQLite (\<^verbatim>\<open>lease_expires_at<=?\<close>,
  \<^verbatim>\<open>not_before<=?\<close>, \<^verbatim>\<open>expires_at<=?\<close>). The layout is \<^verbatim>\<open>2006-01-02T15:04:05.999999999Z07:00\<close>:
  the prefix up to the seconds has a fixed width and orders as the seconds do (years 0 to 9999),
  then comes the fraction without its trailing zeros, or nothing when it is zero, then \<^verbatim>\<open>Z\<close>.
  \<open>stamp_le\<close> is the byte comparison of two such texts. It is not the order of the times: \<^verbatim>\<open>.\<close> and
  the digits sort before \<^verbatim>\<open>Z\<close>.
\<close>

definition digit_char :: "nat \<Rightarrow> char" where
  "digit_char d = ''0123456789'' ! d"

fun digits_fixed :: "nat \<Rightarrow> nat \<Rightarrow> string" where
  "digits_fixed 0 n = []"
| "digits_fixed (Suc k) n = digits_fixed k (n div 10) @ [digit_char (n mod 10)]"

lemma digits_fixed_numeral [simp]:
  "digits_fixed (numeral k) n = digits_fixed (pred_numeral k) (n div 10) @ [digit_char (n mod 10)]"
  by (simp only: numeral_eq_Suc [of k] digits_fixed.simps)

text \<open>The text after the seconds: fraction without trailing zeros, then the zone.\<close>

definition frac_text :: "nat \<Rightarrow> string" where
  "frac_text ns =
     (let ds = rev (dropWhile (\<lambda>c. c = CHR ''0'') (rev (digits_fixed 9 ns)))
      in if ds = [] then ''Z'' else ''.'' @ ds @ ''Z'')"

definition stamp_secs :: "time \<Rightarrow> int" where
  "stamp_secs t = t div second"

definition stamp_frac :: "time \<Rightarrow> nat" where
  "stamp_frac t = nat (t mod second)"

definition stamp_le :: "time \<Rightarrow> time \<Rightarrow> bool" where
  "stamp_le a b = (stamp_secs a < stamp_secs b \<or>
     (stamp_secs a = stamp_secs b \<and> frac_text (stamp_frac a) \<le> frac_text (stamp_frac b)))"

lemma stamp_le_refl [simp]: "stamp_le a a"
  by (simp add: stamp_le_def)

lemma stamp_le_trans: "stamp_le a b \<Longrightarrow> stamp_le b c \<Longrightarrow> stamp_le a c"
  by (auto simp: stamp_le_def)

lemma stamp_le_total: "stamp_le a b \<or> stamp_le b a"
  by (auto simp: stamp_le_def)

lemma div_le_iff_le_of_mod_0:
  fixes m :: int
  assumes "0 < m" and "a mod m = 0" and "b mod m = 0"
  shows "a div m \<le> b div m \<longleftrightarrow> a \<le> b"
proof -
  from assms(2,3) obtain k l where "a = m * k" "b = m * l"
    by (auto simp: mod_eq_0_iff_dvd elim!: dvdE)
  with assms(1) show ?thesis by simp
qed

lemma div_less_of_add_le:
  fixes m :: int
  assumes "0 < m" and "a + m \<le> b"
  shows "a div m < b div m"
  using zdiv_mono1 [OF assms(2,1)] assms(1) by (simp add: div_add_self2)

lemma less_add_of_div_le:
  fixes m :: int
  assumes "0 < m" and "a div m \<le> b div m"
  shows "a < b + m"
  using div_less_of_add_le [OF assms(1), of b a] assms(2) by linarith

text \<open>A time that lies a full second back compares as earlier.\<close>

lemma stamp_le_after_second: "a + second \<le> b \<Longrightarrow> stamp_le a b"
  using div_less_of_add_le [of second a b] by (simp add: stamp_le_def stamp_secs_def)

text \<open>A time that compares as earlier lies less than a second ahead.\<close>

lemma stamp_le_within_second: "stamp_le a b \<Longrightarrow> a < b + second"
  using less_add_of_div_le [of second a b] by (auto simp: stamp_le_def stamp_secs_def)

text \<open>On whole seconds the comparison is the order of the times.\<close>

lemma stamp_le_whole:
  assumes "a mod second = 0" and "b mod second = 0"
  shows "stamp_le a b \<longleftrightarrow> a \<le> b"
proof -
  have "a \<le> b \<longleftrightarrow> stamp_secs a \<le> stamp_secs b"
    using div_le_iff_le_of_mod_0 [of second a b] assms by (simp add: stamp_secs_def)
  moreover have "frac_text (stamp_frac a) = frac_text (stamp_frac b)"
    using assms by (simp add: stamp_frac_def)
  ultimately show ?thesis by (auto simp: stamp_le_def)
qed

text \<open>Inside a second the comparison can be wrong: half a second past, a whole second is not
  seen as earlier.\<close>

lemma stamp_le_wrong: "\<not> stamp_le 0 500000000"
  by (simp add: stamp_le_def stamp_secs_def stamp_frac_def frac_text_def Let_def digit_char_def)

end
