(* ===== verification/Types.thy ===== *)
theory Types
  imports Policy Stamps
begin

text \<open>
  The data the components exchange: GitHub item snapshots (\<^verbatim>\<open>internal/snapshot\<close>), runner artifacts and
  task results (\<^verbatim>\<open>engine.go\<close>, \<^verbatim>\<open>result.go\<close>, \<^verbatim>\<open>publish.go\<close>, \<^verbatim>\<open>draft.go\<close>) and JSON values.

  A JSON text that the code only marshals, stores and unmarshals is a \<open>jval\<close>; a Go \<^verbatim>\<open>int\<close> is an \<open>int\<close>.
\<close>

section \<open>Printing integers\<close>

fun show_nat_rev :: "nat \<Rightarrow> nat \<Rightarrow> string" where
  "show_nat_rev 0 n = []"
| "show_nat_rev (Suc fuel) n = (''0123456789'' ! (n mod 10))
     # (if n div 10 = 0 then [] else show_nat_rev fuel (n div 10))"

text \<open>\<^verbatim>\<open>%d\<close>. A number below \<open>10 ^ k\<close> has at most \<open>k\<close> digits, so \<open>n + 1\<close> rounds are enough.\<close>

definition show_int :: "int \<Rightarrow> string" where
  "show_int i = (if i < 0 then ''-'' @ rev (show_nat_rev (Suc (nat (- i))) (nat (- i)))
     else rev (show_nat_rev (Suc (nat i)) (nat i)))"

section \<open>JSON\<close>

datatype jval =
    JNull
  | JBool bool
  | JInt int
  | JStr string
  | JArr "jval list"
  | JObj "(string \<times> jval) list"

definition jget :: "jval \<Rightarrow> string \<Rightarrow> jval option" where
  "jget j k = (case j of JObj kvs \<Rightarrow> map_of kvs k | _ \<Rightarrow> None)"

section \<open>Snapshots\<close>

record item =
  it_repo :: string
  it_item :: int
  it_kind :: string
  it_state :: string
  it_title :: string
  it_body :: string
  it_labels :: "string list"
  it_assignees :: "string list"
  it_association :: string
  it_draft :: bool
  it_merged :: bool
  it_head :: string
  it_base :: string
  it_updated :: string
  it_comments :: int
  it_linked :: "int list"
  it_default_branch :: string
  it_main :: string
  it_created :: string
  it_last_comment :: string
  it_merged_default :: bool
  it_merge_commit :: string
  it_base_ref :: string

text \<open>The zero \<^verbatim>\<open>snapshot.Item\<close>.\<close>

definition zero_item :: item where
  "zero_item = \<lparr>it_repo = [], it_item = 0, it_kind = [], it_state = [], it_title = [], it_body = [],
     it_labels = [], it_assignees = [], it_association = [], it_draft = False, it_merged = False,
     it_head = [], it_base = [], it_updated = [], it_comments = 0, it_linked = [],
     it_default_branch = [], it_main = [], it_created = [], it_last_comment = [],
     it_merged_default = False, it_merge_commit = [], it_base_ref = []\<rparr>"

definition GitPin :: "item \<Rightarrow> string" where
  "GitPin it = (if it_kind it = ''pull'' \<and> it_head it \<noteq> [] then it_head it else it_main it)"

text \<open>The fields under the item hash. Labels, assignees and linked items are sorted; head and base
  count for pull requests only.\<close>

record hashable =
  h_repo :: string
  h_item :: int
  h_kind :: string
  h_state :: string
  h_title :: string
  h_body :: string
  h_labels :: "string list"
  h_assignees :: "string list"
  h_draft :: bool
  h_merged :: bool
  h_head :: string
  h_base :: string
  h_updated :: string
  h_comments :: int
  h_linked :: "int list"

definition hashable_of :: "item \<Rightarrow> hashable" where
  "hashable_of it = \<lparr>h_repo = it_repo it, h_item = it_item it, h_kind = it_kind it,
     h_state = it_state it, h_title = it_title it, h_body = it_body it,
     h_labels = sort (it_labels it), h_assignees = sort (it_assignees it),
     h_draft = it_draft it, h_merged = it_merged it,
     h_head = (if it_kind it \<noteq> ''pull'' then [] else it_head it),
     h_base = (if it_kind it \<noteq> ''pull'' then [] else it_base it),
     h_updated = it_updated it, h_comments = it_comments it, h_linked = sort (it_linked it)\<rparr>"

text \<open>\<^verbatim>\<open>ItemHash\<close>: JSON then SHA-256, the parameter \<open>sha\<close>.\<close>

definition ItemHash :: "(hashable \<Rightarrow> string) \<Rightarrow> item \<Rightarrow> string" where
  "ItemHash sha it = sha (hashable_of it)"

section \<open>Artifacts\<close>

record evidence =
  ev_class :: string
  ev_kind :: string
  ev_value :: string

record proposed_action =
  pa_type :: string
  pa_reason :: string
  pa_evidence :: "evidence list"
  pa_canonical :: int
  pa_pr :: int
  pa_commit :: string

record finding =
  fi_title :: string
  fi_body :: string

record publish_request =
  pq_branch :: string
  pq_title :: string
  pq_body :: string

record draft_member =
  dm_kind :: string
  dm_id :: string
  dm_json :: string

record draft_request =
  dr_namespace :: string
  dr_branch :: string
  dr_parent :: string
  dr_members :: "draft_member list"

record task_result =
  tr_schema :: int
  tr_effort :: string
  tr_source :: string
  tr_candidate :: string
  tr_heads :: "string list"
  tr_findings :: "finding list"
  tr_checks :: "string list"
  tr_blocked :: string
  tr_verified :: bool
  tr_pull :: int
  tr_publish :: "publish_request option"
  tr_draft :: "draft_request option"
  tr_published_sha :: string
  tr_outcome :: string
  tr_publisher :: string
  tr_pushed_ref :: string

record artifact =
  af_schema :: int
  af_repo :: string
  af_item :: int
  af_kind :: string
  af_claimed :: int
  af_snapshot :: string
  af_main :: string
  af_head :: string
  af_verdict :: string
  af_confidence :: string
  af_actions :: "proposed_action list"
  af_publishable :: "(string \<times> jval) list"
  af_tokens_in :: "int option"
  af_tokens_out :: "int option"
  af_guest_session :: string
  af_result :: "task_result option"

definition OutcomePublished :: string where "OutcomePublished = ''published''"
definition OutcomeUnconfirmed :: string where "OutcomeUnconfirmed = ''unconfirmed''"
definition OutcomeBlocked :: string where "OutcomeBlocked = ''blocked''"
definition OutcomeReported :: string where "OutcomeReported = ''reported''"
definition OutcomeProposed :: string where "OutcomeProposed = ''proposed''"
definition PublisherPlane :: string where "PublisherPlane = ''plane''"
definition ResultSchema :: int where "ResultSchema = 1"

lemmas outcome_defs = OutcomePublished_def OutcomeUnconfirmed_def OutcomeBlocked_def
  OutcomeReported_def OutcomeProposed_def

text \<open>The empty artifact a failure is measured with.\<close>

definition zero_artifact :: artifact where
  "zero_artifact = \<lparr>af_schema = 0, af_repo = [], af_item = 0, af_kind = [], af_claimed = 0,
     af_snapshot = [], af_main = [], af_head = [], af_verdict = [], af_confidence = [],
     af_actions = [], af_publishable = [], af_tokens_in = None, af_tokens_out = None,
     af_guest_session = [], af_result = None\<rparr>"

definition ValidateResult :: "artifact \<Rightarrow> unit res" where
  "ValidateResult art =
     (if af_kind art \<noteq> ''run'' then Inr ()
      else case af_result art of
        None \<Rightarrow> Inl (EText ''result required'')
      | Some r \<Rightarrow>
          if tr_schema r \<noteq> ResultSchema then Inl (EText ''unsupported result schema'')
          else if tr_source r = [] \<or> tr_source r \<noteq> af_snapshot art then Inl (EText ''source mismatch'')
          else if tr_verified r then Inl (EText ''agent cannot declare verified'')
          else if tr_findings r = [] \<and> tr_blocked r = [] \<and> tr_pull r \<le> 0
                  \<and> tr_publish r = None \<and> tr_draft r = None
          then Inl (EText ''empty result'')
          else Inr ())"

section \<open>Advisory eligibility\<close>

definition AdvisoryEligible :: "item \<Rightarrow> bool" where
  "AdvisoryEligible it =
     (if it_kind it = ''issue'' then it_state it = ''open''
      else if it_kind it = ''pull''
      then it_state it = ''open'' \<and> \<not> it_draft it \<and> it_base_ref it \<noteq> []
           \<and> it_base_ref it = it_default_branch it
      else False)"

end
