(* ===== verification/Store.thy ===== *)
theory Store
  imports Types "HOL-Library.Product_Lexorder"
begin

text \<open>
  The SQLite store, \<^verbatim>\<open>internal/store\<close>. The database is the record \<open>db\<close>: one list of rows per table, in
  rowid order, with the UNIQUE and PRIMARY KEY constraints of \<^verbatim>\<open>migrate.go\<close> checked by the inserts.
  The \<^verbatim>\<open>jobs\<close> view (turns joined with their session) is \<open>jobs\<close>. A statement that can only fail with an
  I/O error is a total function.

  Times are stored as RFC 3339 text. Where the code parses a stored time it is the \<open>time\<close> itself; where
  SQL compares the texts it is \<open>stamp_le\<close>. Columns that only record the creation time are left out.
\<close>

section \<open>Rows\<close>

datatype turn_state = Queued | Leased | Completed | Failed

record env_row =
  e_id :: int
  e_name :: string
  e_driver :: string
  e_state :: string
  e_handle :: string
  e_source :: string
  e_expires :: "time option"
  e_slept :: "time option"

record sess_row =
  s_id :: int
  s_env :: int
  s_kind :: string
  s_repo :: string
  s_item :: int
  s_item_kind :: string
  s_state :: string
  s_project :: string
  s_prompt :: string
  s_schedule :: int
  s_size :: string
  s_mode :: string
  s_parent :: int
  s_archived :: bool
  s_guest_session :: string
  s_guest_name :: string
  s_guest_pin :: string
  s_guest_config :: "entry option"
  s_tenant :: string
  s_created_by :: string
  s_exec_mode :: string
  s_act :: string

record turn_row =
  t_id :: int
  t_session :: int
  t_lane :: string
  t_pending :: int
  t_claimed :: int
  t_gen :: int
  t_expires :: "time option"
  t_deadline :: "time option"
  t_retry :: int
  t_state :: turn_state
  t_token :: "string option"

record job =
  j_id :: int
  j_repo :: string
  j_item :: int
  j_kind :: string
  j_lane :: string
  j_pending :: int
  j_claimed :: int
  j_gen :: int
  j_expires :: "time option"
  j_deadline :: "time option"
  j_retry :: int
  j_state :: turn_state

record snap_row =
  sn_repo :: string
  sn_item :: int
  sn_rev :: int
  sn_hash :: string
  sn_payload :: item

record receipt_row =
  r_job :: int
  r_gen :: int
  r_claimed :: int
  r_kind :: string
  r_payload :: jval

record review_row =
  rv_id :: int
  rv_job :: int
  rv_claimed :: int
  rv_hash :: string
  rv_main :: string
  rv_payload :: artifact

record apply_row =
  ap_action :: string
  ap_review :: int
  ap_repo :: string
  ap_item :: int
  ap_state :: string
  ap_comment :: int

record action_row =
  a_id :: string
  a_session :: "int option"
  a_turn :: "int option"
  a_review :: "int option"
  a_repo :: string
  a_item :: int
  a_type :: string
  a_reason :: string
  a_class :: string
  a_limit :: string
  a_body :: jval

record followup_row =
  f_session :: int
  f_seq :: int
  f_prompt :: string
  f_consumed :: bool
  f_queued :: bool
  f_dropped :: bool

record steer_row =
  st_id :: int
  st_session :: int
  st_turn :: int
  st_gen :: int
  st_prompt :: string
  st_seq :: int
  st_offered :: bool
  st_received :: bool
  st_acked :: bool
  st_promoted :: bool

record refresh_row =
  rf_id :: int
  rf_repo :: string
  rf_item :: int
  rf_kind :: string
  rf_gen :: int
  rf_owner :: int
  rf_expires :: "time option"
  rf_retry :: int
  rf_another :: bool
  rf_force :: bool
  rf_state :: string
  rf_not_before :: "time option"

record delivery_row =
  d_id :: string
  d_repo :: string
  d_item :: int
  d_kind :: string

record event_row =
  ev_session :: "int option"
  ev_source :: string
  ev_delivery :: string
  ev_repo :: string
  ev_item :: int
  ev_item_kind :: string

record inval_row =
  iv_review :: int
  iv_action :: string
  iv_consumed :: bool

record meas_row =
  m_turn :: int
  m_session :: int
  m_project :: string
  m_started :: "time option"
  m_terminal :: string
  m_ended :: "time option"
  m_duration :: "int option"
  m_publication :: string
  m_tokens_in :: "int option"
  m_tokens_out :: "int option"

record halt_event =
  he_action :: string
  he_scope :: string
  he_target :: string
  he_reason :: string
  he_operator :: string
  he_source :: string

record retry_row =
  ra_job :: int
  ra_actor :: string
  ra_time :: time
  ra_pending :: int
  ra_retry :: int

record attach_row =
  at_session :: int
  at_seq :: int
  at_rev :: int
  at_name :: string
  at_digest :: string
  at_mime :: string

record cred_row =
  cr_turn :: int
  cr_gen :: int
  cr_hash :: string
  cr_expires :: time

record grant_row =
  gr_hash :: string
  gr_turn :: int
  gr_expires :: time

record task_row =
  tk_id :: int
  tk_effort :: string
  tk_rev :: int
  tk_spec :: string
  tk_session :: int
  tk_repo :: string
  tk_ref :: string
  tk_base :: string
  tk_policy :: string
  tk_paths :: "string list"
  tk_context :: "string list"
  tk_prompt :: string
  tk_repairs :: int
  tk_state :: string

record ret_row =
  rt_session :: int
  rt_class :: string
  rt_expires :: "time option"
  rt_override :: bool
  rt_override_by :: string
  rt_override_at :: "time option"
  rt_expired :: bool

text \<open>A flight record is kept by its receipt id, which the code prints as
  \<^verbatim>\<open>turn:generation:claimed\<close>; its body is diagnostics.\<close>

record db =
  envs :: "env_row list"
  sessions :: "sess_row list"
  turns :: "turn_row list"
  snaps :: "snap_row list"
  receipts :: "receipt_row list"
  reviews :: "review_row list"
  applies :: "apply_row list"
  actions :: "action_row list"
  overlay :: "(string \<times> string) list"
  daily :: "((string \<times> string) \<times> int) list"
  followups :: "followup_row list"
  steers :: "steer_row list"
  refreshes :: "refresh_row list"
  deliveries :: "delivery_row list"
  events :: "event_row list"
  invals :: "inval_row list"
  meas :: "meas_row list"
  halts :: "halt_event list"
  retries :: "retry_row list"
  attachs :: "attach_row list"
  creds :: "cred_row list"
  grants :: "grant_row list"
  flights :: "(int \<times> int \<times> int) list"
  tasks :: "task_row list"
  retention :: "ret_row list"
  idem :: "(string \<times> int) list"
  tools :: "(int \<times> string \<times> string) list"

definition empty_db :: db where
  "empty_db = \<lparr>envs = [\<lparr>e_id = 1, e_name = ''local'', e_driver = ''process'', e_state = ''ready'',
       e_handle = [], e_source = [], e_expires = None, e_slept = None\<rparr>],
     sessions = [], turns = [], snaps = [], receipts = [], reviews = [], applies = [], actions = [],
     overlay = [], daily = [], followups = [], steers = [], refreshes = [], deliveries = [],
     events = [], invals = [], meas = [], halts = [], retries = [], attachs = [], creds = [],
     grants = [], flights = [], tasks = [], retention = [],
     idem = [], tools = []\<rparr>"

section \<open>Turns and the jobs view\<close>

definition session_of :: "db \<Rightarrow> int \<Rightarrow> sess_row option" where
  "session_of db sid = find (\<lambda>s. s_id s = sid) (sessions db)"

definition turn_of :: "db \<Rightarrow> int \<Rightarrow> turn_row option" where
  "turn_of db tid = find (\<lambda>t. t_id t = tid) (turns db)"

text \<open>\<^verbatim>\<open>scanJob\<close>: one row of the \<^verbatim>\<open>jobs\<close> view.\<close>

definition scanJob :: "turn_row \<Rightarrow> sess_row \<Rightarrow> job" where
  "scanJob t s = \<lparr>j_id = t_id t, j_repo = s_repo s, j_item = s_item s, j_kind = s_item_kind s,
     j_lane = t_lane t, j_pending = t_pending t, j_claimed = t_claimed t, j_gen = t_gen t,
     j_expires = t_expires t, j_deadline = t_deadline t, j_retry = t_retry t, j_state = t_state t\<rparr>"

definition jobs :: "db \<Rightarrow> job list" where
  "jobs db = List.map_filter (\<lambda>t. map_option (scanJob t) (session_of db (t_session t))) (turns db)"

definition GetJobTx :: "string \<Rightarrow> int \<Rightarrow> string \<Rightarrow> db \<Rightarrow> job option" where
  "GetJobTx repo item lane db = find (\<lambda>j. j_repo j = repo \<and> j_item j = item \<and> j_lane j = lane) (jobs db)"

definition GetJobByIDTx :: "int \<Rightarrow> db \<Rightarrow> job res" where
  "GetJobByIDTx tid db = the_row (find (\<lambda>j. j_id j = tid) (jobs db))"

definition GetTurnTx :: "int \<Rightarrow> db \<Rightarrow> turn_row res" where
  "GetTurnTx tid db = the_row (turn_of db tid)"

definition GetSessionTx :: "int \<Rightarrow> db \<Rightarrow> sess_row res" where
  "GetSessionTx sid db = the_row (session_of db sid)"

definition listTurnsForSession :: "int \<Rightarrow> db \<Rightarrow> turn_row list" where
  "listTurnsForSession sid db = filter (\<lambda>t. t_session t = sid) (turns db)"

definition due :: "time option \<Rightarrow> time \<Rightarrow> bool" where
  "due at now = (case at of None \<Rightarrow> False | Some t \<Rightarrow> stamp_le t now)"

definition ListDueLeasedJobsTx :: "time \<Rightarrow> string \<Rightarrow> string \<Rightarrow> db \<Rightarrow> job list" where
  "ListDueLeasedJobsTx now repo lane db =
     filter (\<lambda>j. j_state j = Leased \<and> (due (j_expires j) now \<or> due (j_deadline j) now)
               \<and> (repo = [] \<or> (j_repo j = repo \<and> j_lane j = lane))) (jobs db)"

definition SetTurnClaimTokenTx :: "int \<Rightarrow> string \<Rightarrow> db \<Rightarrow> db" where
  "SetTurnClaimTokenTx tid hash db =
     db\<lparr>turns := sql_update (\<lambda>t. t_id t = tid)
        (\<lambda>t. t\<lparr>t_token := (if hash = [] then None else Some hash)\<rparr>) (turns db)\<rparr>"

definition LeasedTurnByClaimTokenTx :: "string \<Rightarrow> db \<Rightarrow> int" where
  "LeasedTurnByClaimTokenTx hash db =
     (if hash = [] then 0
      else case least_by (\<lambda>t. - t_id t)
              (filter (\<lambda>t. t_token t = Some hash \<and> t_state t = Leased) (turns db)) of
        None \<Rightarrow> 0 | Some t \<Rightarrow> t_id t)"

definition put_job :: "job \<Rightarrow> turn_row \<Rightarrow> turn_row" where
  "put_job j t = t\<lparr>t_pending := j_pending j, t_claimed := j_claimed j, t_gen := j_gen j,
     t_expires := j_expires j, t_deadline := j_deadline j, t_retry := j_retry j, t_state := j_state j\<rparr>"

definition UpdateJobTx :: "job \<Rightarrow> db \<Rightarrow> db" where
  "UpdateJobTx j db = db\<lparr>turns := sql_update (\<lambda>t. t_id t = j_id j) (put_job j) (turns db)\<rparr>"

section \<open>Sessions\<close>

definition SessionKindReview :: string where "SessionKindReview = ''review''"
definition SessionKindRun :: string where "SessionKindRun = ''run''"
definition SessionKindScheduled :: string where "SessionKindScheduled = ''scheduled''"
definition DefaultTenantID :: string where "DefaultTenantID = ''default''"
definition EnvReady :: string where "EnvReady = ''ready''"
definition EnvExpired :: string where "EnvExpired = ''expired''"

definition review_session :: "string \<Rightarrow> int \<Rightarrow> db \<Rightarrow> sess_row option" where
  "review_session repo item db =
     find (\<lambda>s. s_kind s = SessionKindReview \<and> s_repo s = repo \<and> s_item s = item) (sessions db)"

definition replace_all :: "char \<Rightarrow> char \<Rightarrow> string \<Rightarrow> string" where
  "replace_all a b s = map (\<lambda>c. if c = a then b else c) s"

text \<open>\<^verbatim>\<open>INSERT INTO environments\<close>; names are unique.\<close>

definition insert_env :: "string \<Rightarrow> db \<Rightarrow> (db \<times> int) res" where
  "insert_env name db =
     (if name \<in> e_name ` set (envs db) then Inl EConstraint
      else let i = next_id (map e_id (envs db)) in
        Inr (db\<lparr>envs := envs db @ [\<lparr>e_id = i, e_name = name, e_driver = ''process'',
               e_state = EnvReady, e_handle = [], e_source = [], e_expires = None, e_slept = None\<rparr>]\<rparr>, i))"

text \<open>\<^verbatim>\<open>INSERT INTO sessions\<close>; kind, repository and item are unique together. Columns the statement
  does not name get the defaults of \<^verbatim>\<open>migrate.go\<close>.\<close>

definition insert_session ::
  "int \<Rightarrow> string \<Rightarrow> string \<Rightarrow> int \<Rightarrow> string \<Rightarrow> string \<Rightarrow> string \<Rightarrow> int \<Rightarrow> int \<Rightarrow> db \<Rightarrow> (db \<times> int) res" where
  "insert_session env kind repo item item_kind project prompt schedule parent db =
     (if (kind, repo, item) \<in> (\<lambda>s. (s_kind s, s_repo s, s_item s)) ` set (sessions db) then Inl EConstraint
      else let i = next_id (map s_id (sessions db)) in
        Inr (db\<lparr>sessions := sessions db @ [\<lparr>s_id = i, s_env = env, s_kind = kind, s_repo = repo,
               s_item = item, s_item_kind = item_kind, s_state = ''open'', s_project = project,
               s_prompt = prompt, s_schedule = schedule, s_size = [], s_mode = [], s_parent = parent,
               s_archived = False, s_guest_session = [], s_guest_name = [], s_guest_pin = [],
               s_guest_config = None, s_tenant = DefaultTenantID, s_created_by = [],
               s_exec_mode = [], s_act = []\<rparr>]\<rparr>, i))"

definition RetentionShort :: string where "RetentionShort = ''short''"
definition RetentionIndefinite :: string where "RetentionIndefinite = ''indefinite''"
definition EnvTTL :: time where "EnvTTL = 72 * hour"

definition DefaultRetentionExpiry :: "time \<Rightarrow> time" where
  "DefaultRetentionExpiry now = now + EnvTTL"

text \<open>\<^verbatim>\<open>INSERT OR IGNORE\<close>; the wall clock at the insert is an argument.\<close>

definition ensureSessionRetentionTx :: "int \<Rightarrow> time \<Rightarrow> db \<Rightarrow> db" where
  "ensureSessionRetentionTx sid now db =
     (if sid \<in> rt_session ` set (retention db) then db
      else db\<lparr>retention := retention db @ [\<lparr>rt_session = sid, rt_class = RetentionShort,
             rt_expires = Some (DefaultRetentionExpiry now), rt_override = False, rt_override_by = [],
             rt_override_at = None, rt_expired = False\<rparr>]\<rparr>)"

definition insert_turn :: "int \<Rightarrow> string \<Rightarrow> int \<Rightarrow> turn_state \<Rightarrow> db \<Rightarrow> (db \<times> int) res" where
  "insert_turn sid lane pending st db =
     (if (sid, lane) \<in> (\<lambda>t. (t_session t, t_lane t)) ` set (turns db) then Inl EConstraint
      else let i = next_id (map t_id (turns db)) in
        Inr (db\<lparr>turns := turns db @ [\<lparr>t_id = i, t_session = sid, t_lane = lane, t_pending = pending,
               t_claimed = 0, t_gen = 0, t_expires = None, t_deadline = None, t_retry = 0,
               t_state = st, t_token = None\<rparr>]\<rparr>, i))"

definition ensureReviewSessionTx :: "time \<Rightarrow> string \<Rightarrow> int \<Rightarrow> string \<Rightarrow> db \<Rightarrow> (db \<times> int) res" where
  "ensureReviewSessionTx now repo item kind db =
     (case review_session repo item db of
        Some s \<Rightarrow> Inr (db, s_id s)
      | None \<Rightarrow>
          bindE (insert_env (''review-'' @ replace_all (CHR ''/'') (CHR ''-'') repo @ ''-'' @ show_int item) db)
            (\<lambda>(db, env).
          bindE (insert_session env SessionKindReview repo item kind [] [] 0 0 db) (\<lambda>(db, sid).
            Inr (ensureSessionRetentionTx sid now db, sid))))"

text \<open>The new job is queued with nothing claimed, as its only caller builds it.\<close>

definition InsertJobTx :: "time \<Rightarrow> string \<Rightarrow> int \<Rightarrow> string \<Rightarrow> string \<Rightarrow> int \<Rightarrow> db \<Rightarrow> db res" where
  "InsertJobTx now repo item kind lane pending db =
     bindE (ensureReviewSessionTx now repo item kind db) (\<lambda>(db, sid).
     bindE (insert_turn sid lane pending Queued db) (\<lambda>(db, _). Inr db))"

definition min_item :: "string \<Rightarrow> db \<Rightarrow> int" where
  "min_item repo db = fold min (map s_item (filter (\<lambda>s. s_repo s = repo \<and> s_item s < 0) (sessions db))) 0"

definition insertOperatorSessionTx ::
  "time \<Rightarrow> string \<Rightarrow> string \<Rightarrow> string \<Rightarrow> string \<Rightarrow> string \<Rightarrow> int \<Rightarrow> int \<Rightarrow> db \<Rightarrow> (db \<times> int \<times> int) res" where
  "insertOperatorSessionTx now kind lane project repo prompt schedule parent db =
     (let item = min_item repo db - 1;
          item = (if 0 \<le> item then - 1 else item);
          name = kind @ ''-'' @ replace_all (CHR '':'') (CHR ''_'') (replace_all (CHR ''/'') (CHR ''-'') repo)
                 @ ''-'' @ show_int item
      in bindE (insert_env name db) (\<lambda>(db, env).
         bindE (insert_session env kind repo item kind project prompt schedule parent db) (\<lambda>(db, sid).
         bindE (insert_turn sid lane 1 Queued (ensureSessionRetentionTx sid now db)) (\<lambda>(db, _).
           Inr (db, sid, item)))))"

text \<open>\<^verbatim>\<open>UPDATE sessions SET ... WHERE id=?\<close>.\<close>

definition set_session :: "int \<Rightarrow> (sess_row \<Rightarrow> sess_row) \<Rightarrow> db \<Rightarrow> db" where
  "set_session sid f db = db\<lparr>sessions := sql_update (\<lambda>s. s_id s = sid) f (sessions db)\<rparr>"

definition SetSessionPromptTx :: "int \<Rightarrow> string \<Rightarrow> db \<Rightarrow> db" where
  "SetSessionPromptTx sid prompt = set_session sid (\<lambda>s. s\<lparr>s_prompt := prompt\<rparr>)"

definition SetSessionSizeTx :: "int \<Rightarrow> string \<Rightarrow> db \<Rightarrow> db" where
  "SetSessionSizeTx sid sz = set_session sid (\<lambda>s. s\<lparr>s_size := sz\<rparr>)"

definition SetSessionModeTx :: "int \<Rightarrow> string \<Rightarrow> db \<Rightarrow> db" where
  "SetSessionModeTx sid mode = set_session sid (\<lambda>s. s\<lparr>s_mode := mode\<rparr>)"

definition SetGuestSessionTx :: "int \<Rightarrow> string \<Rightarrow> db \<Rightarrow> db" where
  "SetGuestSessionTx sid g = set_session sid (\<lambda>s. s\<lparr>s_guest_session := g\<rparr>)"

definition SetSessionGuestTx :: "int \<Rightarrow> string \<Rightarrow> string \<Rightarrow> entry \<Rightarrow> db \<Rightarrow> db" where
  "SetSessionGuestTx sid name pin e =
     set_session sid (\<lambda>s. s\<lparr>s_guest_name := name, s_guest_pin := pin, s_guest_config := Some e\<rparr>)"

definition NormalizeTenantID :: "string \<Rightarrow> string" where
  "NormalizeTenantID i = (let t = trim_space i in if t = [] then DefaultTenantID else t)"

definition NormalizeActor :: "string \<Rightarrow> string" where
  "NormalizeActor i = (let t = trim_space i in if t = [] then DefaultTenantID else t)"

definition SetSessionTenantTx :: "int \<Rightarrow> string \<Rightarrow> db \<Rightarrow> db" where
  "SetSessionTenantTx sid tenant =
     (let t = NormalizeTenantID tenant in
      set_session sid (\<lambda>s. s\<lparr>s_tenant := t, s_created_by := (if s_created_by s = [] then t else s_created_by s)\<rparr>))"

definition NormalizeExecutionMode :: "string \<Rightarrow> string" where
  "NormalizeExecutionMode m = (let t = trim_space m in if t = [] then ''space'' else t)"

definition ValidExecutionMode :: "string \<Rightarrow> bool" where
  "ValidExecutionMode m = (NormalizeExecutionMode m \<in> set [''user'', ''space''])"

text \<open>\<^verbatim>\<open>COALESCE(NULLIF(act,''), created_by, ...)\<close> stops at \<^verbatim>\<open>created_by\<close>, which is never NULL.\<close>

definition SetSessionExecutionTx :: "int \<Rightarrow> string \<Rightarrow> string \<Rightarrow> db \<Rightarrow> db res" where
  "SetSessionExecutionTx sid mode act db =
     (if \<not> ValidExecutionMode mode then Inl (EText ''execution_mode'')
      else let m = NormalizeExecutionMode mode; a = trim_space act in
        Inr (set_session sid (\<lambda>s. s\<lparr>s_exec_mode := m,
               s_act := (if a = [] then (if s_act s \<noteq> [] then s_act s else s_created_by s) else a)\<rparr>) db))"

section \<open>Snapshots and receipts\<close>

definition snap_key :: "snap_row \<Rightarrow> string \<times> int \<times> int" where
  "snap_key r = (sn_repo r, sn_item r, sn_rev r)"

definition SaveSnapshotTx :: "(hashable \<Rightarrow> string) \<Rightarrow> string \<Rightarrow> int \<Rightarrow> int \<Rightarrow> item \<Rightarrow> db \<Rightarrow> db res" where
  "SaveSnapshotTx sha repo item rvn it db =
     (if (repo, item, rvn) \<in> snap_key ` set (snaps db) then Inl EConstraint
      else Inr (db\<lparr>snaps := snaps db @ [\<lparr>sn_repo = repo, sn_item = item, sn_rev = rvn,
             sn_hash = ItemHash sha it, sn_payload = it\<rparr>]\<rparr>))"

definition LoadSnapshotTx :: "string \<Rightarrow> int \<Rightarrow> int \<Rightarrow> db \<Rightarrow> item res" where
  "LoadSnapshotTx repo item rvn db =
     the_row (map_option sn_payload (find (\<lambda>r. snap_key r = (repo, item, rvn)) (snaps db)))"

definition LatestSnapshotHashTx :: "string \<Rightarrow> int \<Rightarrow> db \<Rightarrow> string \<times> int" where
  "LatestSnapshotHashTx repo item db =
     (case least_by (\<lambda>r. - sn_rev r) (filter (\<lambda>r. sn_repo r = repo \<and> sn_item r = item) (snaps db)) of
        None \<Rightarrow> ([], 0) | Some r \<Rightarrow> (sn_hash r, sn_rev r))"

text \<open>\<^verbatim>\<open>ReviewedUpdatedAt\<close>: the update time of the latest snapshot of each reviewed item.\<close>

definition ReviewedUpdatedAt :: "string \<Rightarrow> db \<Rightarrow> int \<Rightarrow> string option" where
  "ReviewedUpdatedAt repo db item =
     (if \<exists>j \<in> set (jobs db). j_repo j = repo \<and> j_item j = item \<and> j_lane j = ''review''
      then map_option (\<lambda>r. it_updated (sn_payload r))
             (least_by (\<lambda>r. - sn_rev r) (filter (\<lambda>r. sn_repo r = repo \<and> sn_item r = item) (snaps db)))
      else None)"

definition receipt_key :: "receipt_row \<Rightarrow> int \<times> int \<times> int" where
  "receipt_key r = (r_job r, r_gen r, r_claimed r)"

definition InsertReceiptTx :: "int \<Rightarrow> int \<Rightarrow> int \<Rightarrow> string \<Rightarrow> jval \<Rightarrow> db \<Rightarrow> db res" where
  "InsertReceiptTx jid gen claimed kind payload db =
     (if (jid, gen, claimed) \<in> receipt_key ` set (receipts db) then Inl EConstraint
      else Inr (db\<lparr>receipts := receipts db @ [\<lparr>r_job = jid, r_gen = gen, r_claimed = claimed,
             r_kind = kind, r_payload = payload\<rparr>]\<rparr>))"

definition GetReceiptTx :: "int \<Rightarrow> int \<Rightarrow> int \<Rightarrow> db \<Rightarrow> (string \<times> jval) option" where
  "GetReceiptTx jid gen claimed db =
     map_option (\<lambda>r. (r_kind r, r_payload r)) (find (\<lambda>r. receipt_key r = (jid, gen, claimed)) (receipts db))"

section \<open>Overlay: pauses and halts\<close>

definition OverlayGet :: "string \<Rightarrow> db \<Rightarrow> string" where
  "OverlayGet k db = (case map_of (overlay db) k of None \<Rightarrow> [] | Some v \<Rightarrow> v)"

definition OverlaySet :: "string \<Rightarrow> string \<Rightarrow> db \<Rightarrow> db" where
  "OverlaySet k v db = db\<lparr>overlay := (k, v) # filter (\<lambda>(k', _). k' \<noteq> k) (overlay db)\<rparr>"

definition OverlayDelete :: "string \<Rightarrow> db \<Rightarrow> db" where
  "OverlayDelete k db = db\<lparr>overlay := filter (\<lambda>(k', _). k' \<noteq> k) (overlay db)\<rparr>"

definition Paused :: "string \<Rightarrow> db \<Rightarrow> bool" where
  "Paused project db =
     (if OverlayGet ''pause:global'' db = ''1'' then True
      else if project = [] then False
      else OverlayGet (''pause:'' @ project) db = ''1'')"

record halt_record =
  hr_reason :: string
  hr_operator :: string
  hr_source :: string

definition HaltScopeTenant :: string where "HaltScopeTenant = ''tenant''"
definition HaltScopeProject :: string where "HaltScopeProject = ''project''"
definition HaltScopeAgent :: string where "HaltScopeAgent = ''agent''"

lemmas halt_scope_defs = HaltScopeTenant_def HaltScopeProject_def HaltScopeAgent_def

definition NormalizeHaltScope :: "string \<Rightarrow> string" where
  "NormalizeHaltScope scope = (let s = to_lower (trim_space scope) in
     if s \<in> set [HaltScopeTenant, HaltScopeProject, HaltScopeAgent] then s else [])"

definition HaltOverlayKey :: "string \<Rightarrow> string \<Rightarrow> string" where
  "HaltOverlayKey scope target = ''halt:'' @ NormalizeHaltScope scope @ '':'' @ trim_space target"

definition haltKeys :: "string \<Rightarrow> string \<Rightarrow> string \<Rightarrow> string list" where
  "haltKeys tenant project agent =
     [HaltOverlayKey HaltScopeTenant (NormalizeTenantID tenant)]
     @ (if trim_space project \<noteq> [] then [HaltOverlayKey HaltScopeProject (trim_space project)] else [])
     @ [HaltOverlayKey HaltScopeAgent (NormalizeActor agent)]"

definition Halted :: "string \<Rightarrow> string \<Rightarrow> string \<Rightarrow> db \<Rightarrow> bool" where
  "Halted tenant project agent db = list_ex (\<lambda>k. OverlayGet k db \<noteq> []) (haltKeys tenant project agent)"

definition insertHaltEventTx :: "string \<Rightarrow> string \<Rightarrow> string \<Rightarrow> halt_record \<Rightarrow> db \<Rightarrow> db" where
  "insertHaltEventTx action scope target rec db =
     db\<lparr>halts := halts db @ [\<lparr>he_action = action, he_scope = scope, he_target = target,
          he_reason = hr_reason rec, he_operator = hr_operator rec, he_source = hr_source rec\<rparr>]\<rparr>"

text \<open>The marshalled record, for field texts that need no JSON escapes. It is never the empty text.\<close>

definition quote :: "string \<Rightarrow> string" where
  "quote s = CHR 0x22 # s @ [CHR 0x22]"

definition halt_payload :: "halt_record \<Rightarrow> string" where
  "halt_payload rec = ''{'' @ concat (map (\<lambda>(k, v, e). quote k @ '':'' @ quote v @ e)
     [(''reason'', hr_reason rec, '',''), (''operator'', hr_operator rec, '',''),
      (''source'', hr_source rec, ''}'')])"

definition SetHaltTx :: "string \<Rightarrow> string \<Rightarrow> halt_record \<Rightarrow> db \<Rightarrow> db res" where
  "SetHaltTx scope target rec db =
     (let scope = NormalizeHaltScope scope; target = trim_space target in
      if scope = [] \<or> target = [] then Inl (EText ''halt target'')
      else Inr (insertHaltEventTx ''halt'' scope target rec
             (OverlaySet (HaltOverlayKey scope target) (halt_payload rec) db)))"

definition ClearHaltTx :: "string \<Rightarrow> string \<Rightarrow> halt_record \<Rightarrow> db \<Rightarrow> db res" where
  "ClearHaltTx scope target rec db =
     (let scope = NormalizeHaltScope scope; target = trim_space target in
      if scope = [] \<or> target = [] then Inl (EText ''halt target'')
      else Inr (insertHaltEventTx ''resume'' scope target rec
             (OverlayDelete (HaltOverlayKey scope target) db)))"

text \<open>In the agent scope \<^verbatim>\<open>COALESCE(NULLIF(act,''), created_by, tenant_id, 'default')\<close> is \<^verbatim>\<open>act\<close> when it
  is not empty, otherwise \<^verbatim>\<open>created_by\<close>, a column that is never NULL.\<close>

definition halt_matches :: "string \<Rightarrow> string \<Rightarrow> string list \<Rightarrow> sess_row \<Rightarrow> bool" where
  "halt_matches scope target repos s =
     (if scope = HaltScopeTenant then s_tenant s = NormalizeTenantID target
      else if scope = HaltScopeProject
      then s_project s = target \<or> (repos \<noteq> [] \<and> s_project s = [] \<and> s_repo s \<in> set repos)
      else (if s_act s \<noteq> [] then s_act s else s_created_by s) = NormalizeActor target)"

definition ListOpenSessionIDsForHaltTx :: "string \<Rightarrow> string \<Rightarrow> string list \<Rightarrow> db \<Rightarrow> (int list) res" where
  "ListOpenSessionIDsForHaltTx scope target repos db =
     (let scope = NormalizeHaltScope scope; target = trim_space target in
      if scope = [] \<or> target = [] then Inl (EText ''halt target'')
      else Inr (map s_id (filter (\<lambda>s. \<not> s_archived s \<and> halt_matches scope target repos s) (sessions db))))"

section \<open>Daily review budget\<close>

definition CountReviewsToday :: "string \<Rightarrow> string \<Rightarrow> db \<Rightarrow> int" where
  "CountReviewsToday repo day db = (case map_of (daily db) (repo, day) of None \<Rightarrow> 0 | Some n \<Rightarrow> n)"

definition IncrReviewsToday :: "string \<Rightarrow> string \<Rightarrow> db \<Rightarrow> db" where
  "IncrReviewsToday repo day db =
     db\<lparr>daily := ((repo, day), CountReviewsToday repo day db + 1)
          # filter (\<lambda>(k, _). k \<noteq> (repo, day)) (daily db)\<rparr>"

definition DecrReviewsToday :: "string \<Rightarrow> string \<Rightarrow> db \<Rightarrow> db res" where
  "DecrReviewsToday repo day db =
     (if CountReviewsToday repo day db > 0
      then Inr (db\<lparr>daily := ((repo, day), CountReviewsToday repo day db - 1)
                 # filter (\<lambda>(k, _). k \<noteq> (repo, day)) (daily db)\<rparr>)
      else Inl (EText ''daily review count missing''))"

section \<open>Follow-ups and steers\<close>

definition nextFollowUpSeqTx :: "int \<Rightarrow> db \<Rightarrow> int" where
  "nextFollowUpSeqTx sid db =
     fold max (map f_seq (filter (\<lambda>f. f_session f = sid) (followups db))
       @ map st_seq (filter (\<lambda>s. st_session s = sid \<and> st_seq s > 0) (steers db))) 0 + 1"

definition followup_key :: "followup_row \<Rightarrow> int \<times> int" where
  "followup_key f = (f_session f, f_seq f)"

definition insert_followup :: "int \<Rightarrow> int \<Rightarrow> string \<Rightarrow> bool \<Rightarrow> db \<Rightarrow> db res" where
  "insert_followup sid seq prompt queued db =
     (if (sid, seq) \<in> followup_key ` set (followups db) then Inl EConstraint
      else Inr (db\<lparr>followups := followups db @ [\<lparr>f_session = sid, f_seq = seq, f_prompt = prompt,
             f_consumed = False, f_queued = queued, f_dropped = False\<rparr>]\<rparr>))"

definition enqueueFollowUpTx :: "int \<Rightarrow> string \<Rightarrow> bool \<Rightarrow> db \<Rightarrow> (db \<times> int) res" where
  "enqueueFollowUpTx sid prompt queued db =
     (let seq = nextFollowUpSeqTx sid db in
      bindE (insert_followup sid seq prompt queued db) (\<lambda>db. Inr (db, seq)))"

definition insertFollowUpAtTx :: "int \<Rightarrow> int \<Rightarrow> string \<Rightarrow> db \<Rightarrow> db res" where
  "insertFollowUpAtTx sid seq prompt db = insert_followup sid seq prompt False db"

definition NextFollowUpTx :: "int \<Rightarrow> db \<Rightarrow> followup_row option" where
  "NextFollowUpTx sid db =
     least_by f_seq (filter (\<lambda>f. f_session f = sid \<and> \<not> f_consumed f) (followups db))"

definition DropQueuedPromptsTx :: "int \<Rightarrow> db \<Rightarrow> db \<times> int" where
  "DropQueuedPromptsTx sid db =
     (let P = (\<lambda>f. f_session f = sid \<and> \<not> f_consumed f \<and> f_queued f) in
      (db\<lparr>followups := sql_update P (\<lambda>f. f\<lparr>f_consumed := True, f_dropped := True\<rparr>) (followups db)\<rparr>,
       sql_count P (followups db)))"

definition ConsumeFollowUpTx :: "int \<Rightarrow> int \<Rightarrow> db \<Rightarrow> db" where
  "ConsumeFollowUpTx sid seq db =
     db\<lparr>followups := sql_update (\<lambda>f. f_session f = sid \<and> f_seq f = seq) (\<lambda>f. f\<lparr>f_consumed := True\<rparr>)
          (followups db)\<rparr>"

definition EnqueueSteerTx :: "int \<Rightarrow> int \<Rightarrow> int \<Rightarrow> string \<Rightarrow> db \<Rightarrow> db \<times> int" where
  "EnqueueSteerTx sid tid gen prompt db =
     (let i = next_id (map st_id (steers db)) in
      (db\<lparr>steers := steers db @ [\<lparr>st_id = i, st_session = sid, st_turn = tid, st_gen = gen,
           st_prompt = prompt, st_seq = nextFollowUpSeqTx sid db, st_offered = False,
           st_received = False, st_acked = False, st_promoted = False\<rparr>]\<rparr>, i))"

definition NextSteerTx :: "int \<Rightarrow> int \<Rightarrow> db \<Rightarrow> db \<times> steer_row option" where
  "NextSteerTx tid gen db =
     (case least_by st_id (filter (\<lambda>s. st_turn s = tid \<and> st_gen s = gen \<and> \<not> st_acked s
              \<and> \<not> st_promoted s \<and> \<not> st_received s) (steers db)) of
        None \<Rightarrow> (db, None)
      | Some s \<Rightarrow> (db\<lparr>steers := sql_update (\<lambda>x. st_id x = st_id s \<and> \<not> st_offered x)
                        (\<lambda>x. x\<lparr>st_offered := True\<rparr>) (steers db)\<rparr>, Some s))"

text \<open>The rows a runner may receive or acknowledge: offered to it under this lease and not promoted.
  The fallback query of \<^verbatim>\<open>ReceiveSteerTx\<close> and \<^verbatim>\<open>AckSteerTx\<close> has the update's own condition, so it finds
  no row when the update did not.\<close>

definition steer_offered :: "int \<Rightarrow> int \<Rightarrow> int \<Rightarrow> steer_row \<Rightarrow> bool" where
  "steer_offered tid gen i s = (st_id s = i \<and> st_turn s = tid \<and> st_gen s = gen \<and> st_offered s \<and> \<not> st_promoted s)"

definition ReceiveSteerTx :: "int \<Rightarrow> int \<Rightarrow> int \<Rightarrow> db \<Rightarrow> db res" where
  "ReceiveSteerTx tid gen i db =
     (if sql_count (steer_offered tid gen i) (steers db) = 1
      then Inr (db\<lparr>steers := sql_update (steer_offered tid gen i) (\<lambda>s. s\<lparr>st_received := True\<rparr>) (steers db)\<rparr>)
      else Inl ENoRows)"

definition AckSteerTx :: "int \<Rightarrow> int \<Rightarrow> int \<Rightarrow> db \<Rightarrow> db res" where
  "AckSteerTx tid gen i db =
     (if sql_count (steer_offered tid gen i) (steers db) = 1
      then Inr (db\<lparr>steers := sql_update (steer_offered tid gen i)
             (\<lambda>s. s\<lparr>st_received := True, st_acked := True\<rparr>) (steers db)\<rparr>)
      else Inl ENoRows)"

definition HasEarlierUnacknowledgedSteerTx :: "int \<Rightarrow> int \<Rightarrow> db \<Rightarrow> bool" where
  "HasEarlierUnacknowledgedSteerTx sid seq db =
     list_ex (\<lambda>s. st_session s = sid \<and> st_seq s < seq \<and> \<not> st_acked s \<and> \<not> st_promoted s) (steers db)"

definition pending_steers :: "int \<Rightarrow> int \<Rightarrow> db \<Rightarrow> steer_row list" where
  "pending_steers tid gen db = sort_key (\<lambda>s. (st_seq s, st_id s))
     (filter (\<lambda>s. st_turn s = tid \<and> st_gen s \<le> gen \<and> \<not> st_acked s \<and> \<not> st_promoted s) (steers db))"

definition promote_one :: "steer_row \<Rightarrow> db \<Rightarrow> db res" where
  "promote_one s db =
     bindE (insertFollowUpAtTx (st_session s) (st_seq s) (st_prompt s) db) (\<lambda>db.
       Inr (db\<lparr>steers := sql_update (\<lambda>x. st_id x = st_id s) (\<lambda>x. x\<lparr>st_promoted := True\<rparr>) (steers db)\<rparr>))"

definition PromoteSteersTx :: "int \<Rightarrow> int \<Rightarrow> db \<Rightarrow> (db \<times> int) res" where
  "PromoteSteersTx tid gen db =
     (let ps = pending_steers tid gen db in
      bindE (for_each promote_one ps db) (\<lambda>db. Inr (db, int (length ps))))"

section \<open>Lease counts and lineage\<close>

definition turn_session :: "turn_row \<Rightarrow> db \<Rightarrow> sess_row option" where
  "turn_session t db = session_of db (t_session t)"

definition countLeasedTurns :: "string \<Rightarrow> string list \<Rightarrow> db \<Rightarrow> int" where
  "countLeasedTurns project repos db =
     sql_count (\<lambda>t. t_state t = Leased \<and> (case turn_session t db of None \<Rightarrow> False
        | Some s \<Rightarrow> s_project s = project \<or> s_repo s \<in> set repos)) (turns db)"

definition CountTreeLeasedTurnsTx :: "int \<Rightarrow> db \<Rightarrow> (int \<times> string) res" where
  "CountTreeLeasedTurnsTx sid db =
     bindE (the_row (session_of db sid)) (\<lambda>c.
       let root = (if s_parent c \<noteq> 0 then s_parent c else s_id c);
           project = (case session_of db (s_parent c) of None \<Rightarrow> s_project c | Some p \<Rightarrow> s_project p)
       in Inr (sql_count (\<lambda>t. t_state t = Leased \<and> (case turn_session t db of None \<Rightarrow> False
                 | Some s \<Rightarrow> s_id s = root \<or> s_parent s = root)) (turns db), project))"

definition CountActiveChildSessionsTx :: "int \<Rightarrow> db \<Rightarrow> int" where
  "CountActiveChildSessionsTx parent db =
     sql_count (\<lambda>s. s_parent s = parent \<and> \<not> s_archived s
        \<and> list_ex (\<lambda>t. t_session t = s_id s \<and> (t_state t = Queued \<or> t_state t = Leased)) (turns db))
       (sessions db)"

definition ListChildSessionIDs :: "int \<Rightarrow> db \<Rightarrow> int list" where
  "ListChildSessionIDs parent db = map s_id (filter (\<lambda>s. s_parent s = parent) (sessions db))"

definition SessionLineageTx :: "int \<Rightarrow> db \<Rightarrow> (int \<times> string \<times> int) res" where
  "SessionLineageTx sid db =
     bindE (the_row (session_of db sid)) (\<lambda>c. case session_of db (s_parent c) of
         None \<Rightarrow> Inr (s_parent c, s_repo c, s_item c)
       | Some p \<Rightarrow> Inr (s_parent c, s_repo p, s_item p))"

definition HasOpenRepoSessionsTx :: "string \<Rightarrow> db \<Rightarrow> bool" where
  "HasOpenRepoSessionsTx repo db = (sql_count (\<lambda>s. s_repo s = repo \<and> \<not> s_archived s) (sessions db) > 0)"

section \<open>Actions\<close>

definition InsertActionTx :: "action_row \<Rightarrow> db \<Rightarrow> db res" where
  "InsertActionTx a db =
     (if a_id a \<in> a_id ` set (actions db) then Inl EConstraint
      else Inr (db\<lparr>actions := actions db @ [a]\<rparr>))"

text \<open>\<^verbatim>\<open>INSERT OR IGNORE\<close>.\<close>

definition insert_action_ignore :: "action_row \<Rightarrow> db \<Rightarrow> db" where
  "insert_action_ignore a db =
     (if a_id a \<in> a_id ` set (actions db) then db else db\<lparr>actions := actions db @ [a]\<rparr>)"

section \<open>Measurements\<close>

definition turn_project :: "int \<Rightarrow> db \<Rightarrow> (int \<times> string) res" where
  "turn_project tid db =
     bindE (the_row (turn_of db tid)) (\<lambda>t.
     bindE (the_row (turn_session t db)) (\<lambda>s. Inr (t_session t, s_project s)))"

definition BeginMeasurementTx :: "int \<Rightarrow> time \<Rightarrow> db \<Rightarrow> db res" where
  "BeginMeasurementTx tid started db =
     bindE (turn_project tid db) (\<lambda>(sid, project).
       Inr (if tid \<in> m_turn ` set (meas db) then db
            else db\<lparr>meas := meas db @ [\<lparr>m_turn = tid, m_session = sid, m_project = project,
                   m_started = Some started, m_terminal = [], m_ended = None, m_duration = None,
                   m_publication = [], m_tokens_in = None, m_tokens_out = None\<rparr>]\<rparr>))"

text \<open>\<^verbatim>\<open>Duration.Milliseconds\<close> truncates toward zero; the \<^verbatim>\<open>max\<close> with zero makes that a plain division.\<close>

definition FinishMeasurementTx ::
  "int \<Rightarrow> string \<Rightarrow> time \<Rightarrow> string \<Rightarrow> int option \<Rightarrow> int option \<Rightarrow> db \<Rightarrow> db res" where
  "FinishMeasurementTx tid terminal ended publication tin tout db =
     (case find (\<lambda>m. m_turn m = tid) (meas db) of
        None \<Rightarrow>
          bindE (turn_project tid db) (\<lambda>(sid, project).
            Inr (db\<lparr>meas := meas db @ [\<lparr>m_turn = tid, m_session = sid, m_project = project,
                   m_started = None, m_terminal = terminal, m_ended = Some ended, m_duration = None,
                   m_publication = publication, m_tokens_in = tin, m_tokens_out = tout\<rparr>]\<rparr>))
      | Some m0 \<Rightarrow>
          Inr (db\<lparr>meas := sql_update (\<lambda>m. m_turn m = tid) (\<lambda>m. m\<lparr>m_terminal := terminal,
                 m_ended := Some ended,
                 m_duration := map_option (\<lambda>st. max 0 ((ended - st) div 1000000)) (m_started m0),
                 m_publication := publication, m_tokens_in := tin, m_tokens_out := tout\<rparr>) (meas db)\<rparr>))"

section \<open>Environments, credentials, attachments, tasks\<close>

definition TouchSessionEnvironmentTx :: "int \<Rightarrow> time \<Rightarrow> time \<Rightarrow> db \<Rightarrow> db" where
  "TouchSessionEnvironmentTx sid now expires db =
     (case session_of db sid of
        None \<Rightarrow> db
      | Some s \<Rightarrow>
          db\<lparr>envs := sql_update (\<lambda>e. e_id e = s_env s \<and> e_state e \<noteq> EnvExpired
                 \<and> (case e_expires e of None \<Rightarrow> True | Some cur \<Rightarrow> now < cur))
               (\<lambda>e. e\<lparr>e_expires := Some expires\<rparr>) (envs db)\<rparr>)"

definition RenewTurnCredentialTx :: "int \<Rightarrow> int \<Rightarrow> time \<Rightarrow> db \<Rightarrow> db" where
  "RenewTurnCredentialTx tid gen expires db =
     db\<lparr>creds := sql_update (\<lambda>c. cr_turn c = tid \<and> cr_gen c = gen) (\<lambda>c. c\<lparr>cr_expires := expires\<rparr>) (creds db)\<rparr>"

definition RenewGrantTx :: "int \<Rightarrow> time \<Rightarrow> db \<Rightarrow> db" where
  "RenewGrantTx tid expires db =
     db\<lparr>grants := sql_update (\<lambda>g. gr_turn g = tid) (\<lambda>g. g\<lparr>gr_expires := expires\<rparr>) (grants db)\<rparr>"

definition BindPromptAttachmentsTx :: "int \<Rightarrow> int \<Rightarrow> int \<Rightarrow> db \<Rightarrow> db" where
  "BindPromptAttachmentsTx sid seq rvn db =
     db\<lparr>attachs := sql_update (\<lambda>a. at_session a = sid \<and> at_seq a = seq) (\<lambda>a. a\<lparr>at_rev := rvn\<rparr>) (attachs db)\<rparr>"

definition OpenTaskForSession :: "int \<Rightarrow> db \<Rightarrow> task_row option" where
  "OpenTaskForSession sid db =
     least_by (\<lambda>t. - tk_rev t) (filter (\<lambda>t. tk_session t = sid \<and> tk_state t = ''open'') (tasks db))"

definition InsertFlightRecordTx :: "int \<times> int \<times> int \<Rightarrow> db \<Rightarrow> db res" where
  "InsertFlightRecordTx rid db =
     (if rid \<in> set (flights db) then Inl (EText ''flight: overwrite'')
      else Inr (db\<lparr>flights := flights db @ [rid]\<rparr>))"

section \<open>Intake tables\<close>

definition refresh_of :: "string \<Rightarrow> int \<Rightarrow> db \<Rightarrow> refresh_row option" where
  "refresh_of repo item db = find (\<lambda>r. rf_repo r = repo \<and> rf_item r = item) (refreshes db)"

definition set_refresh :: "(refresh_row \<Rightarrow> bool) \<Rightarrow> (refresh_row \<Rightarrow> refresh_row) \<Rightarrow> db \<Rightarrow> db" where
  "set_refresh P f db = db\<lparr>refreshes := sql_update P f (refreshes db)\<rparr>"

definition EnsureRefreshQueuedTx :: "string \<Rightarrow> int \<Rightarrow> string \<Rightarrow> bool \<Rightarrow> db \<Rightarrow> db" where
  "EnsureRefreshQueuedTx repo item kind force db =
     (case refresh_of repo item db of
        None \<Rightarrow> db\<lparr>refreshes := refreshes db @ [\<lparr>rf_id = next_id (map rf_id (refreshes db)),
            rf_repo = repo, rf_item = item, rf_kind = kind, rf_gen = 0, rf_owner = 0,
            rf_expires = None, rf_retry = 0, rf_another = False, rf_force = force,
            rf_state = ''queued'', rf_not_before = None\<rparr>]\<rparr>
      | Some r \<Rightarrow>
          set_refresh (\<lambda>x. rf_repo x = repo \<and> rf_item x = item)
            (\<lambda>x. x\<lparr>rf_another := (rf_owner r \<noteq> 0 \<or> rf_another x),
                   rf_force := (force \<or> rf_force x), rf_state := ''queued''\<rparr>) db)"

definition InsertDeliveryTx :: "string \<Rightarrow> string \<Rightarrow> string \<Rightarrow> int \<Rightarrow> string \<Rightarrow> db \<Rightarrow> db \<times> bool" where
  "InsertDeliveryTx i source repo item kind db =
     (if i \<in> d_id ` set (deliveries db) then (db, False)
      else let db1 = db\<lparr>deliveries := deliveries db @ [\<lparr>d_id = i, d_repo = repo, d_item = item, d_kind = kind\<rparr>]\<rparr>;
               ev = \<lparr>ev_session = map_option s_id (review_session repo item db), ev_source = source,
                     ev_delivery = i, ev_repo = repo, ev_item = item, ev_item_kind = kind\<rparr>
           in (if i \<in> ev_delivery ` set (events db) then db1
               else db1\<lparr>events := events db @ [ev]\<rparr>, True))"

definition InsertEventTx :: "string \<Rightarrow> string \<Rightarrow> string \<Rightarrow> int \<Rightarrow> string \<Rightarrow> db \<Rightarrow> db \<times> bool" where
  "InsertEventTx i source repo item kind db =
     InsertDeliveryTx i (if source = [] then ''generic'' else source) repo item kind db"

end
