(* ===== verification/Engine.thy ===== *)
theory Engine
  imports Store
begin

text \<open>
  The engine's configuration and the transaction steps its handlers share: guest selection
  (\<^verbatim>\<open>engine/guest.go\<close>), follow-up promotion (\<^verbatim>\<open>engine/followup.go\<close>), child outcomes (\<^verbatim>\<open>engine/child.go\<close>)
  and turn measurements (\<^verbatim>\<open>engine/measure.go\<close>).

  An operation reads the clock once, \<open>eg_now\<close>. GitHub, SHA-256, HMAC, JSON and RFC 3339 parsing and
  \<^verbatim>\<open>http.DetectContentType\<close> are fields of \<open>eng\<close>. Model-proxy summaries (\<^verbatim>\<open>recordModelSummaryTx\<close>, whose errors are only logged) are
  left out: the modelled engine has none pending.
\<close>

section \<open>Configuration\<close>

text \<open>What \<^verbatim>\<open>PublishComment\<close> answers: the comment id, or one of the errors the engine tells apart.\<close>

datatype comment_outcome = Posted int | CommentUncertain | CommentDenied | CommentFailed

record eng =
  eg_now :: time
  eg_policy :: effective
  eg_exec_override :: time
  eg_ttl_override :: time
  eg_busy :: "int list"
  eg_default_guest :: string
  eg_container :: bool
  eg_conf_key :: string
  eg_requested :: "string list"
  eg_publisher :: bool
  eg_comments :: bool
  eg_entry_sha :: entry_sha
  eg_hmac :: receipt_mac
  eg_item_sha :: "hashable \<Rightarrow> string"
  eg_action_sha :: "string \<Rightarrow> string"
  eg_get_item :: "string \<Rightarrow> int \<Rightarrow> string \<Rightarrow> item option"
  eg_default_sha :: "string \<Rightarrow> string option"
  eg_ancestor :: "string \<Rightarrow> string \<Rightarrow> string \<Rightarrow> bool option"
  eg_exists :: "string \<Rightarrow> int \<Rightarrow> bool option"
  eg_post :: "string \<Rightarrow> int \<Rightarrow> string \<Rightarrow> jval \<Rightarrow> int \<Rightarrow> comment_outcome"
  eg_parse_time :: "string \<Rightarrow> time"
  eg_parse_json :: "string \<Rightarrow> jval option"
  eg_body_sha :: "string \<Rightarrow> string"
  eg_detect_mime :: "string \<Rightarrow> string"

definition RetryLimit :: int where "RetryLimit = 3"
definition RefreshRetryLimit :: int where "RefreshRetryLimit = 5"
definition Liveness :: time where "Liveness = 3 * minute"
definition ExecDeadline :: time where "ExecDeadline = 12 * minute"
definition RunExecDeadline :: time where "RunExecDeadline = 45 * minute"
definition GrantTTL :: time where "GrantTTL = 10 * minute"
definition OwnerTTL :: time where "OwnerTTL = 2 * minute"
definition StaleAge :: time where "StaleAge = 60 * 24 * hour"

definition execDeadline :: "eng \<Rightarrow> time" where
  "execDeadline eg = (if eg_exec_override eg > 0 then eg_exec_override eg else ExecDeadline)"

definition envTTL :: "eng \<Rightarrow> time" where
  "envTTL eg = (if eg_ttl_override eg > 0 then eg_ttl_override eg else EnvTTL)"

text \<open>\<^verbatim>\<open>e.now().Format("2006-01-02")\<close>: the UTC calendar date, by the days-to-civil computation.\<close>

definition pad2 :: "int \<Rightarrow> string" where
  "pad2 n = (if n < 10 then ''0'' @ show_int n else show_int n)"

definition utc_day :: "time \<Rightarrow> string" where
  "utc_day t =
     (let z = t div (24 * hour) + 719468;
          era = z div 146097;
          doe = z mod 146097;
          yoe = (doe - doe div 1460 + doe div 36524 - doe div 146096) div 365;
          doy = doe - (365 * yoe + yoe div 4 - yoe div 100);
          mp = (5 * doy + 2) div 153;
          d = doy - (153 * mp + 2) div 5 + 1;
          m = (if mp < 10 then mp + 3 else mp - 9);
          y = yoe + era * 400 + (if m \<le> 2 then 1 else 0)
      in show_int y @ ''-'' @ pad2 m @ ''-'' @ pad2 d)"

section \<open>Guests\<close>

definition chooseGuest :: "eng \<Rightarrow> string \<Rightarrow> string \<Rightarrow> (string \<times> entry) res" where
  "chooseGuest eg project requested =
     (case Project (eg_policy eg) project of
        None \<Rightarrow> Inl (EText ''guest: project not found'')
      | Some p \<Rightarrow>
     (let picked = (case pr_guests p of
            Some g \<Rightarrow> (let name = (if requested = [] then pg_default g else requested) in
                        if name \<in> set (pg_allowed g) then Inr name else Inl EGuestNotAllowed)
          | None \<Rightarrow> (let fallback = (if eg_default_guest eg = [] then KindGrok else eg_default_guest eg);
                         name = (if requested = [] then fallback else requested) in
                      if name = fallback then Inr name else Inl EGuestNotAllowed))
      in bindE picked (\<lambda>name.
         case map_of (ef_guests (eg_policy eg)) name of
           None \<Rightarrow> Inl (EText ''guest: is not registered'')
         | Some e \<Rightarrow>
             if map_of Builtin name \<noteq> None then Inr (name, e)
             else if \<not> eg_container eg then Inl (EText ''guest: generic ACP guests require a container driver'')
             else case en_receipt e of
               None \<Rightarrow> Inl (EText ''guest: no conformance receipt'')
             | Some r \<Rightarrow>
                 if Verify (eg_entry_sha eg) (eg_hmac eg) (eg_conf_key eg) r e then Inr (name, e)
                 else Inl (EText ''guest: receipt''))))"

text \<open>\<^verbatim>\<open>bindSessionGuestTx\<close>: the first guest chosen is pinned on the session; a later claim verifies the
  pin and never replaces it.\<close>

definition bindSessionGuestTx :: "eng \<Rightarrow> int \<Rightarrow> string \<Rightarrow> string \<Rightarrow> db \<Rightarrow> (db \<times> string \<times> entry) res" where
  "bindSessionGuestTx eg sid project requested db =
     bindE (GetSessionTx sid db) (\<lambda>s.
       if s_guest_name s \<noteq> [] then
         (if requested \<noteq> [] \<and> requested \<noteq> s_guest_name s then Inl (EText ''guest: session is already pinned'')
          else bindE (chooseGuest eg project (s_guest_name s)) (\<lambda>_.
            case s_guest_config s of
              None \<Rightarrow> Inl (EText ''guest: decode session pin'')
            | Some e \<Rightarrow>
                if en_pin e \<noteq> s_guest_pin s \<or> en_argv e = [] then Inl (EText ''guest: invalid session pin'')
                else if map_of Builtin (s_guest_name s) \<noteq> None then Inr (db, s_guest_name s, e)
                else case en_receipt e of
                  None \<Rightarrow> Inl (EText ''guest: session pin has no conformance receipt'')
                | Some r \<Rightarrow>
                    if Verify (eg_entry_sha eg) (eg_hmac eg) (eg_conf_key eg) r e
                    then Inr (db, s_guest_name s, e) else Inl (EText ''guest: session pin'')))
       else bindE (chooseGuest eg project requested) (\<lambda>(name, e).
         Inr (SetSessionGuestTx sid name (en_pin e) e db, name, e)))"

definition checkRequestedSecrets :: "eng \<Rightarrow> project \<Rightarrow> unit res" where
  "checkRequestedSecrets eg p =
     (if AllowSecrets (pr_secrets p) (eg_requested eg) then Inr () else Inl ESecret)"

definition sessionTenant :: "project \<Rightarrow> string" where
  "sessionTenant p = NormalizeTenantID (pr_tenant p)"

definition repoPaused :: "eng \<Rightarrow> string \<Rightarrow> db \<Rightarrow> bool" where
  "repoPaused eg repo db =
     Paused (case ParseProjectKey repo of
         Some slug \<Rightarrow> slug
       | None \<Rightarrow> (case Repo (eg_policy eg) repo of None \<Rightarrow> [] | Some r \<Rightarrow> rp_project r)) db"

section \<open>Measurements and child outcomes\<close>

definition measurementPublication :: "task_result option \<Rightarrow> string" where
  "measurementPublication r = (case r of
     None \<Rightarrow> []
   | Some r \<Rightarrow>
       if tr_outcome r = OutcomePublished then ''succeeded''
       else if tr_outcome r = OutcomeUnconfirmed then ''uncertain''
       else if tr_outcome r = OutcomeBlocked \<and> tr_pull r > 0 then ''failed''
       else [])"

definition recordChildOutcomeTx :: "int \<Rightarrow> string \<Rightarrow> db \<Rightarrow> db res" where
  "recordChildOutcomeTx tid outcome db =
     bindE (GetTurnTx tid db) (\<lambda>turn.
     bindE (SessionLineageTx (t_session turn) db) (\<lambda>(parent, repo, item).
       if parent = 0 then Inr db
       else bindE (the_row (session_of db parent)) (\<lambda>p.
         if s_archived p then Inr db
         else bindE (the_row (session_of db (t_session turn))) (\<lambda>c.
           InsertActionTx \<lparr>a_id = ''child-result-'' @ show_int (t_session turn) @ ''-'' @ outcome,
             a_session = Some parent, a_turn = None, a_review = None, a_repo = repo, a_item = item,
             a_type = ''child.result'', a_reason = ''recorded'', a_class = ''plane_observed'',
             a_limit = ''Child failure is a recorded result on the parent; it does not retry the child.'',
             a_body = JObj [(''child_session_id'', JInt (t_session turn)), (''project'', JStr (s_project c)),
                            (''outcome'', JStr outcome)]\<rparr> db))))"

definition state_text :: "turn_state \<Rightarrow> string" where
  "state_text st = (case st of Queued \<Rightarrow> ''queued'' | Leased \<Rightarrow> ''leased'' | Completed \<Rightarrow> ''completed''
     | Failed \<Rightarrow> ''failed'')"

definition finishMeasurementTx :: "int \<Rightarrow> turn_state \<Rightarrow> artifact \<Rightarrow> time \<Rightarrow> db \<Rightarrow> db res" where
  "finishMeasurementTx tid terminal art ended db =
     bindE (FinishMeasurementTx tid (state_text terminal) ended (measurementPublication (af_result art))
              (af_tokens_in art) (af_tokens_out art) db) (\<lambda>db.
       if terminal \<noteq> Completed \<and> terminal \<noteq> Failed then Inr db
       else recordChildOutcomeTx tid (state_text terminal) db)"

section \<open>Follow-up promotion\<close>

definition applyFollowUpTx :: "eng \<Rightarrow> job \<Rightarrow> int \<Rightarrow> int \<Rightarrow> string \<Rightarrow> db \<Rightarrow> (db \<times> job) res" where
  "applyFollowUpTx eg j sid seq prompt db =
     (let rvn = j_pending j + 1;
          it0 = zero_item\<lparr>it_repo := j_repo j, it_item := j_item j, it_kind := j_kind j, it_state := ''open'',
                  it_title := ''follow-up'', it_body := prompt, it_default_branch := ''main''\<rparr>;
          it = (case LoadSnapshotTx (j_repo j) (j_item j) (j_pending j) db of
                  Inl _ \<Rightarrow> it0
                | Inr pend \<Rightarrow> it0\<lparr>it_main := it_main pend, it_head := it_head pend,
                                 it_default_branch := it_default_branch pend\<rparr>)
      in bindE (SaveSnapshotTx (eg_item_sha eg) (j_repo j) (j_item j) rvn it db) (\<lambda>db.
         Inr (BindPromptAttachmentsTx sid seq rvn (ConsumeFollowUpTx sid seq (SetSessionPromptTx sid prompt db)),
              j\<lparr>j_pending := rvn, j_retry := 0\<rparr>)))"

definition applyNextFollowUpTx :: "eng \<Rightarrow> job \<Rightarrow> db \<Rightarrow> (db \<times> job) res" where
  "applyNextFollowUpTx eg j db =
     bindE (GetTurnTx (j_id j) db) (\<lambda>turn.
       case NextFollowUpTx (t_session turn) db of
         None \<Rightarrow> Inr (db, j)
       | Some f \<Rightarrow> applyFollowUpTx eg j (t_session turn) (f_seq f) (f_prompt f) db)"

definition hasUnclaimedFollowUp :: "job \<Rightarrow> bool" where
  "hasUnclaimedFollowUp j =
     (if j_pending j \<le> j_claimed j then False else j_claimed j \<noteq> 0 \<or> j_pending j \<noteq> 1)"

definition promoteFollowUpTx :: "eng \<Rightarrow> job \<Rightarrow> int \<Rightarrow> db \<Rightarrow> (db \<times> job) res" where
  "promoteFollowUpTx eg j sid db =
     (if hasUnclaimedFollowUp j then Inr (db, j)
      else case NextFollowUpTx sid db of
        None \<Rightarrow> Inr (db, j)
      | Some f \<Rightarrow>
          if f_queued f \<and> (j_state j = Leased \<or> j_state j = Queued) then Inr (db, j)
          else if HasEarlierUnacknowledgedSteerTx sid (f_seq f) db then Inr (db, j)
          else applyFollowUpTx eg j sid (f_seq f) (f_prompt f) db)"

definition checkChildReactivationTx :: "eng \<Rightarrow> int \<Rightarrow> db \<Rightarrow> unit res" where
  "checkChildReactivationTx eg sid db =
     bindE (GetSessionTx sid db) (\<lambda>c.
       if s_parent c = 0 then Inr ()
       else case Project (eg_policy eg)
              (case session_of db (s_parent c) of None \<Rightarrow> [] | Some p \<Rightarrow> s_project p) of
           None \<Rightarrow> Inl EPolicy
         | Some p \<Rightarrow>
             if CountActiveChildSessionsTx (s_parent c) db \<ge> MaxConcurrentLeases p
             then Inl (EText ''fan-out'') else Inr ())"

end
