(* ===== verification/Prompts.thy ===== *)
theory Prompts
  imports Engine
begin

text \<open>
  Operator prompts, \<^verbatim>\<open>engine/followup.go\<close>, \<^verbatim>\<open>engine/guest_content.go\<close> and \<^verbatim>\<open>store/attachment.go\<close>:
  follow-ups, queued prompts and steers, with their file attachments. The bytes of an attachment are
  written to a content-addressed file outside the database; the model keeps the row.
\<close>

section \<open>Attachments\<close>

type_synonym prompt_file = "string \<times> string"

definition AttachmentName :: "string \<Rightarrow> string res" where
  "AttachmentName name =
     (if name = [] \<or> CHR ''/'' \<in> set name \<or> CHR 0x5C \<in> set name \<or> name = ''.'' \<or> name = ''..''
         \<or> contains name ''..''
      then Inl (EText ''path'') else Inr name)"

text \<open>\<^verbatim>\<open>filepath.Ext\<close>: from the last dot of a name without slashes.\<close>

definition file_ext :: "string \<Rightarrow> string" where
  "file_ext name = (let t = takeWhile (\<lambda>c. c \<noteq> CHR ''.'') (rev name) in
     if length t = length name then [] else ''.'' @ rev t)"

definition CanonicalMIME :: "string \<Rightarrow> string" where
  "CanonicalMIME mime = (let m = to_lower (trim_space mime) in
     if CHR '';'' \<in> set m then trim_space (takeWhile (\<lambda>c. c \<noteq> CHR '';'') m) else m)"

definition AttachmentMIME :: "eng \<Rightarrow> string \<Rightarrow> string \<Rightarrow> string" where
  "AttachmentMIME eg name body = (let x = to_lower (file_ext name) in
     if x = ''.png'' then ''image/png''
     else if x = ''.jpg'' \<or> x = ''.jpeg'' then ''image/jpeg''
     else if x = ''.gif'' then ''image/gif''
     else if x = ''.webp'' then ''image/webp''
     else if x = ''.pdf'' then ''application/pdf''
     else if x = ''.txt'' then ''text/plain''
     else if x = ''.md'' \<or> x = ''.markdown'' then ''text/markdown''
     else if x = ''.wav'' then ''audio/wav''
     else CanonicalMIME (eg_detect_mime eg body))"

definition GuestACPPart :: "string \<Rightarrow> (string \<times> string) option" where
  "GuestACPPart mime = (let c = CanonicalMIME mime in
     if c \<in> set [''image/png'', ''image/jpeg'', ''image/gif'', ''image/webp''] then Some (''image'', c)
     else if c \<in> set [''application/pdf'', ''text/plain'', ''text/markdown''] then Some (''resource'', c)
     else None)"

definition GuestContentPartBytes :: int where "GuestContentPartBytes = 8388608"
definition GuestContentAggregateBytes :: int where "GuestContentAggregateBytes = 16777216"
definition GuestContentMaxParts :: int where "GuestContentMaxParts = 32"
definition GuestContentPromptOverheadBytes :: int where "GuestContentPromptOverheadBytes = 4096"

lemmas guest_content_defs = GuestContentPartBytes_def GuestContentAggregateBytes_def
  GuestContentMaxParts_def GuestContentPromptOverheadBytes_def

fun validate_files :: "eng \<Rightarrow> int \<Rightarrow> prompt_file list \<Rightarrow> unit res" where
  "validate_files eg tot [] = Inr ()"
| "validate_files eg tot ((name, body) # rest) =
     bindE (AttachmentName name) (\<lambda>name.
       let n = int (length body) in
       if n = 0 then Inl (EText ''attachment empty'')
       else if GuestACPPart (AttachmentMIME eg name body) = None then Inl (EText ''unsupported'')
       else if GuestContentPartBytes < n then Inl (EText ''oversize'')
       else if GuestContentAggregateBytes < tot + n then Inl (EText ''oversize'')
       else validate_files eg (tot + n) rest)"

definition validatePromptFiles :: "eng \<Rightarrow> string \<Rightarrow> prompt_file list \<Rightarrow> unit res" where
  "validatePromptFiles eg prompt files =
     (let wrapped = int (length prompt) + GuestContentPromptOverheadBytes in
      if GuestContentPartBytes < wrapped then Inl (EText ''oversize'')
      else if GuestContentMaxParts - 1 < int (length files) then Inl (EText ''oversize'')
      else validate_files eg wrapped files)"

definition InsertPromptAttachmentsTx :: "eng \<Rightarrow> int \<Rightarrow> int \<Rightarrow> prompt_file list \<Rightarrow> db \<Rightarrow> db" where
  "InsertPromptAttachmentsTx eg sid seq files db =
     db\<lparr>attachs := attachs db @ map (\<lambda>(name, body). \<lparr>at_session = sid, at_seq = seq, at_rev = 0,
          at_name = name, at_digest = eg_body_sha eg body, at_mime = AttachmentMIME eg name body\<rparr>) files\<rparr>"

definition insert_file_receipt :: "eng \<Rightarrow> int \<Rightarrow> job \<Rightarrow> string \<times> prompt_file \<Rightarrow> db \<Rightarrow> db res" where
  "insert_file_receipt eg sid j = (\<lambda>(i, name, body).
     InsertActionTx \<lparr>a_id = i, a_session = Some sid, a_turn = Some (j_id j), a_review = None,
       a_repo = j_repo j, a_item = j_item j, a_type = ''prompt.attachment'', a_reason = ''recorded'',
       a_class = ''plane_observed'',
       a_limit = ''Prompt attachment name and digest; bytes stay off the transcript.'',
       a_body = JObj [(''name'', JStr name), (''digest'', JStr (eg_body_sha eg body)),
                      (''size'', JInt (int (length body))), (''mime'', JStr (AttachmentMIME eg name body))]\<rparr>)"

text \<open>Each receipt takes a fresh random id; the ids are an argument.\<close>

definition insertPromptFileReceiptsTx ::
  "eng \<Rightarrow> int \<Rightarrow> job \<Rightarrow> string list \<Rightarrow> prompt_file list \<Rightarrow> db \<Rightarrow> db res" where
  "insertPromptFileReceiptsTx eg sid j ids files db =
     for_each (insert_file_receipt eg sid j) (zip ids files) db"

section \<open>Prompts\<close>

definition enqueuePromptTx ::
  "eng \<Rightarrow> job \<Rightarrow> int \<Rightarrow> string \<Rightarrow> bool \<Rightarrow> string list \<Rightarrow> prompt_file list \<Rightarrow> db \<Rightarrow> (db \<times> job \<times> int) res" where
  "enqueuePromptTx eg j sid prompt queued ids files db =
     bindE (if j_state j \<noteq> Queued \<and> j_state j \<noteq> Leased then checkChildReactivationTx eg sid db else Inr ()) (\<lambda>_.
     bindE (enqueueFollowUpTx sid prompt queued db) (\<lambda>(db, seq).
     bindE (insertPromptFileReceiptsTx eg sid j ids files (InsertPromptAttachmentsTx eg sid seq files db)) (\<lambda>db.
     bindE (promoteFollowUpTx eg j sid db) (\<lambda>(db, j).
       let j = (if j_state j \<noteq> Leased then j\<lparr>j_state := Queued\<rparr> else j)
       in Inr (UpdateJobTx j db, j, seq)))))"

definition insertOperatorSteerTx :: "int \<Rightarrow> sess_row \<Rightarrow> job \<Rightarrow> string \<Rightarrow> string \<Rightarrow> db \<Rightarrow> db res" where
  "insertOperatorSteerTx i s j prompt delivery =
     InsertActionTx \<lparr>a_id = ''operator-steer-'' @ delivery @ ''-'' @ show_int (s_id s) @ ''-'' @ show_int i,
       a_session = Some (s_id s), a_turn = Some (j_id j), a_review = None, a_repo = s_repo s,
       a_item = s_item s, a_type = ''operator.steer'', a_reason = ''operator_input'',
       a_class = ''operator_input'',
       a_limit = ''Operator supplied this prompt; it does not approve pending permissions or bypass the tool fence.'',
       a_body = JObj [(''actor'', JStr ''operator''), (''delivery'', JStr delivery), (''prompt'', JStr prompt)]\<rparr>"

text \<open>What the three prompt operations check before their transaction: the session and its first turn.\<close>

definition prompt_target :: "int \<Rightarrow> db \<Rightarrow> (sess_row \<times> int) res" where
  "prompt_target sid db =
     bindE (GetSessionTx sid db) (\<lambda>s.
       if s_archived s then Inl EArchived
       else case listTurnsForSession sid db of [] \<Rightarrow> Inl (EText ''no turns'') | t # _ \<Rightarrow> Inr (s, t_id t))"

definition RetentionExpired :: "int \<Rightarrow> db \<Rightarrow> bool" where
  "RetentionExpired sid db = (case find (\<lambda>r. rt_session r = sid) (retention db) of
     None \<Rightarrow> False | Some r \<Rightarrow> rt_expired r)"

definition promptFollowUp ::
  "eng \<Rightarrow> int \<Rightarrow> string \<Rightarrow> string list \<Rightarrow> prompt_file list \<Rightarrow> db \<Rightarrow> db \<times> (int \<times> int) res" where
  "promptFollowUp eg sid prompt ids files db =
     (if prompt = [] then (db, Inl (EText ''prompt required''))
      else case bindE (validatePromptFiles eg prompt files) (\<lambda>_.
                bindE (GetSessionTx sid db) (\<lambda>s.
                  if s_archived s then Inl EArchived
                  else if RetentionExpired sid db then Inl ERetentionExpired
                  else prompt_target sid db)) of
        Inl e \<Rightarrow> (db, Inl e)
      | Inr (s, tid) \<Rightarrow> run_tx (\<lambda>db.
          if Paused (s_project s) db then Inl EPaused
          else bindE (GetJobByIDTx tid db) (\<lambda>j.
               bindE (enqueuePromptTx eg j sid prompt False ids files db) (\<lambda>(db, j, _).
                 Inr (db, (j_id j, j_pending j))))) db)"

definition promptQueued ::
  "eng \<Rightarrow> int \<Rightarrow> string \<Rightarrow> string list \<Rightarrow> prompt_file list \<Rightarrow> db \<Rightarrow> db \<times> (int \<times> int \<times> bool) res" where
  "promptQueued eg sid prompt ids files db =
     (if prompt = [] then (db, Inl (EText ''prompt required''))
      else case bindE (validatePromptFiles eg prompt files) (\<lambda>_. prompt_target sid db) of
        Inl e \<Rightarrow> (db, Inl e)
      | Inr (s, tid) \<Rightarrow> run_tx (\<lambda>db.
          if Paused (s_project s) db then Inl EPaused
          else bindE (GetJobByIDTx tid db) (\<lambda>j.
               bindE (enqueuePromptTx eg j sid prompt True ids files db) (\<lambda>(db, j, seq).
               let held = (case NextFollowUpTx sid db of None \<Rightarrow> False | Some f \<Rightarrow> f_seq f \<le> seq) in
               bindE (insertOperatorSteerTx seq s j prompt ''queued'' db) (\<lambda>db.
                 Inr (db, (j_id j, j_pending j, held)))))) db)"

definition DropQueuedPrompts :: "eng \<Rightarrow> int \<Rightarrow> db \<Rightarrow> db \<times> int res" where
  "DropQueuedPrompts eg sid db =
     (case listTurnsForSession sid db of
        [] \<Rightarrow> (db, Inl (EText ''no turns''))
      | t # _ \<Rightarrow> run_tx (\<lambda>db.
          let (db1, n) = DropQueuedPromptsTx sid db in
          if n = 0 then Inr (db1, n)
          else bindE (GetJobByIDTx (t_id t) db1) (\<lambda>j.
               bindE (promoteFollowUpTx eg j sid db1) (\<lambda>(db2, j').
                 if j_pending j' = j_pending j then Inr (db2, n)
                 else Inr (UpdateJobTx (if j_state j' \<noteq> Leased then j'\<lparr>j_state := Queued\<rparr> else j') db2, n)))) db)"

definition lease_live :: "time \<Rightarrow> job \<Rightarrow> bool" where
  "lease_live now j = (j_state j = Leased \<and> j_gen j > 0
     \<and> (case j_expires j of None \<Rightarrow> False | Some t \<Rightarrow> now < t)
     \<and> (case j_deadline j of None \<Rightarrow> False | Some t \<Rightarrow> now < t))"

definition PromptSteer :: "eng \<Rightarrow> int \<Rightarrow> string \<Rightarrow> db \<Rightarrow> db \<times> (int \<times> int \<times> bool) res" where
  "PromptSteer eg sid prompt db =
     (if prompt = [] then (db, Inl (EText ''prompt required''))
      else case prompt_target sid db of
        Inl e \<Rightarrow> (db, Inl e)
      | Inr (s, tid) \<Rightarrow> run_tx (\<lambda>db.
          if Paused (s_project s) db then Inl EPaused
          else bindE (GetJobByIDTx tid db) (\<lambda>j.
            if lease_live (eg_now eg) j then
              (let (db1, i) = EnqueueSteerTx sid (j_id j) (j_gen j) prompt db in
               bindE (insertOperatorSteerTx i s j prompt ''steer'' db1) (\<lambda>db2.
                 Inr (db2, (j_id j, j_pending j, True))))
            else
              bindE (enqueuePromptTx eg j sid prompt False [] [] db) (\<lambda>(db1, j', seq).
              bindE (insertOperatorSteerTx seq s j' prompt ''follow_up'' db1) (\<lambda>db2.
                Inr (db2, (j_id j', j_pending j', False)))))) db)"

end
