(* ===== verification/Lease.thy ===== *)
theory Lease
  imports Prompts
begin

text \<open>
  The life of a lease, \<^verbatim>\<open>engine/engine.go\<close>, \<^verbatim>\<open>engine/cancel.go\<close> and \<^verbatim>\<open>engine/halt.go\<close>: claim, claim
  replay, heartbeat, fail, expiry, cancel and halt. A handler that Go writes over \<^verbatim>\<open>*store.Job\<close> takes
  the job as a value; the row changes at \<open>UpdateJobTx\<close>.
\<close>

section \<open>Accepting a lease holder\<close>

definition lapsed :: "time \<Rightarrow> time option \<Rightarrow> bool" where
  "lapsed now at = (case at of None \<Rightarrow> False | Some t \<Rightarrow> t \<le> now)"

definition acceptLeaseIdentity :: "job \<Rightarrow> int \<Rightarrow> int \<Rightarrow> unit res" where
  "acceptLeaseIdentity j gen claimed =
     (if j_state j \<noteq> Leased \<or> j_gen j \<noteq> gen \<or> j_claimed j \<noteq> claimed then Inl EReject else Inr ())"

definition acceptLease :: "time \<Rightarrow> job \<Rightarrow> int \<Rightarrow> int \<Rightarrow> unit res" where
  "acceptLease now j gen claimed =
     bindE (acceptLeaseIdentity j gen claimed) (\<lambda>_.
       if lapsed now (j_expires j) then Inl EReject
       else if lapsed now (j_deadline j) then Inl EReject
       else Inr ())"

definition fail_receipt :: jval where
  "fail_receipt = JObj [(''kind'', JStr ''fail'')]"

definition touch_env :: "eng \<Rightarrow> int \<Rightarrow> db \<Rightarrow> db" where
  "touch_env eg sid db = TouchSessionEnvironmentTx sid (eg_now eg) (eg_now eg + envTTL eg) db"

section \<open>Failing a lease\<close>

definition failClosedTx :: "eng \<Rightarrow> job \<Rightarrow> int \<Rightarrow> int \<Rightarrow> bool \<Rightarrow> db \<Rightarrow> db res" where
  "failClosedTx eg j gen claimed bump db =
     bindE (case GetReceiptTx (j_id j) gen claimed db of
              Some (kind, _) \<Rightarrow> if kind \<noteq> ''fail'' then Inl EReject else Inr db
            | None \<Rightarrow> InsertReceiptTx (j_id j) gen claimed ''fail'' fail_receipt db) (\<lambda>db.
     bindE (PromoteSteersTx (j_id j) gen db) (\<lambda>(db, _).
     bindE (GetTurnTx (j_id j) db) (\<lambda>turn.
     let db = touch_env eg (t_session turn) db;
         j = (if bump then j\<lparr>j_gen := j_gen j + 1\<rparr> else j)
     in if j_claimed j < j_pending j then Inr (UpdateJobTx (j\<lparr>j_state := Queued\<rparr>) db)
        else bindE (applyNextFollowUpTx eg j db) (\<lambda>(db, j').
          if j_pending j < j_pending j' then Inr (UpdateJobTx (j'\<lparr>j_retry := 0, j_state := Queued\<rparr>) db)
          else finishMeasurementTx (j_id j') Failed zero_artifact (eg_now eg)
                 (UpdateJobTx (j'\<lparr>j_state := Failed\<rparr>) db)))))"

definition finalizeFailureTx :: "eng \<Rightarrow> job \<Rightarrow> int \<Rightarrow> int \<Rightarrow> db \<Rightarrow> db res" where
  "finalizeFailureTx eg j gen claimed db =
     bindE (GetTurnTx (j_id j) db) (\<lambda>turn.
     bindE (InsertReceiptTx (j_id j) gen claimed ''fail'' fail_receipt (touch_env eg (t_session turn) db)) (\<lambda>db.
     bindE (PromoteSteersTx (j_id j) gen db) (\<lambda>(db, steers).
       if j_claimed j < j_pending j then Inr (UpdateJobTx (j\<lparr>j_state := Queued\<rparr>) db)
       else
         let j = j\<lparr>j_retry := j_retry j + 1\<rparr> in
         if steers > 0 \<or> j_retry j \<ge> RetryLimit then
           bindE (applyNextFollowUpTx eg j db) (\<lambda>(db, j').
             if j_pending j < j_pending j' then Inr (UpdateJobTx (j'\<lparr>j_retry := 0, j_state := Queued\<rparr>) db)
             else finishMeasurementTx (j_id j') Failed zero_artifact (eg_now eg)
                    (UpdateJobTx (j'\<lparr>j_state := Failed\<rparr>) db))
         else Inr (UpdateJobTx (j\<lparr>j_state := Queued\<rparr>) db))))"

definition receipt_payload :: "int \<Rightarrow> int \<Rightarrow> int \<Rightarrow> db \<Rightarrow> jval" where
  "receipt_payload jid gen claimed db =
     (case GetReceiptTx jid gen claimed db of None \<Rightarrow> JNull | Some (_, p) \<Rightarrow> p)"

definition failTx :: "eng \<Rightarrow> int \<Rightarrow> int \<Rightarrow> int \<Rightarrow> db \<Rightarrow> (db \<times> jval) res" where
  "failTx eg jid gen claimed db =
     (case GetReceiptTx jid gen claimed db of
        Some (_, p) \<Rightarrow> Inr (db, p)
      | None \<Rightarrow>
          bindE (GetJobByIDTx jid db) (\<lambda>j.
          bindE (acceptLeaseIdentity j gen claimed) (\<lambda>_.
          bindE (if lapsed (eg_now eg) (j_deadline j) then failClosedTx eg j gen claimed False db
                 else if lapsed (eg_now eg) (j_expires j) then Inl EReject
                 else finalizeFailureTx eg j gen claimed db) (\<lambda>db.
            Inr (db, receipt_payload jid gen claimed db)))))"

definition Fail :: "eng \<Rightarrow> int \<Rightarrow> int \<Rightarrow> int \<Rightarrow> db \<Rightarrow> db \<times> jval res" where
  "Fail eg jid gen claimed = run_tx (failTx eg jid gen claimed)"

section \<open>Expiry\<close>

definition expireLeaseTx :: "eng \<Rightarrow> job \<Rightarrow> db \<Rightarrow> db res" where
  "expireLeaseTx eg j db =
     (let now = eg_now eg;
          expired = lapsed now (j_expires j);
          dead = lapsed now (j_deadline j)
      in if j_state j \<noteq> Leased then Inr db
         else if \<not> expired \<and> \<not> dead then Inr db
         else if dead then failClosedTx eg j (j_gen j) (j_claimed j) True db
         else
           bindE (PromoteSteersTx (j_id j) (j_gen j) db) (\<lambda>(db, steers).
           let current = (j_claimed j = j_pending j);
               j = j\<lparr>j_retry := (if current then j_retry j + 1 else j_retry j), j_gen := j_gen j + 1\<rparr>
           in bindE
             (if steers > 0 then
                (let j = j\<lparr>j_retry := 0, j_state := Queued\<rparr> in
                 if current then applyNextFollowUpTx eg j db else Inr (db, j))
              else if current \<and> j_retry j \<ge> RetryLimit then
                bindE (applyNextFollowUpTx eg j db) (\<lambda>(db, j).
                  Inr (db, if j_claimed j < j_pending j then j\<lparr>j_retry := 0, j_state := Queued\<rparr>
                           else j\<lparr>j_state := Failed\<rparr>))
              else Inr (db, j\<lparr>j_state := Queued\<rparr>)) (\<lambda>(db, j).
           bindE (if j_state j = Failed
                  then finishMeasurementTx (j_id j) Failed zero_artifact now (UpdateJobTx j db)
                  else Inr (UpdateJobTx j db)) (\<lambda>db.
           bindE (GetTurnTx (j_id j) db) (\<lambda>turn.
             Inr (touch_env eg (t_session turn) db))))))"

definition expireDueLeasesTx :: "eng \<Rightarrow> string \<Rightarrow> string \<Rightarrow> db \<Rightarrow> db res" where
  "expireDueLeasesTx eg repo lane db =
     for_each (expireLeaseTx eg) (ListDueLeasedJobsTx (eg_now eg) repo lane db) db"

definition ExpireOverdueLeases :: "eng \<Rightarrow> db \<Rightarrow> db \<times> unit res" where
  "ExpireOverdueLeases eg = run_tx (\<lambda>db. bindE (expireDueLeasesTx eg [] [] db) (\<lambda>db. Inr (db, ())))"

section \<open>Heartbeat\<close>

definition receive_steers :: "int \<Rightarrow> int \<Rightarrow> int list \<Rightarrow> db \<Rightarrow> db res" where
  "receive_steers tid gen ids db =
     for_each (\<lambda>i db. case ReceiveSteerTx tid gen i db of Inl _ \<Rightarrow> Inl EReject | Inr db \<Rightarrow> Inr db) ids db"

definition heartbeatTx :: "eng \<Rightarrow> int \<Rightarrow> int \<Rightarrow> int \<Rightarrow> int list \<Rightarrow> db \<Rightarrow> (db \<times> (int \<times> string) option) res" where
  "heartbeatTx eg jid gen claimed received db =
     bindE (GetJobByIDTx jid db) (\<lambda>j.
     bindE (acceptLease (eg_now eg) j gen claimed) (\<lambda>_.
     bindE (receive_steers (j_id j) gen received db) (\<lambda>db.
     let db = UpdateJobTx (j\<lparr>j_expires := Some (eg_now eg + Liveness)\<rparr>) db;
         db = RenewTurnCredentialTx jid gen (eg_now eg + GrantTTL) db;
         db = RenewGrantTx jid (eg_now eg + GrantTTL) db
     in bindE (GetTurnTx jid db) (\<lambda>turn.
        let (db, steer) = NextSteerTx (t_id turn) gen db
        in Inr (db, map_option (\<lambda>s. (st_id s, st_prompt s)) steer)))))"

definition HeartbeatSteerReceived ::
  "eng \<Rightarrow> int \<Rightarrow> int \<Rightarrow> int \<Rightarrow> int list \<Rightarrow> db \<Rightarrow> db \<times> (int \<times> string) option res" where
  "HeartbeatSteerReceived eg jid gen claimed received = run_tx (heartbeatTx eg jid gen claimed received)"

section \<open>Cancel and halt\<close>

definition cancelTurnTx :: "eng \<Rightarrow> int \<Rightarrow> db \<Rightarrow> db res" where
  "cancelTurnTx eg tid db =
     bindE (GetJobByIDTx tid db) (\<lambda>j.
       if j_state j = Queued then
         finishMeasurementTx (j_id j) Failed zero_artifact (eg_now eg) (UpdateJobTx (j\<lparr>j_state := Failed\<rparr>) db)
       else if j_state j \<noteq> Leased then Inr db
       else
         bindE (InsertReceiptTx (j_id j) (j_gen j) (j_claimed j) ''cancelled''
                  (JObj [(''kind'', JStr ''cancelled'')]) db) (\<lambda>db.
         bindE (PromoteSteersTx (j_id j) (j_gen j) db) (\<lambda>(db, steers).
         bindE (if j_claimed j < j_pending j then Inr (db, j\<lparr>j_state := Queued\<rparr>)
                else if steers > 0 then applyNextFollowUpTx eg (j\<lparr>j_state := Queued, j_retry := 0\<rparr>) db
                else Inr (db, j\<lparr>j_state := Failed\<rparr>)) (\<lambda>(db, j).
         bindE (if j_state j = Failed
                then finishMeasurementTx (j_id j) Failed zero_artifact (eg_now eg) (UpdateJobTx j db)
                else Inr (UpdateJobTx j db)) (\<lambda>db.
         bindE (GetTurnTx (j_id j) db) (\<lambda>turn.
           Inr (touch_env eg (t_session turn) db)))))))"

text \<open>The transaction of \<^verbatim>\<open>cancelOneSession\<close>; the guest process is stopped after it.\<close>

definition cancelSessionTx :: "eng \<Rightarrow> int \<Rightarrow> db \<Rightarrow> (db \<times> unit) res" where
  "cancelSessionTx eg sid db =
     bindE (for_each (\<lambda>t. cancelTurnTx eg (t_id t)) (listTurnsForSession sid db)
              (fst (DropQueuedPromptsTx sid db))) (\<lambda>db. Inr (db, ()))"

definition haltLeasedTurnTx :: "eng \<Rightarrow> int \<Rightarrow> db \<Rightarrow> db res" where
  "haltLeasedTurnTx eg tid db =
     bindE (GetJobByIDTx tid db) (\<lambda>j.
       if j_state j \<noteq> Leased then Inr db
       else
         bindE (InsertReceiptTx (j_id j) (j_gen j) (j_claimed j) ''cancelled''
                  (JObj [(''kind'', JStr ''halted'')]) db) (\<lambda>db.
         bindE (PromoteSteersTx (j_id j) (j_gen j) db) (\<lambda>(db, steers).
         let j = j\<lparr>j_gen := j_gen j + 1, j_state := Queued\<rparr> in
         bindE (if steers > 0 then
                  (let j = j\<lparr>j_retry := 0\<rparr> in
                   if j_claimed j = j_pending j then applyNextFollowUpTx eg j db else Inr (db, j))
                else Inr (db, j)) (\<lambda>(db, j).
         bindE (GetTurnTx (j_id j) (UpdateJobTx j db)) (\<lambda>turn.
           Inr (touch_env eg (t_session turn) (UpdateJobTx j db)))))))"

record live_turn =
  lt_turn :: int
  lt_session :: int
  lt_repo :: string
  lt_project :: string
  lt_lane :: string

definition halt_turn :: "eng \<Rightarrow> sess_row \<Rightarrow> turn_row \<Rightarrow> db \<times> live_turn list \<Rightarrow> (db \<times> live_turn list) res" where
  "halt_turn eg s t = (\<lambda>(db, stopped).
     if t_state t \<noteq> Leased then Inr (db, stopped)
     else bindE (haltLeasedTurnTx eg (t_id t) db) (\<lambda>db.
       Inr (db, stopped @ [\<lparr>lt_turn = t_id t, lt_session = s_id s, lt_repo = s_repo s,
              lt_project = s_project s, lt_lane = t_lane t\<rparr>])))"

definition halt_session :: "eng \<Rightarrow> int \<Rightarrow> db \<times> live_turn list \<Rightarrow> (db \<times> live_turn list) res" where
  "halt_session eg sid = (\<lambda>(db, stopped).
     bindE (GetSessionTx sid db) (\<lambda>s.
       for_each (halt_turn eg s) (listTurnsForSession sid db) (db, stopped)))"

text \<open>The transaction of \<^verbatim>\<open>applyHalt\<close>: the halt is recorded and every leased turn it covers is fenced in
  one commit.\<close>

definition haltTx :: "eng \<Rightarrow> string \<Rightarrow> string \<Rightarrow> halt_record \<Rightarrow> db \<Rightarrow> (db \<times> live_turn list) res" where
  "haltTx eg scope target rec db =
     (let scope = NormalizeHaltScope scope; target = trim_space target in
      if scope = [] \<or> target = [] then Inl (EText ''halt target'')
      else
        (let repos = (if scope = HaltScopeProject
               then (case Project (eg_policy eg) target of None \<Rightarrow> [] | Some p \<Rightarrow> pr_repos p) else [])
         in bindE (SetHaltTx scope target rec db) (\<lambda>db.
            bindE (ListOpenSessionIDsForHaltTx scope target repos db) (\<lambda>ids.
              for_each (halt_session eg) ids (db, [])))))"

definition applyHalt :: "eng \<Rightarrow> string \<Rightarrow> string \<Rightarrow> halt_record \<Rightarrow> db \<Rightarrow> db \<times> live_turn list res" where
  "applyHalt eg scope target rec = run_tx (haltTx eg scope target rec)"

definition ResumeHalt :: "string \<Rightarrow> string \<Rightarrow> halt_record \<Rightarrow> db \<Rightarrow> db \<times> unit res" where
  "ResumeHalt scope target rec =
     run_tx (\<lambda>db. bindE (ClearHaltTx (NormalizeHaltScope scope) (trim_space target)
       (if hr_source rec = [] then rec\<lparr>hr_source := ''operator''\<rparr> else rec) db) (\<lambda>db. Inr (db, ())))"

definition SetPause :: "eng \<Rightarrow> string \<Rightarrow> bool \<Rightarrow> db \<Rightarrow> db \<times> unit res" where
  "SetPause eg project on db =
     (if project \<noteq> [] \<and> Project (eg_policy eg) project = None
      then (db, Inl (EText ''unknown project''))
      else run_tx (\<lambda>db. Inr (OverlaySet (if project \<noteq> [] then ''pause:'' @ project else ''pause:global'')
                               (if on then ''1'' else ''0'') db, ())) db)"

definition OperatorRetry :: "eng \<Rightarrow> string \<Rightarrow> int \<Rightarrow> string \<Rightarrow> db \<Rightarrow> db \<times> unit res" where
  "OperatorRetry eg repo item actor =
     run_tx (\<lambda>db. case GetJobTx repo item ''review'' db of
         None \<Rightarrow> Inl (EText ''no review job'')
       | Some j \<Rightarrow>
           if j_state j \<noteq> Failed then Inl (EText ''not failed'')
           else Inr (UpdateJobTx (j\<lparr>j_retry := 0, j_state := Queued\<rparr>)
                  (db\<lparr>retries := retries db @ [\<lparr>ra_job = j_id j, ra_actor = actor, ra_time = eg_now eg,
                        ra_pending = j_pending j, ra_retry = j_retry j\<rparr>]\<rparr>), ()))"

section \<open>Claim\<close>

record claim =
  cl_job :: job
  cl_snapshot :: item
  cl_hash :: string
  cl_day :: string

definition claimSelectRepos :: "string \<Rightarrow> project \<Rightarrow> string list" where
  "claimSelectRepos repo p =
     (if IsProjectKey repo then [repo]
      else if ProjectKey (pr_slug p) = repo then [repo]
      else [repo, ProjectKey (pr_slug p)])"

definition claimScope :: "eng \<Rightarrow> string \<Rightarrow> bool \<Rightarrow> db \<Rightarrow> (project \<times> repo option) res" where
  "claimScope eg repo paused db =
     (case ParseProjectKey repo of
        Some slug \<Rightarrow>
          if paused then Inl EPaused
          else (case Project (eg_policy eg) slug of
             None \<Rightarrow> Inl EPolicy
           | Some p \<Rightarrow> if pr_repos p \<noteq> [] \<and> \<not> HasOpenRepoSessionsTx repo db then Inl EPolicy
                        else Inr (p, None))
      | None \<Rightarrow>
          (let access = ReviewAccess (eg_policy eg) repo paused in
           if rd_reason access = ReviewReasonPaused then Inl EPaused
           else if rd_reason access = ReviewReasonInvalidRepo \<or> rd_reason access = ReviewReasonUnboundRepo
                   \<or> rd_reason access = ReviewReasonMissingProject then Inl EPolicy
           else case Repo (eg_policy eg) repo of
             None \<Rightarrow> Inl EPolicy
           | Some r \<Rightarrow> (case Project (eg_policy eg) (rp_project r) of
                None \<Rightarrow> Inl EPolicy
              | Some p \<Rightarrow> Inr (p, Some r))))"

text \<open>The lanes a claim may take, and whether the review lane is closed by today's budget.\<close>

definition claim_lanes :: "eng \<Rightarrow> string \<Rightarrow> project \<Rightarrow> repo option \<Rightarrow> db \<Rightarrow> string list \<times> bool" where
  "claim_lanes eg repo p rp db =
     (let review = (case rp of None \<Rightarrow> None
            | Some r \<Rightarrow> if rp_review r
                then Some (DecideReview (eg_policy eg) repo False
                             (CountReviewsToday repo (utc_day (eg_now eg)) db))
                else None);
          budget_out = (case review of None \<Rightarrow> False
            | Some d \<Rightarrow> \<not> rd_allowed d \<and> rd_reason d = ReviewReasonDailyBudget);
          lanes = (case review of None \<Rightarrow> [] | Some d \<Rightarrow> if rd_allowed d then [''review''] else [])
      in (lanes @ filter (AllowsKind p) [KindRun, KindScheduled], budget_out))"

text \<open>The candidate query: queued turns of the claim's repositories and lanes in live sessions of the
  project's tenant, runs first, then by id. \<open>sort_key\<close> is stable and the turns are in id order.\<close>

definition claim_candidate :: "string list \<Rightarrow> string list \<Rightarrow> string \<Rightarrow> turn_row \<Rightarrow> sess_row \<Rightarrow> bool" where
  "claim_candidate keys lanes tenant t s =
     (s_repo s \<in> set keys \<and> \<not> s_archived s \<and> t_state t = Queued \<and> t_lane t \<in> set lanes
      \<and> s_tenant s = tenant)"

definition claim_candidates :: "string list \<Rightarrow> string list \<Rightarrow> string \<Rightarrow> db \<Rightarrow> (turn_row \<times> sess_row) list" where
  "claim_candidates keys lanes tenant db =
     sort_key (\<lambda>(t, s). (if t_lane t = KindRun then 0 else 1 :: int, t_id t))
       (filter (\<lambda>(t, s). claim_candidate keys lanes tenant t s)
         (List.map_filter (\<lambda>t. map_option (Pair t) (turn_session t db)) (turns db)))"

definition claim_eligible :: "eng \<Rightarrow> project \<Rightarrow> turn_row \<times> sess_row \<Rightarrow> db \<Rightarrow> bool res" where
  "claim_eligible eg p ts db = (let (t, s) = ts in
     if s_env s \<in> set (eg_busy eg) then Inr False
     else if Halted (s_tenant s) (if s_project s = [] then pr_slug p else s_project s) (s_act s) db then Inr False
     else case chooseGuest eg (pr_slug p) (s_guest_name s) of
       Inl e \<Rightarrow> if e = EGuestNotAllowed then Inr False else Inl e
     | Inr _ \<Rightarrow>
         bindE (CountTreeLeasedTurnsTx (s_id s) db) (\<lambda>(n, root_project).
           if root_project = [] then Inr True
           else case Project (eg_policy eg) root_project of
             None \<Rightarrow> Inr False
           | Some root \<Rightarrow> Inr (n < MaxConcurrentLeases root)))"

fun first_eligible :: "eng \<Rightarrow> project \<Rightarrow> (turn_row \<times> sess_row) list \<Rightarrow> db \<Rightarrow> (turn_row option) res" where
  "first_eligible eg p [] db = Inr None"
| "first_eligible eg p (ts # rest) db =
     bindE (claim_eligible eg p ts db) (\<lambda>ok. if ok then Inr (Some (fst ts)) else first_eligible eg p rest db)"

definition replayClaimTx :: "eng \<Rightarrow> string \<Rightarrow> db \<Rightarrow> (claim option) res" where
  "replayClaimTx eg token db =
     (let i = LeasedTurnByClaimTokenTx token db in
      if i = 0 then Inr None
      else bindE (GetJobByIDTx i db) (\<lambda>j.
        if j_state j \<noteq> Leased \<or> lapsed (eg_now eg) (j_expires j) \<or> lapsed (eg_now eg) (j_deadline j)
        then Inr None
        else bindE (LoadSnapshotTx (j_repo j) (j_item j) (j_claimed j) db) (\<lambda>snap.
          Inr (Some \<lparr>cl_job = j, cl_snapshot = snap, cl_hash = ItemHash (eg_item_sha eg) snap, cl_day = []\<rparr>))))"

definition expire_lanes :: "eng \<Rightarrow> string \<Rightarrow> db \<Rightarrow> db res" where
  "expire_lanes eg key db =
     bindE (expireDueLeasesTx eg key ''review'' db) (\<lambda>db.
     bindE (expireDueLeasesTx eg key ''run'' db) (\<lambda>db.
       expireDueLeasesTx eg key ''scheduled'' db))"

text \<open>Leasing the selected turn.\<close>

definition leaseTurnTx :: "eng \<Rightarrow> string \<Rightarrow> string \<Rightarrow> project \<Rightarrow> job \<Rightarrow> db \<Rightarrow> (db \<times> claim) res" where
  "leaseTurnTx eg repo token p j db =
     bindE (GetTurnTx (j_id j) db) (\<lambda>turn.
     bindE (bindSessionGuestTx eg (t_session turn) (pr_slug p) [] db) (\<lambda>(db, _, _).
     bindE (checkRequestedSecrets eg p) (\<lambda>_.
     let now = eg_now eg;
         dead = (if j_lane j = KindRun then now + RunExecDeadline else now + execDeadline eg)
     in bindE (BeginMeasurementTx (j_id j) now db) (\<lambda>db.
        let j = j\<lparr>j_gen := j_gen j + 1, j_claimed := j_pending j, j_state := Leased,
                  j_expires := Some (now + Liveness), j_deadline := Some dead\<rparr>;
            db = SetTurnClaimTokenTx (j_id j) token (UpdateJobTx j db);
            day = (if j_lane j = ''review'' then utc_day now else []);
            db = (if j_lane j = ''review'' then IncrReviewsToday repo day db else db)
        in bindE (LoadSnapshotTx (j_repo j) (j_item j) (j_claimed j) db) (\<lambda>snap.
           Inr (db, \<lparr>cl_job = j, cl_snapshot = snap, cl_hash = ItemHash (eg_item_sha eg) snap,
                     cl_day = day\<rparr>))))))"

text \<open>The transaction of \<^verbatim>\<open>ClaimToken\<close>. The boolean of the result is \<^verbatim>\<open>replayed\<close>.\<close>

definition claimTx :: "eng \<Rightarrow> string \<Rightarrow> string \<Rightarrow> db \<Rightarrow> (db \<times> (claim \<times> bool) option) res" where
  "claimTx eg repo token db =
     bindE (replayClaimTx eg token db) (\<lambda>replay. case replay of
       Some c \<Rightarrow> Inr (db, Some (c, True))
     | None \<Rightarrow>
     bindE (claimScope eg repo (repoPaused eg repo db) db) (\<lambda>(p, rp).
     let (lanes, budget_out) = claim_lanes eg repo p rp db in
     if lanes = [] then Inl (if budget_out then EBudget else EPolicy)
     else
     let keys = claimSelectRepos repo p in
     bindE (for_each (expire_lanes eg) keys db) (\<lambda>db.
     let queued = claim_candidates keys lanes (sessionTenant p) db in
     bindE (first_eligible eg p queued db) (\<lambda>pick. case pick of
       None \<Rightarrow> if budget_out \<and> queued = [] then Inl EBudget else Inr (db, None)
     | Some t \<Rightarrow>
         bindE (GetJobByIDTx (t_id t) db) (\<lambda>j.
           if countLeasedTurns (pr_slug p) (pr_repos p) db \<ge> MaxConcurrentLeases p then Inr (db, None)
           else bindE (leaseTurnTx eg repo token p j db) (\<lambda>(db, c). Inr (db, Some (c, False))))))))"

definition requeueBusyTx :: "claim \<Rightarrow> db \<Rightarrow> (db \<times> unit) res" where
  "requeueBusyTx c db =
     bindE (GetJobByIDTx (j_id (cl_job c)) db) (\<lambda>j.
       if j_state j \<noteq> Leased \<or> j_gen j \<noteq> j_gen (cl_job c) \<or> j_claimed j \<noteq> j_claimed (cl_job c)
       then Inl EReject
       else bindE (if cl_day c \<noteq> [] then DecrReviewsToday (j_repo j) (cl_day c) db else Inr db) (\<lambda>db.
         Inr (UpdateJobTx (j\<lparr>j_state := Queued, j_expires := None, j_deadline := None\<rparr>) db, ())))"

definition requeueBusyEnvironmentClaim :: "claim \<Rightarrow> db \<Rightarrow> db \<times> unit res" where
  "requeueBusyEnvironmentClaim c = run_tx (requeueBusyTx c)"

end
