(* ===== verification/Apply.thy ===== *)
theory Apply
  imports Lease
begin

text \<open>
  Applying a review's proposed actions, \<^verbatim>\<open>engine/engine.go\<close> and \<^verbatim>\<open>engine/apply_comment.go\<close>: which
  actions are eligible under policy, what evidence the server itself verifies, the dry-run or live
  comment record, and the publication of pending comments.
\<close>

section \<open>Public comment text\<close>

definition is_word :: "char \<Rightarrow> bool" where
  "is_word c = (let n = (of_char c :: nat) in
     (48 \<le> n \<and> n \<le> 57) \<or> (65 \<le> n \<and> n \<le> 90) \<or> n = 95 \<or> (97 \<le> n \<and> n \<le> 122))"

definition token_prefixes :: "string list" where
  "token_prefixes = [''ghp_'', ''gho_'', ''ghu_'', ''ghs_'', ''ghr_'', ''github_pat_'']"

text \<open>The length of the token that \<^verbatim>\<open>(ghp|...|github_pat)_[A-Za-z0-9_]+\b\<close> matches at the start of a
  text, case-insensitively. The greedy run of word characters ends at a word boundary.\<close>

definition token_here :: "string \<Rightarrow> nat option" where
  "token_here s = (case find (\<lambda>p. has_prefix (to_lower s) p) token_prefixes of
     None \<Rightarrow> None
   | Some p \<Rightarrow>
       let body = takeWhile is_word (drop (length p) s)
       in if body = [] then None else Some (length p + length body))"

text \<open>\<^verbatim>\<open>ReplaceAllString\<close>, left to right. The flag says whether the character before is a word
  character: the leading \<^verbatim>\<open>\b\<close> needs it not to be. The fuel is the length of the text.\<close>

fun redact_from :: "nat \<Rightarrow> bool \<Rightarrow> string \<Rightarrow> string" where
  "redact_from 0 w s = s"
| "redact_from (Suc n) w [] = []"
| "redact_from (Suc n) w (c # s) =
     (case (if w then None else token_here (c # s)) of
        Some k \<Rightarrow> ''[redacted]'' @ redact_from n True (drop k (c # s))
      | None \<Rightarrow> c # redact_from n (is_word c) s)"

definition redactSecrets :: "string \<Rightarrow> string" where
  "redactSecrets s = redact_from (length s) False s"

definition upper_char :: "char \<Rightarrow> char" where
  "upper_char c = (if 97 \<le> (of_char c :: nat) \<and> (of_char c :: nat) \<le> 122
     then char_of (of_char c - 32 :: nat) else c)"

definition privateLeak :: "string \<Rightarrow> bool" where
  "privateLeak s = (let u = map upper_char s in contains u ''BEGIN '' \<and> contains u ''PRIVATE KEY'')"

definition ActionMarker :: "string \<Rightarrow> string" where
  "ActionMarker i = ''<!-- rusui-action:'' @ i @ '' -->''"

definition liveCommentBlocked :: "item \<Rightarrow> bool" where
  "liveCommentBlocked it =
     (it_draft it \<or> it_state it \<noteq> ''open'' \<or> LabelHold \<in> set (it_labels it) \<or> LabelSecurity \<in> set (it_labels it))"

definition publicCommentBody ::
  "proposed_action \<Rightarrow> string \<Rightarrow> string \<Rightarrow> string \<Rightarrow> (string \<times> jval) list \<Rightarrow> string option" where
  "publicCommentBody a i cls sentence publishable =
     (let given = (case map_of publishable ''comment'' of Some (JStr s) \<Rightarrow> trim_space s | _ \<Rightarrow> []);
          text = (if given = [] then ''rusui '' @ pa_reason a @ '' (evidence_class='' @ cls @ ''). '' @ sentence
                  else given);
          text = redactSecrets text
      in if privateLeak text then None
         else if trim_space text = [] then None
         else Some (text @ [CHR 0x0A, CHR 0x0A] @ ActionMarker i))"

section \<open>Eligibility and evidence\<close>

definition eligible :: "string \<Rightarrow> proposed_action \<Rightarrow> repo \<Rightarrow> bool" where
  "eligible verdict a pol =
     (if verdict = ''propose_close'' \<and> pa_type a = ''close'' then
        rp_close pol \<and> pa_reason a \<in> set [''implemented_on_main'', ''duplicate_or_superseded'', ''stale_insufficient_info'']
      else verdict = ''propose_comment'' \<and> pa_type a = ''comment'' \<and> (rp_comments pol \<or> rp_comment pol))"

text \<open>\<^verbatim>\<open>verifyEvidence\<close>; \<open>None\<close> is a GitHub error.\<close>

definition verifyEvidence ::
  "eng \<Rightarrow> string \<Rightarrow> item \<Rightarrow> proposed_action \<Rightarrow> (bool \<times> string \<times> string) option" where
  "verifyEvidence eg repo snap a =
     (if pa_reason a = ''implemented_on_main'' then
        (let sent = ''implemented_on_main: server verified the cited PR/commit is on default branch; not that it solves the reported problem'' in
         if it_base_ref snap \<noteq> [] \<and> it_base_ref snap \<noteq> it_default_branch snap \<and> \<not> it_merged_default snap
         then Some (False, ''server_verified'', sent)
         else case eg_ancestor eg repo (if pa_commit a = [] then it_merge_commit snap else pa_commit a) (it_main snap) of
           None \<Rightarrow> None
         | Some ok \<Rightarrow> Some (ok, ''server_verified'', sent))
      else if pa_reason a = ''duplicate_or_superseded'' then
        (let sent = ''duplicate_or_superseded: server verified the canonical same-repo item exists; not that the reports are duplicates'' in
         if pa_canonical a = 0 then Some (False, ''model_assertion'', sent)
         else case eg_exists eg repo (pa_canonical a) of
           None \<Rightarrow> None
         | Some ok \<Rightarrow> Some (ok, ''server_verified'', if ok then sent else []))
      else if pa_reason a = ''stale_insufficient_info'' then
        (let created = eg_parse_time eg (it_created snap);
             lst = (if it_last_comment snap \<noteq> [] then eg_parse_time eg (it_last_comment snap) else created);
             old = (StaleAge \<le> eg_now eg - created \<and> StaleAge \<le> eg_now eg - lst)
         in Some (old, ''server_verified'', ''stale_insufficient_info: server verified the 60/60 day thresholds''))
      else if pa_reason a = ''not_reproducible_on_main'' \<or> pa_reason a = ''incoherent''
      then Some (False, ''model_assertion'', ''advisory; not eligible to apply'')
      else if pa_type a = ''comment''
      then Some (True, ''model_assertion'', ''model_assertion / advisory reasons: not eligible to apply'')
      else Some (False, ''model_assertion'', []))"

section \<open>The apply transaction\<close>

definition actionHash :: "eng \<Rightarrow> string \<Rightarrow> int \<Rightarrow> string \<Rightarrow> int \<Rightarrow> string \<Rightarrow> string" where
  "actionHash eg repo item typ rid target = eg_action_sha eg
     (repo @ ''|'' @ show_int item @ ''|'' @ typ @ ''|'' @ show_int rid @ ''|'' @ target)"

definition set_apply :: "string \<Rightarrow> string \<Rightarrow> db \<Rightarrow> db" where
  "set_apply i st db =
     db\<lparr>applies := sql_update (\<lambda>a. ap_action a = i) (\<lambda>a. a\<lparr>ap_state := st\<rparr>) (applies db)\<rparr>"

definition plan_apply :: "string \<Rightarrow> int \<Rightarrow> string \<Rightarrow> int \<Rightarrow> db \<Rightarrow> db" where
  "plan_apply i rid repo item db =
     (if i \<in> ap_action ` set (applies db) then db
      else db\<lparr>applies := applies db @ [\<lparr>ap_action = i, ap_review = rid, ap_repo = repo, ap_item = item,
             ap_state = ''planned'', ap_comment = 0\<rparr>]\<rparr>)"

definition runApplyTx ::
  "eng \<Rightarrow> job \<Rightarrow> item \<Rightarrow> int \<Rightarrow> artifact \<Rightarrow> proposed_action \<Rightarrow> string \<Rightarrow> string \<Rightarrow> string \<Rightarrow> db \<Rightarrow> db res" where
  "runApplyTx eg j snap rid art a i cls sentence db =
     (let st = map_option ap_state (find (\<lambda>r. ap_action r = i) (applies db)) in
      if st = Some ''succeeded'' \<or> st = Some ''cancelled'' \<or> st = Some ''failed'' then Inr db
      else if repoPaused eg (j_repo j) db then Inr (set_apply i ''cancelled'' db)
      else
      let db = set_apply i ''in_flight'' db in
      case Repo (eg_policy eg) (j_repo j) of
        None \<Rightarrow> Inr (set_apply i ''cancelled'' db)
      | Some pol \<Rightarrow>
      if (pa_type a = ''close'' \<and> \<not> rp_close pol) \<or> (pa_type a = ''comment'' \<and> \<not> rp_comments pol \<and> \<not> rp_comment pol)
      then Inr (set_apply i ''cancelled'' db)
      else if j_claimed j \<noteq> j_pending j then Inr (set_apply i ''cancelled'' db)
      else bindE (LoadSnapshotTx (j_repo j) (j_item j) (j_pending j) db) (\<lambda>pend.
      if ItemHash (eg_item_sha eg) pend \<noteq> ItemHash (eg_item_sha eg) snap then Inr (set_apply i ''cancelled'' db)
      else
      let live = (pa_type a = ''comment'' \<and> rp_comment pol);
          dry = ''dry-run '' @ pa_type a @ '' '' @ pa_reason a @ '' evidence_class='' @ cls @ ''. '' @ sentence;
          body = (if live then publicCommentBody a i cls sentence (af_publishable art) else Some dry)
      in if live \<and> (\<not> eg_comments eg \<or> liveCommentBlocked snap) then Inr (set_apply i ''cancelled'' db)
      else case body of
        None \<Rightarrow> Inr (set_apply i ''cancelled'' db)
      | Some text \<Rightarrow>
          let db = insert_action_ignore \<lparr>a_id = i,
                a_session = map_option s_id (review_session (j_repo j) (j_item j) db),
                a_turn = Some (j_id j), a_review = Some rid, a_repo = j_repo j, a_item = j_item j,
                a_type = pa_type a, a_reason = pa_reason a, a_class = cls, a_limit = sentence,
                a_body = JStr text\<rparr> db
          in Inr (if live then db else set_apply i ''succeeded'' db)))"

fun enqueue_first :: "eng \<Rightarrow> job \<Rightarrow> item \<Rightarrow> int \<Rightarrow> artifact \<Rightarrow> repo \<Rightarrow> proposed_action list \<Rightarrow> db \<Rightarrow> db res" where
  "enqueue_first eg j snap rid art pol [] db = Inr db"
| "enqueue_first eg j snap rid art pol (a # as) db =
     (if \<not> eligible (af_verdict art) a pol then enqueue_first eg j snap rid art pol as db
      else case verifyEvidence eg (j_repo j) snap a of
        Some (True, cls, sentence) \<Rightarrow>
          (let i = actionHash eg (j_repo j) (j_item j) (pa_type a) rid (pa_reason a) in
           runApplyTx eg j snap rid art a i cls sentence (plan_apply i rid (j_repo j) (j_item j) db))
      | _ \<Rightarrow> enqueue_first eg j snap rid art pol as db)"

definition maybeEnqueueApplyTx :: "eng \<Rightarrow> job \<Rightarrow> item \<Rightarrow> int \<Rightarrow> artifact \<Rightarrow> db \<Rightarrow> db res" where
  "maybeEnqueueApplyTx eg j snap rid art db =
     (if repoPaused eg (j_repo j) db then Inr db
      else case Repo (eg_policy eg) (j_repo j) of
        None \<Rightarrow> Inr db
      | Some pol \<Rightarrow> enqueue_first eg j snap rid art pol (af_actions art) db)"

section \<open>Publishing pending comments\<close>

definition pending_comments :: "string \<Rightarrow> int \<Rightarrow> db \<Rightarrow> (apply_row \<times> action_row) list" where
  "pending_comments repo item db =
     concat (map (\<lambda>aa. if ap_repo aa = repo \<and> ap_item aa = item
                          \<and> (ap_state aa = ''in_flight'' \<or> ap_state aa = ''uncertain'')
        then map (Pair aa) (filter (\<lambda>a. a_id a = ap_action aa \<and> a_type a = ''comment'') (actions db))
        else []) (applies db))"

definition settle_comment :: "string \<Rightarrow> comment_outcome \<Rightarrow> db \<Rightarrow> db" where
  "settle_comment i out db =
     db\<lparr>applies := sql_update (\<lambda>a. ap_action a = i \<and> (ap_state a = ''in_flight'' \<or> ap_state a = ''uncertain''))
        (\<lambda>a. case out of
           Posted n \<Rightarrow> a\<lparr>ap_state := ''succeeded'', ap_comment := n\<rparr>
         | CommentUncertain \<Rightarrow> a\<lparr>ap_state := ''uncertain''\<rparr>
         | CommentDenied \<Rightarrow> a\<lparr>ap_state := ''cancelled''\<rparr>
         | CommentFailed \<Rightarrow> a\<lparr>ap_state := ''failed''\<rparr>) (applies db)\<rparr>"

definition publish_one :: "eng \<Rightarrow> string \<Rightarrow> int \<Rightarrow> apply_row \<times> action_row \<Rightarrow> comment_outcome" where
  "publish_one eg repo item p = eg_post eg repo item (ap_action (fst p)) (a_body (snd p)) (ap_comment (fst p))"

text \<open>The first publication error is reported after every pending comment has been tried.\<close>

definition publishPendingComments :: "eng \<Rightarrow> string \<Rightarrow> int \<Rightarrow> db \<Rightarrow> db \<times> unit res" where
  "publishPendingComments eg repo item db =
     (if \<not> eg_comments eg then (db, Inr ())
      else let ps = pending_comments repo item db in
        (fold (\<lambda>p. settle_comment (ap_action (fst p)) (publish_one eg repo item p)) ps db,
         if list_all (\<lambda>p. case publish_one eg repo item p of Posted _ \<Rightarrow> True | _ \<Rightarrow> False) ps then Inr ()
         else Inl (EText ''comment'')))"

definition ApplyAttempt :: "eng \<Rightarrow> string \<Rightarrow> int \<Rightarrow> db \<Rightarrow> db \<times> unit res" where
  "ApplyAttempt eg repo item db =
     (case GetJobTx repo item ''review'' db of
        None \<Rightarrow> (db, Inl (EText ''unexpected end of JSON input''))
      | Some j \<Rightarrow>
     (case least_by (\<lambda>r. - rv_id r) (filter (\<lambda>r. rv_job r = j_id j) (reviews db)) of
        None \<Rightarrow> (db, Inl ENoRows)
      | Some rv \<Rightarrow>
     (case eg_get_item eg repo item (j_kind j) of
        None \<Rightarrow> (db, Inl (EText ''github''))
      | Some live \<Rightarrow>
     (let art = rv_payload rv;
          rid = rv_id rv;
          res = run_tx (\<lambda>db.
            if repoPaused eg repo db then Inr (db, ())
            else bindE (LoadSnapshotTx repo item (af_claimed art) db) (\<lambda>snap.
              if ItemHash (eg_item_sha eg) live \<noteq> ItemHash (eg_item_sha eg) snap then
                Inr (EnsureRefreshQueuedTx repo item (j_kind j) False
                       (db\<lparr>applies := sql_update (\<lambda>a. ap_review a = rid) (\<lambda>a. a\<lparr>ap_state := ''cancelled''\<rparr>) (applies db)\<rparr>), ())
              else
                let stale = filter (\<lambda>a. pa_reason a = ''implemented_on_main''
                      \<and> (case verifyEvidence eg repo live a of Some (True, _) \<Rightarrow> False | _ \<Rightarrow> True)) (af_actions art)
                in case stale of
                  [] \<Rightarrow> bindE (maybeEnqueueApplyTx eg j snap rid art db) (\<lambda>db. Inr (db, ()))
                | a # _ \<Rightarrow>
                    (case verifyEvidence eg repo live a of
                       None \<Rightarrow> Inl (EText ''github'')
                     | Some _ \<Rightarrow>
                         let i = actionHash eg repo item (pa_type a) rid (pa_reason a);
                             db = set_apply i ''cancelled'' db;
                             db = (if (rid, i) \<in> (\<lambda>v. (iv_review v, iv_action v)) ` set (invals db) then db
                                   else db\<lparr>invals := invals db @ [\<lparr>iv_review = rid, iv_action = i, iv_consumed = False\<rparr>]\<rparr>)
                         in Inr (EnsureRefreshQueuedTx repo item (j_kind j) True db, ())))) db
      in case res of (db', Inl e) \<Rightarrow> (db', Inl e) | (db', Inr _) \<Rightarrow> publishPendingComments eg repo item db'))))"

end
