(* ===== verification/Complete.thy ===== *)
theory Complete
  imports Apply
begin

text \<open>
  Completing a turn, \<^verbatim>\<open>CompleteWithSteers\<close> of \<^verbatim>\<open>engine/engine.go\<close> with what it observes first: the
  publication request (\<^verbatim>\<open>engine/publish.go\<close>), the definition draft (\<^verbatim>\<open>engine/draft.go\<close>) and the result
  outcome (\<^verbatim>\<open>engine/result.go\<close>). Go mutates \<^verbatim>\<open>art.Result\<close> in place; the model returns the artifact. The
  random ids of the two proposal actions are arguments.
\<close>

section \<open>Publication requests\<close>

definition ImplementTask :: "eng \<Rightarrow> sess_row \<Rightarrow> db \<Rightarrow> task_row option" where
  "ImplementTask eg s db =
     (if s_kind s \<noteq> SessionKindRun then None
      else case Repo (eg_policy eg) (s_repo s) of
        None \<Rightarrow> None
      | Some r \<Rightarrow>
          if \<not> rp_implement r then None
          else case Project (eg_policy eg) (s_project s) of
            None \<Rightarrow> None
          | Some p \<Rightarrow>
              if \<not> AllowsKind p KindRun then None
              else case OpenTaskForSession (s_id s) db of
                None \<Rightarrow> None
              | Some t \<Rightarrow> if tk_repo t \<noteq> s_repo s then None else Some t)"

definition SessionRefAllowed :: "int \<Rightarrow> string \<Rightarrow> bool" where
  "SessionRefAllowed sid ref =
     (let pre = ''refs/heads/rusui/'' @ show_int sid in ref = pre \<or> has_prefix ref (pre @ ''/''))"

text \<open>\<^verbatim>\<open>priorPublishAsk\<close>: the branch of the session's newest unblocked publication request.\<close>

definition session_reviews :: "int \<Rightarrow> db \<Rightarrow> review_row list" where
  "session_reviews sid db =
     filter (\<lambda>r. case turn_of db (rv_job r) of None \<Rightarrow> False | Some t \<Rightarrow> t_session t = sid) (rev (reviews db))"

definition publish_ask :: "artifact \<Rightarrow> string option" where
  "publish_ask art = (case af_result art of
     None \<Rightarrow> None
   | Some r \<Rightarrow> (case tr_publish r of
       None \<Rightarrow> None
     | Some q \<Rightarrow> if tr_blocked r = [] \<and> pq_branch q \<noteq> [] then Some (pq_branch q) else None))"

definition priorPublishAsk :: "int \<Rightarrow> db \<Rightarrow> string option" where
  "priorPublishAsk sid db =
     (case List.map_filter (publish_ask \<circ> rv_payload) (session_reviews sid db) of
        [] \<Rightarrow> None | b # _ \<Rightarrow> Some b)"

text \<open>The read-only transaction of \<^verbatim>\<open>publishResult\<close> and \<^verbatim>\<open>draftResult\<close>: the session of a live lease.\<close>

definition lease_session :: "eng \<Rightarrow> int \<Rightarrow> int \<Rightarrow> int \<Rightarrow> db \<Rightarrow> int res" where
  "lease_session eg jid gen claimed db =
     bindE (GetJobByIDTx jid db) (\<lambda>j.
     bindE (acceptLease (eg_now eg) j gen claimed) (\<lambda>_.
     bindE (GetTurnTx jid db) (\<lambda>t. Inr (t_session t))))"

definition refuse_publication :: "string \<Rightarrow> task_result \<Rightarrow> task_result" where
  "refuse_publication reason r = r\<lparr>tr_pull := 0, tr_blocked := ''publication refused: '' @ reason\<rparr>"

definition publish_checks :: "eng \<Rightarrow> int \<Rightarrow> artifact \<Rightarrow> task_result \<Rightarrow> publish_request \<Rightarrow> db \<Rightarrow> task_result" where
  "publish_checks eg sid art r req db =
     (case session_of db sid of
        None \<Rightarrow> refuse_publication ''publication state unavailable'' r
      | Some s \<Rightarrow>
          if \<not> eg_publisher eg then refuse_publication ''plane publication is off'' r
          else case ImplementTask eg s db of
            None \<Rightarrow> refuse_publication ''not an implement session'' r
          | Some task \<Rightarrow>
              if tk_repo task \<noteq> af_repo art then refuse_publication ''repository mismatch'' r
              else if \<not> SessionRefAllowed (s_id s) (''refs/heads/'' @ pq_branch req)
              then refuse_publication (''branch must be under rusui/'' @ show_int (s_id s) @ ''/'') r
              else if trim_space (pq_title req) = [] then refuse_publication ''title required'' r
              else if tr_candidate r = [] then refuse_publication ''candidate commit required'' r
              else case priorPublishAsk sid db of
                Some prev \<Rightarrow>
                  if prev \<noteq> pq_branch req then refuse_publication (''follow-up must publish branch '' @ prev) r
                  else r\<lparr>tr_pull := 0, tr_publisher := []\<rparr>
              | None \<Rightarrow> r\<lparr>tr_pull := 0, tr_publisher := []\<rparr>)"

definition publishResult :: "eng \<Rightarrow> int \<Rightarrow> int \<Rightarrow> int \<Rightarrow> db \<Rightarrow> artifact \<Rightarrow> artifact" where
  "publishResult eg jid gen claimed db art =
     (if af_kind art \<noteq> ''run'' then art
      else case af_result art of
        None \<Rightarrow> art
      | Some r0 \<Rightarrow>
          let r = r0\<lparr>tr_publisher := []\<rparr> in
          case tr_publish r of
            None \<Rightarrow> art\<lparr>af_result := Some (if eg_publisher eg \<and> tr_pull r > 0
                        then refuse_publication ''only the plane opens pull requests'' r else r)\<rparr>
          | Some req \<Rightarrow>
              (case lease_session eg jid gen claimed db of
                 Inl e \<Rightarrow> art\<lparr>af_result := Some (if e = EReject then r
                            else refuse_publication ''publication state unavailable'' r)\<rparr>
               | Inr sid \<Rightarrow> art\<lparr>af_result := Some (publish_checks eg sid art r req db)\<rparr>))"

section \<open>Definition drafts\<close>

text \<open>\<^verbatim>\<open>unicode.IsControl\<close> on the ASCII range.\<close>

definition is_control :: "char \<Rightarrow> bool" where
  "is_control c = (let n = (of_char c :: nat) in n < 32 \<or> n = 127)"

definition maxSourceTurnBytes :: int where "maxSourceTurnBytes = 256"

definition validateDraftMemberJSON :: "eng \<Rightarrow> draft_member \<Rightarrow> string option" where
  "validateDraftMemberJSON eg m =
     (if dm_json m = [] then Some ''definition_json required''
      else case eg_parse_json eg (dm_json m) of
        Some (JObj kvs) \<Rightarrow>
          (case map_of kvs ''source_turn'' of
             None \<Rightarrow> Some ''source_turn required''
           | Some (JStr t) \<Rightarrow>
               if t = [] \<or> int (length t) > maxSourceTurnBytes \<or> trim_space t \<noteq> t \<or> list_ex is_control t
               then Some ''source_turn must be a non-empty string'' else None
           | Some _ \<Rightarrow> Some ''source_turn must be a non-empty string'')
      | Some JNull \<Rightarrow> Some ''source_turn required''
      | _ \<Rightarrow> Some ''definition_json must be a JSON object'')"

fun validate_members :: "eng \<Rightarrow> draft_member list \<Rightarrow> int \<Rightarrow> int \<Rightarrow> string option" where
  "validate_members eg [] types links =
     (if types = 0 \<or> links = 0 then Some ''draft needs object_type and link_type members'' else None)"
| "validate_members eg (m # ms) types links =
     (if dm_kind m = [] \<or> dm_id m = [] then Some ''member_kind and member_id required''
      else if dm_kind m = ''agent'' then Some ''agent members cannot carry source_turn''
      else case validateDraftMemberJSON eg m of
        Some e \<Rightarrow> Some e
      | None \<Rightarrow> validate_members eg ms
          (if dm_kind m = ''object_type'' then types + 1 else types)
          (if dm_kind m = ''link_type'' then links + 1 else links))"

definition validateDraftRequest :: "eng \<Rightarrow> draft_request \<Rightarrow> string option" where
  "validateDraftRequest eg d =
     (if trim_space (dr_namespace d) = [] then Some ''namespace required''
      else if trim_space (dr_branch d) = [] then Some ''branch_id required''
      else if trim_space (dr_parent d) = [] then Some ''parent_revision_digest required''
      else if dr_members d = [] then Some ''members required''
      else validate_members eg (dr_members d) 0 0)"

definition refuse_draft :: "string \<Rightarrow> task_result \<Rightarrow> task_result" where
  "refuse_draft reason r = r\<lparr>tr_draft := None,
     tr_blocked := (if tr_blocked r = [] then ''draft refused: '' @ reason else tr_blocked r)\<rparr>"

definition draftResult :: "eng \<Rightarrow> int \<Rightarrow> int \<Rightarrow> int \<Rightarrow> db \<Rightarrow> artifact \<Rightarrow> artifact" where
  "draftResult eg jid gen claimed db art =
     (if af_kind art \<noteq> ''run'' then art
      else case af_result art of
        None \<Rightarrow> art
      | Some r \<Rightarrow> (case tr_draft r of
          None \<Rightarrow> art
        | Some d \<Rightarrow>
            if tr_publish r \<noteq> None
            then art\<lparr>af_result := Some (refuse_draft ''cannot share a turn with a GitHub publish'' r)\<rparr>
            else (case lease_session eg jid gen claimed db of
              Inl e \<Rightarrow> if e = EReject then art
                       else art\<lparr>af_result := Some (refuse_draft ''draft state unavailable'' r)\<rparr>
            | Inr sid \<Rightarrow>
                let d = (if dr_branch d = [] then d\<lparr>dr_branch := ''interview-'' @ show_int sid\<rparr> else d);
                    r = r\<lparr>tr_draft := Some d\<rparr>
                in art\<lparr>af_result := Some (case validateDraftRequest eg d of
                     None \<Rightarrow> r | Some reason \<Rightarrow> refuse_draft reason r)\<rparr>)))"

section \<open>Observed outcomes\<close>

definition observe_pull :: "eng \<Rightarrow> string \<Rightarrow> task_result \<Rightarrow> task_result" where
  "observe_pull eg repo r =
     (let r = r\<lparr>tr_outcome := OutcomeUnconfirmed\<rparr> in
      case eg_get_item eg repo (tr_pull r) ''pull'' of
        None \<Rightarrow> r
      | Some pr \<Rightarrow>
          if it_kind pr \<noteq> ''pull'' then r
          else let r = r\<lparr>tr_published_sha := it_head pr\<rparr> in
            if tr_candidate r \<noteq> [] \<and> it_head pr = tr_candidate r then r\<lparr>tr_outcome := OutcomePublished\<rparr>
            else if it_head pr \<noteq> [] \<and> it_head pr \<in> set (tr_heads r)
            then r\<lparr>tr_candidate := it_head pr, tr_outcome := OutcomePublished\<rparr>
            else r)"

definition observeResult :: "eng \<Rightarrow> artifact \<Rightarrow> artifact" where
  "observeResult eg art =
     (if af_kind art \<noteq> ''run'' then art
      else case af_result art of
        None \<Rightarrow> art
      | Some r0 \<Rightarrow>
          let pushed = tr_pushed_ref r0;
              r = r0\<lparr>tr_published_sha := [], tr_outcome := [], tr_pushed_ref := []\<rparr>
          in art\<lparr>af_result := Some (
               if pushed \<noteq> [] \<and> tr_publisher r = PublisherPlane \<and> tr_candidate r \<noteq> []
               then r\<lparr>tr_pushed_ref := pushed, tr_published_sha := tr_candidate r, tr_outcome := OutcomePublished\<rparr>
               else if tr_pull r > 0 then observe_pull eg (af_repo art) r
               else if tr_blocked r \<noteq> [] then r\<lparr>tr_outcome := OutcomeBlocked\<rparr>
               else if tr_publish r \<noteq> None \<or> tr_draft r \<noteq> None then r\<lparr>tr_outcome := OutcomeProposed\<rparr>
               else r\<lparr>tr_outcome := OutcomeReported\<rparr>)\<rparr>)"

text \<open>\<^verbatim>\<open>newestPublication\<close> over a turn's results: the pull request and its commit.\<close>

definition published_of :: "artifact \<Rightarrow> (int \<times> string) option" where
  "published_of art = (case af_result art of
     None \<Rightarrow> None
   | Some r \<Rightarrow> if tr_outcome r = OutcomePublished \<and> tr_pull r > 0 \<and> tr_published_sha r \<noteq> []
               then Some (tr_pull r, tr_published_sha r) else None)"

definition priorPublication :: "int \<Rightarrow> db \<Rightarrow> (int \<times> string) option" where
  "priorPublication jid db =
     (case List.map_filter (published_of \<circ> rv_payload) (filter (\<lambda>r. rv_job r = jid) (rev (reviews db))) of
        [] \<Rightarrow> None | p # _ \<Rightarrow> Some p)"

definition followUpUnchangedReason :: string where
  "followUpUnchangedReason = ''follow-up left the pull request head unchanged''"

definition observeFollowUpPublication :: "int \<Rightarrow> db \<Rightarrow> artifact \<Rightarrow> artifact" where
  "observeFollowUpPublication jid db art =
     (if af_kind art \<noteq> ''run'' then art
      else case af_result art of
        None \<Rightarrow> art
      | Some r \<Rightarrow>
          if tr_pull r \<le> 0 then art
          else case priorPublication jid db of
            None \<Rightarrow> art
          | Some (prev_pr, prev_sha) \<Rightarrow>
              if tr_pull r \<noteq> prev_pr
              then art\<lparr>af_result := Some (r\<lparr>tr_outcome := OutcomeBlocked,
                     tr_blocked := ''follow-up must update pull request #'' @ show_int prev_pr\<rparr>)\<rparr>
              else if tr_published_sha r = prev_sha \<or> tr_candidate r = [] \<or> tr_candidate r = prev_sha
              then art\<lparr>af_result := Some (r\<lparr>tr_outcome := OutcomeBlocked, tr_blocked := followUpUnchangedReason\<rparr>)\<rparr>
              else art)"

section \<open>Complete\<close>

definition ack_steers :: "int \<Rightarrow> int \<Rightarrow> int list \<Rightarrow> db \<Rightarrow> db res" where
  "ack_steers tid gen ids db =
     for_each (\<lambda>i db. case AckSteerTx tid gen i db of Inl _ \<Rightarrow> Inl EReject | Inr db \<Rightarrow> Inr db) ids db"

text \<open>Whether the artifact answers the claimed snapshot; otherwise the turn is failed.\<close>

definition artifact_matches :: "eng \<Rightarrow> job \<Rightarrow> item \<Rightarrow> artifact \<Rightarrow> bool" where
  "artifact_matches eg j snap art =
     (af_repo art = j_repo j \<and> af_item art = j_item j \<and> af_kind art = j_kind j
      \<and> af_claimed art = j_claimed j \<and> af_snapshot art = ItemHash (eg_item_sha eg) snap
      \<and> \<not> (j_kind j = ''pull'' \<and> af_head art \<noteq> it_head snap)
      \<and> ValidateResult art = Inr ())"

definition write_proposal :: "string \<Rightarrow> int \<Rightarrow> job \<Rightarrow> int \<Rightarrow> publish_request \<Rightarrow> string \<Rightarrow> action_row" where
  "write_proposal pid sid j rid q candidate = \<lparr>a_id = pid, a_session = Some sid, a_turn = Some (j_id j),
     a_review = Some rid, a_repo = j_repo j, a_item = j_item j, a_type = ''write.propose'',
     a_reason = ''recorded'', a_class = ''plane_observed'',
     a_limit = ''The turn proposed a GitHub write; applying it is a separate Action.'',
     a_body = JObj ([(''branch'', JStr (pq_branch q)), (''title'', JStr (pq_title q))]
       @ (if pq_body q = [] then [] else [(''body'', JStr (pq_body q))])
       @ [(''candidate_sha'', JStr candidate)])\<rparr>"

definition jdraft :: "draft_request \<Rightarrow> jval" where
  "jdraft d = JObj [(''namespace'', JStr (dr_namespace d)), (''branch_id'', JStr (dr_branch d)),
     (''parent_revision_digest'', JStr (dr_parent d)),
     (''members'', JArr (map (\<lambda>m. JObj [(''member_kind'', JStr (dm_kind m)), (''member_id'', JStr (dm_id m)),
        (''definition_json'', JStr (dm_json m))]) (dr_members d)))]"

definition core_draft :: "string \<Rightarrow> int \<Rightarrow> job \<Rightarrow> int \<Rightarrow> draft_request \<Rightarrow> action_row" where
  "core_draft pid sid j rid d = \<lparr>a_id = pid, a_session = Some sid, a_turn = Some (j_id j),
     a_review = Some rid, a_repo = j_repo j, a_item = j_item j, a_type = ''core.draft'',
     a_reason = ''recorded'', a_class = ''plane_observed'',
     a_limit = ''The turn proposed a definition draft; applying it is a separate Action.'',
     a_body = jdraft d\<rparr>"

text \<open>The two proposal actions and the receipt's fields for them.\<close>

definition record_proposals ::
  "string \<Rightarrow> string \<Rightarrow> int \<Rightarrow> job \<Rightarrow> int \<Rightarrow> artifact \<Rightarrow> db \<Rightarrow> (db \<times> (string \<times> jval) list) res" where
  "record_proposals pid1 pid2 sid j rid art db =
     (case af_result art of
        None \<Rightarrow> Inr (db, [])
      | Some r \<Rightarrow>
          if tr_outcome r \<noteq> OutcomeProposed then Inr (db, [])
          else
          bindE (case tr_publish r of
              None \<Rightarrow> Inr (db, [])
            | Some q \<Rightarrow> bindE (InsertActionTx (write_proposal pid1 sid j rid q (tr_candidate r)) db) (\<lambda>db.
                Inr (db, [(''proposal_id'', JStr pid1)]))) (\<lambda>(db, f1).
          bindE (case tr_draft r of
              None \<Rightarrow> Inr (db, [])
            | Some d \<Rightarrow> bindE (InsertActionTx (core_draft pid2 sid j rid d) db) (\<lambda>db.
                Inr (db, [(''draft_id'', JStr pid2)]))) (\<lambda>(db, f2).
          Inr (db, f1 @ f2))))"

definition recordFlightTx :: "int \<Rightarrow> int \<times> int \<times> int \<Rightarrow> db \<Rightarrow> db res" where
  "recordFlightTx tid rid db =
     bindE (GetTurnTx tid db) (\<lambda>turn.
     bindE (GetSessionTx (t_session turn) db) (\<lambda>_. InsertFlightRecordTx rid db))"

text \<open>After the receipt: promote what is pending or settle the turn.\<close>

definition settleCompleteTx :: "eng \<Rightarrow> job \<Rightarrow> item \<Rightarrow> int \<Rightarrow> artifact \<Rightarrow> db \<Rightarrow> db res" where
  "settleCompleteTx eg j snap rid art db =
     (if j_claimed j = j_pending j then
        bindE (applyNextFollowUpTx eg j db) (\<lambda>(db, j).
          if j_claimed j < j_pending j then Inr (UpdateJobTx (j\<lparr>j_state := Queued\<rparr>) db)
          else let j = j\<lparr>j_state := Completed\<rparr> in
            bindE (finishMeasurementTx (j_id j) Completed art (eg_now eg) (UpdateJobTx j db)) (\<lambda>db.
              maybeEnqueueApplyTx eg j snap rid art db))
      else Inr (UpdateJobTx (j\<lparr>j_state := Queued\<rparr>) db))"

definition recordCompleteTx ::
  "eng \<Rightarrow> string \<Rightarrow> string \<Rightarrow> job \<Rightarrow> item \<Rightarrow> int \<Rightarrow> int \<Rightarrow> artifact \<Rightarrow> int list \<Rightarrow> db \<Rightarrow> (db \<times> jval) res" where
  "recordCompleteTx eg pid1 pid2 j snap gen claimed art acks db =
     bindE (ack_steers (j_id j) gen acks db) (\<lambda>db.
     bindE (GetTurnTx (j_id j) db) (\<lambda>turn.
     let db = touch_env eg (t_session turn) db;
         hash = ItemHash (eg_item_sha eg) snap;
         art = art\<lparr>af_main := it_main snap, af_snapshot := hash\<rparr>;
         rid = next_id (map rv_id (reviews db));
         db = db\<lparr>reviews := reviews db @ [\<lparr>rv_id = rid, rv_job = j_id j, rv_claimed = j_claimed j,
                  rv_hash = hash, rv_main = it_main snap, rv_payload = art\<rparr>]\<rparr>
     in bindE (record_proposals pid1 pid2 (t_session turn) j rid art db) (\<lambda>(db, extra).
        let receipt = JObj ([(''kind'', JStr ''complete''), (''review_revision_id'', JInt rid)] @ extra) in
        bindE (InsertReceiptTx (j_id j) gen claimed ''complete'' receipt db) (\<lambda>db.
        bindE (recordFlightTx (j_id j) (j_id j, gen, claimed) db) (\<lambda>db.
        bindE (PromoteSteersTx (j_id j) gen db) (\<lambda>(db, _).
        let db = (if af_guest_session art \<noteq> [] then SetGuestSessionTx (t_session turn) (af_guest_session art) db else db)
        in bindE (settleCompleteTx eg j snap rid art db) (\<lambda>db. Inr (db, receipt))))))))"

definition completeTx ::
  "eng \<Rightarrow> string \<Rightarrow> string \<Rightarrow> int \<Rightarrow> int \<Rightarrow> int \<Rightarrow> artifact \<Rightarrow> int list \<Rightarrow> db \<Rightarrow> (db \<times> jval) res" where
  "completeTx eg pid1 pid2 jid gen claimed art acks db =
     (case GetReceiptTx jid gen claimed db of
        Some (kind, p) \<Rightarrow> if kind \<noteq> ''complete'' then Inl EReject else Inr (db, p)
      | None \<Rightarrow>
          bindE (GetJobByIDTx jid db) (\<lambda>j.
          bindE (acceptLease (eg_now eg) j gen claimed) (\<lambda>_.
          bindE (LoadSnapshotTx (j_repo j) (j_item j) (j_claimed j) db) (\<lambda>snap.
            if \<not> artifact_matches eg j snap art
            then bindE (finalizeFailureTx eg j gen claimed db) (\<lambda>db. Inr (db, JNull))
            else recordCompleteTx eg pid1 pid2 j snap gen claimed art acks db))))"

definition observe :: "eng \<Rightarrow> int \<Rightarrow> int \<Rightarrow> int \<Rightarrow> db \<Rightarrow> artifact \<Rightarrow> artifact" where
  "observe eg jid gen claimed db art =
     observeFollowUpPublication jid db (observeResult eg
       (draftResult eg jid gen claimed db (publishResult eg jid gen claimed db art)))"

definition CompleteWithSteers ::
  "eng \<Rightarrow> string \<Rightarrow> string \<Rightarrow> int \<Rightarrow> int \<Rightarrow> int \<Rightarrow> artifact \<Rightarrow> int list \<Rightarrow> db \<Rightarrow> db \<times> jval res" where
  "CompleteWithSteers eg pid1 pid2 jid gen claimed art acks db =
     (let art = observe eg jid gen claimed db art in
      case run_tx (completeTx eg pid1 pid2 jid gen claimed art acks) db of
        (db', Inl e) \<Rightarrow> (db', Inl e)
      | (db', Inr out) \<Rightarrow>
          (if af_repo art \<noteq> [] then fst (publishPendingComments eg (af_repo art) (af_item art) db') else db', Inr out))"

end
