(* ===== verification/Intake.thy ===== *)
theory Intake
  imports Complete
begin

text \<open>
  Review intake, \<^verbatim>\<open>engine/engine.go\<close>, \<^verbatim>\<open>engine/advisory.go\<close> and \<^verbatim>\<open>engine/tenant.go\<close>: deliveries are
  deduplicated, a refresh request is claimed by one owner, the item is fetched from GitHub and admitted
  as a revision of the review job. \<^verbatim>\<open>stepRefresh\<close> fetches between two transactions, so it is two
  operations here, \<open>refreshClaim\<close> and \<open>refreshFinish\<close>, between which others may run. The repair hook
  after the second transaction (\<^verbatim>\<open>maybeAdmitRepair\<close>) is not modelled.
\<close>

section \<open>Deliveries\<close>

definition IngestWebhook :: "string \<Rightarrow> string \<Rightarrow> int \<Rightarrow> string \<Rightarrow> db \<Rightarrow> db \<times> unit res" where
  "IngestWebhook delivery repo item kind =
     run_tx (\<lambda>db. case InsertDeliveryTx delivery ''github'' repo item kind db of (db1, ins) \<Rightarrow>
       Inr (if ins then EnsureRefreshQueuedTx repo item kind False db1 else db1, ()))"

definition EventMaxAge :: time where "EventMaxAge = 24 * hour"

text \<open>\<open>None\<close> is the zero time.\<close>

definition IngestEvent ::
  "eng \<Rightarrow> string \<Rightarrow> string \<Rightarrow> string \<Rightarrow> int \<Rightarrow> string \<Rightarrow> time option \<Rightarrow> db \<Rightarrow> db \<times> unit res" where
  "IngestEvent eg delivery source repo item kind occurred db =
     (if delivery = [] \<or> repo = [] \<or> item = 0 \<or> kind = []
      then (db, Inl (EText ''event: delivery_id, repo, item, and item_kind required''))
      else if (case occurred of None \<Rightarrow> False | Some t \<Rightarrow> EventMaxAge < eg_now eg - t) then (db, Inr ())
      else run_tx (\<lambda>db. case InsertEventTx delivery source repo item kind db of (db1, ins) \<Rightarrow>
        Inr (if ins then EnsureRefreshQueuedTx repo item kind False db1 else db1, ())) db)"

section \<open>Admission\<close>

definition review_tenant :: "eng \<Rightarrow> string \<Rightarrow> string" where
  "review_tenant eg repo = (case ProjectForRepo (eg_policy eg) repo of
     None \<Rightarrow> DefaultTenantID | Some p \<Rightarrow> sessionTenant p)"

definition stampReviewTenantTx :: "eng \<Rightarrow> string \<Rightarrow> int \<Rightarrow> db \<Rightarrow> db res" where
  "stampReviewTenantTx eg repo item db =
     bindE (the_row (review_session repo item db)) (\<lambda>s.
       SetSessionExecutionTx (s_id s) ''space'' [] (SetSessionTenantTx (s_id s) (review_tenant eg repo) db))"

definition reviewTenantMismatchTx :: "eng \<Rightarrow> string \<Rightarrow> int \<Rightarrow> db \<Rightarrow> bool" where
  "reviewTenantMismatchTx eg repo item db = (case review_session repo item db of
     None \<Rightarrow> False | Some s \<Rightarrow> NormalizeTenantID (s_tenant s) \<noteq> review_tenant eg repo)"

text \<open>The unconsumed evidence invalidations of an item's review revisions.\<close>

definition item_inval :: "string \<Rightarrow> int \<Rightarrow> db \<Rightarrow> inval_row \<Rightarrow> bool" where
  "item_inval repo item db v =
     (\<not> iv_consumed v \<and> list_ex (\<lambda>r. rv_id r = iv_review v
        \<and> list_ex (\<lambda>j. j_id j = rv_job r \<and> j_repo j = repo \<and> j_item j = item) (jobs db)) (reviews db))"

definition admitTx :: "eng \<Rightarrow> item \<Rightarrow> bool \<Rightarrow> int \<Rightarrow> bool \<Rightarrow> db \<Rightarrow> db res" where
  "admitTx eg it force gen enforce db =
     (let repo = it_repo it; item = it_item it; h = ItemHash (eg_item_sha eg) it;
          cur = refresh_of repo item db;
          consume = (force \<and> sql_count (item_inval repo item db) (invals db) \<noteq> 0);
          force = consume;
          j = GetJobTx repo item ''review'' db;
          fresh = (case j of None \<Rightarrow> True | Some j \<Rightarrow> j_pending j = 0)
      in
      if (case cur of None \<Rightarrow> False | Some r \<Rightarrow> rf_gen r \<noteq> gen) then Inr db
      else if \<not> rd_allowed (ReviewAccess (eg_policy eg) repo False) then Inr db
      else if j \<noteq> None \<and> reviewTenantMismatchTx eg repo item db then Inr db
      else if \<not> AdvisoryEligible it \<and> fresh then (if enforce then Inl EReviewIneligible else Inr db)
      else
      bindE (case j of
          Some j \<Rightarrow> if j_pending j > 0
            then bindE (LoadSnapshotTx repo item (j_pending j) db) (\<lambda>pend.
                   Inr (\<not> force \<and> ItemHash (eg_item_sha eg) pend = h))
            else Inr False
        | None \<Rightarrow> Inr False) (\<lambda>same.
      if same then Inr db
      else if fresh \<and> \<not> force
              \<and> fst (LatestSnapshotHashTx repo item db) \<noteq> [] \<and> fst (LatestSnapshotHashTx repo item db) = h
              \<and> (case j of None \<Rightarrow> True | Some j \<Rightarrow> j_state j = Completed)
      then Inr db
      else if enforce \<and> \<not> rd_allowed (DecideReview (eg_policy eg) repo False
                (CountReviewsToday repo (utc_day (eg_now eg)) db))
      then Inl EReviewBudget
      else
      let db = (if consume then db\<lparr>invals := sql_update (item_inval repo item db) (\<lambda>v. v\<lparr>iv_consumed := True\<rparr>) (invals db)\<rparr>
                else db);
          rvn = (case j of None \<Rightarrow> 1 | Some j \<Rightarrow> j_pending j + 1)
      in bindE (SaveSnapshotTx (eg_item_sha eg) repo item rvn it db) (\<lambda>db.
         case j of
           None \<Rightarrow> bindE (InsertJobTx (eg_now eg) repo item (it_kind it) ''review'' rvn db) (\<lambda>db.
                     stampReviewTenantTx eg repo item db)
         | Some j \<Rightarrow> Inr (UpdateJobTx (j\<lparr>j_pending := rvn, j_retry := 0,
                     j_state := (if j_state j \<noteq> Leased then Queued else Leased)\<rparr>) db))))"

section \<open>The refresh queue\<close>

definition refreshable :: "time \<Rightarrow> string \<Rightarrow> int \<Rightarrow> refresh_row \<Rightarrow> bool" where
  "refreshable now repo item r =
     (rf_state r = ''queued'' \<and> rf_owner r = 0
      \<and> (case rf_not_before r of None \<Rightarrow> True | Some t \<Rightarrow> stamp_le t now)
      \<and> (repo = [] \<or> rf_repo r = repo) \<and> (item \<le> 0 \<or> rf_item r = item))"

text \<open>The first transaction of \<^verbatim>\<open>stepRefresh\<close>: take ownership of one queued request. The result is the
  request as the fetch sees it; \<open>None\<close> is \<^verbatim>\<open>errNoWork\<close>.\<close>

definition refreshClaim :: "eng \<Rightarrow> string \<Rightarrow> int \<Rightarrow> db \<Rightarrow> db \<times> refresh_row option" where
  "refreshClaim eg repo item db =
     (case find (refreshable (eg_now eg) repo item) (refreshes db) of
        None \<Rightarrow> (db, None)
      | Some r \<Rightarrow>
          (set_refresh (\<lambda>x. rf_repo x = rf_repo r \<and> rf_item x = rf_item r \<and> rf_owner x = 0)
             (\<lambda>x. x\<lparr>rf_owner := 1, rf_gen := rf_gen r + 1, rf_expires := Some (eg_now eg + OwnerTTL),
                    rf_state := ''running''\<rparr>) db,
           Some (r\<lparr>rf_gen := rf_gen r + 1\<rparr>)))"

definition this_refresh :: "string \<Rightarrow> int \<Rightarrow> refresh_row \<Rightarrow> bool" where
  "this_refresh repo item x = (rf_repo x = repo \<and> rf_item x = item)"

definition refresh_failed :: "refresh_row \<Rightarrow> refresh_row" where
  "refresh_failed x = x\<lparr>rf_owner := 0, rf_retry := rf_retry x + 1,
     rf_state := (if rf_retry x + 1 \<ge> RefreshRetryLimit then ''failed'' else ''queued'')\<rparr>"

text \<open>The second transaction: fenced by the generation and the owner, it admits the fetched item or
  counts the failed fetch, and gives the request back.\<close>

definition refreshFinishTx ::
  "eng \<Rightarrow> refresh_row \<Rightarrow> item option \<Rightarrow> bool \<Rightarrow> db \<Rightarrow> (db \<times> err option) res" where
  "refreshFinishTx eg req fetched enforce db =
     (let repo = rf_repo req; item = rf_item req in
      bindE (the_row (refresh_of repo item db)) (\<lambda>cur.
        if rf_gen cur \<noteq> rf_gen req \<or> rf_owner cur = 0 then Inr (db, None)
        else case fetched of
          None \<Rightarrow> Inr (set_refresh (this_refresh repo item) refresh_failed db, None)
        | Some it \<Rightarrow>
            (let forced = (rf_force req \<or> rf_force cur) in
             case admitTx eg it forced (rf_gen req) enforce db of
               Inl EReviewIneligible \<Rightarrow>
                 Inr (set_refresh (this_refresh repo item)
                   (\<lambda>x. x\<lparr>rf_owner := 0, rf_another := False, rf_force := False, rf_state := ''idle''\<rparr>) db,
                   Some EReviewIneligible)
             | Inl EReviewBudget \<Rightarrow>
                 Inr (set_refresh (this_refresh repo item)
                   (\<lambda>x. x\<lparr>rf_owner := 0, rf_another := False, rf_force := forced,
                          rf_state := (if rf_another cur \<or> forced then ''queued'' else ''idle'')\<rparr>) db,
                   Some EReviewBudget)
             | Inl e \<Rightarrow> Inl e
             | Inr db \<Rightarrow>
                 if rf_another cur
                 then Inr (set_refresh (this_refresh repo item)
                   (\<lambda>x. x\<lparr>rf_owner := 0, rf_another := False, rf_force := False, rf_state := ''queued''\<rparr>) db, None)
                 else Inr (set_refresh (this_refresh repo item)
                   (\<lambda>x. x\<lparr>rf_owner := 0, rf_force := False, rf_state := ''idle''\<rparr>) db, None))))"

definition refreshFinish ::
  "eng \<Rightarrow> refresh_row \<Rightarrow> item option \<Rightarrow> bool \<Rightarrow> db \<Rightarrow> db \<times> err option res" where
  "refreshFinish eg req fetched enforce = run_tx (refreshFinishTx eg req fetched enforce)"

text \<open>The fetch in between, with the optional check of the item kind.\<close>

definition refresh_fetch :: "eng \<Rightarrow> refresh_row \<Rightarrow> string \<Rightarrow> item option" where
  "refresh_fetch eg req expected = (case eg_get_item eg (rf_repo req) (rf_item req) (rf_kind req) of
     None \<Rightarrow> None
   | Some it \<Rightarrow> if expected \<noteq> [] \<and> it_kind it \<noteq> expected then None else Some it)"

definition refresh_backoff :: "int \<Rightarrow> time" where
  "refresh_backoff n = min (2 ^ nat (min (n - 1) 6) * second) minute"

definition expire_owner :: "time \<Rightarrow> refresh_row \<Rightarrow> refresh_row" where
  "expire_owner now r = (let n = rf_retry r + 1 in
     r\<lparr>rf_owner := 0, rf_retry := n, rf_state := (if n \<ge> RefreshRetryLimit then ''failed'' else ''queued''),
       rf_not_before := Some (now + refresh_backoff n), rf_gen := rf_gen r + 1\<rparr>)"

definition ExpireRefreshOwners :: "eng \<Rightarrow> db \<Rightarrow> db" where
  "ExpireRefreshOwners eg db =
     set_refresh (\<lambda>r. rf_owner r = 1 \<and> (case rf_expires r of None \<Rightarrow> True | Some t \<Rightarrow> t \<le> eg_now eg))
       (expire_owner (eg_now eg)) db"

definition StartupExpireOwners :: "db \<Rightarrow> db" where
  "StartupExpireOwners =
     set_refresh (\<lambda>r. rf_owner r = 1) (\<lambda>r. r\<lparr>rf_owner := 0, rf_state := ''queued'', rf_gen := rf_gen r + 1\<rparr>)"

section \<open>Catch-up\<close>

definition githubIntakeItem :: "string \<Rightarrow> int \<Rightarrow> bool" where
  "githubIntakeItem kind item = (item > 0 \<and> (kind = ''issue'' \<or> kind = ''pull''))"

definition CatchUpItem :: "string \<Rightarrow> int \<Rightarrow> string \<Rightarrow> db \<Rightarrow> db" where
  "CatchUpItem repo item kind db =
     (if githubIntakeItem kind item then EnsureRefreshQueuedTx repo item kind False db else db)"

definition withoutReviewedContent :: "item list \<Rightarrow> db \<Rightarrow> item list" where
  "withoutReviewedContent opened db =
     filter (\<lambda>it. case ReviewedUpdatedAt (it_repo it) db (it_item it) of
         None \<Rightarrow> True
       | Some at \<Rightarrow> it_updated it = [] \<or> at < it_updated it) opened"

text \<open>\<^verbatim>\<open>CatchUpAdvisoryBatch\<close>: per repository, in name order, the oldest eligible items up to twice the
  project's lease budget.\<close>

definition batch_of :: "effective \<Rightarrow> item list \<Rightarrow> string \<Rightarrow> item list" where
  "batch_of pol its repo =
     (let cap = (case Repo pol repo of None \<Rightarrow> 0
          | Some r \<Rightarrow> (case Project pol (rp_project r) of None \<Rightarrow> 2 | Some p \<Rightarrow> MaxConcurrentLeases p * 2))
      in take (nat cap) (sort_key (\<lambda>it. (it_created it, it_item it)) (filter (\<lambda>it. it_repo it = repo) its)))"

definition CatchUpAdvisoryBatch :: "effective \<Rightarrow> item list \<Rightarrow> item list" where
  "CatchUpAdvisoryBatch pol opened =
     (let its = filter (\<lambda>it. AdvisoryEligible it \<and> Repo pol (it_repo it) \<noteq> None) opened
      in concat (map (batch_of pol its) (sort (remdups (map it_repo its)))))"

end
