(* ===== verification/Sessions.thy ===== *)
theory Sessions
  imports Intake
begin

text \<open>
  Starting operator sessions, \<^verbatim>\<open>engine/run.go\<close>, \<^verbatim>\<open>engine/child.go\<close> and \<^verbatim>\<open>engine/task.go\<close>: a run, a child
  of a run, and an implementation task, each with its queued turn and first snapshot. Retention classes
  come from \<^verbatim>\<open>store/retention.go\<close>, tool grants from \<^verbatim>\<open>store/tool_grant.go\<close>.
\<close>

section \<open>Sizes, modes, retention\<close>

definition NormalizeSize :: "string \<Rightarrow> string" where
  "NormalizeSize name = (if name \<in> set [''small'', ''medium'', ''large''] then name
     else if name = [] then ''medium'' else [])"

definition ValidSessionMode :: "string \<Rightarrow> bool" where
  "ValidSessionMode name = (name \<in> set [[], ''low'', ''medium'', ''high'', ''ultra''])"

definition NormalizeRetention :: "string \<Rightarrow> string" where
  "NormalizeRetention cls = (let c = to_lower (trim_space cls) in if c = [] then RetentionShort else c)"

definition ValidRetention :: "string \<Rightarrow> bool" where
  "ValidRetention cls = (NormalizeRetention cls \<in> set [RetentionShort, RetentionIndefinite])"

definition retention_of :: "int \<Rightarrow> db \<Rightarrow> ret_row option" where
  "retention_of sid db = find (\<lambda>r. rt_session r = sid) (retention db)"

definition refuseExpiredRetentionTx :: "int \<Rightarrow> db \<Rightarrow> unit res" where
  "refuseExpiredRetentionTx sid db = (case retention_of sid db of
     None \<Rightarrow> Inr () | Some r \<Rightarrow> if rt_expired r then Inl ERetentionExpired else Inr ())"

text \<open>An upsert. A change of the class drops a write override; keeping the class keeps it.\<close>

definition SetSessionRetentionTx :: "int \<Rightarrow> string \<Rightarrow> time option \<Rightarrow> time \<Rightarrow> db \<Rightarrow> db res" where
  "SetSessionRetentionTx sid cls expires now db =
     (let cls = NormalizeRetention cls in
      if \<not> ValidRetention cls then Inl (EText ''invalid retention'')
      else bindE (refuseExpiredRetentionTx sid db) (\<lambda>_.
        let x = (if cls = RetentionShort
                 then Some (case expires of None \<Rightarrow> DefaultRetentionExpiry now | Some t \<Rightarrow> t) else None);
            upd = (\<lambda>r. r\<lparr>rt_class := cls, rt_expires := x,
                     rt_override := (rt_class r = cls \<and> rt_override r),
                     rt_override_by := (if rt_class r = cls then rt_override_by r else []),
                     rt_override_at := (if rt_class r = cls then rt_override_at r else None),
                     rt_expired := False\<rparr>)
        in Inr (if retention_of sid db = None
             then db\<lparr>retention := retention db @ [\<lparr>rt_session = sid, rt_class = cls, rt_expires = x,
                    rt_override = False, rt_override_by = [], rt_override_at = None, rt_expired = False\<rparr>]\<rparr>
             else db\<lparr>retention := sql_update (\<lambda>r. rt_session r = sid) upd (retention db)\<rparr>)))"

definition SetRetentionWriteOverrideTx :: "int \<Rightarrow> string \<Rightarrow> time \<Rightarrow> db \<Rightarrow> db res" where
  "SetRetentionWriteOverrideTx sid actor now db =
     bindE (refuseExpiredRetentionTx sid db) (\<lambda>_.
       case retention_of sid db of
         None \<Rightarrow> Inl (EText ''write override requires indefinite retention'')
       | Some r \<Rightarrow>
           if NormalizeRetention (rt_class r) \<noteq> RetentionIndefinite
           then Inl (EText ''write override requires indefinite retention'')
           else if rt_override r then Inl (EText ''write override already recorded'')
           else Inr (db\<lparr>retention := sql_update (\<lambda>r. rt_session r = sid)
                  (\<lambda>r. r\<lparr>rt_override := True, rt_override_by := NormalizeActor actor,
                        rt_override_at := Some now\<rparr>) (retention db)\<rparr>))"

definition applyDefaultRetentionTx :: "eng \<Rightarrow> int \<Rightarrow> db \<Rightarrow> db res" where
  "applyDefaultRetentionTx eg sid db =
     SetSessionRetentionTx sid RetentionShort (Some (DefaultRetentionExpiry (eg_now eg))) (eg_now eg) db"

definition SetSessionCreatorTx :: "int \<Rightarrow> string \<Rightarrow> db \<Rightarrow> db" where
  "SetSessionCreatorTx sid creator db =
     (let c = trim_space creator in
      if c = [] then db else set_session sid (\<lambda>s. s\<lparr>s_created_by := c\<rparr>) db)"

definition GrantSessionToolTx :: "int \<Rightarrow> string \<Rightarrow> string \<Rightarrow> db \<Rightarrow> db res" where
  "GrantSessionToolTx sid tool by db =
     (let t = to_lower (trim_space tool) in
      if t \<notin> set [''write'', ''execute'', ''edit'', ''delete'', ''move'', ''other''] then Inl (EText ''invalid tool'')
      else if (sid, t) \<in> (\<lambda>(s, t, _). (s, t)) ` set (tools db) then Inl (EText ''tool grant exists'')
      else Inr (db\<lparr>tools := tools db @ [(sid, t, NormalizeActor by)]\<rparr>))"

section \<open>Runs\<close>

definition operatorSessionPin :: "eng \<Rightarrow> project \<Rightarrow> string \<times> string" where
  "operatorSessionPin eg p = (case pr_repos p of
     [] \<Rightarrow> (ProjectKey (pr_slug p), [])
   | r # _ \<Rightarrow> (r, case eg_default_sha eg r of None \<Rightarrow> [] | Some sha \<Rightarrow> sha))"

definition run_item :: "string \<Rightarrow> int \<Rightarrow> string \<Rightarrow> string \<Rightarrow> string \<Rightarrow> item" where
  "run_item repo item prompt branch sha = zero_item\<lparr>it_repo := repo, it_item := item, it_kind := ''run'',
     it_state := ''open'', it_title := ''run'', it_body := prompt, it_default_branch := branch, it_main := sha\<rparr>"

record run_request =
  rq_project :: string
  rq_prompt :: string
  rq_idem :: string
  rq_size :: string
  rq_mode :: string
  rq_guest :: string
  rq_exec :: string
  rq_act :: string
  rq_created_by :: string

definition run_checks :: "eng \<Rightarrow> run_request \<Rightarrow> project res" where
  "run_checks eg q = (case Project (eg_policy eg) (rq_project q) of
     None \<Rightarrow> Inl EPolicy
   | Some p \<Rightarrow>
       if \<not> AllowsKind p KindRun then Inl EPolicy
       else bindE (chooseGuest eg (rq_project q) (rq_guest q)) (\<lambda>_.
         if rq_size q \<noteq> [] \<and> (NormalizeSize (rq_size q) = [] \<or> rq_size q \<noteq> NormalizeSize (rq_size q))
         then Inl (EText ''size'')
         else if \<not> ValidSessionMode (rq_mode q) then Inl (EText ''mode'')
         else if \<not> ValidExecutionMode (rq_exec q) then Inl (EText ''execution_mode'')
         else if rq_prompt q = [] then Inl (EText ''prompt required'')
         else Inr p))"

definition want_act :: "run_request \<Rightarrow> project \<Rightarrow> string" where
  "want_act q p = (if trim_space (rq_act q) \<noteq> [] then trim_space (rq_act q)
     else if trim_space (rq_created_by q) \<noteq> [] then trim_space (rq_created_by q) else sessionTenant p)"

definition insertRunTx :: "eng \<Rightarrow> run_request \<Rightarrow> project \<Rightarrow> string \<Rightarrow> string \<Rightarrow> db \<Rightarrow> (db \<times> int) res" where
  "insertRunTx eg q p repo sha db =
     bindE (insertOperatorSessionTx (eg_now eg) SessionKindRun ''run'' (rq_project q) repo (rq_prompt q) 0 0 db)
       (\<lambda>(db, sid, item).
     bindE (SetSessionExecutionTx sid (rq_exec q) (rq_act q)
              (SetSessionCreatorTx sid (rq_created_by q) (SetSessionTenantTx sid (sessionTenant p) db))) (\<lambda>db.
     bindE (applyDefaultRetentionTx eg sid db) (\<lambda>db.
     bindE (bindSessionGuestTx eg sid (rq_project q) (rq_guest q) db) (\<lambda>(db, _, _).
     let db = SetSessionSizeTx sid (NormalizeSize (if rq_size q = [] then pr_size p else rq_size q)) db;
         db = (if rq_mode q \<noteq> [] then SetSessionModeTx sid (rq_mode q) db else db)
     in bindE (SaveSnapshotTx (eg_item_sha eg) repo item 1 (run_item repo item (rq_prompt q) ''main'' sha) db) (\<lambda>db.
        if rq_idem q = [] then Inr (db, sid)
        else if rq_idem q \<in> fst ` set (idem db) then Inl EConstraint
        else Inr (db\<lparr>idem := idem db @ [(rq_idem q, sid)]\<rparr>, sid))))))"

definition StartRunExec :: "eng \<Rightarrow> run_request \<Rightarrow> db \<Rightarrow> db \<times> int res" where
  "StartRunExec eg q db =
     (case run_checks eg q of
        Inl e \<Rightarrow> (db, Inl e)
      | Inr p \<Rightarrow>
          (case operatorSessionPin eg p of (repo, sha) \<Rightarrow> run_tx (\<lambda>db.
             if Paused (rq_project q) db then Inl EPaused
             else if Halted (sessionTenant p) (rq_project q) (want_act q p) db then Inl EHalted
             else case (if rq_idem q = [] then None else map_of (idem db) (rq_idem q)) of
               Some sid \<Rightarrow>
                 bindE (GetSessionTx sid db) (\<lambda>s.
                   if s_project s \<noteq> rq_project q \<or> NormalizeTenantID (s_tenant s) \<noteq> sessionTenant p
                      \<or> NormalizeExecutionMode (s_exec_mode s) \<noteq> NormalizeExecutionMode (rq_exec q)
                      \<or> NormalizeActor (s_act s) \<noteq> NormalizeActor (want_act q p)
                   then Inl (EText ''idempotency'') else Inr (db, sid))
             | None \<Rightarrow> insertRunTx eg q p repo sha db) db))"

section \<open>Children\<close>

text \<open>What \<^verbatim>\<open>StartChildGuest\<close> checks before its transaction; the pin of the child.\<close>

definition child_checks ::
  "eng \<Rightarrow> int \<Rightarrow> string \<Rightarrow> string \<Rightarrow> string \<Rightarrow> db \<Rightarrow> (sess_row \<times> project \<times> project \<times> string \<times> string) res" where
  "child_checks eg parent_id prompt project guest db =
     (if prompt = [] then Inl (EText ''prompt required'')
      else bindE (GetSessionTx parent_id db) (\<lambda>parent.
        if s_archived parent then Inl EArchived
        else if s_kind parent \<noteq> SessionKindRun \<and> s_kind parent \<noteq> SessionKindScheduled then Inl (EText ''parent kind'')
        else if s_parent parent \<noteq> 0 then Inl (EText ''depth'')
        else
          let project = (if project = [] then s_project parent else project) in
          case (Project (eg_policy eg) (s_project parent), Project (eg_policy eg) project) of
            (Some pp, Some p) \<Rightarrow>
              if \<not> AllowsKind p KindRun then Inl EPolicy
              else if sessionTenant p \<noteq> NormalizeTenantID (s_tenant parent) then Inl (EText ''tenant'')
              else bindE (chooseGuest eg project guest) (\<lambda>_.
                if project = s_project parent then
                  (if IsProjectKey (s_repo parent) then Inr (parent, pp, p, s_repo parent, [])
                   else case eg_default_sha eg (s_repo parent) of
                     None \<Rightarrow> Inl (EText ''child pin'')
                   | Some sha \<Rightarrow> if sha = [] then Inl (EText ''child pin: empty default branch SHA'')
                                 else Inr (parent, pp, p, s_repo parent, sha))
                else (case operatorSessionPin eg p of (repo, sha) \<Rightarrow> Inr (parent, pp, p, repo, sha)))
          | _ \<Rightarrow> Inl EPolicy))"

definition insertChildSpawnTx :: "sess_row \<Rightarrow> int \<Rightarrow> string \<Rightarrow> string \<Rightarrow> db \<Rightarrow> db res" where
  "insertChildSpawnTx parent child project prompt =
     InsertActionTx \<lparr>a_id = ''child-spawn-'' @ show_int (s_id parent) @ ''-'' @ show_int child,
       a_session = Some (s_id parent), a_turn = None, a_review = None, a_repo = s_repo parent,
       a_item = s_item parent, a_type = ''child.spawn'', a_reason = ''recorded'', a_class = ''plane_observed'',
       a_limit = ''A child session started; it is admitted under the named project's policy and does not inherit the parent's grants.'',
       a_body = JObj [(''child_session_id'', JInt child), (''project'', JStr project), (''prompt'', JStr prompt)]\<rparr>"

definition StartChildGuest :: "eng \<Rightarrow> int \<Rightarrow> string \<Rightarrow> string \<Rightarrow> string \<Rightarrow> db \<Rightarrow> db \<times> int res" where
  "StartChildGuest eg parent_id prompt project guest db =
     (case child_checks eg parent_id prompt project guest db of
        Inl e \<Rightarrow> (db, Inl e)
      | Inr (parent, pp, p, repo, sha) \<Rightarrow>
          let project = (if project = [] then s_project parent else project) in
          run_tx (\<lambda>db.
            bindE (GetSessionTx parent_id db) (\<lambda>now_parent.
            if s_archived now_parent then Inl EArchived
            else if Paused (s_project parent) db \<or> Paused project db then Inl EPaused
            else if CountActiveChildSessionsTx parent_id db \<ge> MaxConcurrentLeases pp then Inl (EText ''fan-out'')
            else
            bindE (insertOperatorSessionTx (eg_now eg) SessionKindRun ''run'' project repo prompt 0 parent_id db)
              (\<lambda>(db, sid, item).
            bindE (SetSessionExecutionTx sid (NormalizeExecutionMode (s_exec_mode parent)) (s_act parent)
                     (SetSessionTenantTx sid (NormalizeTenantID (s_tenant parent)) db)) (\<lambda>db.
            bindE (applyDefaultRetentionTx eg sid db) (\<lambda>db.
            bindE (bindSessionGuestTx eg sid project guest db) (\<lambda>(db, _, _).
            let db = SetSessionSizeTx sid (NormalizeSize (pr_size p)) db;
                db = (if s_mode parent \<noteq> [] then SetSessionModeTx sid (s_mode parent) db else db)
            in bindE (SaveSnapshotTx (eg_item_sha eg) repo item 1 (run_item repo item prompt ''main'' sha) db) (\<lambda>db.
               bindE (insertChildSpawnTx parent sid project prompt db) (\<lambda>db. Inr (db, sid))))))))) db)"

section \<open>Implementation tasks\<close>

record task_spec =
  ts_guest :: string
  ts_effort :: string
  ts_prompt :: string
  ts_repo :: string
  ts_ref :: string
  ts_base :: string
  ts_paths :: "string list"
  ts_context :: "string list"
  ts_instructions :: "string list"
  ts_repairs :: int

definition taskStillBound :: "string \<Rightarrow> bool" where
  "taskStillBound st = (st \<noteq> ''abandoned'' \<and> st \<noteq> ''cancelled'')"

definition abs_path :: "string \<Rightarrow> string" where
  "abs_path p = clean_abs (''/'' @ (if has_prefix p ''/'' then drop 1 p else p))"

text \<open>\<^verbatim>\<open>pathAllowed\<close>: the cleaned path is an allowed one or lies below it.\<close>

definition pathAllowed :: "string \<Rightarrow> string list \<Rightarrow> bool" where
  "pathAllowed p allowed =
     (let p = abs_path p in list_ex (\<lambda>a. p = abs_path a \<or> has_prefix p (abs_path a @ ''/'')) allowed)"

definition LookupTaskBySpecHashTx :: "string \<Rightarrow> db \<Rightarrow> task_row option" where
  "LookupTaskBySpecHashTx h db = find (\<lambda>t. tk_spec t = h) (tasks db)"

definition LatestTaskTx :: "string \<Rightarrow> db \<Rightarrow> task_row option" where
  "LatestTaskTx effort db = least_by (\<lambda>t. - tk_rev t) (filter (\<lambda>t. tk_effort t = effort) (tasks db))"

definition InsertTaskTx :: "task_row \<Rightarrow> db \<Rightarrow> (db \<times> task_row) res" where
  "InsertTaskTx t db =
     (let t = t\<lparr>tk_id := next_id (map tk_id (tasks db))\<rparr> in
      if tk_spec t \<in> tk_spec ` set (tasks db)
         \<or> (tk_effort t, tk_rev t) \<in> (\<lambda>x. (tk_effort x, tk_rev x)) ` set (tasks db) then Inl EConstraint
      else Inr (db\<lparr>tasks := tasks db @ [t]\<rparr>, t))"

definition SupersedeTaskTx :: "int \<Rightarrow> db \<Rightarrow> db" where
  "SupersedeTaskTx i db = db\<lparr>tasks := sql_update (\<lambda>t. tk_id t = i) (\<lambda>t. t\<lparr>tk_state := ''superseded''\<rparr>) (tasks db)\<rparr>"

definition ReleaseTaskSpecTx :: "int \<Rightarrow> db \<Rightarrow> db" where
  "ReleaseTaskSpecTx i db =
     db\<lparr>tasks := sql_update (\<lambda>t. tk_id t = i) (\<lambda>t. t\<lparr>tk_spec := ''released-'' @ show_int i\<rparr>) (tasks db)\<rparr>"

text \<open>\<^verbatim>\<open>specHash\<close>: SHA-256 over the pin's fields, the parameter \<open>spec_sha\<close>.\<close>

type_synonym spec_sha = "string list \<times> string list \<times> string list \<Rightarrow> string"

definition specHash :: "spec_sha \<Rightarrow> task_spec \<Rightarrow> string \<Rightarrow> string" where
  "specHash sha q policy_hash =
     sha ([ts_effort q, ts_repo q, ts_ref q, ts_base q, ts_prompt q, policy_hash], ts_paths q, ts_context q)"

definition task_checks :: "eng \<Rightarrow> string \<Rightarrow> task_spec \<Rightarrow> project res" where
  "task_checks eg project q = (case Project (eg_policy eg) project of
     None \<Rightarrow> Inl EPolicy
   | Some p \<Rightarrow>
       if \<not> AllowsKind p KindRun then Inl EPolicy
       else bindE (chooseGuest eg project (ts_guest q)) (\<lambda>_.
         if ts_effort q = [] \<or> ts_prompt q = [] \<or> ts_repo q = [] \<or> ts_ref q = [] \<or> ts_base q = []
         then Inl (EText ''task blocked: missing pin'')
         else if pr_repos p = [] \<or> IsProjectKey (ts_repo q)
         then Inl (EText ''task blocked: project-key session has no implement pin'')
         else if ts_repo q \<notin> set (pr_repos p) then Inl (EText ''task blocked: repo not bound'')
         else if ts_paths q = [] then Inl (EText ''task blocked: allowed paths required'')
         else if list_ex (\<lambda>x. \<not> pathAllowed x (ts_paths q)) (ts_instructions q) then Inl (EText ''out of scope'')
         else if (case eg_default_sha eg (ts_repo q) of None \<Rightarrow> False
                    | Some live \<Rightarrow> live \<noteq> [] \<and> live \<noteq> ts_base q) then Inl (EText ''stale source'')
         else Inr p))"

definition insertTaskSessionTx ::
  "eng \<Rightarrow> string \<Rightarrow> project \<Rightarrow> task_spec \<Rightarrow> string \<Rightarrow> string \<Rightarrow> int \<Rightarrow> db \<Rightarrow> (db \<times> task_row) res" where
  "insertTaskSessionTx eg project p q hash policy_hash rvn db =
     bindE (insertOperatorSessionTx (eg_now eg) SessionKindRun ''run'' project (ts_repo q) (ts_prompt q) 0 0 db)
       (\<lambda>(db, sid, item).
     bindE (SetSessionExecutionTx sid ''space'' [] (SetSessionTenantTx sid (sessionTenant p) db)) (\<lambda>db.
     bindE (applyDefaultRetentionTx eg sid db) (\<lambda>db.
     bindE (GrantSessionToolTx sid ''write'' ''plane'' db) (\<lambda>db.
     bindE (bindSessionGuestTx eg sid project (ts_guest q) db) (\<lambda>(db, _, _).
     bindE (SaveSnapshotTx (eg_item_sha eg) (ts_repo q) item 1
              (run_item (ts_repo q) item (ts_prompt q) (ts_ref q) (ts_base q)) db) (\<lambda>db.
       InsertTaskTx \<lparr>tk_id = 0, tk_effort = ts_effort q, tk_rev = rvn, tk_spec = hash, tk_session = sid,
         tk_repo = ts_repo q, tk_ref = ts_ref q, tk_base = ts_base q, tk_policy = policy_hash,
         tk_paths = ts_paths q, tk_context = ts_context q, tk_prompt = ts_prompt q,
         tk_repairs = (if ts_repairs q = 0 then 3 else ts_repairs q), tk_state = ''open''\<rparr> db))))))"

definition StartTask ::
  "eng \<Rightarrow> spec_sha \<Rightarrow> string \<Rightarrow> string \<Rightarrow> task_spec \<Rightarrow> db \<Rightarrow> db \<times> task_row res" where
  "StartTask eg sha policy_hash project q db =
     (case task_checks eg project q of
        Inl e \<Rightarrow> (db, Inl e)
      | Inr p \<Rightarrow>
          let hash = specHash sha q policy_hash;
              next_revision = (\<lambda>db. case LatestTaskTx (ts_effort q) db of
                  None \<Rightarrow> insertTaskSessionTx eg project p q hash policy_hash 1 db
                | Some l \<Rightarrow> if taskStillBound (tk_state l) then Inr (db, l)
                    else insertTaskSessionTx eg project p q hash policy_hash (tk_rev l + 1)
                           (SupersedeTaskTx (tk_id l) (ReleaseTaskSpecTx (tk_id l) db)))
          in run_tx (\<lambda>db.
            if Paused project db then Inl EPaused
            else if Halted (sessionTenant p) project (sessionTenant p) db then Inl EHalted
            else case LookupTaskBySpecHashTx hash db of
              Some t \<Rightarrow> if taskStillBound (tk_state t) then Inr (db, t) else next_revision db
            | None \<Rightarrow> next_revision db) db)"

end
