(* ===== verification/Integrity.thy ===== *)
theory Integrity
  imports Sessions
begin

text \<open>
  The integrity of the store: what every committed state satisfies (\<open>wf\<close>) and what holds in the middle
  of a transaction over one turn (\<open>mid\<close>), where a receipt for the current lease and the snapshot of the
  next revision may already be written while the turn's row is not. Both read the database only through
  \<open>core\<close>, so a statement that leaves \<open>core\<close> alone keeps them.
\<close>

section \<open>The invariant\<close>

definition skey :: "sess_row \<Rightarrow> int \<times> string \<times> string \<times> int \<times> string \<times> int" where
  "skey s = (s_id s, s_kind s, s_repo s, s_item s, s_item_kind s, s_parent s)"

definition core where
  "core db = (turns db, map skey (sessions db), snaps db, receipts db, followups db, steers db, flights db, reviews db)"

definition wf_sess :: "db \<Rightarrow> bool" where
  "wf_sess db = (distinct (map s_id (sessions db))
     \<and> distinct (map (\<lambda>s. (s_repo s, s_item s)) (sessions db))
     \<and> (\<forall>s \<in> set (sessions db). 0 < s_id s
          \<and> (if s_kind s = SessionKindReview then 0 < s_item s else s_item s < 0)))"

definition wf_turn :: "turn_row \<Rightarrow> bool" where
  "wf_turn t = (0 < t_id t \<and> 0 \<le> t_claimed t \<and> t_claimed t \<le> t_pending t \<and> 1 \<le> t_pending t
     \<and> 0 \<le> t_gen t \<and> 0 \<le> t_retry t
     \<and> (t_state t = Leased \<longrightarrow> 1 \<le> t_claimed t \<and> 1 \<le> t_gen t \<and> t_expires t \<noteq> None \<and> t_deadline t \<noteq> None))"

definition wf_turns :: "db \<Rightarrow> bool" where
  "wf_turns db = (distinct (map t_id (turns db)) \<and> distinct (map t_session (turns db))
     \<and> (\<forall>t \<in> set (turns db). wf_turn t)
     \<and> t_session ` set (turns db) = s_id ` set (sessions db)
     \<and> (\<forall>t \<in> set (turns db). \<forall>s \<in> set (sessions db). t_session t = s_id s
          \<longrightarrow> (t_lane t = ''review'' \<longleftrightarrow> s_kind s = SessionKindReview)))"

definition pending_of :: "db \<Rightarrow> int \<Rightarrow> int" where
  "pending_of db i = (case turn_of db i of None \<Rightarrow> 0 | Some t \<Rightarrow> t_pending t)"

text \<open>The snapshots of a turn's item are exactly the revisions from one to \<open>P\<close> of the turn.\<close>

definition snaps_ok :: "(int \<Rightarrow> int) \<Rightarrow> db \<Rightarrow> bool" where
  "snaps_ok P db = (distinct (map snap_key (snaps db))
     \<and> (\<forall>k \<in> snap_key ` set (snaps db). \<exists>t \<in> set (turns db). \<exists>s \<in> set (sessions db).
          t_session t = s_id s \<and> fst k = s_repo s \<and> fst (snd k) = s_item s)
     \<and> (\<forall>t \<in> set (turns db). \<forall>s \<in> set (sessions db). t_session t = s_id s
          \<longrightarrow> (\<forall>r. (s_repo s, s_item s, r) \<in> snap_key ` set (snaps db) \<longleftrightarrow> 1 \<le> r \<and> r \<le> P (t_id t))))"

text \<open>A generation of a turn has at most one receipt, and only once the turn has reached it; the current
  generation of a leased turn has none yet, except for the turns in \<open>X\<close>.\<close>

definition receipts_ok :: "int set \<Rightarrow> db \<Rightarrow> bool" where
  "receipts_ok X db = (distinct (map (\<lambda>r. (r_job r, r_gen r)) (receipts db))
     \<and> (\<forall>r \<in> set (receipts db). \<exists>t \<in> set (turns db). t_id t = r_job r \<and> 1 \<le> r_gen r \<and> r_gen r \<le> t_gen t
          \<and> (t_state t = Leased \<and> t_id t \<notin> X \<longrightarrow> r_gen r < t_gen t)))"

definition steer_key :: "steer_row \<Rightarrow> int \<times> int" where
  "steer_key s = (st_session s, st_seq s)"

definition queue_ok :: "db \<Rightarrow> bool" where
  "queue_ok db = (distinct (map followup_key (followups db))
     \<and> distinct (map st_id (steers db)) \<and> distinct (map steer_key (steers db))
     \<and> (\<forall>f \<in> set (followups db). 0 < f_seq f)
     \<and> (\<forall>s \<in> set (steers db). 0 < st_seq s
          \<and> (\<not> st_promoted s \<longrightarrow> steer_key s \<notin> followup_key ` set (followups db))
          \<and> (\<exists>t \<in> set (turns db). t_id t = st_turn s \<and> t_session t = st_session s
               \<and> 1 \<le> st_gen s \<and> st_gen s \<le> t_gen t)))"

definition flights_ok :: "db \<Rightarrow> bool" where
  "flights_ok db = (distinct (flights db) \<and> set (flights db) \<subseteq> receipt_key ` set (receipts db))"

definition wf :: "db \<Rightarrow> bool" where
  "wf db = (wf_sess db \<and> wf_turns db \<and> snaps_ok (pending_of db) db \<and> receipts_ok {} db
     \<and> queue_ok db \<and> flights_ok db)"

definition mid :: "int \<Rightarrow> int \<Rightarrow> db \<Rightarrow> bool" where
  "mid i p db = (wf_sess db \<and> wf_turns db \<and> snaps_ok ((pending_of db)(i := p)) db \<and> receipts_ok {i} db
     \<and> queue_ok db \<and> flights_ok db)"

section \<open>Reading through the core\<close>

text \<open>Each part reads only its own tables.\<close>

lemma parts_upd [simp]:
  "wf_sess (db\<lparr>reviews := rv\<rparr>) = wf_sess db"
  "wf_sess (db\<lparr>receipts := rc\<rparr>) = wf_sess db"
  "wf_sess (db\<lparr>flights := fl\<rparr>) = wf_sess db"
  "wf_sess (db\<lparr>followups := fu\<rparr>) = wf_sess db"
  "wf_sess (db\<lparr>steers := st\<rparr>) = wf_sess db"
  "wf_sess (db\<lparr>snaps := sn\<rparr>) = wf_sess db"
  "wf_turns (db\<lparr>reviews := rv\<rparr>) = wf_turns db"
  "wf_turns (db\<lparr>receipts := rc\<rparr>) = wf_turns db"
  "wf_turns (db\<lparr>flights := fl\<rparr>) = wf_turns db"
  "wf_turns (db\<lparr>followups := fu\<rparr>) = wf_turns db"
  "wf_turns (db\<lparr>steers := st\<rparr>) = wf_turns db"
  "wf_turns (db\<lparr>snaps := sn\<rparr>) = wf_turns db"
  "pending_of (db\<lparr>reviews := rv\<rparr>) = pending_of db"
  "pending_of (db\<lparr>receipts := rc\<rparr>) = pending_of db"
  "pending_of (db\<lparr>flights := fl\<rparr>) = pending_of db"
  "pending_of (db\<lparr>followups := fu\<rparr>) = pending_of db"
  "pending_of (db\<lparr>steers := st\<rparr>) = pending_of db"
  "pending_of (db\<lparr>snaps := sn\<rparr>) = pending_of db"
  "snaps_ok P (db\<lparr>reviews := rv\<rparr>) = snaps_ok P db"
  "snaps_ok P (db\<lparr>receipts := rc\<rparr>) = snaps_ok P db"
  "snaps_ok P (db\<lparr>flights := fl\<rparr>) = snaps_ok P db"
  "snaps_ok P (db\<lparr>followups := fu\<rparr>) = snaps_ok P db"
  "snaps_ok P (db\<lparr>steers := st\<rparr>) = snaps_ok P db"
  "receipts_ok X (db\<lparr>reviews := rv\<rparr>) = receipts_ok X db"
  "receipts_ok X (db\<lparr>flights := fl\<rparr>) = receipts_ok X db"
  "receipts_ok X (db\<lparr>followups := fu\<rparr>) = receipts_ok X db"
  "receipts_ok X (db\<lparr>steers := st\<rparr>) = receipts_ok X db"
  "receipts_ok X (db\<lparr>snaps := sn\<rparr>) = receipts_ok X db"
  "queue_ok (db\<lparr>reviews := rv\<rparr>) = queue_ok db"
  "queue_ok (db\<lparr>receipts := rc\<rparr>) = queue_ok db"
  "queue_ok (db\<lparr>flights := fl\<rparr>) = queue_ok db"
  "queue_ok (db\<lparr>snaps := sn\<rparr>) = queue_ok db"
  "flights_ok (db\<lparr>reviews := rv\<rparr>) = flights_ok db"
  "flights_ok (db\<lparr>followups := fu\<rparr>) = flights_ok db"
  "flights_ok (db\<lparr>steers := st\<rparr>) = flights_ok db"
  "flights_ok (db\<lparr>snaps := sn\<rparr>) = flights_ok db"
  by (simp_all add: wf_sess_def wf_turns_def pending_of_def turn_of_def fun_eq_iff snaps_ok_def receipts_ok_def queue_ok_def flights_ok_def)

lemma map_skey_proj:
  assumes "map skey (sessions db) = map skey (sessions db')"
  shows "map s_id (sessions db) = map s_id (sessions db')"
    "map s_kind (sessions db) = map s_kind (sessions db')"
    "map s_repo (sessions db) = map s_repo (sessions db')"
    "map s_item (sessions db) = map s_item (sessions db')"
    "map (\<lambda>s. (s_repo s, s_item s)) (sessions db) = map (\<lambda>s. (s_repo s, s_item s)) (sessions db')"
proof -
  have "map (f \<circ> skey) (sessions db) = map (f \<circ> skey) (sessions db')" for f :: "_ \<Rightarrow> 'x"
    using arg_cong [OF assms, of "map f"] by simp
  note * = this
  show "map s_id (sessions db) = map s_id (sessions db')"
    using * [of fst] by (simp add: comp_def skey_def)
  show "map s_kind (sessions db) = map s_kind (sessions db')"
    using * [of "fst \<circ> snd"] by (simp add: comp_def skey_def)
  show "map s_repo (sessions db) = map s_repo (sessions db')"
    using * [of "fst \<circ> snd \<circ> snd"] by (simp add: comp_def skey_def)
  show "map s_item (sessions db) = map s_item (sessions db')"
    using * [of "fst \<circ> snd \<circ> snd \<circ> snd"] by (simp add: comp_def skey_def)
  show "map (\<lambda>s. (s_repo s, s_item s)) (sessions db) = map (\<lambda>s. (s_repo s, s_item s)) (sessions db')"
    using * [of "\<lambda>k. (fst (snd (snd k)), fst (snd (snd (snd k))))"] by (simp add: comp_def skey_def)
qed

lemma all_sessions_skey:
  assumes "map skey (sessions db) = map skey (sessions db')"
    and "\<And>s s'. skey s = skey s' \<Longrightarrow> Q s = Q s'"
  shows "(\<forall>s \<in> set (sessions db). Q s) \<longleftrightarrow> (\<forall>s \<in> set (sessions db'). Q s)"
    and "(\<exists>s \<in> set (sessions db). Q s) \<longleftrightarrow> (\<exists>s \<in> set (sessions db'). Q s)"
proof -
  have e: "skey ` set (sessions db) = skey ` set (sessions db')" using assms(1) by (metis list.set_map)
  have 1: "\<exists>s' \<in> set (sessions db'). skey s' = skey s" if "s \<in> set (sessions db)" for s
    using that e by (metis imageE imageI)
  have 2: "\<exists>s' \<in> set (sessions db). skey s' = skey s" if "s \<in> set (sessions db')" for s
    using that e by (metis imageE imageI)
  show "(\<forall>s \<in> set (sessions db). Q s) \<longleftrightarrow> (\<forall>s \<in> set (sessions db'). Q s)" using 1 2 assms(2) by metis
  show "(\<exists>s \<in> set (sessions db). Q s) \<longleftrightarrow> (\<exists>s \<in> set (sessions db'). Q s)" using 1 2 assms(2) by metis
qed

lemma core_eqD:
  assumes "core db = core db'"
  shows "turns db = turns db'" "map skey (sessions db) = map skey (sessions db')" "snaps db = snaps db'"
    "receipts db = receipts db'" "followups db = followups db'" "steers db = steers db'" "flights db = flights db'"
    "reviews db = reviews db'"
  using assms by (simp_all add: core_def)

lemma core_parts:
  assumes "core db = core db'"
  shows "wf_sess db = wf_sess db'" "wf_turns db = wf_turns db'" "pending_of db = pending_of db'"
    "snaps_ok P db = snaps_ok P db'" "receipts_ok X db = receipts_ok X db'"
    "queue_ok db = queue_ok db'" "flights_ok db = flights_ok db'"
proof -
  note e = core_eqD [OF assms]
  note k = all_sessions_skey [OF e(2)]
  show "wf_sess db = wf_sess db'"
    unfolding wf_sess_def map_skey_proj [OF e(2)]
    by (subst k(1)) (auto simp: skey_def)
  have lane: "(\<forall>s \<in> set (sessions db). t_session t = s_id s \<longrightarrow> (t_lane t = ''review'' \<longleftrightarrow> s_kind s = SessionKindReview))
      \<longleftrightarrow> (\<forall>s \<in> set (sessions db'). t_session t = s_id s \<longrightarrow> (t_lane t = ''review'' \<longleftrightarrow> s_kind s = SessionKindReview))"
    for t by (rule k(1)) (simp add: skey_def)
  have ids: "s_id ` set (sessions db) = s_id ` set (sessions db')"
    using map_skey_proj(1) [OF e(2)] by (metis list.set_map)
  show "wf_turns db = wf_turns db'" unfolding wf_turns_def e(1) ids by (simp only: lane)
  show "pending_of db = pending_of db'" using e(1) by (simp add: pending_of_def turn_of_def fun_eq_iff)
  have own: "(\<exists>s \<in> set (sessions db). t_session t = s_id s \<and> fst x = s_repo s \<and> fst (snd x) = s_item s)
      \<longleftrightarrow> (\<exists>s \<in> set (sessions db'). t_session t = s_id s \<and> fst x = s_repo s \<and> fst (snd x) = s_item s)"
    for t and x :: "string \<times> int \<times> int" by (rule k(2)) (simp add: skey_def)
  have revs: "(\<forall>s \<in> set (sessions db). t_session t = s_id s
        \<longrightarrow> (\<forall>r. (s_repo s, s_item s, r) \<in> snap_key ` set (snaps db') \<longleftrightarrow> 1 \<le> r \<and> r \<le> P (t_id t)))
      \<longleftrightarrow> (\<forall>s \<in> set (sessions db'). t_session t = s_id s
        \<longrightarrow> (\<forall>r. (s_repo s, s_item s, r) \<in> snap_key ` set (snaps db') \<longleftrightarrow> 1 \<le> r \<and> r \<le> P (t_id t)))" for t
    by (rule k(1)) (simp add: skey_def)
  show "snaps_ok P db = snaps_ok P db'" unfolding snaps_ok_def e(1,3) by (simp only: own revs)
  show "receipts_ok X db = receipts_ok X db'" by (simp add: receipts_ok_def e)
  show "queue_ok db = queue_ok db'" by (simp add: queue_ok_def e)
  show "flights_ok db = flights_ok db'" by (simp add: flights_ok_def e)
qed

lemma wf_core: "core db = core db' \<Longrightarrow> wf db' \<Longrightarrow> wf db"
  using core_parts [of db db'] by (simp add: wf_def)

lemma mid_core: "core db = core db' \<Longrightarrow> mid i p db' \<Longrightarrow> mid i p db"
  using core_parts [of db db'] by (simp add: mid_def)

section \<open>Statements outside the core\<close>

lemma core_set_session:
  assumes "\<And>s. skey (f s) = skey s"
  shows "core (set_session sid f db) = core db"
  using map_sql_update [of "\<lambda>s. s_id s = sid" skey f "sessions db"] assms
  by (simp add: core_def set_session_def)

lemma core_session_setters [frame]:
  "core (SetSessionPromptTx sid a db) = core db"
  "core (SetSessionSizeTx sid a db) = core db"
  "core (SetSessionModeTx sid a db) = core db"
  "core (SetGuestSessionTx sid a db) = core db"
  "core (SetSessionGuestTx sid a b e db) = core db"
  "core (SetSessionTenantTx sid a db) = core db"
  "core (SetSessionCreatorTx sid a db) = core db"
  by (simp_all add: SetSessionPromptTx_def SetSessionSizeTx_def SetSessionModeTx_def SetGuestSessionTx_def
      SetSessionGuestTx_def SetSessionTenantTx_def SetSessionCreatorTx_def Let_def core_set_session skey_def)

lemma core_plain [frame]:
  "core (TouchSessionEnvironmentTx sid now x db) = core db"
  "core (touch_env eg sid db) = core db"
  "core (RenewTurnCredentialTx tid gen now db) = core db"
  "core (RenewGrantTx tid now db) = core db"
  "core (BindPromptAttachmentsTx sid seq rvn db) = core db"
  "core (InsertPromptAttachmentsTx eg sid seq files db) = core db"
  "core (OverlaySet k v db) = core db"
  "core (OverlayDelete k db) = core db"
  "core (IncrReviewsToday repo day db) = core db"
  "core (insert_action_ignore a db) = core db"
  "core (set_apply i st db) = core db"
  "core (plan_apply i rid repo item db) = core db"
  "core (settle_comment i out db) = core db"
  "core (insertHaltEventTx act scope target rec db) = core db"
  "core (EnsureRefreshQueuedTx repo item kind force db) = core db"
  "core (set_refresh P f db) = core db"
  "core (ensureSessionRetentionTx sid now db) = core db"
  "core (SupersedeTaskTx n db) = core db"
  "core (ReleaseTaskSpecTx n db) = core db"
  "core (fst (InsertDeliveryTx d src repo item kind db)) = core db"
  by (simp_all add: core_def TouchSessionEnvironmentTx_def touch_env_def RenewTurnCredentialTx_def
      RenewGrantTx_def BindPromptAttachmentsTx_def InsertPromptAttachmentsTx_def OverlaySet_def
      OverlayDelete_def IncrReviewsToday_def insert_action_ignore_def set_apply_def plan_apply_def
      settle_comment_def insertHaltEventTx_def EnsureRefreshQueuedTx_def set_refresh_def
      ensureSessionRetentionTx_def SupersedeTaskTx_def ReleaseTaskSpecTx_def InsertDeliveryTx_def Let_def
      split: option.split)

lemma core_InsertActionTx [frame]: "InsertActionTx a db = Inr db' \<Longrightarrow> core db' = core db"
  by (auto simp: InsertActionTx_def core_def split: if_splits)

lemma core_BeginMeasurementTx [frame]: "BeginMeasurementTx tid now db = Inr db' \<Longrightarrow> core db' = core db"
  unfolding BeginMeasurementTx_def by (elim bindE_InrE) (auto simp: core_def split: prod.splits if_splits)

lemma core_FinishMeasurementTx [frame]:
  "FinishMeasurementTx tid st now p a b db = Inr db' \<Longrightarrow> core db' = core db"
  unfolding FinishMeasurementTx_def
  by (cases "find (\<lambda>m. m_turn m = tid) (meas db)") (auto simp: core_def split: prod.splits elim!: bindE_InrE)

lemma core_recordChildOutcomeTx [frame]: "recordChildOutcomeTx tid out db = Inr db' \<Longrightarrow> core db' = core db"
  by (auto simp: recordChildOutcomeTx_def bindE_eq_Inr split: if_splits dest: core_InsertActionTx)

lemma core_finishMeasurementTx [frame]:
  "finishMeasurementTx tid st art now db = Inr db' \<Longrightarrow> core db' = core db"
  unfolding finishMeasurementTx_def
  by (elim bindE_InrE) (metis Inr_inject core_FinishMeasurementTx core_recordChildOutcomeTx)

lemma core_bindSessionGuestTx [frame]:
  "bindSessionGuestTx eg sid p r db = Inr (db', x) \<Longrightarrow> core db' = core db"
  by (auto simp: bindSessionGuestTx_def bindE_eq_Inr core_session_setters split: if_splits option.splits)

lemma core_DecrReviewsToday [frame]: "DecrReviewsToday repo day db = Inr db' \<Longrightarrow> core db' = core db"
  by (auto simp: DecrReviewsToday_def core_def split: if_splits)

lemma core_SetHaltTx [frame]: "SetHaltTx scope target rec db = Inr db' \<Longrightarrow> core db' = core db"
  by (auto simp: SetHaltTx_def Let_def core_plain split: if_splits)

lemma core_ClearHaltTx [frame]: "ClearHaltTx scope target rec db = Inr db' \<Longrightarrow> core db' = core db"
  by (auto simp: ClearHaltTx_def Let_def core_plain split: if_splits)

lemma core_SetSessionExecutionTx [frame]: "SetSessionExecutionTx sid m a db = Inr db' \<Longrightarrow> core db' = core db"
  by (auto simp: SetSessionExecutionTx_def Let_def core_set_session skey_def split: if_splits)

lemma core_applyDefaultRetentionTx [frame]: "applyDefaultRetentionTx eg sid db = Inr db' \<Longrightarrow> core db' = core db"
  by (auto simp: applyDefaultRetentionTx_def SetSessionRetentionTx_def bindE_eq_Inr Let_def core_def split: if_splits)

lemma core_GrantSessionToolTx [frame]: "GrantSessionToolTx sid t a db = Inr db' \<Longrightarrow> core db' = core db"
  by (auto simp: GrantSessionToolTx_def Let_def core_def split: if_splits)

lemma core_InsertTaskTx [frame]: "InsertTaskTx t db = Inr (db', t') \<Longrightarrow> core db' = core db"
  by (auto simp: InsertTaskTx_def Let_def core_def split: if_splits)

lemma core_insertOperatorSteerTx [frame]: "insertOperatorSteerTx i s j p d db = Inr db' \<Longrightarrow> core db' = core db"
  by (auto simp: insertOperatorSteerTx_def dest: core_InsertActionTx)

lemma core_insertPromptFileReceiptsTx [frame]:
  assumes "insertPromptFileReceiptsTx eg sid j ids files db = Inr db'"
  shows "core db' = core db"
  using assms unfolding insertPromptFileReceiptsTx_def
  by (rule for_each_keeps [where I = "\<lambda>x. core x = core db"])
    (auto simp: insert_file_receipt_def dest: core_InsertActionTx split: prod.splits)

lemma core_runApplyTx [frame]:
  "runApplyTx eg j snap rid art a i cls sent db = Inr db' \<Longrightarrow> core db' = core db"
  by (auto simp: runApplyTx_def Let_def bindE_eq_Inr core_plain split: if_splits option.splits)

lemma core_enqueue_first [frame]:
  "enqueue_first eg j snap rid art pol as db = Inr db' \<Longrightarrow> core db' = core db"
proof (induction as)
  case (Cons a as)
  show ?case
  proof (cases "eligible (af_verdict art) a pol \<and> (\<exists>c t. verifyEvidence eg (j_repo j) snap a = Some (True, c, t))")
    case True
    then obtain c t where "eligible (af_verdict art) a pol" "verifyEvidence eg (j_repo j) snap a = Some (True, c, t)"
      by blast
    then have "core db' = core (plan_apply (actionHash eg (j_repo j) (j_item j) (pa_type a) rid (pa_reason a))
        rid (j_repo j) (j_item j) db)"
      using Cons.prems core_runApplyTx by (simp add: Let_def)
    then show ?thesis by (simp add: core_plain)
  next
    case False
    then have "enqueue_first eg j snap rid art pol (a # as) db = enqueue_first eg j snap rid art pol as db"
      by (auto split: option.split bool.split)
    then show ?thesis using Cons by simp
  qed
qed simp

lemma core_maybeEnqueueApplyTx [frame]:
  "maybeEnqueueApplyTx eg j snap rid art db = Inr db' \<Longrightarrow> core db' = core db"
  by (auto simp: maybeEnqueueApplyTx_def split: if_splits option.splits dest: core_enqueue_first)

lemma core_publishPendingComments [frame]: "core (fst (publishPendingComments eg repo item db)) = core db"
proof -
  have "core (fold (\<lambda>p. settle_comment (ap_action (fst p)) (publish_one eg repo item p)) ps d) = core d" for ps d
    by (induction ps arbitrary: d) (simp_all add: core_plain)
  then show ?thesis by (simp add: publishPendingComments_def Let_def)
qed

section \<open>Looking up turns and jobs\<close>

lemma turn_of_iff: "wf_turns db \<Longrightarrow> turn_of db i = Some t \<longleftrightarrow> t \<in> set (turns db) \<and> t_id t = i"
  unfolding turn_of_def wf_turns_def by (rule find_key_iff) blast

lemma session_of_iff: "wf_sess db \<Longrightarrow> session_of db i = Some s \<longleftrightarrow> s \<in> set (sessions db) \<and> s_id s = i"
  unfolding session_of_def wf_sess_def by (rule find_key_iff) blast

lemma set_jobs: "set (jobs db) = {scanJob t s | t s. t \<in> set (turns db) \<and> session_of db (t_session t) = Some s}"
proof (rule set_eqI)
  fix j
  show "j \<in> set (jobs db) \<longleftrightarrow> j \<in> {scanJob t s | t s. t \<in> set (turns db) \<and> session_of db (t_session t) = Some s}"
    unfolding jobs_def by (induction "turns db" rule: list.induct) (auto simp: map_filter_def image_iff, force+)
qed

lemma jobs_ids: "wf_turns db \<Longrightarrow> distinct (map j_id (jobs db))"
proof -
  assume "wf_turns db"
  then have "distinct (map t_id (turns db))" by (simp add: wf_turns_def)
  moreover have "map j_id (List.map_filter (\<lambda>t. map_option (scanJob t) (session_of db (t_session t))) ts)
      = map t_id (filter (\<lambda>t. session_of db (t_session t) \<noteq> None) ts)" for ts
    by (induction ts) (auto simp: map_filter_simps scanJob_def split: option.split)
  ultimately show ?thesis by (simp add: jobs_def distinct_map_filter)
qed

lemma turn_session_ex:
  assumes "wf_sess db" "wf_turns db" "t \<in> set (turns db)"
  obtains s where "session_of db (t_session t) = Some s"
proof -
  have "t_session t \<in> s_id ` set (sessions db)" using assms by (auto simp: wf_turns_def)
  then show ?thesis using that session_of_iff [OF assms(1)] by force
qed

lemma GetJobByIDTx_iff:
  assumes "wf_turns db"
  shows "GetJobByIDTx i db = Inr j \<longleftrightarrow>
    (\<exists>t s. turn_of db i = Some t \<and> session_of db (t_session t) = Some s \<and> j = scanJob t s)"
proof -
  have "find (\<lambda>j. j_id j = i) (jobs db) = Some j \<longleftrightarrow> j \<in> set (jobs db) \<and> j_id j = i"
    by (rule find_key_iff [OF jobs_ids [OF assms]])
  then show ?thesis
    using turn_of_iff [OF assms] by (auto simp: GetJobByIDTx_def set_jobs scanJob_def)
qed

lemma GetJobByIDTx_E:
  assumes "wf_turns db" "GetJobByIDTx i db = Inr j"
  obtains t s where "turn_of db i = Some t" "session_of db (t_session t) = Some s" "j = scanJob t s"
    "j_id j = i"
proof -
  obtain t s where "turn_of db i = Some t" "session_of db (t_session t) = Some s" "j = scanJob t s"
    using assms GetJobByIDTx_iff by blast
  moreover have "j_id j = i" using calculation turn_of_iff [OF assms(1)] by (simp add: scanJob_def)
  ultimately show ?thesis by (rule that)
qed

lemma GetJobTx_D: "GetJobTx repo item lane db = Some j \<Longrightarrow> j \<in> set (jobs db) \<and> j_repo j = repo \<and> j_item j = item \<and> j_lane j = lane"
  by (auto simp: GetJobTx_def dest: find_Some_in)

lemma jobs_E:
  assumes "wf_turns db" "j \<in> set (jobs db)"
  obtains t s where "turn_of db (j_id j) = Some t" "session_of db (t_session t) = Some s" "j = scanJob t s"
  using assms turn_of_iff [OF assms(1)] by (auto simp: set_jobs scanJob_def)

lemma scanJob_sel [simp]:
  "j_id (scanJob t s) = t_id t" "j_repo (scanJob t s) = s_repo s" "j_item (scanJob t s) = s_item s"
  "j_kind (scanJob t s) = s_item_kind s" "j_lane (scanJob t s) = t_lane t"
  "j_pending (scanJob t s) = t_pending t" "j_claimed (scanJob t s) = t_claimed t"
  "j_gen (scanJob t s) = t_gen t" "j_expires (scanJob t s) = t_expires t"
  "j_deadline (scanJob t s) = t_deadline t" "j_retry (scanJob t s) = t_retry t"
  "j_state (scanJob t s) = t_state t"
  by (simp_all add: scanJob_def)

lemma core_lookup:
  assumes "core db = core db'"
  shows "turn_of db i = turn_of db' i"
    and "session_of db k = Some s \<Longrightarrow> \<exists>s'. session_of db' k = Some s' \<and> skey s' = skey s"
proof -
  show "turn_of db i = turn_of db' i" using core_eqD(1) [OF assms] by (simp add: turn_of_def)
  have "map skey xs = map skey ys \<Longrightarrow> find (\<lambda>s. s_id s = k) xs = Some s
      \<Longrightarrow> \<exists>s'. find (\<lambda>s. s_id s = k) ys = Some s' \<and> skey s' = skey s" for xs ys
  proof (induction xs arbitrary: ys)
    case (Cons x xs)
    then obtain y ys' where "ys = y # ys'" "skey x = skey y" "map skey xs = map skey ys'" by auto
    then show ?case using Cons by (auto simp: skey_def split: if_splits)
  qed simp
  then show "session_of db k = Some s \<Longrightarrow> \<exists>s'. session_of db' k = Some s' \<and> skey s' = skey s"
    using core_eqD(2) [OF assms] by (simp add: session_of_def)
qed

section \<open>Writing a turn's row\<close>

lemma put_job_sel [simp]:
  "t_id (put_job j t) = t_id t" "t_session (put_job j t) = t_session t" "t_lane (put_job j t) = t_lane t"
  "t_pending (put_job j t) = j_pending j" "t_claimed (put_job j t) = j_claimed j" "t_gen (put_job j t) = j_gen j"
  "t_expires (put_job j t) = j_expires j" "t_deadline (put_job j t) = j_deadline j"
  "t_retry (put_job j t) = j_retry j" "t_state (put_job j t) = j_state j" "t_token (put_job j t) = t_token t"
  by (simp_all add: put_job_def)

definition upd_turn :: "job \<Rightarrow> turn_row \<Rightarrow> turn_row" where
  "upd_turn j t = (if t_id t = j_id j then put_job j t else t)"

lemma upd_turn_sel [simp]:
  "t_id (upd_turn j t) = t_id t" "t_session (upd_turn j t) = t_session t" "t_lane (upd_turn j t) = t_lane t"
  by (simp_all add: upd_turn_def)

lemma upd_turn_cases: "t_id t = j_id j \<Longrightarrow> upd_turn j t = put_job j t" "t_id t \<noteq> j_id j \<Longrightarrow> upd_turn j t = t"
  by (simp_all add: upd_turn_def)

lemma turns_UpdateJobTx: "turns (UpdateJobTx j db) = map (upd_turn j) (turns db)"
  by (simp add: UpdateJobTx_def sql_update_def upd_turn_def)

lemma turn_of_UpdateJobTx: "turn_of (UpdateJobTx j db) i = map_option (upd_turn j) (turn_of db i)"
  unfolding turn_of_def UpdateJobTx_def upd_turn_def by (simp add: find_sql_update_key)

lemma UpdateJobTx_sel [simp]:
  "sessions (UpdateJobTx j db) = sessions db" "snaps (UpdateJobTx j db) = snaps db"
  "receipts (UpdateJobTx j db) = receipts db" "followups (UpdateJobTx j db) = followups db"
  "steers (UpdateJobTx j db) = steers db" "flights (UpdateJobTx j db) = flights db"
  "reviews (UpdateJobTx j db) = reviews db"
  "session_of (UpdateJobTx j db) = session_of db"
  by (simp_all add: UpdateJobTx_def session_of_def fun_eq_iff)

lemma turn_of_id: "turn_of db i = Some t \<Longrightarrow> t_id t = i"
  by (auto simp: turn_of_def dest: find_Some_in)

lemma pending_of_UpdateJobTx:
  "turn_of db (j_id j) = Some t \<Longrightarrow> pending_of (UpdateJobTx j db) = (pending_of db)(j_id j := j_pending j)"
  by (auto simp: pending_of_def turn_of_UpdateJobTx fun_eq_iff turn_of_id upd_turn_def split: option.split)

definition good_job :: "job \<Rightarrow> bool" where
  "good_job j = (0 \<le> j_claimed j \<and> j_claimed j \<le> j_pending j \<and> 1 \<le> j_pending j \<and> 0 \<le> j_gen j \<and> 0 \<le> j_retry j
     \<and> (j_state j = Leased \<longrightarrow> 1 \<le> j_claimed j \<and> 1 \<le> j_gen j \<and> j_expires j \<noteq> None \<and> j_deadline j \<noteq> None))"

lemma good_job_scan: "wf_turn t \<Longrightarrow> good_job (scanJob t s)"
  by (simp add: wf_turn_def good_job_def)

lemma wf_turns_UpdateJobTx:
  assumes "wf_turns db" "good_job j"
  shows "wf_turns (UpdateJobTx j db)"
proof -
  have "wf_turn t \<Longrightarrow> wf_turn (upd_turn j t)" for t
    using assms(2) by (simp add: wf_turn_def good_job_def upd_turn_def)
  then show ?thesis
    using assms(1) by (simp add: wf_turns_def turns_UpdateJobTx comp_def image_image)
qed

lemma snaps_ok_UpdateJobTx: "snaps_ok P db \<Longrightarrow> snaps_ok P (UpdateJobTx j db)"
  by (simp add: snaps_ok_def turns_UpdateJobTx)

lemma receipts_ok_UpdateJobTx:
  assumes "receipts_ok {j_id j} db"
    and "\<And>t. t \<in> set (turns db) \<Longrightarrow> t_id t = j_id j \<Longrightarrow> t_gen t \<le> j_gen j"
    and "j_state j = Leased \<Longrightarrow> \<forall>r \<in> set (receipts db). r_job r = j_id j \<longrightarrow> r_gen r < j_gen j"
  shows "receipts_ok {} (UpdateJobTx j db)"
  unfolding receipts_ok_def
proof (intro conjI ballI)
  show "distinct (map (\<lambda>r. (r_job r, r_gen r)) (receipts (UpdateJobTx j db)))" using assms(1) by (simp add: receipts_ok_def)
next
  fix r assume "r \<in> set (receipts (UpdateJobTx j db))"
  then have r: "r \<in> set (receipts db)" by simp
  then obtain t where t: "t \<in> set (turns db)" "t_id t = r_job r" "1 \<le> r_gen r" "r_gen r \<le> t_gen t"
    "t_state t = Leased \<and> t_id t \<notin> {j_id j} \<longrightarrow> r_gen r < t_gen t"
    using assms(1) unfolding receipts_ok_def by blast
  have "r_gen r \<le> t_gen (upd_turn j t) \<and> (t_state (upd_turn j t) = Leased \<longrightarrow> r_gen r < t_gen (upd_turn j t))"
  proof (cases "t_id t = j_id j")
    case True
    then have "t_gen t \<le> j_gen j" using assms(2) t(1) by blast
    moreover have "j_state j = Leased \<Longrightarrow> r_gen r < j_gen j" using assms(3) True r t(2) by simp
    ultimately show ?thesis using t(4) by (simp add: upd_turn_cases True)
  qed (use t in \<open>simp add: upd_turn_cases\<close>)
  moreover have "upd_turn j t \<in> set (turns (UpdateJobTx j db))" using t(1) by (simp add: turns_UpdateJobTx)
  ultimately show "\<exists>t \<in> set (turns (UpdateJobTx j db)). t_id t = r_job r \<and> 1 \<le> r_gen r \<and> r_gen r \<le> t_gen t
      \<and> (t_state t = Leased \<and> t_id t \<notin> {} \<longrightarrow> r_gen r < t_gen t)"
    using t(2,3) by (intro bexI [of _ "upd_turn j t"]) simp_all
qed

lemma queue_ok_UpdateJobTx:
  assumes "queue_ok db"
    and "\<And>t. t \<in> set (turns db) \<Longrightarrow> t_id t = j_id j \<Longrightarrow> t_gen t \<le> j_gen j"
  shows "queue_ok (UpdateJobTx j db)"
proof -
  have "\<exists>t \<in> set (turns (UpdateJobTx j db)). t_id t = i \<and> t_session t = k \<and> 1 \<le> g \<and> g \<le> t_gen t"
    if old: "\<exists>t \<in> set (turns db). t_id t = i \<and> t_session t = k \<and> 1 \<le> g \<and> g \<le> t_gen t" for i k g
  proof -
    obtain t where t: "t \<in> set (turns db)" "t_id t = i" "t_session t = k" "1 \<le> g" "g \<le> t_gen t" using old by blast
    have "g \<le> t_gen (upd_turn j t)"
      using t assms(2) [of t] by (auto simp: upd_turn_def)
    then show ?thesis using t by (simp add: turns_UpdateJobTx) blast
  qed
  then show ?thesis using assms(1) unfolding queue_ok_def by simp
qed

text \<open>A transaction over turn \<open>i\<close> ends by writing its row.\<close>

lemma wf_UpdateJobTx:
  assumes "mid (j_id j) (j_pending j) db" and t: "turn_of db (j_id j) = Some t"
    and "good_job j" and "t_gen t \<le> j_gen j"
    and "j_state j = Leased \<Longrightarrow> \<forall>r \<in> set (receipts db). r_job r = j_id j \<longrightarrow> r_gen r < j_gen j"
  shows "wf (UpdateJobTx j db)"
proof -
  have w: "wf_turns db" using assms(1) by (simp add: mid_def)
  have g: "t_gen t' \<le> j_gen j" if "t' \<in> set (turns db)" "t_id t' = j_id j" for t'
    using that t assms(4) turn_of_iff [OF w] by (metis option.inject)
  have f: "wf_sess (UpdateJobTx j db) = wf_sess db" "flights_ok (UpdateJobTx j db) = flights_ok db"
    by (simp_all add: wf_sess_def flights_ok_def)
  show ?thesis
    unfolding wf_def pending_of_UpdateJobTx [OF t] f
    using assms(1) wf_turns_UpdateJobTx [OF w assms(3)] snaps_ok_UpdateJobTx
      receipts_ok_UpdateJobTx [of j db] queue_ok_UpdateJobTx [of db j] g assms(5)
    unfolding mid_def by blast
qed

lemma mid_start:
  assumes "wf db" "turn_of db i = Some t"
  shows "mid i (t_pending t) db"
proof -
  have "(pending_of db)(i := t_pending t) = pending_of db"
    using assms(2) by (simp add: fun_eq_iff pending_of_def)
  moreover have "receipts_ok {} db \<Longrightarrow> receipts_ok {i} db" unfolding receipts_ok_def by blast
  ultimately show ?thesis using assms(1) by (simp add: wf_def mid_def)
qed

end
