(* ===== verification/Transitions.thy ===== *)
theory Transitions
  imports Integrity "HOL-Library.Sublist"
begin

text \<open>
  How a transaction moves the store. \<open>grows\<close> is what every transaction does: receipts, reviews, snapshots
  and flight records are only appended, rows keep their identity, and a turn's lease generation and
  pending revision never go down. \<open>via db0 i p db\<close> is a state inside a transaction over turn \<open>i\<close> that
  started in \<open>db0\<close>, in which revisions up to \<open>p\<close> of the turn are snapshotted; every statement of the
  engine moves along it, and writing the turn's row ends it (\<open>via_finish\<close>).
\<close>

section \<open>Growth\<close>

definition fkey :: "followup_row \<Rightarrow> int \<times> int \<times> string \<times> bool" where
  "fkey f = (f_session f, f_seq f, f_prompt f, f_queued f)"

definition stkey :: "steer_row \<Rightarrow> int \<times> int \<times> int \<times> int \<times> string \<times> int" where
  "stkey s = (st_id s, st_session s, st_turn s, st_gen s, st_prompt s, st_seq s)"

text \<open>A later row of the same turn: the generation and the pending revision never go back, and a lease
  still held at the same generation is the same lease, with the same deadline and claimed revision.\<close>

definition later :: "turn_row \<Rightarrow> turn_row \<Rightarrow> bool" where
  "later t t' = (t_id t' = t_id t \<and> t_session t' = t_session t \<and> t_lane t' = t_lane t
     \<and> t_gen t \<le> t_gen t' \<and> t_pending t \<le> t_pending t'
     \<and> (t_state t' = Leased \<and> t_gen t' = t_gen t \<longrightarrow>
          t_state t = Leased \<and> t_deadline t' = t_deadline t \<and> t_claimed t' = t_claimed t))"

definition grows :: "db \<Rightarrow> db \<Rightarrow> bool" where
  "grows db db' = (prefix (receipts db) (receipts db') \<and> prefix (reviews db) (reviews db')
     \<and> prefix (snaps db) (snaps db') \<and> prefix (flights db) (flights db')
     \<and> prefix (map skey (sessions db)) (map skey (sessions db'))
     \<and> prefix (map fkey (followups db)) (map fkey (followups db'))
     \<and> prefix (map stkey (steers db)) (map stkey (steers db'))
     \<and> (\<forall>t \<in> set (turns db). \<exists>t' \<in> set (turns db'). later t t'))"

lemma later_refl [simp]: "later t t"
  by (simp add: later_def)

lemma later_trans: "later a b \<Longrightarrow> later b c \<Longrightarrow> later a c"
  by (auto simp: later_def)

lemma grows_refl [simp]: "grows db db"
  unfolding grows_def using later_refl by (intro conjI ballI) (auto intro: later_refl)

lemma growsD:
  assumes "grows db db'"
  shows "prefix (receipts db) (receipts db')" "prefix (reviews db) (reviews db')"
    "prefix (snaps db) (snaps db')" "prefix (flights db) (flights db')"
    "prefix (map skey (sessions db)) (map skey (sessions db'))"
    "prefix (map fkey (followups db)) (map fkey (followups db'))"
    "prefix (map stkey (steers db)) (map stkey (steers db'))"
  using assms by (simp_all add: grows_def)

lemma grows_turn:
  assumes "grows db db'" "t \<in> set (turns db)"
  obtains t' where "t' \<in> set (turns db')" "later t t'"
  using assms by (auto simp: grows_def)

lemma grows_trans:
  assumes "grows a b" "grows b c"
  shows "grows a c"
proof -
  have "\<exists>t' \<in> set (turns c). later t t'" if "t \<in> set (turns a)" for t
    using that grows_turn [OF assms(1)] grows_turn [OF assms(2)] by (metis later_trans)
  then show ?thesis
    unfolding grows_def using growsD [OF assms(1)] growsD [OF assms(2)]
    by (intro conjI ballI) (metis prefix_order.trans)+
qed

lemma grows_core: "core db' = core db \<Longrightarrow> grows db db'"
  by (simp add: grows_def core_def) (blast intro: later_refl)

section \<open>Inside a transaction over one turn\<close>

definition via :: "db \<Rightarrow> int \<Rightarrow> int \<Rightarrow> db \<Rightarrow> bool" where
  "via db0 i p db = (mid i p db \<and> grows db0 db \<and> turns db = turns db0
     \<and> map skey (sessions db) = map skey (sessions db0))"

lemma via_start: "wf db \<Longrightarrow> turn_of db i = Some t \<Longrightarrow> via db i (t_pending t) db"
  by (simp add: via_def mid_start)

lemma via_core:
  assumes "via db0 i p db" "core db' = core db"
  shows "via db0 i p db'"
proof -
  have "grows db0 db'" using assms grows_core grows_trans unfolding via_def by blast
  moreover have "mid i p db'" using assms mid_core unfolding via_def by blast
  ultimately show ?thesis using assms core_eqD [OF assms(2)] by (simp add: via_def)
qed

lemma via_turn_of: "via db0 i p db \<Longrightarrow> turn_of db k = turn_of db0 k"
  by (simp add: via_def turn_of_def)

lemma via_wf: "via db0 i p db \<Longrightarrow> wf_sess db" "via db0 i p db \<Longrightarrow> wf_turns db"
  "via db0 i p db \<Longrightarrow> queue_ok db" "via db0 i p db \<Longrightarrow> receipts_ok {i} db" "via db0 i p db \<Longrightarrow> flights_ok db"
  by (simp_all add: via_def mid_def)

lemma via_GetTurnTx: "via db0 i p db \<Longrightarrow> GetTurnTx k db = GetTurnTx k db0"
  by (simp add: GetTurnTx_def via_turn_of)

text \<open>Writing the row of the turn ends the transaction.\<close>

lemma grows_UpdateJobTx:
  assumes "wf_turns db" "turn_of db (j_id j) = Some t" "t_gen t \<le> j_gen j" "t_pending t \<le> j_pending j"
    and "j_state j = Leased \<Longrightarrow> j_gen j = t_gen t \<Longrightarrow> t_state t = Leased \<and> j_deadline j = t_deadline t \<and> j_claimed j = t_claimed t"
  shows "grows db (UpdateJobTx j db)"
proof -
  have "later x (upd_turn j x)" if "x \<in> set (turns db)" for x
  proof (cases "t_id x = j_id j")
    case True
    then have "x = t" using that assms(1,2) turn_of_iff [OF assms(1)] by (metis option.inject)
    then show ?thesis using True assms(3,4,5) by (simp add: later_def upd_turn_cases)
  qed (simp add: upd_turn_cases)
  then show ?thesis by (simp add: grows_def turns_UpdateJobTx) blast
qed

lemma via_finish:
  assumes "via db0 (j_id j) (j_pending j) db" and t: "turn_of db0 (j_id j) = Some t"
    and "good_job j" "t_gen t \<le> j_gen j" "t_pending t \<le> j_pending j"
    and "j_state j = Leased \<Longrightarrow> \<forall>r \<in> set (receipts db). r_job r = j_id j \<longrightarrow> r_gen r < j_gen j"
    and "j_state j = Leased \<Longrightarrow> j_gen j = t_gen t \<Longrightarrow> t_state t = Leased \<and> j_deadline j = t_deadline t \<and> j_claimed j = t_claimed t"
  shows "wf (UpdateJobTx j db) \<and> grows db0 (UpdateJobTx j db)"
proof -
  have t': "turn_of db (j_id j) = Some t" using t via_turn_of [OF assms(1)] by simp
  have "mid (j_id j) (j_pending j) db" using assms(1) by (simp add: via_def)
  then have "wf (UpdateJobTx j db)" using wf_UpdateJobTx [OF _ t'] assms by blast
  moreover have "grows db (UpdateJobTx j db)"
    using grows_UpdateJobTx [OF via_wf(2) [OF assms(1)] t'] assms by blast
  ultimately show ?thesis using assms(1) grows_trans unfolding via_def by blast
qed

section \<open>Receipts, reviews and flight records\<close>

lemma grows_same_turns:
  assumes "turns db' = turns db"
  shows "grows db db' \<longleftrightarrow> prefix (receipts db) (receipts db') \<and> prefix (reviews db) (reviews db')
     \<and> prefix (snaps db) (snaps db') \<and> prefix (flights db) (flights db')
     \<and> prefix (map skey (sessions db)) (map skey (sessions db'))
     \<and> prefix (map fkey (followups db)) (map fkey (followups db'))
     \<and> prefix (map stkey (steers db)) (map stkey (steers db'))"
proof -
  have "\<forall>t \<in> set (turns db). \<exists>t' \<in> set (turns db'). later t t'"
    using assms by (metis later_refl)
  then show ?thesis by (simp add: grows_def)
qed

lemma via_frame:
  assumes "via db0 i p db" "mid i p' db'" "grows db db'" "turns db' = turns db" "sessions db' = sessions db"
  shows "via db0 i p' db'"
  using assms grows_trans [of db0 db db'] by (simp add: via_def)

lemma via_mid: "via db0 i p db \<Longrightarrow> mid i p db"
  by (simp add: via_def)

lemma via_snaps: "via db0 i p db \<Longrightarrow> snaps_ok ((pending_of db)(i := p)) db"
  by (simp add: via_def mid_def)

lemma via_reviews: "via db0 i p db \<Longrightarrow> via db0 i p (db\<lparr>reviews := reviews db @ xs\<rparr>)"
  by (rule via_frame) (auto simp: grows_same_turns mid_def via_def)

lemma leased_receipts:
  assumes "wf db" "turn_of db i = Some t" "t_state t = Leased \<or> t_gen t < g" "t_gen t \<le> g"
  shows "\<forall>r \<in> set (receipts db). r_job r = i \<longrightarrow> r_gen r < g"
proof (intro ballI impI)
  fix r assume r: "r \<in> set (receipts db)" "r_job r = i"
  then obtain t' where t': "t' \<in> set (turns db)" "t_id t' = i" "r_gen r \<le> t_gen t'"
    "t_state t' = Leased \<longrightarrow> r_gen r < t_gen t'"
    using assms(1) unfolding wf_def receipts_ok_def by blast
  have "turn_of db i = Some t'" using assms(1) t'(1,2) turn_of_iff by (simp add: wf_def)
  then have "t' = t" using assms(2) by simp
  then show "r_gen r < g" using t' assms(3,4) by auto
qed

lemma receipts_ok_insert:
  assumes "receipts_ok {i} db" "turn_of db i = Some t" "1 \<le> gen" "gen \<le> t_gen t"
    and "\<forall>r \<in> set (receipts db). r_job r = i \<longrightarrow> r_gen r < gen"
  shows "receipts_ok {i} (db\<lparr>receipts := receipts db @ [\<lparr>r_job = i, r_gen = gen, r_claimed = cl, r_kind = k, r_payload = pl\<rparr>]\<rparr>)"
proof -
  have "t \<in> set (turns db)" "t_id t = i" using assms(2) by (auto simp: turn_of_def dest: find_Some_in)
  then have "\<exists>t \<in> set (turns db). t_id t = i \<and> 1 \<le> gen \<and> gen \<le> t_gen t
      \<and> (t_state t = Leased \<and> t_id t \<noteq> i \<longrightarrow> gen < t_gen t)" using assms(3,4) by blast
  moreover have "(i, gen) \<notin> (\<lambda>r. (r_job r, r_gen r)) ` set (receipts db)" using assms(5) by fastforce
  ultimately show ?thesis using assms(1) by (simp add: receipts_ok_def)
qed

lemma via_InsertReceiptTx:
  assumes "via db0 i p db" "InsertReceiptTx i gen cl k pl db = Inr db'"
    and w: "wf db0" and t: "turn_of db0 i = Some t" "t_state t = Leased" "gen = t_gen t" and r: "receipts db = receipts db0"
  shows "via db0 i p db' \<and> receipts db' = receipts db @ [\<lparr>r_job = i, r_gen = gen, r_claimed = cl, r_kind = k, r_payload = pl\<rparr>]"
proof -
  have db': "db' = db\<lparr>receipts := receipts db @ [\<lparr>r_job = i, r_gen = gen, r_claimed = cl, r_kind = k, r_payload = pl\<rparr>]\<rparr>"
    using assms(2) by (auto simp: InsertReceiptTx_def split: if_splits)
  have "wf_turns db0" using w by (simp add: wf_def)
  then have "wf_turn t" using t(1) turn_of_iff by (auto simp: wf_turns_def)
  then have g: "1 \<le> gen" "gen \<le> t_gen t" using t(2,3) by (simp_all add: wf_turn_def)
  have fresh: "\<forall>r \<in> set (receipts db). r_job r = i \<longrightarrow> r_gen r < gen"
    unfolding r by (rule leased_receipts [OF w t(1)]) (use t in simp_all)
  have "turn_of db i = Some t" using t(1) via_turn_of [OF assms(1)] by simp
  from receipts_ok_insert [OF via_wf(4) [OF assms(1)] this g fresh]
  have "receipts_ok {i} db'" by (simp add: db')
  moreover have "flights_ok db'" using via_wf(5) [OF assms(1)] by (auto simp: db' flights_ok_def)
  ultimately have "mid i p db'" using via_mid [OF assms(1)] by (simp add: mid_def db')
  then have "via db0 i p db'"
    by (rule via_frame [OF assms(1)]) (simp_all add: grows_same_turns db')
  then show ?thesis by (simp add: db')
qed

lemma via_InsertFlightRecordTx:
  assumes "via db0 i p db" "InsertFlightRecordTx rid db = Inr db'" "rid \<in> receipt_key ` set (receipts db)"
  shows "via db0 i p db'"
proof -
  have db': "db' = db\<lparr>flights := flights db @ [rid]\<rparr>" and fresh: "rid \<notin> set (flights db)"
    using assms(2) by (auto simp: InsertFlightRecordTx_def split: if_splits)
  have "flights_ok db'" using via_wf(5) [OF assms(1)] assms(3) fresh by (simp add: db' flights_ok_def)
  then have "mid i p db'" using via_mid [OF assms(1)] by (simp add: mid_def db')
  then show ?thesis
    by (rule via_frame [OF assms(1)]) (simp_all add: grows_same_turns db')
qed

section \<open>The next revision of a turn\<close>

lemma snaps_ok_next:
  assumes ok: "snaps_ok P db" and w: "wf_sess db" "wf_turns db"
    and t: "t \<in> set (turns db)" "s \<in> set (sessions db)" "t_session t = s_id s"
    and "0 \<le> P (t_id t)" and fresh: "(s_repo s, s_item s, P (t_id t) + 1) \<notin> snap_key ` set (snaps db)"
    and row: "snap_key row = (s_repo s, s_item s, P (t_id t) + 1)"
  shows "snaps_ok (P(t_id t := P (t_id t) + 1)) (db\<lparr>snaps := snaps db @ [row]\<rparr>)"
  unfolding snaps_ok_def
proof (intro conjI ballI impI allI)
  show "distinct (map snap_key (snaps (db\<lparr>snaps := snaps db @ [row]\<rparr>)))"
    using ok fresh row by (simp add: snaps_ok_def)
next
  fix k assume "k \<in> snap_key ` set (snaps (db\<lparr>snaps := snaps db @ [row]\<rparr>))"
  then consider "k = snap_key row" | "k \<in> snap_key ` set (snaps db)" by auto
  then show "\<exists>t \<in> set (turns (db\<lparr>snaps := snaps db @ [row]\<rparr>)). \<exists>s \<in> set (sessions (db\<lparr>snaps := snaps db @ [row]\<rparr>)).
      t_session t = s_id s \<and> fst k = s_repo s \<and> fst (snd k) = s_item s"
  proof cases
    case 1 then show ?thesis using t row by auto
  next
    case 2
    then have "\<exists>t \<in> set (turns db). \<exists>s \<in> set (sessions db). t_session t = s_id s \<and> fst k = s_repo s \<and> fst (snd k) = s_item s"
      using ok unfolding snaps_ok_def by blast
    then show ?thesis by simp
  qed
next
  fix t' s' r
  assume "t' \<in> set (turns (db\<lparr>snaps := snaps db @ [row]\<rparr>))" "s' \<in> set (sessions (db\<lparr>snaps := snaps db @ [row]\<rparr>))"
    and e: "t_session t' = s_id s'"
  then have m: "t' \<in> set (turns db)" "s' \<in> set (sessions db)" by simp_all
  have old: "(s_repo s', s_item s', r) \<in> snap_key ` set (snaps db) \<longleftrightarrow> 1 \<le> r \<and> r \<le> P (t_id t')"
    using ok m e unfolding snaps_ok_def by blast
  show "(s_repo s', s_item s', r) \<in> snap_key ` set (snaps (db\<lparr>snaps := snaps db @ [row]\<rparr>))
      \<longleftrightarrow> 1 \<le> r \<and> r \<le> (P(t_id t := P (t_id t) + 1)) (t_id t')"
  proof (cases "t' = t")
    case True
    have "inj_on s_id (set (sessions db))" using w(1) by (simp add: wf_sess_def distinct_map)
    then have "s' = s" using True e t m by (auto dest: inj_onD)
    then show ?thesis using True old row \<open>0 \<le> P (t_id t)\<close> by auto
  next
    case False
    have "inj_on t_session (set (turns db))" "inj_on t_id (set (turns db))"
      using w(2) by (simp_all add: wf_turns_def distinct_map)
    then have "t_session t' \<noteq> t_session t" "t_id t' \<noteq> t_id t"
      using False t(1) m(1) by (simp_all add: inj_on_eq_iff)
    moreover have "inj_on (\<lambda>s. (s_repo s, s_item s)) (set (sessions db))"
      using w(1) by (simp add: wf_sess_def distinct_map)
    ultimately have "(s_repo s', s_item s') \<noteq> (s_repo s, s_item s)" using e t m by (auto dest: inj_onD)
    then show ?thesis using old row \<open>t_id t' \<noteq> t_id t\<close> by auto
  qed
qed

text \<open>Turn \<open>i\<close> and its session, as the engine's job value \<open>j\<close> names them.\<close>

definition owns :: "db \<Rightarrow> job \<Rightarrow> turn_row \<Rightarrow> sess_row \<Rightarrow> bool" where
  "owns db j t s = (turn_of db (j_id j) = Some t \<and> session_of db (t_session t) = Some s
     \<and> j_repo j = s_repo s \<and> j_item j = s_item s)"

lemma owns_scan: "turn_of db i = Some t \<Longrightarrow> session_of db (t_session t) = Some s \<Longrightarrow> owns db (scanJob t s) t s"
  by (auto simp: owns_def turn_of_id)

lemma owns_cong: "owns db j t s \<Longrightarrow> j_id j' = j_id j \<Longrightarrow> j_repo j' = j_repo j \<Longrightarrow> j_item j' = j_item j \<Longrightarrow> owns db j' t s"
  by (simp add: owns_def)

lemma via_SaveSnapshotTx:
  assumes v: "via db0 (j_id j) p db" and o: "owns db0 j t s" and "0 \<le> p"
    and "SaveSnapshotTx sha (j_repo j) (j_item j) (p + 1) it db = Inr db'"
  shows "via db0 (j_id j) (p + 1) db' \<and> receipts db' = receipts db"
proof -
  let ?row = "\<lparr>sn_repo = j_repo j, sn_item = j_item j, sn_rev = p + 1, sn_hash = ItemHash sha it, sn_payload = it\<rparr>"
  have db': "db' = db\<lparr>snaps := snaps db @ [?row]\<rparr>"
    and fresh: "(j_repo j, j_item j, p + 1) \<notin> snap_key ` set (snaps db)"
    using assms(4) by (auto simp: SaveSnapshotTx_def split: if_splits)
  have "turn_of db (j_id j) = Some t" using o v by (simp add: owns_def via_turn_of)
  then have t: "t \<in> set (turns db)" "t_id t = j_id j" using turn_of_iff [OF via_wf(2) [OF v]] by simp_all
  have "map skey (sessions db) = map skey (sessions db0)" using v by (simp add: via_def)
  moreover have s0: "s \<in> set (sessions db0)" "s_id s = t_session t"
    using o by (auto simp: owns_def session_of_def dest: find_Some_in)
  ultimately obtain s' where s': "s' \<in> set (sessions db)" "skey s' = skey s"
    by (metis (no_types, lifting) image_iff list.set_map)
  have k: "s_id s' = s_id s" "s_repo s' = j_repo j" "s_item s' = j_item j"
    using s'(2) o by (simp_all add: skey_def owns_def)
  have "snaps_ok ((pending_of db)(j_id j := p + 1)) db'"
    using snaps_ok_next [OF via_snaps [OF v] via_wf(1,2) [OF v] t(1) s'(1), of ?row] t s0 k fresh \<open>0 \<le> p\<close>
    by (simp add: db' snap_key_def)
  then have "mid (j_id j) (p + 1) db'" using via_mid [OF v] by (simp add: mid_def db')
  then have "via db0 (j_id j) (p + 1) db'"
    by (rule via_frame [OF v]) (simp_all add: grows_same_turns db')
  then show ?thesis by (simp add: db')
qed

section \<open>Follow-ups and steers\<close>

definition followup_of :: "steer_row \<Rightarrow> followup_row" where
  "followup_of s = \<lparr>f_session = st_session s, f_seq = st_seq s, f_prompt = st_prompt s,
     f_consumed = False, f_queued = False, f_dropped = False\<rparr>"

definition promoted :: "int set \<Rightarrow> steer_row list \<Rightarrow> steer_row list" where
  "promoted I = sql_update (\<lambda>x. st_id x \<in> I) (\<lambda>x. x\<lparr>st_promoted := True\<rparr>)"

lemma promoted_sel:
  "map st_id (promoted I xs) = map st_id xs" "map steer_key (promoted I xs) = map steer_key xs"
  "map stkey (promoted I xs) = map stkey xs"
  by (simp_all add: promoted_def map_sql_update steer_key_def stkey_def)

lemma promoted_comp: "promoted I (promoted J xs) = promoted (I \<union> J) xs"
  by (induction xs) (auto simp: promoted_def)

lemma promoted_unpromoted: "x \<in> set (promoted I xs) \<Longrightarrow> \<not> st_promoted x \<Longrightarrow> x \<in> set xs \<and> st_id x \<notin> I"
  by (auto simp: promoted_def elim: in_sql_updateE)

lemma promoted_stkey: "x \<in> set (promoted I xs) \<Longrightarrow> \<exists>y \<in> set xs. stkey x = stkey y"
  by (auto simp: promoted_def set_sql_update stkey_def)

lemma promoted_keeps: "x \<in> set xs \<Longrightarrow> st_id x \<notin> I \<Longrightarrow> x \<in> set (promoted I xs)"
  by (force simp: promoted_def set_sql_update)

lemma queue_ok_promote:
  assumes q: "queue_ok db" and s: "s \<in> set (steers db)" "\<not> st_promoted s"
  shows "queue_ok (db\<lparr>followups := followups db @ [followup_of s], steers := promoted {st_id s} (steers db)\<rparr>)"
proof -
  have fresh: "steer_key s \<notin> followup_key ` set (followups db)" "0 < st_seq s" using q s unfolding queue_ok_def by blast+
  have key: "followup_key (followup_of s) = steer_key s" by (simp add: followup_key_def followup_of_def steer_key_def)
  have rows: "0 < st_seq x \<and> (\<not> st_promoted x \<longrightarrow> steer_key x \<notin> followup_key ` set (followups db @ [followup_of s]))
      \<and> (\<exists>t \<in> set (turns db). t_id t = st_turn x \<and> t_session t = st_session x \<and> 1 \<le> st_gen x \<and> st_gen x \<le> t_gen t)"
    if px: "x \<in> set (promoted {st_id s} (steers db))" for x
  proof -
    obtain y where y: "y \<in> set (steers db)" "stkey x = stkey y" using promoted_stkey [OF px] by blast
    have "0 < st_seq y \<and> (\<exists>t \<in> set (turns db). t_id t = st_turn y \<and> t_session t = st_session y
        \<and> 1 \<le> st_gen y \<and> st_gen y \<le> t_gen t)" using q y(1) unfolding queue_ok_def by blast
    moreover have "steer_key x \<notin> followup_key ` set (followups db @ [followup_of s])" if "\<not> st_promoted x"
    proof -
      have x: "x \<in> set (steers db)" "x \<noteq> s" using promoted_unpromoted [OF px that] by auto
      have "inj_on steer_key (set (steers db))" using q by (simp add: queue_ok_def distinct_map)
      then have "steer_key x \<noteq> steer_key s" using x s(1) by (auto dest: inj_onD)
      then show ?thesis using q x(1) that unfolding queue_ok_def by (simp add: key)
    qed
    ultimately show ?thesis using y(2) by (simp add: stkey_def)
  qed
  have "distinct (map followup_key (followups db @ [followup_of s]))" "\<forall>f \<in> set (followups db @ [followup_of s]). 0 < f_seq f"
    using q fresh key by (simp_all add: queue_ok_def followup_of_def)
  then show ?thesis using q rows by (simp add: queue_ok_def promoted_sel)
qed

lemma promote_all:
  assumes "queue_ok db" "\<forall>s \<in> set ps. s \<in> set (steers db) \<and> \<not> st_promoted s" "distinct (map st_id ps)"
  shows "for_each promote_one ps db = Inr (db\<lparr>followups := followups db @ map followup_of ps,
           steers := promoted (st_id ` set ps) (steers db)\<rparr>)
    \<and> queue_ok (db\<lparr>followups := followups db @ map followup_of ps, steers := promoted (st_id ` set ps) (steers db)\<rparr>)"
  using assms
proof (induction ps arbitrary: db)
  case Nil
  have "promoted {} xs = xs" for xs by (induction xs) (auto simp: promoted_def)
  then show ?case using Nil by simp
next
  case (Cons s ps)
  let ?d = "db\<lparr>followups := followups db @ [followup_of s], steers := promoted {st_id s} (steers db)\<rparr>"
  have s: "s \<in> set (steers db)" "\<not> st_promoted s" using Cons.prems(2) by simp_all
  have "steer_key s \<notin> followup_key ` set (followups db)" using Cons.prems(1) s unfolding queue_ok_def by blast
  then have one: "promote_one s db = Inr ?d"
    by (simp add: promote_one_def insertFollowUpAtTx_def insert_followup_def steer_key_def followup_of_def promoted_def)
  have rest: "\<forall>x \<in> set ps. x \<in> set (steers ?d) \<and> \<not> st_promoted x"
  proof
    fix x assume x: "x \<in> set ps"
    moreover have "st_id s \<notin> st_id ` set ps" using Cons.prems(3) by simp
    ultimately have "st_id x \<noteq> st_id s" by (metis imageI)
    then show "x \<in> set (steers ?d) \<and> \<not> st_promoted x"
      using Cons.prems(2) x by (simp add: promoted_keeps)
  qed
  have "distinct (map st_id ps)" using Cons.prems(3) by simp
  from Cons.IH [OF queue_ok_promote [OF Cons.prems(1) s] rest this] show ?case
    by (simp add: one promoted_comp)
qed

end
