(* ===== verification/Queue.thy ===== *)
theory Queue
  imports Transitions
begin

text \<open>
  The prompt queue of a session, \<^verbatim>\<open>store/followup.go\<close> and \<^verbatim>\<open>store/steer.go\<close>, inside a transaction: what
  promotion of unacknowledged steers does exactly, and that every statement over the queue keeps the
  invariant. Promotion and the snapshot of the next revision cannot fail in a well-formed store.
\<close>

section \<open>Promotion of steers\<close>

lemma set_pending_steers:
  "set (pending_steers tid gen db) = {s \<in> set (steers db). st_turn s = tid \<and> st_gen s \<le> gen \<and> \<not> st_acked s \<and> \<not> st_promoted s}"
  by (auto simp: pending_steers_def)

lemma distinct_pending_steers:
  assumes "queue_ok db"
  shows "distinct (map st_id (pending_steers tid gen db))"
proof -
  have "distinct (steers db)" "inj_on st_id (set (steers db))" using assms by (simp_all add: queue_ok_def distinct_map)
  moreover have "set (pending_steers tid gen db) \<subseteq> set (steers db)" by (auto simp: set_pending_steers)
  ultimately show ?thesis by (auto simp: distinct_map pending_steers_def inj_on_subset)
qed

lemma PromoteSteersTx_exact:
  assumes "queue_ok db"
  shows "PromoteSteersTx tid gen db = Inr (db\<lparr>followups := followups db @ map followup_of (pending_steers tid gen db),
      steers := promoted (st_id ` set (pending_steers tid gen db)) (steers db)\<rparr>, int (length (pending_steers tid gen db)))
    \<and> queue_ok (db\<lparr>followups := followups db @ map followup_of (pending_steers tid gen db),
      steers := promoted (st_id ` set (pending_steers tid gen db)) (steers db)\<rparr>)"
  using promote_all [OF assms _ distinct_pending_steers [OF assms], of tid gen]
  by (simp add: PromoteSteersTx_def set_pending_steers Let_def)

lemma via_PromoteSteersTx:
  assumes "via db0 i p db"
  obtains db' n where "PromoteSteersTx tid gen db = Inr (db', n)" "via db0 i p db'" "receipts db' = receipts db"
    "n = int (length (pending_steers tid gen db))"
    "followups db' = followups db @ map followup_of (pending_steers tid gen db)"
proof -
  let ?ps = "pending_steers tid gen db"
  let ?d = "db\<lparr>followups := followups db @ map followup_of ?ps, steers := promoted (st_id ` set ?ps) (steers db)\<rparr>"
  have e: "PromoteSteersTx tid gen db = Inr (?d, int (length ?ps))" "queue_ok ?d"
    using PromoteSteersTx_exact [OF via_wf(3) [OF assms]] by simp_all
  have "mid i p ?d" using via_mid [OF assms] e(2) by (simp add: mid_def)
  then have "via db0 i p ?d"
    by (rule via_frame [OF assms]) (simp_all add: grows_same_turns promoted_sel)
  then show ?thesis using that e by simp
qed

lemma via_PromoteSteersTx_D:
  assumes "via db0 i p db" "PromoteSteersTx tid gen db = Inr (db', n)"
  shows "via db0 i p db' \<and> receipts db' = receipts db \<and> 0 \<le> n"
  using via_PromoteSteersTx [OF assms(1), of tid gen] assms(2) by (metis Inr_inject Pair_inject of_nat_0_le_iff)

section \<open>Flags of queued rows\<close>

lemma queue_ok_steers:
  assumes q: "queue_ok db" and m: "map stkey ys = map stkey (steers db)"
    and u: "\<And>y. y \<in> set ys \<Longrightarrow> \<not> st_promoted y \<Longrightarrow> \<exists>x \<in> set (steers db). stkey x = stkey y \<and> \<not> st_promoted x"
  shows "queue_ok (db\<lparr>steers := ys\<rparr>)"
proof -
  have keys: "map st_id ys = map st_id (steers db)" "map steer_key ys = map steer_key (steers db)"
    using arg_cong [OF m, of "map fst"] arg_cong [OF m, of "map (\<lambda>k. (fst (snd k), snd (snd (snd (snd (snd k))))))"]
    by (simp_all add: stkey_def steer_key_def [abs_def] comp_def)
  have img: "stkey ` set ys = stkey ` set (steers db)" using arg_cong [OF m, of set] by simp
  have row: "0 < st_seq y \<and> (\<not> st_promoted y \<longrightarrow> steer_key y \<notin> followup_key ` set (followups db))
      \<and> (\<exists>t \<in> set (turns db). t_id t = st_turn y \<and> t_session t = st_session y \<and> 1 \<le> st_gen y \<and> st_gen y \<le> t_gen t)"
    if y: "y \<in> set ys" for y
  proof -
    have "stkey y \<in> stkey ` set (steers db)" using y by (simp flip: img)
    then obtain x where x: "x \<in> set (steers db)" "stkey x = stkey y" by force
    have "0 < st_seq x \<and> (\<exists>t \<in> set (turns db). t_id t = st_turn x \<and> t_session t = st_session x
        \<and> 1 \<le> st_gen x \<and> st_gen x \<le> t_gen t)" using q x(1) unfolding queue_ok_def by blast
    moreover have "steer_key y \<notin> followup_key ` set (followups db)" if np: "\<not> st_promoted y"
    proof -
      obtain z where z: "z \<in> set (steers db)" "stkey z = stkey y" "\<not> st_promoted z" using u [OF y np] by blast
      have "steer_key z = steer_key y" using z(2) by (simp add: stkey_def steer_key_def)
      moreover have "steer_key z \<notin> followup_key ` set (followups db)" using q z(1,3) unfolding queue_ok_def by blast
      ultimately show ?thesis by simp
    qed
    ultimately show ?thesis using x(2) by (simp add: stkey_def)
  qed
  then show ?thesis using q by (simp add: queue_ok_def keys)
qed

lemma via_steer_flags:
  assumes "via db0 i p db" and f: "\<And>x. stkey (f x) = stkey x \<and> st_promoted (f x) = st_promoted x"
  shows "via db0 i p (db\<lparr>steers := sql_update P f (steers db)\<rparr>)"
proof -
  have m: "map stkey (sql_update P f (steers db)) = map stkey (steers db)" by (simp add: map_sql_update f)
  have "\<exists>x \<in> set (steers db). stkey x = stkey y \<and> \<not> st_promoted x"
    if "y \<in> set (sql_update P f (steers db))" "\<not> st_promoted y" for y
    using that(1)
  proof (cases rule: in_sql_updateE)
    case (hit x) then show ?thesis using that(2) f [of x] by (intro bexI [of _ x]) auto
  next
    case miss then show ?thesis using that(2) by blast
  qed
  from queue_ok_steers [OF via_wf(3) [OF assms(1)] m this]
  have "mid i p (db\<lparr>steers := sql_update P f (steers db)\<rparr>)" using via_mid [OF assms(1)] by (simp add: mid_def)
  then show ?thesis
    by (rule via_frame [OF assms(1)]) (simp_all add: grows_same_turns m)
qed

lemma via_followup_flags:
  assumes "via db0 i p db" and f: "\<And>x. fkey (f x) = fkey x"
  shows "via db0 i p (db\<lparr>followups := sql_update P f (followups db)\<rparr>)"
proof -
  have key: "followup_key (f x) = followup_key x" "f_seq (f x) = f_seq x" for x
    using f [of x] by (simp_all add: fkey_def followup_key_def)
  have img: "followup_key ` set (sql_update P f (followups db)) = followup_key ` set (followups db)"
    by (metis (no_types, lifting) key(1) list.set_map map_sql_update)
  have "\<forall>x \<in> set (sql_update P f (followups db)). 0 < f_seq x" if "\<forall>x \<in> set (followups db). 0 < f_seq x"
    using that by (auto simp: set_sql_update key)
  then have "queue_ok (db\<lparr>followups := sql_update P f (followups db)\<rparr>)"
    using via_wf(3) [OF assms(1)] by (simp add: queue_ok_def map_sql_update key img)
  then have "mid i p (db\<lparr>followups := sql_update P f (followups db)\<rparr>)" using via_mid [OF assms(1)] by (simp add: mid_def)
  then show ?thesis
    by (rule via_frame [OF assms(1)]) (simp_all add: grows_same_turns map_sql_update f)
qed

lemma via_NextSteerTx: "via db0 i p db \<Longrightarrow> via db0 i p (fst (NextSteerTx tid gen db))"
  by (auto simp: NextSteerTx_def stkey_def intro!: via_steer_flags split: option.split)

lemma via_ReceiveSteerTx: "via db0 i p db \<Longrightarrow> ReceiveSteerTx tid gen k db = Inr db' \<Longrightarrow> via db0 i p db' \<and> receipts db' = receipts db"
  by (auto simp: ReceiveSteerTx_def stkey_def intro!: via_steer_flags split: if_splits)

lemma via_AckSteerTx: "via db0 i p db \<Longrightarrow> AckSteerTx tid gen k db = Inr db' \<Longrightarrow> via db0 i p db' \<and> receipts db' = receipts db"
  by (auto simp: AckSteerTx_def stkey_def intro!: via_steer_flags split: if_splits)

lemma via_DropQueuedPromptsTx: "via db0 i p db \<Longrightarrow> via db0 i p (fst (DropQueuedPromptsTx sid db))"
  by (auto simp: DropQueuedPromptsTx_def Let_def fkey_def intro!: via_followup_flags)

lemma via_ConsumeFollowUpTx: "via db0 i p db \<Longrightarrow> via db0 i p (ConsumeFollowUpTx sid seq db)"
  by (auto simp: ConsumeFollowUpTx_def fkey_def intro!: via_followup_flags)

section \<open>New entries\<close>

lemma nextFollowUpSeqTx_gt:
  "0 < nextFollowUpSeqTx sid db"
  "f \<in> set (followups db) \<Longrightarrow> f_session f = sid \<Longrightarrow> f_seq f < nextFollowUpSeqTx sid db"
  "s \<in> set (steers db) \<Longrightarrow> st_session s = sid \<Longrightarrow> 0 < st_seq s \<Longrightarrow> st_seq s < nextFollowUpSeqTx sid db"
proof -
  let ?xs = "map f_seq (filter (\<lambda>f. f_session f = sid) (followups db))
       @ map st_seq (filter (\<lambda>s. st_session s = sid \<and> st_seq s > 0) (steers db))"
  have e: "nextFollowUpSeqTx sid db = fold max ?xs 0 + 1" by (simp add: nextFollowUpSeqTx_def)
  have le: "x \<in> set ?xs \<Longrightarrow> x < nextFollowUpSeqTx sid db" for x
    using fold_max_ge(2) [of x ?xs 0] unfolding e by simp
  show "0 < nextFollowUpSeqTx sid db" using fold_max_ge(1) [of 0 ?xs] unfolding e by simp
  show "f \<in> set (followups db) \<Longrightarrow> f_session f = sid \<Longrightarrow> f_seq f < nextFollowUpSeqTx sid db"
    by (rule le) auto
  show "s \<in> set (steers db) \<Longrightarrow> st_session s = sid \<Longrightarrow> 0 < st_seq s \<Longrightarrow> st_seq s < nextFollowUpSeqTx sid db"
    by (rule le) auto
qed

lemma next_seq_fresh:
  assumes "queue_ok db"
  shows "(sid, nextFollowUpSeqTx sid db) \<notin> followup_key ` set (followups db)"
    "(sid, nextFollowUpSeqTx sid db) \<notin> steer_key ` set (steers db)"
proof -
  show "(sid, nextFollowUpSeqTx sid db) \<notin> followup_key ` set (followups db)"
    using nextFollowUpSeqTx_gt(2) [of _ db sid] by (force simp: followup_key_def)
  have "\<forall>s \<in> set (steers db). 0 < st_seq s" using assms by (simp add: queue_ok_def)
  then show "(sid, nextFollowUpSeqTx sid db) \<notin> steer_key ` set (steers db)"
    using nextFollowUpSeqTx_gt(3) [of _ db sid] by (force simp: steer_key_def)
qed

lemma enqueueFollowUpTx_exact:
  assumes "queue_ok db"
  shows "enqueueFollowUpTx sid prompt queued db = Inr (db\<lparr>followups := followups db @ [\<lparr>f_session = sid,
      f_seq = nextFollowUpSeqTx sid db, f_prompt = prompt, f_consumed = False, f_queued = queued, f_dropped = False\<rparr>]\<rparr>,
      nextFollowUpSeqTx sid db)"
  using next_seq_fresh(1) [OF assms] by (simp add: enqueueFollowUpTx_def insert_followup_def Let_def)

lemma via_enqueueFollowUpTx:
  assumes "via db0 i p db" "enqueueFollowUpTx sid prompt queued db = Inr (db', seq)"
  shows "via db0 i p db' \<and> receipts db' = receipts db"
proof -
  let ?f = "\<lparr>f_session = sid, f_seq = nextFollowUpSeqTx sid db, f_prompt = prompt, f_consumed = False,
      f_queued = queued, f_dropped = False\<rparr>"
  have q: "queue_ok db" by (rule via_wf(3) [OF assms(1)])
  have db': "db' = db\<lparr>followups := followups db @ [?f]\<rparr>"
    using assms(2) by (auto simp: enqueueFollowUpTx_exact [OF q])
  have key: "followup_key ?f = (sid, nextFollowUpSeqTx sid db)" by (simp add: followup_key_def)
  have "steer_key s \<noteq> (sid, nextFollowUpSeqTx sid db)" if "s \<in> set (steers db)" for s
    using next_seq_fresh(2) [OF q] that by force
  then have "queue_ok db'"
    using q next_seq_fresh(1) [OF q] nextFollowUpSeqTx_gt(1) by (simp add: db' queue_ok_def key)
  then have "mid i p db'" using via_mid [OF assms(1)] by (simp add: mid_def db')
  then have "via db0 i p db'"
    by (rule via_frame [OF assms(1)]) (simp_all add: grows_same_turns db')
  then show ?thesis by (simp add: db')
qed

lemma via_EnqueueSteerTx:
  assumes "via db0 i p db" and t: "t \<in> set (turns db0)" "t_id t = tid" "t_session t = sid" "1 \<le> gen" "gen \<le> t_gen t"
  shows "via db0 i p (fst (EnqueueSteerTx sid tid gen prompt db))"
proof -
  let ?s = "\<lparr>st_id = next_id (map st_id (steers db)), st_session = sid, st_turn = tid, st_gen = gen,
           st_prompt = prompt, st_seq = nextFollowUpSeqTx sid db, st_offered = False,
           st_received = False, st_acked = False, st_promoted = False\<rparr>"
  let ?d = "db\<lparr>steers := steers db @ [?s]\<rparr>"
  have q: "queue_ok db" by (rule via_wf(3) [OF assms(1)])
  have d: "fst (EnqueueSteerTx sid tid gen prompt db) = ?d" by (simp add: EnqueueSteerTx_def Let_def)
  have key: "steer_key ?s = (sid, nextFollowUpSeqTx sid db)" by (simp add: steer_key_def)
  have "\<exists>t \<in> set (turns db). t_id t = tid \<and> t_session t = sid \<and> 1 \<le> gen \<and> gen \<le> t_gen t"
    using t assms(1) by (auto simp: via_def)
  moreover have "next_id (map st_id (steers db)) \<notin> st_id ` set (steers db)"
    using next_id_fresh [of "map st_id (steers db)"] by simp
  ultimately have "queue_ok ?d"
    using q next_seq_fresh [OF q] nextFollowUpSeqTx_gt(1) by (simp add: queue_ok_def key)
  then have "mid i p ?d" using via_mid [OF assms(1)] by (simp add: mid_def)
  then have "via db0 i p ?d"
    by (rule via_frame [OF assms(1)]) (simp_all add: grows_same_turns)
  then show ?thesis by (simp add: d)
qed

section \<open>Applying the next follow-up\<close>

lemma via_applyFollowUpTx:
  assumes v: "via db0 (j_id j) (j_pending j) db" and "owns db0 j t s" and "0 \<le> j_pending j"
    and "applyFollowUpTx eg j sid seq prompt db = Inr (db', j')"
  shows "via db0 (j_id j') (j_pending j') db' \<and> receipts db' = receipts db \<and> j' = j\<lparr>j_pending := j_pending j + 1, j_retry := 0\<rparr>"
proof -
  obtain it d where d: "SaveSnapshotTx (eg_item_sha eg) (j_repo j) (j_item j) (j_pending j + 1) it db = Inr d"
    and db': "db' = BindPromptAttachmentsTx sid seq (j_pending j + 1) (ConsumeFollowUpTx sid seq (SetSessionPromptTx sid prompt d))"
    and j': "j' = j\<lparr>j_pending := j_pending j + 1, j_retry := 0\<rparr>"
    using assms(4) unfolding applyFollowUpTx_def Let_def by (elim bindE_InrE) auto
  have "via db0 (j_id j) (j_pending j + 1) d" "receipts d = receipts db"
    using via_SaveSnapshotTx [OF v assms(2,3) d] by simp_all
  then have "via db0 (j_id j) (j_pending j + 1) db'"
    unfolding db' by (metis core_plain(5) core_session_setters(1) via_ConsumeFollowUpTx via_core)
  moreover have "receipts db' = receipts d"
    by (simp add: db' BindPromptAttachmentsTx_def ConsumeFollowUpTx_def SetSessionPromptTx_def set_session_def)
  ultimately show ?thesis using \<open>receipts d = receipts db\<close> by (simp add: j')
qed

lemma via_applyNextFollowUpTx:
  assumes "via db0 (j_id j) (j_pending j) db" "owns db0 j t s" "0 \<le> j_pending j"
    and "applyNextFollowUpTx eg j db = Inr (db', j')"
  shows "via db0 (j_id j') (j_pending j') db' \<and> receipts db' = receipts db
    \<and> (j' = j \<or> j' = j\<lparr>j_pending := j_pending j + 1, j_retry := 0\<rparr>)"
  using assms(4) unfolding applyNextFollowUpTx_def
  by (elim bindE_InrE) (use assms(1) in \<open>auto split: option.splits dest: via_applyFollowUpTx [OF assms(1-3)]\<close>)

lemma via_promoteFollowUpTx:
  assumes "via db0 (j_id j) (j_pending j) db" "owns db0 j t s" "0 \<le> j_pending j"
    and "promoteFollowUpTx eg j sid db = Inr (db', j')"
  shows "via db0 (j_id j') (j_pending j') db' \<and> receipts db' = receipts db
    \<and> (j' = j \<or> j' = j\<lparr>j_pending := j_pending j + 1, j_retry := 0\<rparr>)"
  using assms(4) unfolding promoteFollowUpTx_def
  using assms(1) by (auto split: option.splits if_splits dest: via_applyFollowUpTx [OF assms(1-3)])

end
