(* ===== verification/Preserve.thy ===== *)
theory Preserve
  imports Queue
begin

text \<open>
  Every transaction of the engine keeps the store well formed and only grows it. A transaction over one
  turn also leaves every other turn alone (\<open>only\<close>), which is what a loop over several turns needs.
\<close>

section \<open>One turn's transaction\<close>

definition only :: "int \<Rightarrow> db \<Rightarrow> db \<Rightarrow> bool" where
  "only i db db' = ((\<forall>k. k \<noteq> i \<longrightarrow> turn_of db' k = turn_of db k)
     \<and> map skey (sessions db') = map skey (sessions db))"

definition safe :: "db \<Rightarrow> db \<Rightarrow> bool" where
  "safe db db' = (wf db' \<and> grows db db')"

definition tx_ok :: "int \<Rightarrow> db \<Rightarrow> db \<Rightarrow> bool" where
  "tx_ok i db db' = (safe db db' \<and> only i db db')"

text \<open>The engine's working copy of a turn's job: it may have moved ahead of the row, never behind.\<close>

definition cur :: "db \<Rightarrow> turn_row \<Rightarrow> sess_row \<Rightarrow> job \<Rightarrow> bool" where
  "cur db t s j = (owns db j t s \<and> 0 \<le> j_claimed j \<and> j_claimed j \<le> j_pending j \<and> 1 \<le> j_pending j
     \<and> 0 \<le> j_gen j \<and> 0 \<le> j_retry j \<and> t_gen t \<le> j_gen j \<and> t_pending t \<le> j_pending j)"

lemma cur_upd [simp]:
  "cur db t s (j\<lparr>j_state := st\<rparr>) = cur db t s j"
  "cur db t s (j\<lparr>j_expires := ex\<rparr>) = cur db t s j"
  "cur db t s (j\<lparr>j_deadline := de\<rparr>) = cur db t s j"
  by (simp_all add: cur_def owns_def)

lemma cur_adv:
  assumes "cur db t s j"
  shows "cur db t s (j\<lparr>j_gen := j_gen j + 1\<rparr>)"
    "0 \<le> r \<Longrightarrow> cur db t s (j\<lparr>j_retry := r\<rparr>)"
    "cur db t s (j\<lparr>j_pending := j_pending j + 1, j_retry := 0\<rparr>)"
  using assms by (simp_all add: cur_def owns_def)

lemma curD:
  assumes "cur db t s j"
  shows "owns db j t s" "0 \<le> j_pending j" "0 \<le> j_retry j" "turn_of db (j_id j) = Some t"
  using assms by (simp_all add: cur_def owns_def)

lemma cur_start:
  assumes "wf db" "GetJobByIDTx i db = Inr j"
  obtains t s where "cur db t s j" "via db (j_id j) (j_pending j) db" "j_id j = i" "j = scanJob t s" "wf_turn t"
    "turn_of db i = Some t" "session_of db (t_session t) = Some s"
proof -
  have w: "wf_turns db" using assms(1) by (simp add: wf_def)
  obtain t s where t: "turn_of db i = Some t" "session_of db (t_session t) = Some s" "j = scanJob t s" "j_id j = i"
    using GetJobByIDTx_E [OF w assms(2)] by blast
  have "wf_turn t" using t(1) w turn_of_iff [OF w] by (auto simp: wf_turns_def)
  moreover have "owns db j t s" using owns_scan [OF t(1,2)] t(3) by simp
  ultimately have "cur db t s j" using t(3) by (simp add: cur_def wf_turn_def)
  moreover have "via db (j_id j) (j_pending j) db" using via_start [OF assms(1) t(1)] t(3,4) by simp
  ultimately show ?thesis using that t \<open>wf_turn t\<close> by blast
qed

lemma only_via: "via db0 i p d \<Longrightarrow> only i db0 (UpdateJobTx j d) = (\<forall>k. k \<noteq> i \<longrightarrow> turn_of (UpdateJobTx j d) k = turn_of db0 k)"
  by (simp add: only_def via_def)

lemma only_UpdateJobTx: "via db0 (j_id j) p d \<Longrightarrow> only (j_id j) db0 (UpdateJobTx j d)"
proof -
  assume v: "via db0 (j_id j) p d"
  have "map_option (upd_turn j) (turn_of db0 k) = turn_of db0 k" if "k \<noteq> j_id j" for k
    using that turn_of_id [of db0 k] by (cases "turn_of db0 k") (auto simp: upd_turn_def)
  then show ?thesis using v by (simp add: only_via turn_of_UpdateJobTx via_turn_of)
qed

lemma via_done:
  assumes v: "via db0 (j_id j) (j_pending j) d" and c: "cur db0 t s j" and "j_state j \<noteq> Leased"
  shows "tx_ok (j_id j) db0 (UpdateJobTx j d)"
proof -
  have "good_job j" using c assms(3) by (simp add: good_job_def cur_def)
  then have "wf (UpdateJobTx j d) \<and> grows db0 (UpdateJobTx j d)"
    by (rule via_finish [OF v curD(4) [OF c]]) (use c assms(3) in \<open>simp_all add: cur_def\<close>)
  then show ?thesis using only_UpdateJobTx [OF v] by (simp add: tx_ok_def safe_def)
qed

lemma via_done_leased:
  assumes v: "via db0 (j_id j) (j_pending j) d" and c: "cur db0 t s j" and w: "wf db0" "receipts d = receipts db0"
    and l: "j_state j = Leased" "1 \<le> j_claimed j" "1 \<le> j_gen j" "j_expires j \<noteq> None" "j_deadline j \<noteq> None"
    and k: "t_state t = Leased \<and> j_deadline j = t_deadline t \<and> j_claimed j = t_claimed t \<or> t_gen t < j_gen j"
  shows "tx_ok (j_id j) db0 (UpdateJobTx j d)"
proof -
  have "good_job j" using c l by (simp add: good_job_def cur_def)
  moreover have "\<forall>r \<in> set (receipts d). r_job r = j_id j \<longrightarrow> r_gen r < j_gen j"
    unfolding w(2) by (rule leased_receipts [OF w(1) curD(4) [OF c]]) (use c k in \<open>auto simp: cur_def\<close>)
  ultimately have "wf (UpdateJobTx j d) \<and> grows db0 (UpdateJobTx j d)"
    by (intro via_finish [OF v curD(4) [OF c]]) (use c k in \<open>auto simp: cur_def\<close>)
  then show ?thesis using only_UpdateJobTx [OF v] by (simp add: tx_ok_def safe_def)
qed

lemma tx_ok_core:
  assumes "tx_ok i db0 db" "core db' = core db"
  shows "tx_ok i db0 db'"
proof -
  have "grows db0 db'" using assms grows_core grows_trans unfolding tx_ok_def safe_def by blast
  moreover have "wf db'" using assms wf_core unfolding tx_ok_def safe_def by blast
  moreover have "turns db' = turns db" "map skey (sessions db') = map skey (sessions db)" using core_eqD [OF assms(2)] by simp_all
  ultimately show ?thesis using assms(1) by (simp add: tx_ok_def safe_def only_def turn_of_def)
qed

lemma tx_ok_refl: "wf db \<Longrightarrow> tx_ok i db db"
  by (simp add: tx_ok_def safe_def only_def)

lemma tx_ok_stay: "wf db \<Longrightarrow> core db' = core db \<Longrightarrow> tx_ok i db db'"
  by (rule tx_ok_core [OF tx_ok_refl])

section \<open>Failure, expiry, cancel, halt\<close>

lemma finish_measured:
  assumes "via db0 (j_id j) (j_pending j) d" "cur db0 t s j" "j_state j \<noteq> Leased"
    and "finishMeasurementTx i st art now (UpdateJobTx j d) = Inr db'"
  shows "tx_ok (j_id j) db0 db'"
  by (rule tx_ok_core [OF via_done [OF assms(1-3)] core_finishMeasurementTx [OF assms(4)]])

text \<open>Taking the next follow-up, or settling the turn in state \<open>st\<close> when there is none.\<close>

lemma next_or_settle:
  assumes v: "via db0 (j_id j) (j_pending j) d" and c: "cur db0 t s j"
    and "applyNextFollowUpTx eg j d = Inr (d', j')"
  shows "j_id j' = j_id j" "cur db0 t s j'" "via db0 (j_id j) (j_pending j') d'"
    "j_state j' = j_state j" "j_claimed j' = j_claimed j"
  using via_applyNextFollowUpTx [OF v curD(1,2) [OF c] assms(3)] c cur_adv(3) [OF c] by auto

lemma post_receipt:
  assumes "via db0 i p db" "wf db0" "turn_of db0 i = Some t" "t_state t = Leased" "gen = t_gen t" "receipts db = receipts db0"
  shows "post (InsertReceiptTx i gen cl k pl db) (via db0 i p)"
  using via_InsertReceiptTx [OF assms(1) _ assms(2-)] by (blast intro: postI)

lemma post_promote:
  assumes "via db0 i p db"
  shows "post (PromoteSteersTx tid gen db) (\<lambda>(db', n). via db0 i p db' \<and> receipts db' = receipts db \<and> 0 \<le> n)"
  using via_PromoteSteersTx_D [OF assms] by (auto intro: postI)

lemma post_next:
  assumes "via db0 (j_id j) (j_pending j) d" "cur db0 t s j"
  shows "post (applyNextFollowUpTx eg j d) (\<lambda>(d', j'). cur db0 t s j' \<and> via db0 (j_id j') (j_pending j') d'
    \<and> j_id j' = j_id j \<and> j_state j' = j_state j \<and> j_claimed j' = j_claimed j \<and> j_gen j' = j_gen j)"
proof (rule postI, clarify)
  fix d' j' assume a: "applyNextFollowUpTx eg j d = Inr (d', j')"
  show "cur db0 t s j' \<and> via db0 (j_id j') (j_pending j') d' \<and> j_id j' = j_id j \<and> j_state j' = j_state j
      \<and> j_claimed j' = j_claimed j \<and> j_gen j' = j_gen j"
    using via_applyNextFollowUpTx [OF assms(1) curD(1,2) [OF assms(2)] a] assms(2) cur_adv(3) [OF assms(2)] by auto
qed

lemma post_measured:
  assumes "via db0 (j_id j) (j_pending j) d" "cur db0 t s j" "j_state j \<noteq> Leased"
  shows "post (finishMeasurementTx i st art now (UpdateJobTx j d)) (tx_ok (j_id j) db0)"
  using finish_measured [OF assms] by (blast intro: postI)

lemma post_turn: "post (GetTurnTx k d) (\<lambda>t. turn_of d k = Some t)"
  by (auto simp: GetTurnTx_def intro: post_row)

lemma done_queued:
  "via db0 (j_id j) (j_pending j) d \<Longrightarrow> cur db0 t s j \<Longrightarrow> tx_ok (j_id j) db0 (UpdateJobTx (j\<lparr>j_state := Queued\<rparr>) d)"
  using via_done [of db0 "j\<lparr>j_state := Queued\<rparr>"] by simp

lemma done_queued0:
  "via db0 (j_id j) (j_pending j) d \<Longrightarrow> cur db0 t s j \<Longrightarrow> tx_ok (j_id j) db0 (UpdateJobTx (j\<lparr>j_retry := 0, j_state := Queued\<rparr>) d)"
  using via_done [of db0 "j\<lparr>j_retry := 0, j_state := Queued\<rparr>"] cur_adv(2) [of db0 t s j 0] by simp

text \<open>The tail that failure and expiry share: take the next follow-up or fail the turn.\<close>

lemma post_settle:
  assumes "via db0 (j_id k) (j_pending k) d" "cur db0 t s k"
  shows "post (bindE (applyNextFollowUpTx eg k d) (\<lambda>(db, j').
      if j_pending k < j_pending j' then Inr (UpdateJobTx (j'\<lparr>j_retry := 0, j_state := Queued\<rparr>) db)
      else finishMeasurementTx (j_id j') Failed zero_artifact now (UpdateJobTx (j'\<lparr>j_state := Failed\<rparr>) db)))
    (tx_ok (j_id k) db0)"
proof (rule post_bindI [OF post_next [OF assms]], rule post_pair, rule post_if)
  fix x d' j' assume a: "case x of (d', j') \<Rightarrow> cur db0 t s j' \<and> via db0 (j_id j') (j_pending j') d'
    \<and> j_id j' = j_id k \<and> j_state j' = j_state k \<and> j_claimed j' = j_claimed k \<and> j_gen j' = j_gen k" "x = (d', j')"
  show "post (Inr (UpdateJobTx (j'\<lparr>j_retry := 0, j_state := Queued\<rparr>) d')) (tx_ok (j_id k) db0)"
    using a done_queued0 [of db0 j' d' t s] by auto
  show "post (finishMeasurementTx (j_id j') Failed zero_artifact now (UpdateJobTx (j'\<lparr>j_state := Failed\<rparr>) d')) (tx_ok (j_id k) db0)"
    using a post_measured [of db0 "j'\<lparr>j_state := Failed\<rparr>" d' t s] by auto
qed

lemma failClosedTx_ok:
  assumes w: "wf db" and j: "GetJobByIDTx i db = Inr j" and g: "j_state j = Leased" "gen = j_gen j"
  shows "post (failClosedTx eg j gen claimed bump db) (tx_ok i db)"
proof -
  obtain t s where c: "cur db t s j" and v: "via db (j_id j) (j_pending j) db" and i: "j_id j = i"
    and sc: "j = scanJob t s" using cur_start [OF w j] by metis
  have g': "t_state t = Leased" "gen = t_gen t" using g sc by simp_all
  have r: "post (case GetReceiptTx (j_id j) gen claimed db of
              Some (kind, _) \<Rightarrow> if kind \<noteq> ''fail'' then Inl EReject else Inr db
            | None \<Rightarrow> InsertReceiptTx (j_id j) gen claimed ''fail'' fail_receipt db) (via db (j_id j) (j_pending j))"
    using v post_receipt [OF v w curD(4) [OF c] g'] by (auto split: option.split)
  have tail: "post (if j_claimed k < j_pending k then Inr (UpdateJobTx (k\<lparr>j_state := Queued\<rparr>) d)
        else bindE (applyNextFollowUpTx eg k d) (\<lambda>(db, j').
          if j_pending k < j_pending j' then Inr (UpdateJobTx (j'\<lparr>j_retry := 0, j_state := Queued\<rparr>) db)
          else finishMeasurementTx (j_id j') Failed zero_artifact (eg_now eg) (UpdateJobTx (j'\<lparr>j_state := Failed\<rparr>) db)))
      (tx_ok i db)" if "via db (j_id k) (j_pending k) d" "cur db t s k" "j_id k = i" for k d
    using post_settle [OF that(1,2)] done_queued [OF that(1,2)] that(3) by simp
  show ?thesis
    unfolding failClosedTx_def Let_def
    apply (rule post_bindI [OF r])
    apply (rule post_bindI [OF post_promote], assumption)
    apply (rule post_pair)
    apply (rule post_bindI [OF post_turn])
    apply (rule tail)
    using c cur_adv(1) [OF c] i by (auto intro: via_core core_plain(2))
qed

lemma finalizeFailureTx_ok:
  assumes w: "wf db" and j: "GetJobByIDTx i db = Inr j" and g: "j_state j = Leased" "gen = j_gen j"
  shows "post (finalizeFailureTx eg j gen claimed db) (tx_ok i db)"
proof -
  obtain t s where c: "cur db t s j" and v: "via db (j_id j) (j_pending j) db" and i: "j_id j = i"
    and sc: "j = scanJob t s" using cur_start [OF w j] by metis
  have g': "t_state t = Leased" "gen = t_gen t" using g sc by simp_all
  have v1: "via db (j_id j) (j_pending j) (touch_env eg k db)" "receipts (touch_env eg k db) = receipts db" for k
    using via_core [OF v core_plain(2)] core_eqD(4) [OF core_plain(2)] by simp_all
  let ?k = "j\<lparr>j_retry := j_retry j + 1\<rparr>"
  have ck: "cur db t s ?k" using cur_adv(2) [OF c] curD(3) [OF c] by simp
  have tail: "post (if j_claimed j < j_pending j then Inr (UpdateJobTx (j\<lparr>j_state := Queued\<rparr>) d)
       else let j = ?k in
         if b \<or> j_retry j \<ge> RetryLimit then
           bindE (applyNextFollowUpTx eg j d) (\<lambda>(db, j').
             if j_pending j < j_pending j' then Inr (UpdateJobTx (j'\<lparr>j_retry := 0, j_state := Queued\<rparr>) db)
             else finishMeasurementTx (j_id j') Failed zero_artifact (eg_now eg) (UpdateJobTx (j'\<lparr>j_state := Failed\<rparr>) db))
         else Inr (UpdateJobTx (j\<lparr>j_state := Queued\<rparr>) d)) (tx_ok i db)"
    if vd: "via db (j_id j) (j_pending j) d" for d b
    using post_settle [of db ?k d t s eg "eg_now eg"] done_queued [OF vd c] done_queued [of db ?k d t s] vd ck i
    by (simp add: Let_def)
  show ?thesis
    unfolding finalizeFailureTx_def
    apply (rule post_bindI [OF post_turn])
    apply (rule post_bindI [OF post_receipt [OF v1(1) w curD(4) [OF c] g' v1(2)]])
    apply (rule post_bindI [OF post_promote], assumption)
    apply (rule post_pair)
    apply (rule tail)
    by simp
qed

text \<open>Closing a transaction by touching the session's environment.\<close>

lemma post_touch: "tx_ok i db0 d \<Longrightarrow> post (bindE (GetTurnTx k d) (\<lambda>turn. Inr (touch_env eg (t_session turn) d))) (tx_ok i db0)"
  by (rule post_bindI [OF post_turn]) (simp add: tx_ok_core core_plain(2))

lemma post_write:
  assumes "via db0 (j_id j) (j_pending j) d" "cur db0 t s j" "j_state j \<noteq> Leased"
  shows "post (bindE (if j_state j = Failed then finishMeasurementTx (j_id j) Failed zero_artifact now (UpdateJobTx j d)
        else Inr (UpdateJobTx j d)) (\<lambda>db. bindE (GetTurnTx (j_id j) db) (\<lambda>turn. Inr (touch_env eg (t_session turn) db))))
      (tx_ok (j_id j) db0)"
proof (rule post_bindI)
  show "post (if j_state j = Failed then finishMeasurementTx (j_id j) Failed zero_artifact now (UpdateJobTx j d)
        else Inr (UpdateJobTx j d)) (tx_ok (j_id j) db0)"
    using post_measured [OF assms] via_done [OF assms] by simp
qed (rule post_touch)

lemma expireLeaseTx_ok:
  assumes w: "wf db" and j: "GetJobByIDTx i db = Inr j"
  shows "post (expireLeaseTx eg j db) (tx_ok i db)"
proof (cases "j_state j = Leased \<and> (lapsed (eg_now eg) (j_expires j) \<or> lapsed (eg_now eg) (j_deadline j))")
  case False
  then show ?thesis using tx_ok_refl [OF w] by (auto simp: expireLeaseTx_def Let_def)
next
  case True
  obtain t s where c: "cur db t s j" and v: "via db (j_id j) (j_pending j) db" and i: "j_id j = i"
    and sc: "j = scanJob t s" and wt: "wf_turn t" using cur_start [OF w j] by metis
  have closed: "post (failClosedTx eg j (j_gen j) (j_claimed j) True db) (tx_ok i db)"
    by (rule failClosedTx_ok [OF w j]) (use True in simp_all)
  define cu where "cu = (j_claimed j = j_pending j)"
  define k where "k = j\<lparr>j_retry := (if cu then j_retry j + 1 else j_retry j), j_gen := j_gen j + 1\<rparr>"
  have ck: "cur db t s k" and ik: "j_id k = i" "j_pending k = j_pending j" "j_state k = Leased"
    using cur_adv(1) [OF cur_adv(2) [OF c]] curD(3) [OF c] i True by (simp_all add: k_def)
  have c0: "cur db t s (k\<lparr>j_retry := 0, j_state := Queued\<rparr>)" using cur_adv(2) [OF ck, of 0] by simp
  have upd: "post (if 0 < n then (let j = k\<lparr>j_retry := 0, j_state := Queued\<rparr> in if cu then applyNextFollowUpTx eg j d else Inr (d, j))
              else if cu \<and> j_retry k \<ge> RetryLimit then
                bindE (applyNextFollowUpTx eg k d) (\<lambda>(db, j).
                  Inr (db, if j_claimed j < j_pending j then j\<lparr>j_retry := 0, j_state := Queued\<rparr> else j\<lparr>j_state := Failed\<rparr>))
              else Inr (d, k\<lparr>j_state := Queued\<rparr>))
      (\<lambda>(d', j'). via db (j_id j') (j_pending j') d' \<and> cur db t s j' \<and> j_state j' \<noteq> Leased \<and> j_id j' = i)"
    if vd: "via db (j_id j) (j_pending j) d" for d and n :: int
  proof -
    have vk: "via db (j_id k) (j_pending k) d" using vd ik i by simp
    have "post (bindE (applyNextFollowUpTx eg k d) (\<lambda>(db, j).
          Inr (db, if j_claimed j < j_pending j then j\<lparr>j_retry := 0, j_state := Queued\<rparr> else j\<lparr>j_state := Failed\<rparr>)))
        (\<lambda>(d', j'). via db (j_id j') (j_pending j') d' \<and> cur db t s j' \<and> j_state j' \<noteq> Leased \<and> j_id j' = i)"
      by (rule post_bindI [OF post_next [OF vk ck]]) (auto simp: ik cur_adv(2) split: prod.splits)
    moreover have "post (applyNextFollowUpTx eg (k\<lparr>j_retry := 0, j_state := Queued\<rparr>) d)
        (\<lambda>(d', j'). via db (j_id j') (j_pending j') d' \<and> cur db t s j' \<and> j_state j' \<noteq> Leased \<and> j_id j' = i)"
      by (rule post_mono [OF post_next [of db "k\<lparr>j_retry := 0, j_state := Queued\<rparr>" d t s]]) (use vk c0 ik in auto)
    ultimately show ?thesis using vk ck c0 ik by (simp add: Let_def)
  qed
  have live: "post (bindE (PromoteSteersTx (j_id j) (j_gen j) db) (\<lambda>(db, steers). bindE
             (if steers > 0 then (let j = k\<lparr>j_retry := 0, j_state := Queued\<rparr> in if cu then applyNextFollowUpTx eg j db else Inr (db, j))
              else if cu \<and> j_retry k \<ge> RetryLimit then
                bindE (applyNextFollowUpTx eg k db) (\<lambda>(db, j).
                  Inr (db, if j_claimed j < j_pending j then j\<lparr>j_retry := 0, j_state := Queued\<rparr> else j\<lparr>j_state := Failed\<rparr>))
              else Inr (db, k\<lparr>j_state := Queued\<rparr>)) (\<lambda>(db, j).
           bindE (if j_state j = Failed then finishMeasurementTx (j_id j) Failed zero_artifact (eg_now eg) (UpdateJobTx j db)
                  else Inr (UpdateJobTx j db)) (\<lambda>db.
           bindE (GetTurnTx (j_id j) db) (\<lambda>turn. Inr (touch_env eg (t_session turn) db)))))) (tx_ok i db)"
    apply (rule post_bindI [OF post_promote [OF v]], rule post_pair)
    apply (rule post_bindI [OF upd], simp)
    apply (rule post_pair)
    using post_write by fastforce
  show ?thesis
  proof (cases "lapsed (eg_now eg) (j_deadline j)")
    case False
    then have e: "(j_state j \<noteq> Leased) = False" "(\<not> lapsed (eg_now eg) (j_expires j) \<and> \<not> lapsed (eg_now eg) (j_deadline j)) = False"
      "lapsed (eg_now eg) (j_deadline j) = False" using True by simp_all
    show ?thesis unfolding expireLeaseTx_def Let_def e(1,2) if_False unfolding e(3) if_False
      using live unfolding k_def cu_def Let_def .
  qed (use closed True in \<open>simp add: expireLeaseTx_def Let_def\<close>)
qed

end
