(* ===== verification/Lifecycle.thy ===== *)
theory Lifecycle
  imports Preserve
begin

text \<open>
  The lease operations as committed transactions: each keeps the store well formed and grows it
  (\<open>safe\<close>), the loops over many turns included.
\<close>

section \<open>Fail and expiry\<close>

lemma safe_refl: "wf db \<Longrightarrow> safe db db"
  by (simp add: safe_def)

lemma safe_trans: "safe a b \<Longrightarrow> safe b c \<Longrightarrow> safe a c"
  unfolding safe_def using grows_trans by blast

lemma safe_core: "safe db d \<Longrightarrow> core d' = core d \<Longrightarrow> safe db d'"
  unfolding safe_def using wf_core grows_core grows_trans by blast

lemma tx_safe: "tx_ok i db d \<Longrightarrow> safe db d"
  by (simp add: tx_ok_def)

lemma post_safe: "post m (tx_ok i db) \<Longrightarrow> post m (safe db)"
  by (erule post_mono) (rule tx_safe)

lemma post_get: "(\<And>x. m = Inr x \<Longrightarrow> post (f x) Q) \<Longrightarrow> post (bindE m f) Q"
  by (cases m) simp_all

lemma safe_wf: "safe db d \<Longrightarrow> wf d"
  by (simp add: safe_def)

lemma leased_job:
  assumes "wf db" "GetJobByIDTx i db = Inr j" "j_state j = Leased"
  shows "1 \<le> j_gen j \<and> 1 \<le> j_claimed j \<and> j_expires j \<noteq> None \<and> j_deadline j \<noteq> None"
  using cur_start [OF assms(1,2)] assms(3) by (metis wf_turn_def scanJob_sel(7,8,9,10,12))

lemma acceptLeaseIdentity_iff:
  "acceptLeaseIdentity j gen claimed = Inr u \<longleftrightarrow> j_state j = Leased \<and> j_gen j = gen \<and> j_claimed j = claimed"
  by (auto simp: acceptLeaseIdentity_def)

lemma acceptLease_iff:
  "acceptLease now j gen claimed = Inr u \<longleftrightarrow> j_state j = Leased \<and> j_gen j = gen \<and> j_claimed j = claimed
     \<and> \<not> lapsed now (j_expires j) \<and> \<not> lapsed now (j_deadline j)"
  by (auto simp: acceptLease_def acceptLeaseIdentity_def)

lemma failTx_ok:
  assumes w: "wf db"
  shows "post (failTx eg jid gen claimed db) (\<lambda>(d, p). tx_ok jid db d)"
proof -
  have "post (bindE (acceptLeaseIdentity j gen claimed) (\<lambda>_.
          bindE (if lapsed (eg_now eg) (j_deadline j) then failClosedTx eg j gen claimed False db
                 else if lapsed (eg_now eg) (j_expires j) then Inl EReject
                 else finalizeFailureTx eg j gen claimed db) (\<lambda>db.
            Inr (db, receipt_payload jid gen claimed db)))) (\<lambda>(d, p). tx_ok jid db d)"
    if j: "GetJobByIDTx jid db = Inr j" for j
  proof (cases "acceptLeaseIdentity j gen claimed")
    case (Inr u)
    then have g: "j_state j = Leased" "gen = j_gen j" by (auto simp: acceptLeaseIdentity_iff)
    show ?thesis using Inr failClosedTx_ok [OF w j g] finalizeFailureTx_ok [OF w j g] by (auto simp: post_bind)
  qed simp
  then have "post (bindE (GetJobByIDTx jid db) (\<lambda>j. bindE (acceptLeaseIdentity j gen claimed) (\<lambda>_.
          bindE (if lapsed (eg_now eg) (j_deadline j) then failClosedTx eg j gen claimed False db
                 else if lapsed (eg_now eg) (j_expires j) then Inl EReject
                 else finalizeFailureTx eg j gen claimed db) (\<lambda>db.
            Inr (db, receipt_payload jid gen claimed db))))) (\<lambda>(d, p). tx_ok jid db d)"
    by (rule post_get)
  then show ?thesis using tx_ok_refl [OF w] by (auto simp: failTx_def split: option.split)
qed

text \<open>A job read before a transaction over another turn is still current after it.\<close>

lemma skey_lookup:
  assumes "map skey (sessions db) = map skey (sessions db')" "session_of db k = Some s"
  obtains s' where "session_of db' k = Some s'" "skey s' = skey s"
  using core_lookup(2) [of db "db\<lparr>sessions := sessions db'\<rparr>" k s] assms
  by (auto simp: core_def session_of_def)

lemma scanJob_skey: "skey s' = skey s \<Longrightarrow> scanJob t s' = scanJob t s"
  by (simp add: skey_def scanJob_def)

lemma only_job:
  assumes "wf db" "wf db'" "only i db db'" "k \<noteq> i" "GetJobByIDTx k db = Inr j"
  shows "GetJobByIDTx k db' = Inr j"
proof -
  have w: "wf_turns db" "wf_turns db'" using assms(1,2) by (simp_all add: wf_def)
  obtain t s where t: "turn_of db k = Some t" "session_of db (t_session t) = Some s" "j = scanJob t s"
    using GetJobByIDTx_iff [OF w(1)] assms(5) by blast
  obtain s' where "session_of db' (t_session t) = Some s'" "skey s' = skey s"
    using skey_lookup [OF _ t(2), of db'] assms(3) by (auto simp: only_def)
  moreover have "turn_of db' k = Some t" using assms(3,4) t(1) by (simp add: only_def)
  ultimately show ?thesis using GetJobByIDTx_iff [OF w(2)] t(3) scanJob_skey by metis
qed

lemma for_each_jobs:
  assumes "wf db" "distinct (map j_id js)" "\<forall>j \<in> set js. GetJobByIDTx (j_id j) db = Inr j"
    and step: "\<And>j d. wf d \<Longrightarrow> GetJobByIDTx (j_id j) d = Inr j \<Longrightarrow> post (f j d) (tx_ok (j_id j) d)"
  shows "post (for_each f js db) (safe db)"
  using assms(1-3)
proof (induction js arbitrary: db)
  case Nil
  then show ?case using safe_refl by simp
next
  case (Cons j js)
  show ?case
  proof (simp, rule post_bindI [OF step [of db j]])
    fix d assume d: "tx_ok (j_id j) db d"
    then have w: "wf d" "only (j_id j) db d" by (simp_all add: tx_ok_def safe_def)
    have "\<forall>k \<in> set js. GetJobByIDTx (j_id k) d = Inr k"
      using only_job [OF Cons.prems(1) w(1,2)] Cons.prems(2,3) by (metis distinct.simps(2) image_eqI list.set_intros(2) list.simps(9) set_map)
    then have "post (for_each f js d) (safe d)" using Cons.IH [OF w(1)] Cons.prems(2) by simp
    then show "post (for_each f js d) (safe db)" using safe_trans [OF tx_safe [OF d]] by (rule post_mono)
  qed (use Cons.prems in simp_all)
qed

lemma jobs_current: "wf db \<Longrightarrow> j \<in> set (jobs db) \<Longrightarrow> GetJobByIDTx (j_id j) db = Inr j"
  by (metis GetJobByIDTx_iff jobs_E wf_def)

lemma expireDueLeasesTx_ok:
  assumes "wf db"
  shows "post (expireDueLeasesTx eg repo lane db) (safe db)"
  unfolding expireDueLeasesTx_def
proof (rule for_each_jobs [OF assms])
  show "distinct (map j_id (ListDueLeasedJobsTx (eg_now eg) repo lane db))"
    unfolding ListDueLeasedJobsTx_def using jobs_ids assms by (intro distinct_map_filter) (simp add: wf_def)
  show "\<forall>j \<in> set (ListDueLeasedJobsTx (eg_now eg) repo lane db). GetJobByIDTx (j_id j) db = Inr j"
    using jobs_current [OF assms] by (simp add: ListDueLeasedJobsTx_def)
qed (rule expireLeaseTx_ok)

text \<open>A loop whose every step is safe is safe.\<close>

lemma for_each_safe:
  assumes "wf db" "\<And>x d. x \<in> set xs \<Longrightarrow> wf d \<Longrightarrow> post (f x d) (safe d)"
  shows "post (for_each f xs db) (safe db)"
proof (rule post_for_each)
  fix x d assume x: "x \<in> set xs" "safe db d"
  show "post (f x d) (safe db)"
    by (rule post_mono [OF assms(2) [OF x(1) safe_wf [OF x(2)]] safe_trans [OF x(2)]])
qed (rule safe_refl [OF assms(1)])

lemma for_each_safe2:
  assumes "wf db" "\<And>x d l. x \<in> set xs \<Longrightarrow> wf d \<Longrightarrow> post (f x (d, l)) (\<lambda>(d', l'). safe d d')"
  shows "post (for_each f xs (db, l)) (\<lambda>(d, l). safe db d)"
proof (rule post_for_each)
  fix x and p :: "db \<times> 'b" assume x: "x \<in> set xs" "case p of (d, l) \<Rightarrow> safe db d"
  obtain d l where p: "p = (d, l)" "safe db d" using x(2) by (cases p) simp
  show "post (f x p) (\<lambda>(d, l). safe db d)" unfolding p(1)
    by (rule post_mono [OF assms(2) [OF x(1) safe_wf [OF p(2)]]]) (use p(2) safe_trans in auto)
qed (simp add: safe_refl [OF assms(1)])

section \<open>Heartbeat\<close>

lemma receive_steers_via:
  assumes "via db0 i p db"
  shows "post (receive_steers tid gen ids db) (\<lambda>d. via db0 i p d \<and> receipts d = receipts db)"
  unfolding receive_steers_def
  by (rule post_for_each) (use assms via_ReceiveSteerTx in \<open>auto simp: post_def split: sum.split\<close>)

text \<open>A statement that writes no turn row, as a transaction over no turn.\<close>

lemma no_turn_zero: "wf_turns db \<Longrightarrow> t \<in> set (turns db) \<Longrightarrow> t_id t \<noteq> 0"
  by (auto simp: wf_turns_def wf_turn_def)

lemma mid_zero: "wf_turns db \<Longrightarrow> mid 0 0 db \<longleftrightarrow> wf db"
proof -
  assume w: "wf_turns db"
  have "snaps_ok ((pending_of db)(0 := 0)) db \<longleftrightarrow> snaps_ok (pending_of db) db"
    unfolding snaps_ok_def using no_turn_zero [OF w] by (simp cong: ball_cong)
  moreover have "receipts_ok {0} db \<longleftrightarrow> receipts_ok {} db"
    unfolding receipts_ok_def using no_turn_zero [OF w] by (auto cong: bex_cong)
  ultimately show ?thesis by (simp add: mid_def wf_def)
qed

lemma via_zero: "wf db \<Longrightarrow> via db 0 0 db"
  using mid_zero by (simp add: via_def wf_def)

lemma via_zero_ok: "via db 0 0 d \<Longrightarrow> tx_ok i db d"
  using mid_zero [of d] via_wf(2) [of db 0 0 d] by (simp add: via_def tx_ok_def safe_def only_def turn_of_def)

lemma tx_ok_trans: "tx_ok i a b \<Longrightarrow> tx_ok i b c \<Longrightarrow> tx_ok i a c"
  unfolding tx_ok_def only_def using safe_trans by metis

lemma tx_ok_flags: "tx_ok i db0 d \<Longrightarrow> tx_ok i db0 (fst (NextSteerTx tid gen d))"
  by (rule tx_ok_trans, assumption, rule via_zero_ok, rule via_NextSteerTx, rule via_zero) (simp add: tx_ok_def safe_def)

lemma DropQueuedPromptsTx_ok: "wf db \<Longrightarrow> tx_ok i db (fst (DropQueuedPromptsTx sid db))"
  by (rule via_zero_ok, rule via_DropQueuedPromptsTx, rule via_zero)

lemma heartbeatTx_ok:
  assumes w: "wf db"
  shows "post (heartbeatTx eg jid gen claimed received db) (\<lambda>(d, x). tx_ok jid db d)"
  unfolding heartbeatTx_def Let_def
proof (rule post_get, rule post_get)
  fix j u assume j: "GetJobByIDTx jid db = Inr j" and "acceptLease (eg_now eg) j gen claimed = Inr u"
  then have l: "j_state j = Leased" by (simp add: acceptLease_iff)
  obtain t s where c: "cur db t s j" and v: "via db (j_id j) (j_pending j) db" and i: "j_id j = jid"
    and sc: "j = scanJob t s" using cur_start [OF w j] by metis
  let ?j = "j\<lparr>j_expires := Some (eg_now eg + Liveness)\<rparr>"
  have "tx_ok jid db (UpdateJobTx ?j d)" if "via db (j_id j) (j_pending j) d" "receipts d = receipts db" for d
    using via_done_leased [of db ?j d t s] that w l c i sc leased_job [OF w j l] by simp
  then have "post (receive_steers (j_id j) gen received db) (\<lambda>d. tx_ok jid db (UpdateJobTx ?j d))"
    using receive_steers_via [OF v] by (blast intro: post_mono)
  then show "post (bindE (receive_steers (j_id j) gen received db) (\<lambda>d.
      bindE (GetTurnTx jid (RenewGrantTx jid (eg_now eg + GrantTTL) (RenewTurnCredentialTx jid gen (eg_now eg + GrantTTL) (UpdateJobTx ?j d))))
        (\<lambda>turn. case NextSteerTx (t_id turn) gen (RenewGrantTx jid (eg_now eg + GrantTTL) (RenewTurnCredentialTx jid gen (eg_now eg + GrantTTL) (UpdateJobTx ?j d))) of
           (db, steer) \<Rightarrow> Inr (db, map_option (\<lambda>s. (st_id s, st_prompt s)) steer)))) (\<lambda>(d, x). tx_ok jid db d)"
    by (rule post_bindI, intro post_get post_pair)
      (simp, metis tx_ok_flags tx_ok_core fst_conv core_plain)
qed

section \<open>Cancel and halt\<close>

lemma cancelTurnTx_ok:
  assumes w: "wf db"
  shows "post (cancelTurnTx eg i db) (tx_ok i db)"
  unfolding cancelTurnTx_def
proof (rule post_get, intro post_if)
  fix j assume j: "GetJobByIDTx i db = Inr j"
  obtain t s where c: "cur db t s j" and v: "via db (j_id j) (j_pending j) db" and i: "j_id j = i"
    and sc: "j = scanJob t s" using cur_start [OF w j] by metis
  show "post (finishMeasurementTx (j_id j) Failed zero_artifact (eg_now eg) (UpdateJobTx (j\<lparr>j_state := Failed\<rparr>) db)) (tx_ok i db)"
    using post_measured [of db "j\<lparr>j_state := Failed\<rparr>" db t s] v c i by simp
  show "post (Inr db) (tx_ok i db)" using tx_ok_refl [OF w] by simp
  assume "\<not> j_state j \<noteq> Leased"
  then have g: "t_state t = Leased" "j_gen j = t_gen t" using sc by simp_all
  have c0: "cur db t s (j\<lparr>j_state := Queued, j_retry := 0\<rparr>)" using cur_adv(2) [of db t s "j\<lparr>j_state := Queued\<rparr>" 0] c by simp
  have upd: "post (if j_claimed j < j_pending j then Inr (d, j\<lparr>j_state := Queued\<rparr>)
      else if 0 < n then applyNextFollowUpTx eg (j\<lparr>j_state := Queued, j_retry := 0\<rparr>) d
      else Inr (d, j\<lparr>j_state := Failed\<rparr>))
    (\<lambda>(d', j'). via db (j_id j') (j_pending j') d' \<and> cur db t s j' \<and> j_state j' \<noteq> Leased \<and> j_id j' = i)"
    if vd: "via db (j_id j) (j_pending j) d" for d and n :: int
  proof -
    have "post (applyNextFollowUpTx eg (j\<lparr>j_state := Queued, j_retry := 0\<rparr>) d)
        (\<lambda>(d', j'). via db (j_id j') (j_pending j') d' \<and> cur db t s j' \<and> j_state j' \<noteq> Leased \<and> j_id j' = i)"
      by (rule post_mono [OF post_next [of db "j\<lparr>j_state := Queued, j_retry := 0\<rparr>" d t s]]) (use vd c0 i in auto)
    then show ?thesis using vd c i by simp
  qed
  show "post (bindE (InsertReceiptTx (j_id j) (j_gen j) (j_claimed j) ''cancelled''
                  (JObj [(''kind'', JStr ''cancelled'')]) db) (\<lambda>db.
         bindE (PromoteSteersTx (j_id j) (j_gen j) db) (\<lambda>(db, steers).
         bindE (if j_claimed j < j_pending j then Inr (db, j\<lparr>j_state := Queued\<rparr>)
                else if steers > 0 then applyNextFollowUpTx eg (j\<lparr>j_state := Queued, j_retry := 0\<rparr>) db
                else Inr (db, j\<lparr>j_state := Failed\<rparr>)) (\<lambda>(db, j).
         bindE (if j_state j = Failed
                then finishMeasurementTx (j_id j) Failed zero_artifact (eg_now eg) (UpdateJobTx j db)
                else Inr (UpdateJobTx j db)) (\<lambda>db.
         bindE (GetTurnTx (j_id j) db) (\<lambda>turn.
           Inr (touch_env eg (t_session turn) db))))))) (tx_ok i db)"
    apply (rule post_bindI [OF post_receipt [OF v w curD(4) [OF c] g refl]])
    apply (rule post_bindI [OF post_promote], assumption)
    apply (rule post_pair)
    apply (rule post_bindI [OF upd], simp)
    apply (rule post_pair)
    using post_write by fastforce
qed

lemma cancelSessionTx_ok:
  assumes "wf db"
  shows "post (cancelSessionTx eg sid db) (\<lambda>(d, u). safe db d)"
proof -
  let ?d = "fst (DropQueuedPromptsTx sid db)"
  have d: "safe db ?d" by (rule tx_safe [OF DropQueuedPromptsTx_ok [OF assms]])
  have "post (for_each (\<lambda>t. cancelTurnTx eg (t_id t)) (listTurnsForSession sid db) ?d) (safe ?d)"
    by (rule for_each_safe [OF safe_wf [OF d]]) (rule post_safe [OF cancelTurnTx_ok])
  then show ?thesis unfolding cancelSessionTx_def by (rule post_bindI) (simp add: safe_trans [OF d])
qed

lemma haltLeasedTurnTx_ok:
  assumes w: "wf db"
  shows "post (haltLeasedTurnTx eg i db) (tx_ok i db)"
  unfolding haltLeasedTurnTx_def
proof (rule post_get, rule post_if)
  fix j assume j: "GetJobByIDTx i db = Inr j"
  obtain t s where c: "cur db t s j" and v: "via db (j_id j) (j_pending j) db" and i: "j_id j = i"
    and sc: "j = scanJob t s" using cur_start [OF w j] by metis
  show "post (Inr db) (tx_ok i db)" using tx_ok_refl [OF w] by simp
  assume "\<not> j_state j \<noteq> Leased"
  then have g: "t_state t = Leased" "j_gen j = t_gen t" using sc by simp_all
  define k where "k = j\<lparr>j_gen := j_gen j + 1, j_state := Queued\<rparr>"
  have ck: "cur db t s k" "cur db t s (k\<lparr>j_retry := 0\<rparr>)" "j_id k = i" "j_pending k = j_pending j" "j_state k = Queued"
    using cur_adv(1) [OF c] cur_adv(2) [of db t s k 0] i by (simp_all add: k_def)
  have upd: "post (if 0 < n then (let j = k\<lparr>j_retry := 0\<rparr> in
                   if j_claimed j = j_pending j then applyNextFollowUpTx eg j d else Inr (d, j))
                else Inr (d, k))
    (\<lambda>(d', j'). via db (j_id j') (j_pending j') d' \<and> cur db t s j' \<and> j_state j' = Queued \<and> j_id j' = i)"
    if vd: "via db (j_id j) (j_pending j) d" for d and n :: int
  proof -
    have "post (applyNextFollowUpTx eg (k\<lparr>j_retry := 0\<rparr>) d)
        (\<lambda>(d', j'). via db (j_id j') (j_pending j') d' \<and> cur db t s j' \<and> j_state j' = Queued \<and> j_id j' = i)"
      by (rule post_mono [OF post_next [of db "k\<lparr>j_retry := 0\<rparr>" d t s]]) (use vd ck i in auto)
    then show ?thesis using vd ck i by (simp add: Let_def)
  qed
  have done_: "tx_ok i db (UpdateJobTx j' d)"
    if "via db (j_id j') (j_pending j') d" "cur db t s j'" "j_state j' = Queued" "j_id j' = i" for j' d
    using via_done [OF that(1,2)] that(3,4) by simp
  show "post (bindE (InsertReceiptTx (j_id j) (j_gen j) (j_claimed j) ''cancelled''
                  (JObj [(''kind'', JStr ''halted'')]) db) (\<lambda>db.
         bindE (PromoteSteersTx (j_id j) (j_gen j) db) (\<lambda>(db, steers).
         let j = j\<lparr>j_gen := j_gen j + 1, j_state := Queued\<rparr> in
         bindE (if steers > 0 then
                  (let j = j\<lparr>j_retry := 0\<rparr> in
                   if j_claimed j = j_pending j then applyNextFollowUpTx eg j db else Inr (db, j))
                else Inr (db, j)) (\<lambda>(db, j).
         bindE (GetTurnTx (j_id j) (UpdateJobTx j db)) (\<lambda>turn.
           Inr (touch_env eg (t_session turn) (UpdateJobTx j db))))))) (tx_ok i db)"
    unfolding k_def [symmetric] Let_def [of k]
    apply (rule post_bindI [OF post_receipt [OF v w curD(4) [OF c] g refl]])
    apply (rule post_bindI [OF post_promote], assumption)
    apply (rule post_pair)
    apply (rule post_bindI [OF upd], simp)
    apply (rule post_pair)
    apply (rule post_touch)
    using done_ by auto
qed

lemma haltTx_ok:
  assumes w: "wf db"
  shows "post (haltTx eg scope target rec db) (\<lambda>(d, l). safe db d)"
proof -
  have turn: "post (halt_turn eg s t (d, l)) (\<lambda>(d', l). safe d d')" if "wf d" for s t d l
    using post_safe [OF haltLeasedTurnTx_ok [OF that]] safe_refl [OF that] by (simp add: halt_turn_def post_bind)
  have sess: "post (halt_session eg sid (d, l)) (\<lambda>(d', l). safe d d')" if "wf d" for sid d l
    unfolding halt_session_def by (simp, rule post_get, rule for_each_safe2 [OF that]) (rule turn)
  have loop: "post (for_each (halt_session eg) ids (d, [])) (\<lambda>(d', l). safe db d')"
    if "SetHaltTx sc tg rec db = Inr d" for d ids sc tg
  proof -
    have d: "safe db d" by (rule safe_core [OF safe_refl [OF w] core_SetHaltTx [OF that]])
    have "post (for_each (halt_session eg) ids (d, [])) (\<lambda>(d', l). safe d d')"
      by (rule for_each_safe2 [OF safe_wf [OF d] sess])
    then show ?thesis using safe_trans [OF d] by (auto simp: post_def)
  qed
  show ?thesis unfolding haltTx_def Let_def
    by (rule post_if) (simp, intro post_get loop, assumption)
qed

section \<open>Claim\<close>

definition set_token :: "int \<Rightarrow> string \<Rightarrow> turn_row \<Rightarrow> turn_row" where
  "set_token i h t = (if t_id t = i then t\<lparr>t_token := (if h = [] then None else Some h)\<rparr> else t)"

lemma set_token_sel [simp]:
  "t_id (set_token i h t) = t_id t" "t_session (set_token i h t) = t_session t" "t_lane (set_token i h t) = t_lane t"
  "t_pending (set_token i h t) = t_pending t" "t_claimed (set_token i h t) = t_claimed t" "t_gen (set_token i h t) = t_gen t"
  "t_state (set_token i h t) = t_state t" "t_expires (set_token i h t) = t_expires t" "t_deadline (set_token i h t) = t_deadline t"
  "t_retry (set_token i h t) = t_retry t" "wf_turn (set_token i h t) = wf_turn t"
  by (simp_all add: set_token_def wf_turn_def)

lemma turns_token: "SetTurnClaimTokenTx i h db = db\<lparr>turns := map (set_token i h) (turns db)\<rparr>"
  by (simp add: SetTurnClaimTokenTx_def set_token_def sql_update_def)

lemma turn_of_token: "turn_of (SetTurnClaimTokenTx i h db) k = map_option (set_token i h) (turn_of db k)"
proof -
  have "find (\<lambda>t. t_id t = k) (map (set_token i h) ts) = map_option (set_token i h) (find (\<lambda>t. t_id t = k) ts)" for ts
    by (induction ts) simp_all
  then show ?thesis by (simp add: turns_token turn_of_def)
qed

lemma pending_of_token: "pending_of (SetTurnClaimTokenTx i h db) = pending_of db"
  by (simp add: pending_of_def fun_eq_iff turn_of_token split: option.split)

lemma wf_token: "wf (SetTurnClaimTokenTx i h db) = wf db"
proof -
  have "wf_sess (SetTurnClaimTokenTx i h db) = wf_sess db" by (simp add: turns_token wf_sess_def)
  moreover have "wf_turns (SetTurnClaimTokenTx i h db) = wf_turns db"
    by (simp add: turns_token wf_turns_def comp_def image_image)
  moreover have "snaps_ok P (SetTurnClaimTokenTx i h db) = snaps_ok P db" for P
    by (simp add: turns_token snaps_ok_def)
  moreover have "receipts_ok X (SetTurnClaimTokenTx i h db) = receipts_ok X db" for X
    by (simp add: turns_token receipts_ok_def)
  moreover have "queue_ok (SetTurnClaimTokenTx i h db) = queue_ok db"
    by (simp add: turns_token queue_ok_def)
  moreover have "flights_ok (SetTurnClaimTokenTx i h db) = flights_ok db"
    by (simp add: turns_token flights_ok_def)
  ultimately show ?thesis by (simp add: wf_def pending_of_token)
qed

lemma grows_token: "grows db (SetTurnClaimTokenTx i h db)"
  by (simp add: turns_token grows_def later_def) blast

lemma tx_ok_token: "tx_ok i db d \<Longrightarrow> tx_ok i db (SetTurnClaimTokenTx i h d)"
proof -
  assume a: "tx_ok i db d"
  have "turn_of (SetTurnClaimTokenTx i h d) k = turn_of d k" if "k \<noteq> i" for k
    using that turn_of_id by (cases "turn_of d k") (auto simp: turn_of_token set_token_def dest: turn_of_id)
  then show ?thesis using a wf_token grows_token [of d i h] grows_trans
    by (auto simp: tx_ok_def safe_def only_def turns_token)
qed

lemma replayClaimTx_ok: "replayClaimTx eg token db = Inr (Some c) \<Longrightarrow> j_state (cl_job c) = Leased"
  by (auto simp: replayClaimTx_def Let_def elim!: bindE_InrE split: if_splits)

lemma expire_lanes_ok: "wf db \<Longrightarrow> post (expire_lanes eg key db) (safe db)"
proof -
  assume w: "wf db"
  have step: "post (expireDueLeasesTx eg key lane d) (safe db)" if "safe db d" for d lane
    by (rule post_mono [OF expireDueLeasesTx_ok [OF safe_wf [OF that]] safe_trans [OF that]])
  show ?thesis unfolding expire_lanes_def
    by (intro post_bindI [OF step] step safe_refl [OF w])
qed

abbreviation leased_of :: "job \<Rightarrow> time \<Rightarrow> time \<Rightarrow> job" where
  "leased_of j x y \<equiv> j\<lparr>j_gen := j_gen j + 1, j_claimed := j_pending j, j_state := Leased,
     j_expires := Some x, j_deadline := Some y\<rparr>"

lemma leased_of_ok:
  assumes w: "wf db" and j: "GetJobByIDTx i db = Inr j" and e: "core d = core db"
  shows "tx_ok i db (SetTurnClaimTokenTx i token (UpdateJobTx (leased_of j x y) d))"
proof -
  obtain t s where c: "cur db t s j" and v: "via db (j_id j) (j_pending j) db" and i: "j_id j = i"
    and sc: "j = scanJob t s" using cur_start [OF w j] by metis
  have "tx_ok (j_id (leased_of j x y)) db (UpdateJobTx (leased_of j x y) d)"
  proof (rule via_done_leased [of db "leased_of j x y" d t s])
    show "via db (j_id (leased_of j x y)) (j_pending (leased_of j x y)) d" using via_core [OF v e] by simp
    show "cur db t s (leased_of j x y)" using c by (auto simp: cur_def owns_def)
    show "wf db" by (rule w)
    show "receipts d = receipts db" using e by (simp add: core_def)
    show "1 \<le> j_claimed (leased_of j x y)" "1 \<le> j_gen (leased_of j x y)" using c by (simp_all add: cur_def)
    show "t_state t = Leased \<and> j_deadline (leased_of j x y) = t_deadline t \<and> j_claimed (leased_of j x y) = t_claimed t
        \<or> t_gen t < j_gen (leased_of j x y)" using sc by simp
  qed simp_all
  then show ?thesis using tx_ok_token i by simp
qed

lemma leaseTurnTx_ok:
  assumes w: "wf db" and j: "GetJobByIDTx i db = Inr j"
  shows "post (leaseTurnTx eg repo token p j db) (\<lambda>(d, c). tx_ok i db d)"
proof -
  have i: "j_id j = i" using cur_start [OF w j] by metis
  have r: "tx_ok i db (IncrReviewsToday repo day (SetTurnClaimTokenTx i token (UpdateJobTx (leased_of j x y) d)))"
    if "core d = core db" for day d x y
    by (rule tx_ok_core [OF leased_of_ok [OF w j that] core_plain(9)])
  show ?thesis unfolding leaseTurnTx_def Let_def
    apply (rule post_get, rule post_get, rule post_pair, rule post_pair, rule post_get, rule post_get)
    subgoal for turn x d y g cm u d'
      using r [of d'] leased_of_ok [OF w j, of d'] core_bindSessionGuestTx [of eg _ _ "[]" db d] core_BeginMeasurementTx [of _ _ d d']
      by (intro post_get) (auto simp: i)
    done
qed

lemma first_eligible_in: "first_eligible eg p q db = Inr (Some t) \<Longrightarrow> t \<in> fst ` set q"
  by (induction q) (auto elim!: bindE_InrE split: if_splits)

lemma claimTx_ok:
  assumes w: "wf db"
  shows "post (claimTx eg repo token db) (\<lambda>(d, c). safe db d)"
proof -
  have lease: "post (bindE (first_eligible eg p q d) (\<lambda>pick. case pick of
       None \<Rightarrow> if b \<and> q = [] then Inl EBudget else Inr (d, None)
     | Some t \<Rightarrow> bindE (GetJobByIDTx (t_id t) d) (\<lambda>j.
           if n d \<ge> m then Inr (d, None)
           else bindE (leaseTurnTx eg repo token p j d) (\<lambda>(db, c). Inr (db, Some (c, False)))))) (\<lambda>(d, c). safe db d)"
    if d: "safe db d" for d p q b n and m :: int
  proof (rule post_get)
    fix pick assume "first_eligible eg p q d = Inr pick"
    show "post (case pick of
       None \<Rightarrow> if b \<and> q = [] then Inl EBudget else Inr (d, None)
     | Some t \<Rightarrow> bindE (GetJobByIDTx (t_id t) d) (\<lambda>j.
           if n d \<ge> m then Inr (d, None)
           else bindE (leaseTurnTx eg repo token p j d) (\<lambda>(db, c). Inr (db, Some (c, False))))) (\<lambda>(d, c). safe db d)"
    proof (cases pick)
      case (Some t)
      have "post (bindE (leaseTurnTx eg repo token p j d) (\<lambda>(db, c). Inr (db, Some (c, False)))) (\<lambda>(d, c). safe db d)"
        if "GetJobByIDTx (t_id t) d = Inr j" for j
        by (rule post_bindI [OF leaseTurnTx_ok [OF safe_wf [OF d] that]]) (clarsimp, rule safe_trans [OF d], erule tx_safe)
      then show ?thesis using Some d by (auto intro: post_get)
    qed (use d in simp)
  qed
  have loop: "post (for_each (expire_lanes eg) keys db) (safe db)" for keys
    by (rule for_each_safe [OF w expire_lanes_ok])
  show ?thesis unfolding claimTx_def Let_def
    apply (rule post_get)
    subgoal for replay
      apply (cases replay)
      subgoal
        apply (simp, rule post_get, rule post_pair, rule post_pair, rule post_if, simp)
        apply (rule post_bindI [OF loop], rule lease)
        by assumption
      subgoal using safe_refl [OF w] by simp
      done
    done
qed

lemma requeueBusyTx_ok:
  assumes w: "wf db"
  shows "post (requeueBusyTx c db) (\<lambda>(d, u). safe db d)"
  unfolding requeueBusyTx_def
proof (rule post_get, rule post_if, simp, rule post_get)
  fix j d assume j: "GetJobByIDTx (j_id (cl_job c)) db = Inr j"
    and d: "(if cl_day c \<noteq> [] then DecrReviewsToday (j_repo j) (cl_day c) db else Inr db) = Inr d"
  obtain t s where cu: "cur db t s j" and v: "via db (j_id j) (j_pending j) db" using cur_start [OF w j] by metis
  have "core d = core db" using d core_DecrReviewsToday by (auto split: if_splits)
  then have "via db (j_id j) (j_pending j) d" by (rule via_core [OF v])
  then show "post (Inr (UpdateJobTx (j\<lparr>j_state := Queued, j_expires := None, j_deadline := None\<rparr>) d, ())) (\<lambda>(d, u). safe db d)"
    using via_done [of db "j\<lparr>j_state := Queued, j_expires := None, j_deadline := None\<rparr>" d t s] cu by (auto intro: tx_safe)
qed

end
