(* ===== verification/Entry.thy ===== *)
theory Entry
  imports Lifecycle
begin

text \<open>
  Completion, prompts, admission and new sessions as committed transactions: each keeps the store well
  formed and grows it.
\<close>

section \<open>Complete\<close>

lemma ack_steers_via:
  assumes "via db0 i p db"
  shows "post (ack_steers tid gen ids db) (\<lambda>d. via db0 i p d \<and> receipts d = receipts db)"
  unfolding ack_steers_def
  by (rule post_for_each) (use assms via_AckSteerTx in \<open>auto simp: post_def split: sum.split\<close>)

lemma record_proposals_core: "record_proposals pid1 pid2 sid j rid art db = Inr (d, extra) \<Longrightarrow> core d = core db"
  unfolding record_proposals_def
  by (auto split: option.splits if_splits elim!: bindE_InrE dest!: core_InsertActionTx)

lemma post_receipt_in:
  assumes "via db0 i p db" "wf db0" "turn_of db0 i = Some t" "t_state t = Leased" "gen = t_gen t" "receipts db = receipts db0"
  shows "post (InsertReceiptTx i gen cl k pl db) (\<lambda>d. via db0 i p d \<and> (i, gen, cl) \<in> receipt_key ` set (receipts d))"
  using via_InsertReceiptTx [OF assms(1) _ assms(2-)] by (intro postI) (auto simp: receipt_key_def)

lemma post_flight:
  assumes "via db0 i p db" "rid \<in> receipt_key ` set (receipts db)"
  shows "post (recordFlightTx tid rid db) (via db0 i p)"
  unfolding recordFlightTx_def by (intro post_get postI) (rule via_InsertFlightRecordTx [OF assms(1) _ assms(2)])

lemma settleCompleteTx_ok:
  assumes v: "via db0 (j_id j) (j_pending j) d" and c: "cur db0 t s j"
  shows "post (settleCompleteTx eg j snap rid art d) (tx_ok (j_id j) db0)"
proof -
  have fin: "post (bindE (finishMeasurementTx i Completed art now (UpdateJobTx (j'\<lparr>j_state := Completed\<rparr>) d')) (\<lambda>db.
      maybeEnqueueApplyTx eg j'' snap rid art db)) (tx_ok (j_id j') db0)"
    if "via db0 (j_id j') (j_pending j') d'" "cur db0 t s j'" for j' d' i now j''
  proof (rule post_bindI)
    show "post (finishMeasurementTx i Completed art now (UpdateJobTx (j'\<lparr>j_state := Completed\<rparr>) d')) (tx_ok (j_id j') db0)"
      using post_measured [of db0 "j'\<lparr>j_state := Completed\<rparr>" d' t s] that by simp
  qed (blast intro: postI tx_ok_core core_maybeEnqueueApplyTx)
  have nx: "post (bindE (applyNextFollowUpTx eg j d) (\<lambda>(db, j).
          if j_claimed j < j_pending j then Inr (UpdateJobTx (j\<lparr>j_state := Queued\<rparr>) db)
          else bindE (finishMeasurementTx (j_id (j\<lparr>j_state := Completed\<rparr>)) Completed art (eg_now eg)
                  (UpdateJobTx (j\<lparr>j_state := Completed\<rparr>) db)) (\<lambda>db.
              maybeEnqueueApplyTx eg (j\<lparr>j_state := Completed\<rparr>) snap rid art db))) (tx_ok (j_id j) db0)"
  proof (rule post_bindI [OF post_next [OF v c]], rule post_pair, rule post_if)
    fix x d' j' assume a: "case x of (d', j') \<Rightarrow> cur db0 t s j' \<and> via db0 (j_id j') (j_pending j') d'
      \<and> j_id j' = j_id j \<and> j_state j' = j_state j \<and> j_claimed j' = j_claimed j \<and> j_gen j' = j_gen j" "x = (d', j')"
    show "post (Inr (UpdateJobTx (j'\<lparr>j_state := Queued\<rparr>) d')) (tx_ok (j_id j) db0)"
      using a done_queued [of db0 j' d' t s] by auto
    show "post (bindE (finishMeasurementTx (j_id (j'\<lparr>j_state := Completed\<rparr>)) Completed art (eg_now eg)
                  (UpdateJobTx (j'\<lparr>j_state := Completed\<rparr>) d')) (\<lambda>db.
              maybeEnqueueApplyTx eg (j'\<lparr>j_state := Completed\<rparr>) snap rid art db)) (tx_ok (j_id j) db0)"
      using a fin [of j' d'] by auto
  qed
  show ?thesis unfolding settleCompleteTx_def Let_def using nx done_queued [OF v c] by simp
qed

lemma recordCompleteTx_ok:
  assumes w: "wf db" and j: "GetJobByIDTx i db = Inr j" and g: "j_state j = Leased" "gen = j_gen j"
  shows "post (recordCompleteTx eg pid1 pid2 j snap gen claimed art acks db) (\<lambda>(d, r). tx_ok i db d)"
proof -
  obtain t s where c: "cur db t s j" and v: "via db (j_id j) (j_pending j) db" and i: "j_id j = i"
    and sc: "j = scanJob t s" using cur_start [OF w j] by metis
  have g': "t_state t = Leased" "gen = t_gen t" using g sc by simp_all
  have settle: "post (bindE (settleCompleteTx eg j snap rid a (if q then SetGuestSessionTx k gs d else d)) (\<lambda>db. Inr (db, r)))
      (\<lambda>(d, r). tx_ok i db d)" if "via db (j_id j) (j_pending j) d" for rid a q k gs d and r :: jval
    using that settleCompleteTx_ok [OF via_core [OF that core_session_setters(4)] c] settleCompleteTx_ok [OF that c] i
    by (intro post_bindI [of _ "tx_ok i db"]) auto
  have touched: "receipts (touch_env eg k d) = receipts d" for k d by (rule core_eqD(4) [OF core_plain(2)])
  have rv: "via db (j_id j) (j_pending j) (touch_env eg k d\<lparr>reviews := reviews (touch_env eg k d) @ xs\<rparr>)"
    if "via db (j_id j) (j_pending j) d" for d k xs
    by (rule via_reviews [OF via_core [OF that core_plain(2)]])
  show ?thesis
    unfolding recordCompleteTx_def Let_def
    apply (rule post_bindI [OF ack_steers_via [OF v]])
    apply (rule post_get, rule post_get, rule post_pair)
    apply (rule post_bindI [OF post_receipt_in [OF _ w curD(4) [OF c] g']])
      apply (rule via_core [OF rv], blast, simp, erule record_proposals_core)
     apply (simp, drule record_proposals_core, drule core_eqD(4), simp add: touched)
    apply (rule post_bindI [OF post_flight], blast, blast)
    apply (rule post_bindI [OF post_promote], assumption)
    apply (rule post_pair, rule settle)
    by simp
qed

lemma completeTx_ok:
  assumes w: "wf db"
  shows "post (completeTx eg pid1 pid2 jid gen claimed art acks db) (\<lambda>(d, r). tx_ok jid db d)"
proof (cases "GetReceiptTx jid gen claimed db")
  case None
  have "post (bindE (acceptLease (eg_now eg) j gen claimed) (\<lambda>_.
          bindE (LoadSnapshotTx (j_repo j) (j_item j) (j_claimed j) db) (\<lambda>snap.
            if \<not> artifact_matches eg j snap art
            then bindE (finalizeFailureTx eg j gen claimed db) (\<lambda>db. Inr (db, JNull))
            else recordCompleteTx eg pid1 pid2 j snap gen claimed art acks db))) (\<lambda>(d, r). tx_ok jid db d)"
    if j: "GetJobByIDTx jid db = Inr j" for j
  proof (rule post_get, rule post_get)
    fix u snap assume "acceptLease (eg_now eg) j gen claimed = Inr u"
    then have g: "j_state j = Leased" "gen = j_gen j" by (auto simp: acceptLease_iff)
    show "post (if \<not> artifact_matches eg j snap art
        then bindE (finalizeFailureTx eg j gen claimed db) (\<lambda>db. Inr (db, JNull))
        else recordCompleteTx eg pid1 pid2 j snap gen claimed art acks db) (\<lambda>(d, r). tx_ok jid db d)"
      using post_bindI [OF finalizeFailureTx_ok [OF w j g, of eg claimed], of "\<lambda>db. Inr (db, JNull)"]
        recordCompleteTx_ok [OF w j g, of eg pid1 pid2 snap claimed art acks] by simp
  qed
  then show ?thesis using None by (simp add: completeTx_def post_get)
qed (use tx_ok_refl [OF w] in \<open>auto simp: completeTx_def\<close>)

text \<open>A committed or rolled back transaction.\<close>

lemma run_tx_safe:
  assumes "wf db" "post (f db) (\<lambda>(d, r). safe db d)"
  shows "safe db (fst (run_tx f db))"
  using assms safe_refl by (auto simp: run_tx_def post_def split: sum.split)

lemma CompleteWithSteers_safe:
  assumes "wf db"
  shows "safe db (fst (CompleteWithSteers eg pid1 pid2 jid gen claimed art acks db))"
proof -
  let ?a = "observe eg jid gen claimed db art"
  have "post (completeTx eg pid1 pid2 jid gen claimed ?a acks db) (\<lambda>(d, r). safe db d)"
    by (rule post_mono [OF completeTx_ok [OF assms]]) (auto dest: tx_safe)
  then have "safe db (fst (run_tx (completeTx eg pid1 pid2 jid gen claimed ?a acks) db))" by (rule run_tx_safe [OF assms])
  then show ?thesis
    by (auto simp: CompleteWithSteers_def Let_def intro: safe_core core_publishPendingComments split: prod.split sum.split)
qed

section \<open>Prompts\<close>

lemma done_prompt:
  assumes w: "wf db" and j: "GetJobByIDTx i db = Inr j"
    and v: "via db (j_id j') (j_pending j') d" and r: "receipts d = receipts db"
    and o: "j' = j \<or> j' = j\<lparr>j_pending := j_pending j + 1, j_retry := 0\<rparr>"
  shows "tx_ok i db (UpdateJobTx (if j_state j' \<noteq> Leased then j'\<lparr>j_state := Queued\<rparr> else j') d)"
proof -
  obtain t s where c: "cur db t s j" and i: "j_id j = i" and sc: "j = scanJob t s" using cur_start [OF w j] by metis
  have st: "t_state t = j_state j" "t_deadline t = j_deadline j" "t_claimed t = j_claimed j" by (simp_all add: sc)
  have k: "cur db t s j'" "j_id j' = i" "j_state j' = j_state j" "j_gen j' = j_gen j" "j_claimed j' = j_claimed j"
    "j_expires j' = j_expires j" "j_deadline j' = j_deadline j"
    by (rule disjE [OF o]; simp add: c cur_adv(3) [OF c] i)+
  show ?thesis
  proof (cases "j_state j = Leased")
    case True
    have "tx_ok (j_id j') db (UpdateJobTx j' d)"
      by (rule via_done_leased [OF v k(1) w r]) (use k(3-) True leased_job [OF w j True] st in simp_all)
    then show ?thesis using k True by simp
  qed (use done_queued [OF v k(1)] k in simp)
qed

lemma enqueuePromptTx_ok:
  assumes w: "wf db" and j: "GetJobByIDTx i db = Inr j"
  shows "post (enqueuePromptTx eg j sid prompt queued ids files db) (\<lambda>(d, j', seq). tx_ok i db d)"
proof -
  obtain t s where c: "cur db t s j" and v: "via db (j_id j) (j_pending j) db" using cur_start [OF w j] by metis
  have ready: "via db (j_id j) (j_pending j) d'" "receipts d' = receipts db"
    if e: "enqueueFollowUpTx sid prompt queued db = Inr (d, seq)"
      and f: "insertPromptFileReceiptsTx eg sid j ids files (InsertPromptAttachmentsTx eg sid seq files d) = Inr d'" for d d' seq
  proof -
    have q: "core d' = core d" using core_insertPromptFileReceiptsTx [OF f] core_plain(6) by simp
    show "via db (j_id j) (j_pending j) d'" by (rule via_core [OF _ q]) (use via_enqueueFollowUpTx [OF v e] in simp)
    show "receipts d' = receipts db" using q via_enqueueFollowUpTx [OF v e] by (simp add: core_def)
  qed
  show ?thesis
    unfolding enqueuePromptTx_def Let_def
    apply (rule post_get, rule post_get, rule post_pair, rule post_get, rule post_get, rule post_pair)
    subgoal premises p for u x d seq d' y d2 j2
    proof -
      have r: "via db (j_id j) (j_pending j) d'" "receipts d' = receipts db" using ready [of d seq d'] p by simp_all
      have "via db (j_id j2) (j_pending j2) d2 \<and> receipts d2 = receipts d' \<and> (j2 = j \<or> j2 = j\<lparr>j_pending := j_pending j + 1, j_retry := 0\<rparr>)"
        by (rule via_promoteFollowUpTx [OF r(1) curD(1,2) [OF c]]) (use p in simp)
      then show ?thesis using done_prompt [OF w j, of j2 d2] r(2) by simp
    qed
    done
qed

lemma prompt_tx_safe:
  assumes w: "wf db" and k: "\<And>d j' seq. safe db d \<Longrightarrow> post (k d j' seq) (\<lambda>(d', r). safe db d')"
  shows "post (bindE (GetJobByIDTx tid db) (\<lambda>j. bindE (enqueuePromptTx eg j sid prompt queued ids files db) (\<lambda>(d, j', seq). k d j' seq)))
      (\<lambda>(d, r). safe db d)"
  by (rule post_get, rule post_bindI [OF enqueuePromptTx_ok [OF w]], assumption, intro post_pair k) (auto dest: tx_safe)

lemma promptFollowUp_safe: "wf db \<Longrightarrow> safe db (fst (promptFollowUp eg sid prompt ids files db))"
proof -
  assume w: "wf db"
  have "safe db (fst (run_tx (\<lambda>db. if Paused pr db then Inl EPaused
          else bindE (GetJobByIDTx tid db) (\<lambda>j.
               bindE (enqueuePromptTx eg j sid prompt False ids files db) (\<lambda>(db, j, _).
                 Inr (db, (j_id j, j_pending j))))) db))" for pr tid
    by (rule run_tx_safe [OF w], rule post_if, simp, rule prompt_tx_safe [OF w], simp)
  then show ?thesis using safe_refl [OF w] by (simp add: promptFollowUp_def split: sum.split)
qed

lemma promptQueued_safe: "wf db \<Longrightarrow> safe db (fst (promptQueued eg sid prompt ids files db))"
proof -
  assume w: "wf db"
  have "safe db (fst (run_tx (\<lambda>db. if Paused (s_project s) db then Inl EPaused
          else bindE (GetJobByIDTx tid db) (\<lambda>j.
               bindE (enqueuePromptTx eg j sid prompt True ids files db) (\<lambda>(db, j, seq).
               let held = (case NextFollowUpTx sid db of None \<Rightarrow> False | Some f \<Rightarrow> f_seq f \<le> seq) in
               bindE (insertOperatorSteerTx seq s j prompt ''queued'' db) (\<lambda>db.
                 Inr (db, (j_id j, j_pending j, held)))))) db))" for s tid
    by (rule run_tx_safe [OF w], rule post_if, simp, rule prompt_tx_safe [OF w], unfold Let_def, rule post_get)
      (simp add: safe_core core_insertOperatorSteerTx)
  then show ?thesis using safe_refl [OF w] by (simp add: promptQueued_def split: sum.split)
qed

lemma promote_prompt_ok:
  assumes w: "wf db" and j: "GetJobByIDTx i db = Inr j" and "promoteFollowUpTx eg j sid db = Inr (d, j')"
  shows "tx_ok i db (UpdateJobTx (if j_state j' \<noteq> Leased then j'\<lparr>j_state := Queued\<rparr> else j') d)"
proof -
  obtain t s where c: "cur db t s j" and v: "via db (j_id j) (j_pending j) db" using cur_start [OF w j] by metis
  have "via db (j_id j') (j_pending j') d \<and> receipts d = receipts db \<and> (j' = j \<or> j' = j\<lparr>j_pending := j_pending j + 1, j_retry := 0\<rparr>)"
    by (rule via_promoteFollowUpTx [OF v curD(1,2) [OF c] assms(3)])
  then show ?thesis using done_prompt [OF w j, of j' d] by simp
qed

lemma promote_same: "promoteFollowUpTx eg j sid db = Inr (d, j') \<Longrightarrow> j_pending j' = j_pending j \<Longrightarrow> d = db"
  unfolding promoteFollowUpTx_def
  by (auto simp: applyFollowUpTx_def Let_def elim!: bindE_InrE split: if_splits option.splits)

lemma DropQueuedPrompts_ok:
  assumes w: "wf db" and l: "listTurnsForSession sid db = t # ts"
  shows "tx_ok (t_id t) db (fst (DropQueuedPrompts eg sid db))"
  unfolding DropQueuedPrompts_def l list.case
proof (rule run_tx_post [where I = "tx_ok (t_id t) db"], rule tx_ok_refl [OF w], unfold Let_def, rule post_pair)
  fix d1 n assume a: "DropQueuedPromptsTx sid db = (d1, n)"
  have d: "tx_ok (t_id t) db d1" using DropQueuedPromptsTx_ok [OF w, of "t_id t" sid] a by simp
  have "post (if j_pending j' = j_pending j then Inr (d2, n)
      else Inr (UpdateJobTx (if j_state j' \<noteq> Leased then j'\<lparr>j_state := Queued\<rparr> else j') d2, n)) (\<lambda>(d, n). tx_ok (t_id t) db d)"
    if "GetJobByIDTx (t_id t) d1 = Inr j" "promoteFollowUpTx eg j sid d1 = Inr (d2, j')" for j d2 j'
    using promote_same [OF that(2)] promote_prompt_ok [OF safe_wf [OF tx_safe [OF d]] that] d tx_ok_trans [OF d] by simp
  then show "post (if n = 0 then Inr (d1, n)
      else bindE (GetJobByIDTx (t_id t) d1) (\<lambda>j. bindE (promoteFollowUpTx eg j sid d1) (\<lambda>(db2, j').
        if j_pending j' = j_pending j then Inr (db2, n)
        else Inr (UpdateJobTx (if j_state j' \<noteq> Leased then j'\<lparr>j_state := Queued\<rparr> else j') db2, n)))) (\<lambda>(d, n). tx_ok (t_id t) db d)"
    using d by (auto intro!: post_get post_pair)
qed

lemma DropQueuedPrompts_safe: "wf db \<Longrightarrow> safe db (fst (DropQueuedPrompts eg sid db))"
  using safe_refl tx_safe [OF DropQueuedPrompts_ok]
  by (cases "listTurnsForSession sid db") (simp_all add: DropQueuedPrompts_def)

lemma prompt_target_D:
  assumes "prompt_target sid db = Inr (s, tid)"
  shows "\<exists>t \<in> set (turns db). t_id t = tid \<and> t_session t = sid"
proof -
  obtain t ts where "listTurnsForSession sid db = t # ts" "t_id t = tid"
    using assms by (auto simp: prompt_target_def bindE_eq_Inr split: if_splits list.splits)
  then have "t \<in> set (listTurnsForSession sid db)" by simp
  then show ?thesis using \<open>t_id t = tid\<close> by (auto simp: listTurnsForSession_def)
qed

lemma PromptSteer_safe: "wf db \<Longrightarrow> safe db (fst (PromptSteer eg sid prompt db))"
proof -
  assume w: "wf db"
  have steer: "safe db d2"
    if t: "prompt_target sid db = Inr (s, tid)" and j: "GetJobByIDTx tid db = Inr j" "lease_live (eg_now eg) j"
      and d: "insertOperatorSteerTx n s j prompt ''steer'' (fst (EnqueueSteerTx sid (j_id j) (j_gen j) prompt db)) = Inr d2" for s tid j n d2
  proof -
    obtain t where t: "t \<in> set (turns db)" "t_id t = tid" "t_session t = sid" using prompt_target_D [OF t] by blast
    obtain t' s' where t': "turn_of db tid = Some t'" "j = scanJob t' s'" "j_id j = tid" using cur_start [OF w j(1)] by metis
    have "t' = t" using t t' w turn_of_iff by (metis option.inject wf_def)
    then have "1 \<le> j_gen j" "j_gen j \<le> t_gen t" using j(2) t'(2) by (simp_all add: lease_live_def)
    then have "via db 0 0 (fst (EnqueueSteerTx sid (j_id j) (j_gen j) prompt db))"
      using via_EnqueueSteerTx [OF via_zero [OF w] t(1)] t t'(3) by simp
    then show ?thesis using tx_safe [OF via_zero_ok] safe_core core_insertOperatorSteerTx [OF d] by blast
  qed
  have "safe db (fst (run_tx (\<lambda>db. if Paused (s_project s) db then Inl EPaused
          else bindE (GetJobByIDTx tid db) (\<lambda>j.
            if lease_live (eg_now eg) j then
              (let (db1, i) = EnqueueSteerTx sid (j_id j) (j_gen j) prompt db in
               bindE (insertOperatorSteerTx i s j prompt ''steer'' db1) (\<lambda>db2.
                 Inr (db2, (j_id j, j_pending j, True))))
            else
              bindE (enqueuePromptTx eg j sid prompt False [] [] db) (\<lambda>(db1, j', seq).
              bindE (insertOperatorSteerTx seq s j' prompt ''follow_up'' db1) (\<lambda>db2.
                Inr (db2, (j_id j', j_pending j', False)))))) db))"
    if "prompt_target sid db = Inr (s, tid)" for s tid
    apply (rule run_tx_safe [OF w], rule post_if, simp, rule post_get, rule post_if)
    subgoal for j
      unfolding Let_def by (rule post_pair, rule post_get) (use steer [OF that] in simp)
    subgoal for j
      apply (rule post_bindI [OF enqueuePromptTx_ok [OF w]], assumption, rule post_pair, rule post_pair, rule post_get)
      using safe_core core_insertOperatorSteerTx tx_safe by fastforce
    done
  then show ?thesis using safe_refl [OF w] by (auto simp: PromptSteer_def split: sum.split)
qed

section \<open>A new session and its turn\<close>

definition new_pair :: "sess_row \<Rightarrow> turn_row \<Rightarrow> db \<Rightarrow> bool" where
  "new_pair s t db = (s_id s = next_id (map s_id (sessions db)) \<and> t_id t = next_id (map t_id (turns db))
     \<and> t_session t = s_id s \<and> (s_repo s, s_item s) \<notin> (\<lambda>x. (s_repo x, s_item x)) ` set (sessions db)
     \<and> (if s_kind s = SessionKindReview then 0 < s_item s else s_item s < 0)
     \<and> (t_lane t = ''review'' \<longleftrightarrow> s_kind s = SessionKindReview)
     \<and> t_pending t = 1 \<and> t_claimed t = 0 \<and> t_gen t = 0 \<and> t_retry t = 0 \<and> t_state t = Queued)"

lemma find_append: "find P (xs @ ys) = (case find P xs of None \<Rightarrow> find P ys | Some x \<Rightarrow> Some x)"
  by (induction xs) auto

lemma new_pair_mid:
  assumes w: "wf db" and n: "new_pair s t db"
    and d: "turns d = turns db @ [t]" "sessions d = sessions db @ [s]" "snaps d = snaps db" "receipts d = receipts db"
      "followups d = followups db" "steers d = steers db" "flights d = flights db" "reviews d = reviews db"
  shows "mid (t_id t) 0 d" "grows db d" "turn_of d (t_id t) = Some t" "session_of d (t_session t) = Some s"
proof -
  have f: "s_id s \<notin> s_id ` set (sessions db)" "t_id t \<notin> t_id ` set (turns db)" "0 < s_id s" "0 < t_id t"
    using n next_id_fresh [of "map s_id (sessions db)"] next_id_fresh [of "map t_id (turns db)"] next_id_pos
    by (auto simp: new_pair_def)
  have ts: "t_session ` set (turns db) = s_id ` set (sessions db)" using w by (simp add: wf_def wf_turns_def)
  have ft: "t_session x \<noteq> s_id s" "t_id x \<noteq> t_id t" if "x \<in> set (turns db)" for x
    using f(1,2) ts that by (metis image_eqI)+
  have fs: "s_id x \<noteq> s_id s" if "x \<in> set (sessions db)" for x using f(1) that by (metis image_eqI)
  have l: "t_session t = s_id s" using n by (simp add: new_pair_def)
  have 1: "wf_sess d" using w n f by (simp add: wf_def wf_sess_def d new_pair_def)
  have lane: "(t_lane x = ''review'') = (s_kind y = SessionKindReview)"
    if "x \<in> set (turns d)" "y \<in> set (sessions d)" "t_session x = s_id y" for x y
    using that w n l ft(1) [of x] fs [of y] by (auto simp: d wf_def wf_turns_def new_pair_def)
  have "wf_turn t" using n f by (simp add: new_pair_def wf_turn_def)
  then have 2: "wf_turns d"
    unfolding wf_turns_def using w f ts l lane by (simp add: wf_def wf_turns_def d)
  have none: "turn_of db (t_id t) = None" using ft(2) by (auto simp: turn_of_def find_None_iff)
  have to: "turn_of d k = (if k = t_id t then Some t else turn_of db k)" for k
    using none by (auto simp: turn_of_def d find_append split: option.split)
  have p: "(pending_of d)(t_id t := 0) = pending_of db"
    by (simp add: fun_eq_iff pending_of_def to none)
  have pz: "pending_of db (t_id t) = 0" by (simp add: pending_of_def none)
  have k: "(s_repo s, s_item s, r) \<notin> snap_key ` set (snaps db)" for r
  proof
    assume "(s_repo s, s_item s, r) \<in> snap_key ` set (snaps db)"
    then obtain x where "x \<in> set (sessions db)" "s_repo s = s_repo x" "s_item s = s_item x"
      using w unfolding wf_def snaps_ok_def by (metis fst_conv snd_conv)
    then show False using n by (force simp: new_pair_def)
  qed
  have "((s_repo y, s_item y, r) \<in> snap_key ` set (snaps db)) = (1 \<le> r \<and> r \<le> pending_of db (t_id x))"
    if h: "x \<in> set (turns d)" "y \<in> set (sessions d)" "t_session x = s_id y" for x y r
  proof -
    consider "x = t" "y = s" | "x \<in> set (turns db)" "y \<in> set (sessions db)"
      using h l ft(1) [of x] fs [of y] by (auto simp: d)
    then show ?thesis
    proof cases
      case 2
      then show ?thesis using w h(3) unfolding wf_def snaps_ok_def by blast
    qed (use k pz in simp)
  qed
  then have 3: "snaps_ok ((pending_of d)(t_id t := 0)) d"
    using w unfolding p wf_def snaps_ok_def d(3) by (simp add: d) blast
  have 4: "receipts_ok {t_id t} d" using w unfolding wf_def receipts_ok_def d by auto
  have 5: "queue_ok d" using w unfolding wf_def queue_ok_def d by auto
  have 6: "flights_ok d" using w by (simp add: wf_def flights_ok_def d)
  show "mid (t_id t) 0 d" using 1 2 3 4 5 6 by (simp add: mid_def)
  show "grows db d" by (auto simp: grows_def d intro: later_refl bexI)
  show "turn_of d (t_id t) = Some t" using to by simp
  show "session_of d (t_session t) = Some s"
    using session_of_iff [OF 1] by (simp add: d l)
qed

abbreviation with_pair :: "sess_row \<Rightarrow> turn_row \<Rightarrow> db \<Rightarrow> db" where
  "with_pair s t db \<equiv> db\<lparr>turns := turns db @ [t], sessions := sessions db @ [s]\<rparr>"

lemma mid_wf:
  assumes m: "mid i (t_pending t) d" and t: "turn_of d i = Some t" and "t_state t \<noteq> Leased"
  shows "wf d"
proof -
  have w: "wf_turns d" using m by (simp add: mid_def)
  have "(pending_of d)(i := t_pending t) = pending_of d" using t by (simp add: fun_eq_iff pending_of_def)
  moreover have "x = t" if "x \<in> set (turns d)" "t_id x = i" for x using t that turn_of_iff [OF w] by (metis option.inject)
  then have "receipts_ok {i} d \<Longrightarrow> receipts_ok {} d" using assms(3) unfolding receipts_ok_def by blast
  ultimately show ?thesis using m by (simp add: mid_def wf_def)
qed

text \<open>A new session is complete once the first revision's snapshot is saved.\<close>

lemma new_session_done:
  assumes w: "wf db" and n: "new_pair s t db" and e: "core d = core (with_pair s t db)"
    and sn: "SaveSnapshotTx sha (s_repo s) (s_item s) 1 it d = Inr d2"
  shows "safe db d2"
proof -
  let ?b = "with_pair s t db"
  have b: "mid (t_id t) 0 ?b" "grows db ?b" "turn_of ?b (t_id t) = Some t" "session_of ?b (t_session t) = Some s"
    using new_pair_mid [OF w n, of ?b] by simp_all
  have v: "via ?b (t_id t) 0 d" by (rule via_core [OF _ e]) (simp add: via_def b)
  have "via ?b (t_id t) 1 d2"
    using via_SaveSnapshotTx [of ?b "scanJob t s" 0 d t s sha it d2] v owns_scan [OF b(3,4)] sn by simp
  moreover have "t_pending t = 1" "t_state t = Queued" using n by (simp_all add: new_pair_def)
  ultimately have "mid (t_id t) (t_pending t) d2" "turn_of d2 (t_id t) = Some t" "grows ?b d2"
    using via_turn_of b(3) by (simp_all add: via_def turn_of_def)
  then show ?thesis using mid_wf [of "t_id t" t d2] \<open>t_state t = Queued\<close> grows_trans [OF b(2)] by (simp add: safe_def)
qed

lemma fold_min_le: "fold min xs (m::int) \<le> m" "x \<in> set xs \<Longrightarrow> fold min xs m \<le> x"
proof (induction xs arbitrary: m)
  case (Cons a xs)
  { case 1 show ?case using Cons.IH(1) [of "min a m"] by simp
  next
    case 2 then show ?case using Cons.IH(1) [of "min a m"] Cons.IH(2) [of "min a m"] by auto }
qed simp_all

lemma insert_session_E:
  assumes "insert_session env kind repo item ik project prompt schedule parent db = Inr (d, sid)"
  obtains s where "d = db\<lparr>sessions := sessions db @ [s]\<rparr>" "s_id s = sid" "sid = next_id (map s_id (sessions db))"
    "s_kind s = kind" "s_repo s = repo" "s_item s = item"
proof -
  have "\<exists>s. d = db\<lparr>sessions := sessions db @ [s]\<rparr> \<and> s_id s = sid \<and> sid = next_id (map s_id (sessions db))
      \<and> s_kind s = kind \<and> s_repo s = repo \<and> s_item s = item"
    using assms unfolding insert_session_def Let_def
    by (simp split: if_splits) (erule conjE, hypsubst, intro exI conjI, rule refl, simp_all)
  then show ?thesis using that by blast
qed

lemma insert_turn_E:
  assumes "insert_turn sid lane pending st db = Inr (d, i)"
  obtains t where "d = db\<lparr>turns := turns db @ [t]\<rparr>" "t_id t = next_id (map t_id (turns db))" "t_session t = sid"
    "t_lane t = lane" "t_pending t = pending" "t_claimed t = 0" "t_gen t = 0" "t_retry t = 0" "t_state t = st"
proof -
  have "\<exists>t. d = db\<lparr>turns := turns db @ [t]\<rparr> \<and> t_id t = next_id (map t_id (turns db)) \<and> t_session t = sid \<and> t_lane t = lane
      \<and> t_pending t = pending \<and> t_claimed t = 0 \<and> t_gen t = 0 \<and> t_retry t = 0 \<and> t_state t = st"
    using assms unfolding insert_turn_def Let_def
    by (simp split: if_splits) (erule conjE, hypsubst, intro exI conjI, rule refl, simp_all)
  then show ?thesis using that by blast
qed

lemma insert_env_E:
  assumes "insert_env name db = Inr (d, e)"
  obtains x where "d = db\<lparr>envs := x\<rparr>"
  using assms by (auto simp: insert_env_def Let_def split: if_splits)

lemma retention_E: obtains x where "ensureSessionRetentionTx sid now db = db\<lparr>retention := x\<rparr>"
proof (cases "sid \<in> rt_session ` set (retention db)")
  case True
  have "ensureSessionRetentionTx sid now db = db\<lparr>retention := retention db\<rparr>" using True by (simp add: ensureSessionRetentionTx_def)
  then show ?thesis by (rule that)
next
  case False
  show ?thesis by (rule that, unfold ensureSessionRetentionTx_def if_not_P [OF False]) (rule refl)
qed

lemma insert_pair:
  assumes "insert_env name db = Inr (d1, env)"
    and "insert_session env kind repo item ik project prompt schedule parent d1 = Inr (d2, sid)"
    and "insert_turn sid lane 1 Queued (ensureSessionRetentionTx sid now d2) = Inr (d, i)"
    and "(repo, item) \<notin> (\<lambda>x. (s_repo x, s_item x)) ` set (sessions db)"
    and "if kind = SessionKindReview then 0 < item else item < 0" "lane = ''review'' \<longleftrightarrow> kind = SessionKindReview"
  obtains s t where "new_pair s t db" "core d = core (with_pair s t db)" "s_repo s = repo" "s_item s = item" "s_id s = sid"
proof -
  obtain x where x: "d1 = db\<lparr>envs := x\<rparr>" using insert_env_E [OF assms(1)] .
  obtain s where s: "d2 = d1\<lparr>sessions := sessions d1 @ [s]\<rparr>" "s_id s = sid" "sid = next_id (map s_id (sessions d1))"
    "s_kind s = kind" "s_repo s = repo" "s_item s = item" using insert_session_E [OF assms(2)] .
  obtain y where y: "ensureSessionRetentionTx sid now d2 = d2\<lparr>retention := y\<rparr>" using retention_E .
  obtain t where t: "d = d2\<lparr>retention := y, turns := turns d2 @ [t]\<rparr>" "t_id t = next_id (map t_id (turns d2))" "t_session t = sid"
    "t_lane t = lane" "t_pending t = 1" "t_claimed t = 0" "t_gen t = 0" "t_retry t = 0" "t_state t = Queued"
    using insert_turn_E [OF assms(3)] by (auto simp: y)
  have "new_pair s t db" using s t assms(4-6) by (simp add: new_pair_def x)
  moreover have "core d = core (with_pair s t db)" by (simp add: core_def t s x)
  ultimately show ?thesis using that s by blast
qed

lemma insertOperatorSessionTx_new:
  assumes "insertOperatorSessionTx now kind lane project repo prompt schedule parent db = Inr (d, sid, item)"
    and k: "kind \<noteq> SessionKindReview" "lane \<noteq> ''review''"
  obtains s t where "new_pair s t db" "core d = core (with_pair s t db)" "s_repo s = repo" "s_item s = item" "s_id s = sid"
proof -
  have m: "min_item repo db \<le> 0" unfolding min_item_def by (rule fold_min_le(1))
  obtain name d1 env d2 i where c: "item = min_item repo db - 1" "insert_env name db = Inr (d1, env)"
    "insert_session env kind repo item kind project prompt schedule parent d1 = Inr (d2, sid)"
    "insert_turn sid lane 1 Queued (ensureSessionRetentionTx sid now d2) = Inr (d, i)"
    using assms(1) m unfolding insertOperatorSessionTx_def Let_def by (auto simp: bindE_eq_Inr split: prod.splits if_splits)
  have fresh: "(repo, item) \<notin> (\<lambda>x. (s_repo x, s_item x)) ` set (sessions db)"
  proof
    assume "(repo, item) \<in> (\<lambda>x. (s_repo x, s_item x)) ` set (sessions db)"
    then obtain x where x: "x \<in> set (sessions db)" "s_repo x = repo" "s_item x = item" by auto
    then have "s_item x \<in> s_item ` {s \<in> set (sessions db). s_repo s = repo \<and> s_item s < 0}"
      using c(1) m by (intro imageI) simp
    then have "min_item repo db \<le> s_item x" unfolding min_item_def by (intro fold_min_le(2)) simp
    then show False using c(1) x(3) by simp
  qed
  show ?thesis by (rule insert_pair [OF c(2-4) fresh]) (use c(1) m k that in auto)
qed

lemma no_review_session:
  assumes w: "wf db" and "GetJobTx repo item ''review'' db = None" "0 < item"
  shows "review_session repo item db = None" "(repo, item) \<notin> (\<lambda>x. (s_repo x, s_item x)) ` set (sessions db)"
proof -
  have "s_repo s \<noteq> repo \<or> s_item s \<noteq> item" if s: "s \<in> set (sessions db)" for s
  proof (rule ccontr)
    assume "\<not> (s_repo s \<noteq> repo \<or> s_item s \<noteq> item)"
    then have e: "s_repo s = repo" "s_item s = item" by simp_all
    have k: "s_kind s = SessionKindReview" using w s e assms(3) by (auto simp: wf_def wf_sess_def split: if_splits)
    have "s_id s \<in> t_session ` set (turns db)" using w s by (auto simp: wf_def wf_turns_def)
    then obtain t where t: "t \<in> set (turns db)" "t_session t = s_id s" by auto
    then have "session_of db (t_session t) = Some s" using w s session_of_iff by (simp add: wf_def)
    then have "scanJob t s \<in> set (jobs db)" using t(1) by (auto simp: set_jobs)
    moreover have "t_lane t = ''review''" using w s t k by (simp add: wf_def wf_turns_def)
    moreover have "\<not> (j_repo j = repo \<and> j_item j = item \<and> j_lane j = ''review'')" if "j \<in> set (jobs db)" for j
      using assms(2) that by (simp add: GetJobTx_def find_None_iff)
    ultimately show False using e by fastforce
  qed
  then show "review_session repo item db = None" "(repo, item) \<notin> (\<lambda>x. (s_repo x, s_item x)) ` set (sessions db)"
    by (auto simp: review_session_def find_None_iff)
qed

section \<open>Admission\<close>

lemma stampReviewTenantTx_core: "stampReviewTenantTx eg repo item db = Inr d \<Longrightarrow> core d = core db"
  unfolding stampReviewTenantTx_def
  by (auto elim!: bindE_InrE dest!: core_SetSessionExecutionTx simp: core_session_setters)

lemma InsertJobTx_new:
  assumes w: "wf db" and d: "d = db\<lparr>snaps := sn\<rparr>" and "GetJobTx repo item ''review'' db = None" "0 < item"
    and "InsertJobTx now repo item kind ''review'' 1 d = Inr d'"
  obtains s t where "new_pair s t db" "core d' = core (with_pair s t db\<lparr>snaps := sn\<rparr>)" "s_repo s = repo" "s_item s = item"
proof -
  have n: "review_session repo item d = None" "(repo, item) \<notin> (\<lambda>x. (s_repo x, s_item x)) ` set (sessions d)"
    using no_review_session [OF w assms(3,4)] by (simp_all add: d review_session_def)
  obtain name d1 env d2 sid i where c: "insert_env name d = Inr (d1, env)"
    "insert_session env SessionKindReview repo item kind [] [] 0 0 d1 = Inr (d2, sid)"
    "insert_turn sid ''review'' 1 Queued (ensureSessionRetentionTx sid now d2) = Inr (d', i)"
    using assms(5) unfolding InsertJobTx_def ensureReviewSessionTx_def n(1) by (auto simp: bindE_eq_Inr split: prod.splits)
  obtain s t where st: "new_pair s t d" "core d' = core (with_pair s t d)" "s_repo s = repo" "s_item s = item"
    by (rule insert_pair [OF c n(2)]) (use assms(4) in auto)
  have "new_pair s t db" "core d' = core (with_pair s t db\<lparr>snaps := sn\<rparr>)" using st(1,2) by (simp_all add: d new_pair_def core_def)
  then show ?thesis using that st(3,4) by blast
qed

lemma admitTx_new:
  assumes w: "wf db" and e: "core d0 = core db" and "GetJobTx repo item ''review'' d0 = None" "0 < item"
    and sn: "SaveSnapshotTx sha repo item 1 it d0 = Inr d1"
    and ins: "InsertJobTx now repo item kind ''review'' 1 d1 = Inr d2"
  shows "safe db d2"
proof -
  have w0: "wf d0" by (rule wf_core [OF e w])
  have d1: "d1 = d0\<lparr>snaps := snaps d1\<rparr>" and fresh: "(repo, item, 1) \<notin> snap_key ` set (snaps d0)"
    using sn by (auto simp: SaveSnapshotTx_def split: if_splits)
  obtain s t where st: "new_pair s t d0" "core d2 = core (with_pair s t d0\<lparr>snaps := snaps d1\<rparr>)" "s_repo s = repo" "s_item s = item"
    using InsertJobTx_new [OF w0 d1 assms(3,4) ins] .
  have "SaveSnapshotTx sha repo item 1 it (with_pair s t d0) = Inr (with_pair s t d0\<lparr>snaps := snaps d1\<rparr>)"
    using sn fresh by (auto simp: SaveSnapshotTx_def)
  then have "safe d0 (with_pair s t d0\<lparr>snaps := snaps d1\<rparr>)"
    using new_session_done [OF w0 st(1) refl, of sha it] st(3,4) by simp
  then have "safe d0 d2" using safe_core st(2) by blast
  then show ?thesis by (rule safe_trans [OF safe_core [OF safe_refl [OF w] e]])
qed

lemma admitTx_next:
  assumes w: "wf db" and e: "core d0 = core db" and j: "GetJobTx repo item ''review'' d0 = Some j"
    and sn: "SaveSnapshotTx sha repo item (j_pending j + 1) it d0 = Inr d1"
  shows "safe db (UpdateJobTx (j\<lparr>j_pending := j_pending j + 1, j_retry := 0,
     j_state := (if j_state j \<noteq> Leased then Queued else Leased)\<rparr>) d1)"
proof -
  have w0: "wf d0" by (rule wf_core [OF e w])
  have r: "j \<in> set (jobs d0)" "j_repo j = repo" "j_item j = item" using GetJobTx_D [OF j] by simp_all
  have jj: "GetJobByIDTx (j_id j) d0 = Inr j" by (rule jobs_current [OF w0 r(1)])
  obtain t s where c: "cur d0 t s j" and v: "via d0 (j_id j) (j_pending j) d0" using cur_start [OF w0 jj] by metis
  let ?j = "j\<lparr>j_pending := j_pending j + 1, j_retry := 0\<rparr>"
  have "via d0 (j_id ?j) (j_pending ?j) d1" "receipts d1 = receipts d0"
    using via_SaveSnapshotTx [OF v curD(1,2) [OF c], of sha it d1] sn r by simp_all
  from safe_trans [OF safe_core [OF safe_refl [OF w] e] tx_safe [OF done_prompt [OF w0 jj this]]]
  have "safe db (UpdateJobTx (if j_state ?j \<noteq> Leased then ?j\<lparr>j_state := Queued\<rparr> else ?j) d1)" by simp
  moreover have "(if j_state ?j \<noteq> Leased then ?j\<lparr>j_state := Queued\<rparr> else ?j)
      = j\<lparr>j_pending := j_pending j + 1, j_retry := 0, j_state := (if j_state j \<noteq> Leased then Queued else Leased)\<rparr>"
    by (cases j) simp
  ultimately show ?thesis by (simp only:)
qed

lemma admitTx_safe:
  assumes w: "wf db" and pos: "0 < it_item it"
  shows "post (admitTx eg it force gen enforce db) (safe db)"
proof -
  have r: "post (Inr db) (safe db)" using safe_refl [OF w] by simp
  define d0 where "d0 b = (if b then db\<lparr>invals := sql_update (item_inval (it_repo it) (it_item it) db)
      (\<lambda>v. v\<lparr>iv_consumed := True\<rparr>) (invals db)\<rparr> else db)" for b
  have e: "core (d0 b) = core db" for b by (simp add: d0_def core_def)
  have g: "GetJobTx repo item lane (d0 b) = GetJobTx repo item lane db" for b repo item lane
    by (simp add: d0_def GetJobTx_def jobs_def session_of_def)
  have wr: "post (bindE (SaveSnapshotTx (eg_item_sha eg) (it_repo it) (it_item it) (case j of None \<Rightarrow> 1 | Some j \<Rightarrow> j_pending j + 1) it (d0 b)) (\<lambda>db.
         case j of
           None \<Rightarrow> bindE (InsertJobTx (eg_now eg) (it_repo it) (it_item it) (it_kind it) ''review''
                     (case j of None \<Rightarrow> 1 | Some j \<Rightarrow> j_pending j + 1) db) (\<lambda>db.
                     stampReviewTenantTx eg (it_repo it) (it_item it) db)
         | Some k \<Rightarrow> Inr (UpdateJobTx (k\<lparr>j_pending := (case j of None \<Rightarrow> 1 | Some j \<Rightarrow> j_pending j + 1), j_retry := 0,
                     j_state := (if j_state k \<noteq> Leased then Queued else Leased)\<rparr>) db))) (safe db)"
    if j: "j = GetJobTx (it_repo it) (it_item it) ''review'' db" for j b
  proof (rule post_get)
    fix d1 assume sn: "SaveSnapshotTx (eg_item_sha eg) (it_repo it) (it_item it) (case j of None \<Rightarrow> 1 | Some j \<Rightarrow> j_pending j + 1) it (d0 b) = Inr d1"
    show "post (case j of
           None \<Rightarrow> bindE (InsertJobTx (eg_now eg) (it_repo it) (it_item it) (it_kind it) ''review''
                     (case j of None \<Rightarrow> 1 | Some j \<Rightarrow> j_pending j + 1) d1) (\<lambda>db.
                     stampReviewTenantTx eg (it_repo it) (it_item it) db)
         | Some k \<Rightarrow> Inr (UpdateJobTx (k\<lparr>j_pending := (case j of None \<Rightarrow> 1 | Some j \<Rightarrow> j_pending j + 1), j_retry := 0,
                     j_state := (if j_state k \<noteq> Leased then Queued else Leased)\<rparr>) d1)) (safe db)"
    proof (cases j)
      case None
      have n: "GetJobTx (it_repo it) (it_item it) ''review'' (d0 b) = None" using g j None by simp
      have sn1: "SaveSnapshotTx (eg_item_sha eg) (it_repo it) (it_item it) 1 it (d0 b) = Inr d1" using sn None by simp
      have "safe db d3" if "InsertJobTx (eg_now eg) (it_repo it) (it_item it) (it_kind it) ''review'' 1 d1 = Inr d2"
        "stampReviewTenantTx eg (it_repo it) (it_item it) d2 = Inr d3" for d2 d3
        by (rule safe_core [OF admitTx_new [OF w e n pos sn1 that(1)] stampReviewTenantTx_core [OF that(2)]])
      then show ?thesis unfolding None by (simp, intro post_get postI) blast
    next
      case (Some k)
      have "GetJobTx (it_repo it) (it_item it) ''review'' (d0 b) = Some k" using g j Some by simp
      from admitTx_next [OF w e this] sn Some show ?thesis by simp
    qed
  qed
  show ?thesis
    unfolding admitTx_def Let_def
    apply (rule post_if, rule r)
    apply (rule post_if, rule r)
    apply (rule post_if, rule r)
    apply (rule post_if, rule post_if, simp, rule r)
    apply (rule post_get)
    apply (rule post_if, rule r)
    apply (rule post_if, rule r)
    apply (rule post_if, simp)
    using wr [OF refl, unfolded d0_def] by simp
qed

lemma set_refresh_safe: "safe db d \<Longrightarrow> safe db (set_refresh P f d)"
  by (rule safe_core [OF _ core_plain(16)])

lemma refreshFinish_safe:
  assumes w: "wf db" and pos: "\<And>it. fetched = Some it \<Longrightarrow> 0 < it_item it"
  shows "safe db (fst (refreshFinish eg req fetched enforce db))"
  unfolding refreshFinish_def
proof (rule run_tx_safe [OF w])
  show "post (refreshFinishTx eg req fetched enforce db) (\<lambda>(d, r). safe db d)"
  proof (cases fetched)
    case None
    then show ?thesis unfolding refreshFinishTx_def Let_def
      by (intro post_get) (simp add: safe_refl [OF w] set_refresh_safe)
  next
    case (Some it)
    have "post (admitTx eg it f g enforce db) (safe db)" for f g by (rule admitTx_safe [OF w pos [OF Some]])
    then have a: "\<And>f g d. admitTx eg it f g enforce db = Inr d \<Longrightarrow> safe db d" by (rule postD)
    show ?thesis unfolding refreshFinishTx_def Let_def Some option.case
      apply (rule post_get, rule post_if, simp add: safe_refl [OF w])
      subgoal for cur
        apply (cases "admitTx eg it (rf_force req \<or> rf_force cur) (rf_gen req) enforce db")
        subgoal for e by (cases e; simp add: safe_refl [OF w] set_refresh_safe)
        subgoal for d using a [of "rf_force req \<or> rf_force cur" "rf_gen req" d] by (simp add: set_refresh_safe)
        done
      done
  qed
qed

section \<open>Starting sessions\<close>

text \<open>The setters between the insertion of the session and its snapshot leave the core alone.\<close>

lemma started:
  assumes w: "wf db" and i: "insertOperatorSessionTx now SessionKindRun ''run'' project repo prompt sch parent db = Inr (d, sid, item)"
    and e: "core d1 = core d" and sn: "SaveSnapshotTx sha repo item 1 it d1 = Inr d2"
  shows "safe db d2"
proof -
  have k: "SessionKindRun \<noteq> SessionKindReview" "''run'' \<noteq> ''review''" by (simp_all add: SessionKindRun_def SessionKindReview_def)
  obtain s t where st: "new_pair s t db" "core d = core (with_pair s t db)" "s_repo s = repo" "s_item s = item" "s_id s = sid"
    using insertOperatorSessionTx_new [OF i k] .
  have "core d1 = core (with_pair s t db)" using e st(2) by simp
  from new_session_done [OF w st(1) this] sn st(3,4) show ?thesis by simp
qed

lemma insertRunTx_safe:
  assumes w: "wf db"
  shows "post (insertRunTx eg q p repo sha db) (\<lambda>(d, sid). safe db d)"
proof -
  have setters: "core (if b then SetSessionModeTx sid m (SetSessionSizeTx sid z d3) else SetSessionSizeTx sid z d3) = core d"
    if "SetSessionExecutionTx sid xm xa (SetSessionCreatorTx sid cr (SetSessionTenantTx sid te d)) = Inr d1"
      "applyDefaultRetentionTx eg sid d1 = Inr d2" "bindSessionGuestTx eg sid pr g d2 = Inr (d3, x)" for b sid m z d d1 d2 d3 x xm xa cr te pr g
    using core_SetSessionExecutionTx [OF that(1)] core_applyDefaultRetentionTx [OF that(2)] core_bindSessionGuestTx [OF that(3)]
    by (simp add: core_session_setters)
  have idem: "core (d\<lparr>idem := y\<rparr>) = core d" for d y by (simp add: core_def)
  show ?thesis
    unfolding insertRunTx_def Let_def
    apply (rule post_get, rule post_pair, rule post_pair, rule post_get, rule post_get, rule post_get, rule post_pair, rule post_pair, rule post_get)
    subgoal premises pr for x d y sid item d1 d2 z d3 z2 z3 z4 d5
    proof -
      have "safe db d5" by (rule started [OF w _ setters]) (use pr in auto)
      then show ?thesis using safe_core [OF _ idem] by simp
    qed
    done
qed

lemma StartRunExec_safe:
  assumes w: "wf db"
  shows "safe db (fst (StartRunExec eg q db))"
proof -
  have "safe db (fst (run_tx (\<lambda>db.
             if Paused (rq_project q) db then Inl EPaused
             else if Halted (sessionTenant p) (rq_project q) (want_act q p) db then Inl EHalted
             else case (if rq_idem q = [] then None else map_of (idem db) (rq_idem q)) of
               Some sid \<Rightarrow>
                 bindE (GetSessionTx sid db) (\<lambda>s.
                   if s_project s \<noteq> rq_project q \<or> NormalizeTenantID (s_tenant s) \<noteq> sessionTenant p
                      \<or> NormalizeExecutionMode (s_exec_mode s) \<noteq> NormalizeExecutionMode (rq_exec q)
                      \<or> NormalizeActor (s_act s) \<noteq> NormalizeActor (want_act q p)
                   then Inl (EText ''idempotency'') else Inr (db, sid))
             | None \<Rightarrow> insertRunTx eg q p repo sha db) db))" for p repo sha
  proof (rule run_tx_safe [OF w], rule post_if, simp, rule post_if, simp)
    show "post (case (if rq_idem q = [] then None else map_of (idem db) (rq_idem q)) of
               Some sid \<Rightarrow>
                 bindE (GetSessionTx sid db) (\<lambda>s.
                   if s_project s \<noteq> rq_project q \<or> NormalizeTenantID (s_tenant s) \<noteq> sessionTenant p
                      \<or> NormalizeExecutionMode (s_exec_mode s) \<noteq> NormalizeExecutionMode (rq_exec q)
                      \<or> NormalizeActor (s_act s) \<noteq> NormalizeActor (want_act q p)
                   then Inl (EText ''idempotency'') else Inr (db, sid))
             | None \<Rightarrow> insertRunTx eg q p repo sha db) (\<lambda>(d, r). safe db d)"
    proof (cases "if rq_idem q = [] then None else map_of (idem db) (rq_idem q)")
      case None
      then show ?thesis using insertRunTx_safe [OF w] by simp
    next
      case (Some sid)
      show ?thesis unfolding Some by (simp, rule post_get, rule post_if) (simp_all add: safe_refl [OF w])
    qed
  qed
  then show ?thesis unfolding StartRunExec_def
    by (cases "run_checks eg q") (simp_all add: safe_refl [OF w] split: prod.split)
qed

lemma StartChildGuest_safe:
  assumes w: "wf db"
  shows "safe db (fst (StartChildGuest eg parent_id prompt project guest db))"
proof (cases "child_checks eg parent_id prompt project guest db")
  case (Inr a)
  obtain parent pp p repo sha where a: "a = (parent, pp, p, repo, sha)" by (cases a)
  have setters: "core (if b then SetSessionModeTx sid m (SetSessionSizeTx sid z d3) else SetSessionSizeTx sid z d3) = core d"
    if "SetSessionExecutionTx sid xm xa (SetSessionTenantTx sid te d) = Inr d1"
      "applyDefaultRetentionTx eg sid d1 = Inr d2" "bindSessionGuestTx eg sid pr g d2 = Inr (d3, x)" for b sid m z d d1 d2 d3 x xm xa te pr g
    using core_SetSessionExecutionTx [OF that(1)] core_applyDefaultRetentionTx [OF that(2)] core_bindSessionGuestTx [OF that(3)]
    by (simp add: core_session_setters)
  show ?thesis
    unfolding StartChildGuest_def Inr a Let_def sum.case prod.case
    apply (rule run_tx_safe [OF w], rule post_get, rule post_if, simp, rule post_if, simp, rule post_if, simp)
    apply (rule post_get, rule post_pair, rule post_pair, rule post_get, rule post_get, rule post_get, rule post_pair, rule post_pair, rule post_get, rule post_get)
    subgoal premises pr for np x d y sid item d1 d2 z d3 z2 z3 z4 d5 d6
    proof -
      have "safe db d5" by (rule started [OF w _ setters]) (use pr in auto)
      moreover have "core d6 = core d5" using pr core_InsertActionTx unfolding insertChildSpawnTx_def by blast
      ultimately show ?thesis using safe_core by simp
    qed
    done
qed (simp add: StartChildGuest_def safe_refl [OF w])

lemma insertTaskSessionTx_safe:
  assumes w: "wf db" and e: "core db1 = core db"
  shows "post (insertTaskSessionTx eg project p q hash policy_hash rvn db1) (\<lambda>(d, t). safe db d)"
proof -
  have w1: "wf db1" by (rule wf_core [OF e w])
  have setters: "core d4 = core d"
    if "SetSessionExecutionTx sid xm xa (SetSessionTenantTx sid te d) = Inr d1" "applyDefaultRetentionTx eg sid d1 = Inr d2"
      "GrantSessionToolTx sid tl ac d2 = Inr d3" "bindSessionGuestTx eg sid pr g d3 = Inr (d4, x)" for sid d d1 d2 d3 d4 x xm xa te tl ac pr g
    using core_SetSessionExecutionTx [OF that(1)] core_applyDefaultRetentionTx [OF that(2)] core_GrantSessionToolTx [OF that(3)]
      core_bindSessionGuestTx [OF that(4)] by (simp add: core_session_setters)
  have s1: "safe db db1" by (rule safe_core [OF safe_refl [OF w] e])
  show ?thesis
    unfolding insertTaskSessionTx_def Let_def
    apply (rule post_get, rule post_pair, rule post_pair, rule post_get, rule post_get, rule post_get, rule post_get, rule post_pair, rule post_pair, rule post_get)
    subgoal premises pr for x d y sid item d1 d2 d3 z d4 z2 z3 z4 d5
    proof -
      have "safe db1 d5" by (rule started [OF w1 _ setters]) (use pr in auto)
      then show ?thesis using core_InsertTaskTx safe_core safe_trans [OF s1] by (intro postI) blast
    qed
    done
qed

lemma StartTask_safe:
  assumes w: "wf db"
  shows "safe db (fst (StartTask eg sha policy_hash project q db))"
proof (cases "task_checks eg project q")
  case (Inr p)
  let ?h = "specHash sha q policy_hash"
  have nx: "post (case LatestTaskTx (ts_effort q) db of
                  None \<Rightarrow> insertTaskSessionTx eg project p q ?h policy_hash 1 db
                | Some l \<Rightarrow> if taskStillBound (tk_state l) then Inr (db, l)
                    else insertTaskSessionTx eg project p q ?h policy_hash (tk_rev l + 1)
                           (SupersedeTaskTx (tk_id l) (ReleaseTaskSpecTx (tk_id l) db))) (\<lambda>(d, t). safe db d)"
    using insertTaskSessionTx_safe [OF w refl] insertTaskSessionTx_safe [OF w, of "SupersedeTaskTx _ (ReleaseTaskSpecTx _ db)"] safe_refl [OF w]
    by (cases "LatestTaskTx (ts_effort q) db") (simp_all add: core_plain)
  show ?thesis
    unfolding StartTask_def Inr Let_def sum.case
    apply (rule run_tx_safe [OF w], rule post_if, simp, rule post_if, simp)
    using nx safe_refl [OF w] by (cases "LookupTaskBySpecHashTx ?h db") simp_all
qed (simp add: StartTask_def safe_refl [OF w])

end
