(* ===== verification/Plane.thy ===== *)
theory Plane
  imports Entry
begin

text \<open>
  The plane as a transition system: the operations its HTTP handlers and background loops run, in any
  order and with any clock, policy and GitHub answers, from the migrated empty store. Each operation is
  one committed or rolled back transaction (\<^verbatim>\<open>store.WithTx\<close> under the writer lock), so an interleaving is a
  sequence of operations.
\<close>

section \<open>Operations\<close>

datatype operation =
    OpClaim string string
  | OpRequeue claim
  | OpHeartbeat int int int "int list"
  | OpComplete string string int int int artifact "int list"
  | OpFail int int int
  | OpExpireLeases
  | OpCancel int
  | OpHalt string string halt_record
  | OpResume string string halt_record
  | OpPause string bool
  | OpRetry string int string
  | OpFollowUp int string "string list" "prompt_file list"
  | OpQueuePrompt int string "string list" "prompt_file list"
  | OpDropQueued int
  | OpSteer int string
  | OpWebhook string string int string
  | OpEvent string string string int string "time option"
  | OpRefreshClaim string int
  | OpRefreshFinish refresh_row "item option" bool
  | OpExpireOwners
  | OpStartup
  | OpCatchUp string int string
  | OpStartRun run_request
  | OpStartChild int string string string
  | OpStartTask spec_sha string string task_spec
  | OpApply string int

fun perform :: "eng \<Rightarrow> operation \<Rightarrow> db \<Rightarrow> db" where
  "perform eg (OpClaim repo token) db = fst (run_tx (claimTx eg repo token) db)"
| "perform eg (OpRequeue c) db = fst (requeueBusyEnvironmentClaim c db)"
| "perform eg (OpHeartbeat jid gen claimed received) db = fst (HeartbeatSteerReceived eg jid gen claimed received db)"
| "perform eg (OpComplete pid1 pid2 jid gen claimed art acks) db = fst (CompleteWithSteers eg pid1 pid2 jid gen claimed art acks db)"
| "perform eg (OpFail jid gen claimed) db = fst (Fail eg jid gen claimed db)"
| "perform eg OpExpireLeases db = fst (ExpireOverdueLeases eg db)"
| "perform eg (OpCancel sid) db = fst (run_tx (cancelSessionTx eg sid) db)"
| "perform eg (OpHalt scope target rec) db = fst (applyHalt eg scope target rec db)"
| "perform eg (OpResume scope target rec) db = fst (ResumeHalt scope target rec db)"
| "perform eg (OpPause project on) db = fst (SetPause eg project on db)"
| "perform eg (OpRetry repo item actor) db = fst (OperatorRetry eg repo item actor db)"
| "perform eg (OpFollowUp sid prompt ids files) db = fst (promptFollowUp eg sid prompt ids files db)"
| "perform eg (OpQueuePrompt sid prompt ids files) db = fst (promptQueued eg sid prompt ids files db)"
| "perform eg (OpDropQueued sid) db = fst (DropQueuedPrompts eg sid db)"
| "perform eg (OpSteer sid prompt) db = fst (PromptSteer eg sid prompt db)"
| "perform eg (OpWebhook delivery repo item kind) db = fst (IngestWebhook delivery repo item kind db)"
| "perform eg (OpEvent delivery source repo item kind occurred) db = fst (IngestEvent eg delivery source repo item kind occurred db)"
| "perform eg (OpRefreshClaim repo item) db = fst (refreshClaim eg repo item db)"
| "perform eg (OpRefreshFinish req fetched enforce) db = fst (refreshFinish eg req fetched enforce db)"
| "perform eg OpExpireOwners db = ExpireRefreshOwners eg db"
| "perform eg OpStartup db = StartupExpireOwners db"
| "perform eg (OpCatchUp repo item kind) db = CatchUpItem repo item kind db"
| "perform eg (OpStartRun q) db = fst (StartRunExec eg q db)"
| "perform eg (OpStartChild parent prompt project guest) db = fst (StartChildGuest eg parent prompt project guest db)"
| "perform eg (OpStartTask sha policy_hash project q) db = fst (StartTask eg sha policy_hash project q db)"
| "perform eg (OpApply repo item) db = fst (ApplyAttempt eg repo item db)"

text \<open>GitHub numbers issues and pull requests from one.\<close>

definition admissible :: "operation \<Rightarrow> bool" where
  "admissible x = (case x of OpRefreshFinish _ (Some it) _ \<Rightarrow> 0 < it_item it | _ \<Rightarrow> True)"

inductive runs :: "db \<Rightarrow> (eng \<times> operation) list \<Rightarrow> db \<Rightarrow> bool" where
  runs_nil: "runs db [] db"
| runs_cons: "runs (perform eg x db) xs db' \<Longrightarrow> admissible x \<Longrightarrow> runs db ((eg, x) # xs) db'"

inductive_cases runs_NilE: "runs db [] db'"
inductive_cases runs_ConsE: "runs db (p # xs) db'"

definition reachable :: "db \<Rightarrow> bool" where
  "reachable db = (\<exists>xs. runs empty_db xs db)"

section \<open>Every operation is safe\<close>

lemma safe_core0: "wf db \<Longrightarrow> core d = core db \<Longrightarrow> safe db d"
  by (rule safe_core [OF safe_refl])

lemma run_tx_core:
  assumes "wf db" "\<And>d r. f db = Inr (d, r) \<Longrightarrow> core d = core db"
  shows "safe db (fst (run_tx f db))"
  by (rule run_tx_safe [OF assms(1)]) (auto intro!: postI safe_core0 [OF assms(1)] assms(2))

lemma OperatorRetry_safe:
  assumes w: "wf db"
  shows "safe db (fst (OperatorRetry eg repo item actor db))"
  unfolding OperatorRetry_def
proof (rule run_tx_safe [OF w])
  show "post (case GetJobTx repo item ''review'' db of
         None \<Rightarrow> Inl (EText ''no review job'')
       | Some j \<Rightarrow>
           if j_state j \<noteq> Failed then Inl (EText ''not failed'')
           else Inr (UpdateJobTx (j\<lparr>j_retry := 0, j_state := Queued\<rparr>)
                  (db\<lparr>retries := retries db @ [\<lparr>ra_job = j_id j, ra_actor = actor, ra_time = eg_now eg,
                        ra_pending = j_pending j, ra_retry = j_retry j\<rparr>]\<rparr>), ())) (\<lambda>(d, r). safe db d)"
  proof (cases "GetJobTx repo item ''review'' db")
    case (Some j)
    have j: "GetJobByIDTx (j_id j) db = Inr j" using GetJobTx_D [OF Some] jobs_current [OF w] by blast
    obtain t s where c: "cur db t s j" and v: "via db (j_id j) (j_pending j) db" using cur_start [OF w j] by metis
    have "via db (j_id j) (j_pending j) (db\<lparr>retries := x\<rparr>)" for x by (rule via_core [OF v]) (simp add: core_def)
    from tx_safe [OF done_queued0 [OF this c]] show ?thesis using Some by simp
  qed simp
qed

lemma ApplyAttempt_safe:
  assumes w: "wf db"
  shows "safe db (fst (ApplyAttempt eg repo item db))"
proof -
  have upd: "core (d\<lparr>applies := x\<rparr>) = core d" "core (d\<lparr>invals := y\<rparr>) = core d" for d x y by (simp_all add: core_def)
  have tx: "safe db (fst (case run_tx f db of (db', Inl e) \<Rightarrow> (db', Inl e) | (db', Inr u) \<Rightarrow> publishPendingComments eg repo item db'))"
    if "\<And>d r. f db = Inr (d, r) \<Longrightarrow> core d = core db" for f :: "db \<Rightarrow> err + (db \<times> unit)"
    using run_tx_core [OF w, of f, OF that] safe_core [OF _ core_publishPendingComments]
    by (cases "run_tx f db"; cases "snd (run_tx f db)") auto
  have body: "core d = core db"
    if "(if repoPaused eg repo db then Inr (db, ())
            else bindE (LoadSnapshotTx repo item (af_claimed art) db) (\<lambda>snap.
              if ItemHash (eg_item_sha eg) live \<noteq> ItemHash (eg_item_sha eg) snap then
                Inr (EnsureRefreshQueuedTx repo item (j_kind j) False
                       (db\<lparr>applies := sql_update (\<lambda>a. ap_review a = rid) (\<lambda>a. a\<lparr>ap_state := ''cancelled''\<rparr>) (applies db)\<rparr>), ())
              else
                case filter (\<lambda>a. pa_reason a = ''implemented_on_main''
                      \<and> (case verifyEvidence eg repo live a of Some (True, _) \<Rightarrow> False | _ \<Rightarrow> True)) (af_actions art) of
                  [] \<Rightarrow> bindE (maybeEnqueueApplyTx eg j snap rid art db) (\<lambda>db. Inr (db, ()))
                | a # _ \<Rightarrow>
                    (case verifyEvidence eg repo live a of
                       None \<Rightarrow> Inl (EText ''github'')
                     | Some _ \<Rightarrow>
                         let i = actionHash eg repo item (pa_type a) rid (pa_reason a);
                             db = set_apply i ''cancelled'' db;
                             db = (if (rid, i) \<in> (\<lambda>v. (iv_review v, iv_action v)) ` set (invals db) then db
                                   else db\<lparr>invals := invals db @ [\<lparr>iv_review = rid, iv_action = i, iv_consumed = False\<rparr>]\<rparr>)
                         in Inr (EnsureRefreshQueuedTx repo item (j_kind j) True db, ())))) = Inr (d, r)"
    for art live j rid d and r :: unit
    using that
    by (auto simp: upd core_plain Let_def elim!: bindE_InrE dest: core_maybeEnqueueApplyTx split: if_splits list.splits option.splits)
  show ?thesis
    unfolding ApplyAttempt_def Let_def
    using tx [OF body [unfolded Let_def]] safe_refl [OF w] by (simp split: option.split)
qed

lemma post_pair_safe: "post m (\<lambda>(d, r). tx_ok i db d) \<Longrightarrow> post m (\<lambda>(d, r). safe db d)"
  by (erule post_mono) (auto dest: tx_safe)

lemma lease_ops:
  assumes w: "wf db"
  shows "safe db (fst (run_tx (claimTx eg repo token) db))" "safe db (fst (run_tx (cancelSessionTx eg sid) db))"
    "safe db (fst (run_tx (haltTx eg scope target rec) db))" "safe db (fst (run_tx (requeueBusyTx c) db))"
    "safe db (fst (run_tx (failTx eg jid gen claimed) db))" "safe db (fst (run_tx (heartbeatTx eg jid gen claimed received) db))"
  by (rule run_tx_safe [OF w], rule claimTx_ok [OF w] cancelSessionTx_ok [OF w] haltTx_ok [OF w] requeueBusyTx_ok [OF w]
      post_pair_safe [OF failTx_ok [OF w]] post_pair_safe [OF heartbeatTx_ok [OF w]])+

text \<open>The operations that leave the core of the store alone.\<close>

lemma core_ops:
  assumes w: "wf db"
  shows "safe db (fst (ResumeHalt scope target rec db))" "safe db (fst (SetPause eg project on db))"
    "safe db (fst (IngestWebhook delivery repo item kind db))"
    "safe db (fst (IngestEvent eg delivery source repo item kind occurred db))"
    "safe db (fst (refreshClaim eg repo item db))" "safe db (ExpireRefreshOwners eg db)"
    "safe db (StartupExpireOwners db)" "safe db (CatchUpItem repo item kind db)"
proof -
  show "safe db (fst (ResumeHalt scope target rec db))" unfolding ResumeHalt_def
    by (rule run_tx_core [OF w]) (auto elim!: bindE_InrE dest: core_ClearHaltTx)
  show "safe db (fst (SetPause eg project on db))" unfolding SetPause_def
    using run_tx_core [OF w] safe_refl [OF w] by (simp add: run_tx_def safe_core0 [OF w] core_plain)
  show "safe db (fst (IngestWebhook delivery repo item kind db))" unfolding IngestWebhook_def
    by (rule run_tx_core [OF w]) (auto simp: core_plain split: prod.splits if_splits, (metis core_plain(20) fst_conv)+)
  have e: "core (fst (InsertEventTx delivery source repo item kind db)) = core db"
    by (simp add: InsertEventTx_def core_plain(20))
  show "safe db (fst (IngestEvent eg delivery source repo item kind occurred db))"
    unfolding IngestEvent_def using safe_refl [OF w] e
    by (auto simp: core_plain split: prod.splits intro!: run_tx_core [OF w])
  show "safe db (fst (refreshClaim eg repo item db))" unfolding refreshClaim_def
    using safe_refl [OF w] by (auto simp: core_plain intro!: safe_core0 [OF w] split: option.split)
  show "safe db (ExpireRefreshOwners eg db)" "safe db (StartupExpireOwners db)" "safe db (CatchUpItem repo item kind db)"
    by (simp_all add: ExpireRefreshOwners_def StartupExpireOwners_def CatchUpItem_def safe_core0 [OF w] safe_refl [OF w] core_plain)
qed

lemma perform_safe:
  assumes w: "wf db" and a: "admissible x"
  shows "safe db (perform eg x db)"
proof (cases x)
  case OpExpireLeases
  have "post (bindE (expireDueLeasesTx eg [] [] db) (\<lambda>db. Inr (db, ()))) (\<lambda>(d, r). safe db d)"
    by (rule post_bindI [OF expireDueLeasesTx_ok [OF w]]) simp
  then show ?thesis using OpExpireLeases run_tx_safe [OF w] by (simp add: ExpireOverdueLeases_def)
next
  case (OpRefreshFinish req fetched enforce)
  then have "0 < it_item it" if "fetched = Some it" for it using a that by (simp add: admissible_def)
  then show ?thesis using OpRefreshFinish refreshFinish_safe [OF w] by simp
qed (use lease_ops [OF w] core_ops [OF w]
      CompleteWithSteers_safe [OF w] OperatorRetry_safe [OF w] ApplyAttempt_safe [OF w]
      promptFollowUp_safe [OF w] promptQueued_safe [OF w] DropQueuedPrompts_safe [OF w] PromptSteer_safe [OF w]
      StartRunExec_safe [OF w] StartChildGuest_safe [OF w] StartTask_safe [OF w] in
    \<open>simp_all add: requeueBusyEnvironmentClaim_def HeartbeatSteerReceived_def Fail_def applyHalt_def\<close>)

section \<open>Runs\<close>

text \<open>What one operation guarantees of its pre- and post-state, a run guarantees too.\<close>

lemma runs_safe: "runs db xs db' \<Longrightarrow> wf db \<Longrightarrow> safe db db'"
proof (induction rule: runs.induct)
  case (runs_cons eg x db xs db')
  have s: "safe db (perform eg x db)" by (rule perform_safe [OF runs_cons.prems runs_cons.hyps(2)])
  show ?case by (rule safe_trans [OF s runs_cons.IH [OF safe_wf [OF s]]])
qed (rule safe_refl)

lemma wf_empty: "wf empty_db"
  by (simp add: wf_def wf_sess_def wf_turns_def snaps_ok_def receipts_ok_def queue_ok_def flights_ok_def empty_db_def)

section \<open>A concrete plane\<close>

text \<open>One project with no repository and the built-in guests; used to apply the theorems.\<close>

definition demo_project :: project where
  "demo_project = \<lparr>pr_guests = None, pr_slug = ''demo'', pr_session_kinds = [''run'', ''review''], pr_local_runtime = None,
     pr_egress = ''none'', pr_size = [], pr_budgets = [], pr_permissions = [], pr_secrets = [], pr_ship = [],
     pr_repos = [], pr_tenant = [], pr_mcp_servers = []\<rparr>"

definition demo_eng :: eng where
  "demo_eng = \<lparr>eg_now = 0, eg_policy = \<lparr>ef_guests = Builtin, ef_projects = [(''demo'', demo_project)], ef_repos = [], ef_mcp_gateway = []\<rparr>,
     eg_exec_override = 0, eg_ttl_override = 0, eg_busy = [], eg_default_guest = [], eg_container = False, eg_conf_key = [],
     eg_requested = [], eg_publisher = False, eg_comments = False, eg_entry_sha = (\<lambda>_. ''pin''), eg_hmac = (\<lambda>_ _. ''mac''),
     eg_item_sha = (\<lambda>_. ''hash''), eg_action_sha = (\<lambda>_. ''act''), eg_get_item = (\<lambda>_ _ _. None),
     eg_default_sha = (\<lambda>_. None), eg_ancestor = (\<lambda>_ _ _. None), eg_exists = (\<lambda>_ _. None),
     eg_post = (\<lambda>_ _ _ _ _. CommentFailed), eg_parse_time = (\<lambda>_. 0), eg_parse_json = (\<lambda>_. None),
     eg_body_sha = (\<lambda>_. ''sha''), eg_detect_mime = (\<lambda>_. ''text/plain'')\<rparr>"

definition demo_run :: run_request where
  "demo_run = \<lparr>rq_project = ''demo'', rq_prompt = ''go'', rq_idem = [], rq_size = [], rq_mode = [], rq_guest = [], rq_exec = [], rq_act = [], rq_created_by = []\<rparr>"

text \<open>The run is started, leased by a runner and reported failed.\<close>

definition demo_trace :: "(eng \<times> operation) list" where
  "demo_trace = [(demo_eng, OpStartRun demo_run), (demo_eng, OpClaim ''project:demo'' ''tok''), (demo_eng, OpFail 1 1 1)]"

fun run_trace :: "(eng \<times> operation) list \<Rightarrow> db \<Rightarrow> db" where
  "run_trace [] db = db"
| "run_trace ((eg, x) # xs) db = run_trace xs (perform eg x db)"

lemma runs_trace: "list_all (\<lambda>(eg, x). admissible x) xs \<Longrightarrow> runs db xs (run_trace xs db)"
  by (induction xs db rule: run_trace.induct) (auto intro: runs.intros)

lemma demo_runs: "runs empty_db demo_trace (run_trace demo_trace empty_db)"
  by (rule runs_trace) (simp add: demo_trace_def admissible_def)

section \<open>Properties of every run\<close>





text \<open>(C2) A lease is settled once: no two receipts, of whatever kind, belong to the same turn and lease
  generation, so a lease is never both completed and failed, cancelled or halted, nor completed twice.\<close>

theorem one_receipt_per_lease:
  assumes "reachable db" "r \<in> set (receipts db)" "r' \<in> set (receipts db)" "r_job r' = r_job r" "r_gen r' = r_gen r"
  shows "r' = r"
proof -
  have "wf db" using assms(1) runs_safe [OF _ wf_empty] by (auto simp: reachable_def safe_def)
  then have "distinct (map (\<lambda>r. (r_job r, r_gen r)) (receipts db))" by (simp add: wf_def receipts_ok_def)
  then show ?thesis using assms(2-5) by (auto simp: distinct_map dest!: inj_onD)
qed

theorem one_receipt_per_lease_witness:
  "\<exists>r \<in> set (receipts (run_trace demo_trace empty_db)). r_kind r = ''fail''
     \<and> (\<forall>r' \<in> set (receipts (run_trace demo_trace empty_db)). r_job r' = r_job r \<longrightarrow> r_gen r' = r_gen r \<longrightarrow> r' = r)"
proof -
  have "reachable (run_trace demo_trace empty_db)" using demo_runs by (auto simp: reachable_def)
  moreover have "list_ex (\<lambda>r. r_kind r = ''fail'') (receipts (run_trace demo_trace empty_db))" by code_simp
  ultimately show ?thesis using one_receipt_per_lease by (auto simp: list_ex_iff)
qed

text \<open>(C3) A lease cannot be revived or prolonged past its deadline: in any later state the turn's
  generation and pending revision have not gone back, and if the turn is leased at the same generation
  then it was already leased, with the same deadline and the same claimed revision.\<close>

theorem lease_is_fixed:
  assumes "reachable db" "runs db xs db'" "turn_of db i = Some t"
  shows "\<exists>t'. turn_of db' i = Some t' \<and> t_gen t \<le> t_gen t' \<and> t_pending t \<le> t_pending t'
    \<and> (t_state t' = Leased \<and> t_gen t' = t_gen t \<longrightarrow>
         t_state t = Leased \<and> t_deadline t' = t_deadline t \<and> t_claimed t' = t_claimed t)"
proof -
  have w: "wf db" using assms(1) runs_safe [OF _ wf_empty] by (auto simp: reachable_def safe_def)
  then have s: "safe db db'" by (rule runs_safe [OF assms(2)])
  have t: "t \<in> set (turns db)" "t_id t = i" using assms(3) w turn_of_iff by (auto simp: wf_def)
  have g: "grows db db'" "wf_turns db'" using s by (simp_all add: safe_def wf_def)
  obtain t' where t': "t' \<in> set (turns db')" "later t t'" by (rule grows_turn [OF g(1) t(1)])
  then have "turn_of db' i = Some t'" using turn_of_iff [OF g(2)] t(2) by (simp add: later_def)
  then show ?thesis using t'(2) by (simp add: later_def)
qed

theorem lease_is_fixed_witness:
  "\<exists>t t'. turn_of (run_trace (take 2 demo_trace) empty_db) 1 = Some t \<and> t_state t = Leased \<and> t_gen t = 1
     \<and> turn_of (run_trace [(demo_eng, OpHeartbeat 1 1 1 [])] (run_trace (take 2 demo_trace) empty_db)) 1 = Some t'
     \<and> t_gen t' = 1 \<and> t_state t' = Leased \<and> t_deadline t' = t_deadline t"
proof -
  let ?d = "run_trace (take 2 demo_trace) empty_db" and ?h = "[(demo_eng, OpHeartbeat 1 1 1 [])]"
  have "runs empty_db (take 2 demo_trace) ?d" by (rule runs_trace) (simp add: demo_trace_def admissible_def)
  then have r: "reachable ?d" by (auto simp: reachable_def)
  have h: "runs ?d ?h (run_trace ?h ?d)" by (rule runs_trace) (simp add: admissible_def)
  have "(case turn_of ?d 1 of None \<Rightarrow> False | Some t \<Rightarrow> t_state t = Leased \<and> t_gen t = 1)" by code_simp
  then obtain t where t: "turn_of ?d 1 = Some t" "t_state t = Leased" "t_gen t = 1" by (auto split: option.splits)
  have "(case turn_of (run_trace ?h ?d) 1 of None \<Rightarrow> False | Some t \<Rightarrow> t_state t = Leased \<and> t_gen t = 1)" by code_simp
  then show ?thesis using lease_is_fixed [OF r h t(1)] t by (auto split: option.splits)
qed

end
