(* ===== verification/Frames.thy ===== *)
theory Frames
  imports Plane
begin

text \<open>
  What ending a lease leaves alone. A predicate on the store that survives the statements these
  transactions use (\<open>frame\<close>) survives the transactions: failure, expiry, cancel, halt. One that reads
  only the core (\<open>core_frame\<close>) survives completion as well.
\<close>

locale frame =
  fixes Q :: "db \<Rightarrow> bool"
  assumes receipts: "Q d \<Longrightarrow> Q (d\<lparr>receipts := receipts d @ rs\<rparr>)"
    and followups: "Q d \<Longrightarrow> Q (d\<lparr>followups := fs\<rparr>)"
    and steers: "Q d \<Longrightarrow> Q (d\<lparr>steers := ss\<rparr>)"
    and envs: "Q d \<Longrightarrow> Q (d\<lparr>envs := es\<rparr>)"
    and meas: "Q d \<Longrightarrow> Q (d\<lparr>meas := ms\<rparr>)"
    and actions: "Q d \<Longrightarrow> Q (d\<lparr>actions := as\<rparr>)"
    and snaps: "Q d \<Longrightarrow> Q (d\<lparr>snaps := ns\<rparr>)"
    and attachs: "Q d \<Longrightarrow> Q (d\<lparr>attachs := ts\<rparr>)"
    and row: "Q d \<Longrightarrow> Q (UpdateJobTx j d)"
    and prompt: "Q d \<Longrightarrow> Q (SetSessionPromptTx sid p d)"
begin

lemma touch: "Q d \<Longrightarrow> Q (touch_env eg sid d)"
  by (simp add: touch_env_def TouchSessionEnvironmentTx_def envs split: option.split)

lemma receipt: "Q d \<Longrightarrow> post (InsertReceiptTx i g c k p d) Q"
  by (simp add: InsertReceiptTx_def receipts)

lemma promote: "Q d \<Longrightarrow> post (PromoteSteersTx i g d) (\<lambda>(d, n). Q d)"
proof -
  assume q: "Q d"
  have one: "post (promote_one x d) Q" if "Q d" for x d
    unfolding promote_one_def insertFollowUpAtTx_def insert_followup_def
    by (simp add: post_bind that followups steers)
  have "post (for_each promote_one ps d) Q" for ps
    by (rule post_for_each, rule q) (rule one)
  then show ?thesis by (simp add: PromoteSteersTx_def Let_def post_bind)
qed

lemma finish: "Q d \<Longrightarrow> post (finishMeasurementTx i st art now d) Q"
proof -
  assume q: "Q d"
  have f: "post (FinishMeasurementTx i tm e pb a b d) Q" for tm e pb a b
    unfolding FinishMeasurementTx_def
    by (cases "find (\<lambda>m. m_turn m = i) (meas d)") (auto intro!: post_get post_pair meas simp: q)
  have r: "post (recordChildOutcomeTx i out x) Q" if "Q x" for out x
    unfolding recordChildOutcomeTx_def
    apply (rule post_get, rule post_get, rule post_pair, rule post_pair, rule post_if, simp add: that)
    apply (rule post_get, rule post_if, simp add: that, rule post_get)
    by (simp add: InsertActionTx_def actions that)
  show ?thesis unfolding finishMeasurementTx_def by (rule post_bindI [OF f]) (simp add: r)
qed

lemma next_prompt: "Q d \<Longrightarrow> post (applyNextFollowUpTx eg j d) (\<lambda>(d, j). Q d)"
  unfolding applyNextFollowUpTx_def applyFollowUpTx_def Let_def
  by (rule post_get) (auto simp: post_bind SaveSnapshotTx_def BindPromptAttachmentsTx_def ConsumeFollowUpTx_def
      intro!: attachs followups prompt snaps split: option.split)

lemma settle_or_fail:
  "Q d \<Longrightarrow> post (bindE (applyNextFollowUpTx eg k d) (\<lambda>(db, j').
      if j_pending j < j_pending j' then Inr (UpdateJobTx (j'\<lparr>j_retry := 0, j_state := Queued\<rparr>) db)
      else finishMeasurementTx (j_id j') Failed zero_artifact now (UpdateJobTx (j'\<lparr>j_state := Failed\<rparr>) db))) Q"
  by (rule post_bindI [OF next_prompt], assumption, rule post_pair, rule post_if) (auto intro!: row finish)

lemma failClosed: "Q d \<Longrightarrow> post (failClosedTx eg j gen claimed bump d) Q"
  unfolding failClosedTx_def Let_def
  apply (rule post_bindI [of _ Q])
   apply (simp add: receipt split: option.split)
  apply (rule post_bindI [OF promote], assumption, rule post_pair, rule post_get, rule post_if)
   apply (simp add: row touch)
  by (rule settle_or_fail) (simp add: touch)

lemma finalize: "Q d \<Longrightarrow> post (finalizeFailureTx eg j gen claimed d) Q"
  unfolding finalizeFailureTx_def
  apply (rule post_get, rule post_bindI [OF receipt], erule touch)
  apply (rule post_bindI [OF promote], assumption, rule post_pair, rule post_if)
   apply (simp add: row)
  unfolding Let_def
  apply (rule post_if)
   apply (rule settle_or_fail, simp)
  by (simp add: row)

lemma write_row:
  "Q d \<Longrightarrow> post (bindE (if j_state j = Failed then finishMeasurementTx (j_id j) Failed zero_artifact now (UpdateJobTx j d)
      else Inr (UpdateJobTx j d)) (\<lambda>db. bindE (GetTurnTx (j_id j) db) (\<lambda>turn. Inr (touch_env eg (t_session turn) db)))) Q"
  by (rule post_bindI [of _ Q]) (auto intro!: finish row post_get touch)

lemma expireLease: "Q d \<Longrightarrow> post (expireLeaseTx eg j d) Q"
  unfolding expireLeaseTx_def Let_def
  apply (rule post_if, simp, rule post_if, simp, rule post_if, erule failClosed)
  apply (rule post_bindI [OF promote], assumption, rule post_pair)
  apply (rule post_bindI [of _ "\<lambda>(d, j). Q d"])
   apply (intro post_if)
      apply (rule next_prompt, simp)
     apply simp
    apply (rule post_bindI [OF next_prompt], simp, rule post_pair, simp)
   apply simp
  apply (rule post_pair, rule write_row)
  by simp

lemma expireDueLeases: "Q d \<Longrightarrow> post (expireDueLeasesTx eg key lane d) Q"
  unfolding expireDueLeasesTx_def by (rule post_for_each, assumption) (rule expireLease)

lemma expireLanes: "Q d \<Longrightarrow> post (for_each (expire_lanes eg) keys d) Q"
  by (rule post_for_each, assumption)
    (auto simp: expire_lanes_def intro!: post_bindI [OF expireDueLeases] expireDueLeases)

lemma cancelTurn: "Q d \<Longrightarrow> post (cancelTurnTx eg i d) Q"
  unfolding cancelTurnTx_def
  apply (rule post_get, rule post_if, rule finish, erule row, rule post_if, simp)
  apply (rule post_bindI [OF receipt], assumption, rule post_bindI [OF promote], assumption, rule post_pair)
  apply (rule post_bindI [of _ "\<lambda>(d, j). Q d"])
   apply (intro post_if)
     apply simp
    apply (rule next_prompt, simp)
   apply simp
  apply (rule post_pair, rule write_row)
  by simp

lemma haltLeasedTurn: "Q d \<Longrightarrow> post (haltLeasedTurnTx eg i d) Q"
  unfolding haltLeasedTurnTx_def Let_def
  apply (rule post_get, rule post_if, simp)
  apply (rule post_bindI [OF receipt], assumption, rule post_bindI [OF promote], assumption, rule post_pair)
  apply (rule post_bindI [of _ "\<lambda>(d, j). Q d"])
   apply (intro post_if)
     apply (rule next_prompt, simp)
    apply simp
   apply simp
  apply (rule post_pair, rule post_get)
  by (simp add: row touch)

end

locale core_frame = frame +
  assumes core: "core d' = core d \<Longrightarrow> Q d \<Longrightarrow> Q d'"
    and flights: "Q d \<Longrightarrow> Q (d\<lparr>flights := fl\<rparr>)"
    and reviews: "Q d \<Longrightarrow> Q (d\<lparr>reviews := rv\<rparr>)"
begin

lemma settleComplete: "Q d \<Longrightarrow> post (settleCompleteTx eg j snap rid art d) Q"
  unfolding settleCompleteTx_def Let_def
  apply (rule post_if)
   apply (rule post_bindI [OF next_prompt], assumption, rule post_pair, rule post_if, simp add: row)
   apply (rule post_bindI [OF finish], simp add: row)
   apply (rule postI, erule core [OF core_maybeEnqueueApplyTx], assumption)
  by (simp add: row)

end

end
