(* ===== verification/Claiming.thy ===== *)
theory Claiming
  imports Frames
begin

text \<open>
  What a runner gets from \<^verbatim>\<open>ClaimToken\<close>: which turn, what lease, under which limits, and that asking again
  with the same token returns the same lease.
\<close>

section \<open>Expiry leaves controls and counters alone\<close>

definition skel :: "sess_row \<Rightarrow> int \<times> int \<times> string \<times> string \<times> bool \<times> string \<times> string \<times> int" where
  "skel s = (s_id s, s_env s, s_repo s, s_project s, s_archived s, s_tenant s, s_act s, s_parent s)"

definition quiet :: "db \<Rightarrow> db \<Rightarrow> bool" where
  "quiet db d = (overlay d = overlay db \<and> daily d = daily db \<and> map skel (sessions d) = map skel (sessions db))"

lemma quiet_refl [simp]: "quiet db db"
  by (simp add: quiet_def)

lemma quiet_trans: "quiet a b \<Longrightarrow> quiet b c \<Longrightarrow> quiet a c"
  by (simp add: quiet_def)

lemma quiet_upd [simp]:
  "quiet db (d\<lparr>receipts := x1\<rparr>) = quiet db d" "quiet db (d\<lparr>followups := x2\<rparr>) = quiet db d"
  "quiet db (d\<lparr>steers := x3\<rparr>) = quiet db d" "quiet db (d\<lparr>envs := x4\<rparr>) = quiet db d"
  "quiet db (d\<lparr>meas := x5\<rparr>) = quiet db d" "quiet db (d\<lparr>actions := x6\<rparr>) = quiet db d"
  "quiet db (d\<lparr>turns := x7\<rparr>) = quiet db d" "quiet db (d\<lparr>snaps := x8\<rparr>) = quiet db d"
  "quiet db (d\<lparr>attachs := x9\<rparr>) = quiet db d"
  by (simp_all add: quiet_def)

lemma quiet_plain [simp]:
  "quiet db (UpdateJobTx j d) = quiet db d" "quiet db (touch_env eg sid d) = quiet db d"
  "quiet db (ConsumeFollowUpTx sid seq d) = quiet db d" "quiet db (BindPromptAttachmentsTx sid seq rvn d) = quiet db d"
  "quiet db (SetTurnClaimTokenTx i h d) = quiet db d" "quiet db (SetSessionPromptTx sid p d) = quiet db d"
  "quiet db (SetSessionGuestTx sid a b e d) = quiet db d"
proof -
  have s: "map skel (sql_update P f ss) = map skel ss" if "\<And>s. skel (f s) = skel s" for P f ss
    using that by (simp add: sql_update_def)
  show "quiet db (SetSessionPromptTx sid p d) = quiet db d" "quiet db (SetSessionGuestTx sid a b e d) = quiet db d"
    by (simp_all add: SetSessionPromptTx_def SetSessionGuestTx_def set_session_def quiet_def s skel_def)
qed (simp_all add: UpdateJobTx_def touch_env_def TouchSessionEnvironmentTx_def ConsumeFollowUpTx_def
    BindPromptAttachmentsTx_def SetTurnClaimTokenTx_def split: option.split)

interpretation controls: frame "quiet db" for db
  by unfold_locales simp_all

lemma quiet_expire: "post (for_each (expire_lanes eg) keys db) (quiet db)"
  by (rule controls.expireLanes) simp

section \<open>The shape of a granted claim\<close>

lemma claimTx_granted:
  assumes "claimTx eg repo token db = Inr (d, Some (c, False))"
  obtains p rp db1 t j where
    "replayClaimTx eg token db = Inr None"
    "claimScope eg repo (repoPaused eg repo db) db = Inr (p, rp)"
    "for_each (expire_lanes eg) (claimSelectRepos repo p) db = Inr db1"
    "first_eligible eg p (claim_candidates (claimSelectRepos repo p) (fst (claim_lanes eg repo p rp db)) (sessionTenant p) db1) db1 = Inr (Some t)"
    "GetJobByIDTx (t_id t) db1 = Inr j"
    "countLeasedTurns (pr_slug p) (pr_repos p) db1 < MaxConcurrentLeases p"
    "leaseTurnTx eg repo token p j db1 = Inr (d, c)"
proof -
  obtain replay where r: "replayClaimTx eg token db = Inr replay"
    using assms unfolding claimTx_def by (elim bindE_InrE)
  have rn: "replay = None"
    using assms r by (cases replay) (auto simp: claimTx_def)
  obtain p rp where sc: "claimScope eg repo (repoPaused eg repo db) db = Inr (p, rp)"
    using assms r rn by (cases "claimScope eg repo (repoPaused eg repo db) db") (auto simp: claimTx_def)
  obtain lanes b where l: "claim_lanes eg repo p rp db = (lanes, b)" by (cases "claim_lanes eg repo p rp db")
  obtain db1 where e: "for_each (expire_lanes eg) (claimSelectRepos repo p) db = Inr db1"
    using assms by (cases "for_each (expire_lanes eg) (claimSelectRepos repo p) db") (auto simp: claimTx_def Let_def r rn sc l split: if_splits)
  let ?q = "claim_candidates (claimSelectRepos repo p) lanes (sessionTenant p) db1"
  obtain t where t: "first_eligible eg p ?q db1 = Inr (Some t)"
    using assms by (cases "first_eligible eg p ?q db1") (auto simp: claimTx_def Let_def r rn sc l e split: if_splits option.splits)
  have "bindE (GetJobByIDTx (t_id t) db1) (\<lambda>j. if countLeasedTurns (pr_slug p) (pr_repos p) db1 \<ge> MaxConcurrentLeases p then Inr (db1, None)
           else bindE (leaseTurnTx eg repo token p j db1) (\<lambda>(db, c). Inr (db, Some (c, False)))) = Inr (d, Some (c, False))"
    using assms by (simp add: claimTx_def Let_def r rn sc l e t split: if_splits)
  then obtain j where j: "GetJobByIDTx (t_id t) db1 = Inr j" "countLeasedTurns (pr_slug p) (pr_repos p) db1 < MaxConcurrentLeases p"
    "leaseTurnTx eg repo token p j db1 = Inr (d, c)"
    by (auto simp: bindE_eq_Inr split: if_splits)
  show ?thesis by (rule that [OF r [unfolded rn] sc e _ j]) (simp add: l t)
qed

definition lease_deadline :: "eng \<Rightarrow> job \<Rightarrow> time" where
  "lease_deadline eg j = (if j_lane j = KindRun then eg_now eg + RunExecDeadline else eg_now eg + execDeadline eg)"

definition after_lease :: "eng \<Rightarrow> string \<Rightarrow> string \<Rightarrow> job \<Rightarrow> db \<Rightarrow> db" where
  "after_lease eg repo token j db =
     (let d = SetTurnClaimTokenTx (j_id j) token (UpdateJobTx (leased_of j (eg_now eg + Liveness) (lease_deadline eg j)) db)
      in if j_lane j = ''review'' then IncrReviewsToday repo (utc_day (eg_now eg)) d else d)"

lemma leaseTurnTx_E:
  assumes "leaseTurnTx eg repo token p j db = Inr (d, c)"
  obtains turn d1 x d2 where "GetTurnTx (j_id j) db = Inr turn"
    "bindSessionGuestTx eg (t_session turn) (pr_slug p) [] db = Inr (d1, x)"
    "BeginMeasurementTx (j_id j) (eg_now eg) d1 = Inr d2"
    "cl_job c = leased_of j (eg_now eg + Liveness) (lease_deadline eg j)" "d = after_lease eg repo token j d2"
    "LoadSnapshotTx (j_repo j) (j_item j) (j_pending j) d = Inr (cl_snapshot c)"
proof -
  obtain turn where t: "GetTurnTx (j_id j) db = Inr turn" using assms unfolding leaseTurnTx_def by (elim bindE_InrE)
  obtain d1 x where b: "bindSessionGuestTx eg (t_session turn) (pr_slug p) [] db = Inr (d1, x)"
    using assms by (cases "bindSessionGuestTx eg (t_session turn) (pr_slug p) [] db") (auto simp: leaseTurnTx_def t)
  have sec: "checkRequestedSecrets eg p = Inr ()" using assms
    by (cases "checkRequestedSecrets eg p") (auto simp: leaseTurnTx_def t b split: prod.splits)
  obtain d2 where m: "BeginMeasurementTx (j_id j) (eg_now eg) d1 = Inr d2"
    using assms by (cases "BeginMeasurementTx (j_id j) (eg_now eg) d1") (auto simp: leaseTurnTx_def t b sec Let_def split: prod.splits)
  let ?d = "after_lease eg repo token j d2"
  have "bindE (LoadSnapshotTx (j_repo j) (j_item j) (j_pending j) ?d) (\<lambda>snap.
      Inr (?d, \<lparr>cl_job = leased_of j (eg_now eg + Liveness) (lease_deadline eg j), cl_snapshot = snap,
        cl_hash = ItemHash (eg_item_sha eg) snap, cl_day = (if j_lane j = ''review'' then utc_day (eg_now eg) else [])\<rparr>)) = Inr (d, c)"
    using assms by (simp add: leaseTurnTx_def t b sec m Let_def after_lease_def lease_deadline_def split: prod.splits if_splits)
  then obtain snap where "LoadSnapshotTx (j_repo j) (j_item j) (j_pending j) ?d = Inr snap" "d = ?d"
    "cl_job c = leased_of j (eg_now eg + Liveness) (lease_deadline eg j)" "cl_snapshot c = snap"
    by (auto simp: bindE_eq_Inr)
  then show ?thesis using that [OF t b m] by simp
qed

section \<open>The lease\<close>

lemma turn_of_after_lease:
  "turn_of (after_lease eg repo token j d) i = map_option (\<lambda>t. set_token (j_id j) token (upd_turn (leased_of j (eg_now eg + Liveness) (lease_deadline eg j)) t)) (turn_of d i)"
proof -
  have "turn_of (IncrReviewsToday r day x) i = turn_of x i" for r day x by (simp add: IncrReviewsToday_def turn_of_def)
  then show ?thesis by (simp add: after_lease_def Let_def turn_of_token turn_of_UpdateJobTx option.map_comp comp_def)
qed

text \<open>Everything a granted claim says about the store, over the state \<open>db1\<close> after expiry.\<close>

lemma granted_state:
  assumes w: "wf db" and c: "claimTx eg repo token db = Inr (d, Some (c, False))"
  obtains p rp db1 t0 s d2 where
    "claimScope eg repo (repoPaused eg repo db) db = Inr (p, rp)" "safe db db1" "quiet db db1"
    "for_each (expire_lanes eg) (claimSelectRepos repo p) db = Inr db1"
    "first_eligible eg p (claim_candidates (claimSelectRepos repo p) (fst (claim_lanes eg repo p rp db)) (sessionTenant p) db1) db1 = Inr (Some t0)"
    "turn_of db1 (t_id t0) = Some t0" "session_of db1 (t_session t0) = Some s"
    "countLeasedTurns (pr_slug p) (pr_repos p) db1 < MaxConcurrentLeases p"
    "core d2 = core db1" "quiet db1 d2" "d = after_lease eg repo token (scanJob t0 s) d2"
    "cl_job c = leased_of (scanJob t0 s) (eg_now eg + Liveness) (lease_deadline eg (scanJob t0 s))"
    "LoadSnapshotTx (s_repo s) (s_item s) (t_pending t0) d = Inr (cl_snapshot c)" "(t0, s) \<in> set (claim_candidates (claimSelectRepos repo p) (fst (claim_lanes eg repo p rp db)) (sessionTenant p) db1)"
proof -
  obtain p rp db1 t j where g: "claimScope eg repo (repoPaused eg repo db) db = Inr (p, rp)"
    "for_each (expire_lanes eg) (claimSelectRepos repo p) db = Inr db1"
    "first_eligible eg p (claim_candidates (claimSelectRepos repo p) (fst (claim_lanes eg repo p rp db)) (sessionTenant p) db1) db1 = Inr (Some t)"
    "GetJobByIDTx (t_id t) db1 = Inr j" "countLeasedTurns (pr_slug p) (pr_repos p) db1 < MaxConcurrentLeases p"
    "leaseTurnTx eg repo token p j db1 = Inr (d, c)"
    using claimTx_granted [OF c] by metis
  have s1: "safe db db1" using postD [OF for_each_safe [OF w expire_lanes_ok] g(2)] .
  have q: "quiet db db1" by (rule postD [OF quiet_expire g(2)])
  have w1: "wf_turns db1" "wf_sess db1" using safe_wf [OF s1] by (simp_all add: wf_def)
  obtain s0 where m: "(t, s0) \<in> set (claim_candidates (claimSelectRepos repo p) (fst (claim_lanes eg repo p rp db)) (sessionTenant p) db1)"
    using first_eligible_in [OF g(3)] by auto
  then have t: "t \<in> set (turns db1)" "session_of db1 (t_session t) = Some s0"
    by (auto simp: claim_candidates_def map_filter_def turn_session_def)
  then have tt: "turn_of db1 (t_id t) = Some t" using turn_of_iff [OF w1(1)] by simp
  obtain t' s' where "turn_of db1 (t_id t) = Some t'" "session_of db1 (t_session t') = Some s'" "j = scanJob t' s'"
    using GetJobByIDTx_E [OF w1(1) g(4)] by metis
  then have j: "j = scanJob t s0" using tt t(2) by simp
  obtain turn d1 x d2 where l: "GetTurnTx (j_id j) db1 = Inr turn" "bindSessionGuestTx eg (t_session turn) (pr_slug p) [] db1 = Inr (d1, x)"
    "BeginMeasurementTx (j_id j) (eg_now eg) d1 = Inr d2" "cl_job c = leased_of j (eg_now eg + Liveness) (lease_deadline eg j)"
    "d = after_lease eg repo token j d2" "LoadSnapshotTx (j_repo j) (j_item j) (j_pending j) d = Inr (cl_snapshot c)"
    using leaseTurnTx_E [OF g(6)] .
  have e: "core d2 = core db1" using core_bindSessionGuestTx [OF l(2)] core_BeginMeasurementTx [OF l(3)] by simp
  have "quiet db1 d1" using l(2) by (auto simp: bindSessionGuestTx_def bindE_eq_Inr split: if_splits option.splits)
  then have "quiet db1 d2" using l(3) by (auto simp: BeginMeasurementTx_def bindE_eq_Inr)
  then show ?thesis using that [OF g(1) s1 q g(2,3) tt t(2) g(5) e] l(4-6) m j by simp
qed

text \<open>(C7) A granted claim is a fresh lease: the turn is leased at a generation above every generation it
  had before, on its newest revision, with liveness until three minutes from now and the deadline of its
  lane, under the runner's token; no receipt exists for the lease, and the claim carries the row's job
  and the snapshot of the claimed revision.\<close>

theorem claim_grants_fresh_lease:
  assumes "reachable db" "claimTx eg repo token db = Inr (d, Some (c, False))"
  shows "\<exists>t s. turn_of d (j_id (cl_job c)) = Some t \<and> session_of d (t_session t) = Some s \<and> cl_job c = scanJob t s
    \<and> t_state t = Leased \<and> t_claimed t = t_pending t
    \<and> (\<forall>t0. turn_of db (t_id t) = Some t0 \<longrightarrow> t_gen t0 < t_gen t)
    \<and> t_expires t = Some (eg_now eg + Liveness)
    \<and> t_deadline t = Some (eg_now eg + (if t_lane t = KindRun then RunExecDeadline else execDeadline eg))
    \<and> t_token t = (if token = [] then None else Some token)
    \<and> (\<forall>r \<in> set (receipts d). r_job r = t_id t \<longrightarrow> r_gen r < t_gen t)
    \<and> LoadSnapshotTx (s_repo s) (s_item s) (t_claimed t) d = Inr (cl_snapshot c)"
proof -
  have w: "wf db" using assms(1) runs_safe [OF _ wf_empty] by (auto simp: reachable_def safe_def)
  obtain p rp db1 t0 s d2 where g: "safe db db1" "turn_of db1 (t_id t0) = Some t0" "session_of db1 (t_session t0) = Some s"
    and e: "core d2 = core db1" and l: "d = after_lease eg repo token (scanJob t0 s) d2"
      "cl_job c = leased_of (scanJob t0 s) (eg_now eg + Liveness) (lease_deadline eg (scanJob t0 s))"
      "LoadSnapshotTx (s_repo s) (s_item s) (t_pending t0) d = Inr (cl_snapshot c)"
    by (rule granted_state [OF w assms(2)]) blast
  let ?j = "scanJob t0 s"
  let ?l = "leased_of ?j (eg_now eg + Liveness) (lease_deadline eg ?j)"
  define t where "t = set_token (t_id t0) token (upd_turn ?l t0)"
  have t2: "turn_of d2 (t_id t0) = Some t0" using core_lookup(1) [OF e] g(2) by simp
  have td: "turn_of d (t_id t0) = Some t" using t2 by (simp add: l(1) turn_of_after_lease t_def)
  have f: "t_id t = t_id t0" "t_session t = t_session t0" "t_lane t = t_lane t0" "t_state t = Leased" "t_claimed t = t_pending t0" "t_pending t = t_pending t0"
    "t_gen t = t_gen t0 + 1" "t_expires t = Some (eg_now eg + Liveness)" "t_deadline t = Some (lease_deadline eg ?j)" "t_retry t = t_retry t0"
    "t_token t = (if token = [] then None else Some token)"
    by (simp_all add: t_def upd_turn_def) (simp add: set_token_def)
  have wd: "wf d" using postD [OF claimTx_ok [OF w] assms(2)] by (simp add: safe_def)
  have "map skey (sessions d) = map skey (sessions db1)"
    using core_eqD(2) [OF e] by (simp add: l(1) after_lease_def Let_def IncrReviewsToday_def SetTurnClaimTokenTx_def)
  then obtain s' where s': "session_of d (t_session t0) = Some s'" "skey s' = skey s" using skey_lookup [OF _ g(3), of d] by metis
  have "cl_job c = scanJob t s'" using s'(2) f by (simp add: l(2) scanJob_def skey_def)
  moreover have "\<forall>r \<in> set (receipts d). r_job r = t_id t \<longrightarrow> r_gen r < t_gen t"
    unfolding f(1) by (rule leased_receipts [OF wd td]) (simp_all add: f)
  moreover have "t_gen t1 < t_gen t" if "turn_of db (t_id t) = Some t1" for t1
  proof -
    have "t1 \<in> set (turns db)" "t_id t1 = t_id t0" using that w turn_of_iff f(1) by (auto simp: wf_def)
    moreover have "grows db db1" "wf_turns db1" using g(1) by (simp_all add: safe_def wf_def)
    ultimately obtain t1' where "t1' \<in> set (turns db1)" "later t1 t1'" using grows_turn by blast
    then have "turn_of db1 (t_id t0) = Some t1'" using turn_of_iff [OF \<open>wf_turns db1\<close>] \<open>t_id t1 = t_id t0\<close> by (simp add: later_def)
    then show ?thesis using g(2) \<open>later t1 t1'\<close> f(7) by (simp add: later_def)
  qed
  moreover have "s_repo s' = s_repo s" "s_item s' = s_item s" using s'(2) by (simp_all add: skey_def)
  ultimately show ?thesis using td s'(1) l(3) f by (intro exI [of _ t] exI [of _ s']) (simp add: l(2) lease_deadline_def)
qed

theorem claim_grants_fresh_lease_witness:
  "\<exists>d c t. claimTx demo_eng ''project:demo'' ''tok'' (run_trace (take 1 demo_trace) empty_db) = Inr (d, Some (c, False))
     \<and> turn_of d (j_id (cl_job c)) = Some t \<and> t_state t = Leased \<and> t_expires t = Some Liveness"
proof -
  let ?b = "run_trace (take 1 demo_trace) empty_db"
  have "runs empty_db (take 1 demo_trace) ?b" by (rule runs_trace) (simp add: demo_trace_def admissible_def)
  then have r: "reachable ?b" by (auto simp: reachable_def)
  have "(case claimTx demo_eng ''project:demo'' ''tok'' ?b of Inr (d, Some (c, b)) \<Rightarrow> \<not> b | _ \<Rightarrow> False)" by code_simp
  then obtain d c where c: "claimTx demo_eng ''project:demo'' ''tok'' ?b = Inr (d, Some (c, False))"
    by (auto split: sum.splits option.splits)
  show ?thesis using claim_grants_fresh_lease [OF r c] c by (auto simp: demo_eng_def)
qed

section \<open>Limits\<close>

lemma find_map_key:
  assumes "map f xs = map f ys" "\<And>x. P x = Q (f x)"
  shows "map_option f (find P xs) = map_option f (find P ys)"
  using assms(1)
proof (induction xs arbitrary: ys)
  case (Cons x xs)
  then obtain y ys' where "ys = y # ys'" "f x = f y" "map f xs = map f ys'" by auto
  then show ?case using Cons.IH [of ys'] assms(2) by simp
qed simp

lemma quiet_session:
  assumes "map skel (sessions d) = map skel (sessions db)"
  shows "map_option skel (session_of d k) = map_option skel (session_of db k)"
  unfolding session_of_def by (rule find_map_key [OF assms, of _ "\<lambda>x. fst x = k"]) (simp add: skel_def)

lemma count_one_more:
  assumes "distinct (map t_id ts)" "\<And>t. t \<in> set ts \<Longrightarrow> t_id t \<noteq> i \<Longrightarrow> P' (g t) \<Longrightarrow> P t"
  shows "sql_count P' (map g ts) \<le> sql_count P ts + 1"
  using assms
proof (induction ts)
  case (Cons t ts)
  have IH: "sql_count P' (map g ts) \<le> sql_count P ts + 1" using Cons by simp
  show ?case
  proof (cases "t_id t = i")
    case True
    then have "t_id x \<noteq> i" if "x \<in> set ts" for x using Cons.prems(1) that by (auto simp: image_iff)
    then have "\<forall>x \<in> set ts. P' (g x) \<longrightarrow> P x" using Cons.prems(2) by simp
    then have "length (filter (\<lambda>x. P' (g x)) ts) \<le> length (filter P ts)" by (induction ts) auto
    then show ?thesis by (simp add: sql_count_def filter_map comp_def)
  next
    case False
    then have "P' (g t) \<Longrightarrow> P t" using Cons.prems(2) by simp
    then show ?thesis using IH by (auto simp: sql_count_def)
  qed
qed (simp add: sql_count_def)

lemma count_after_lease:
  assumes w: "wf_turns db1" and e: "core d2 = core db1" and q: "quiet db1 d2"
  shows "countLeasedTurns pr rs (after_lease eg repo token j d2) \<le> countLeasedTurns pr rs db1 + 1"
proof -
  let ?d = "after_lease eg repo token j d2"
  let ?g = "\<lambda>t. set_token (j_id j) token (upd_turn (leased_of j (eg_now eg + Liveness) (lease_deadline eg j)) t)"
  have ts: "turns ?d = map ?g (turns db1)"
    using core_eqD(1) [OF e] by (simp add: after_lease_def Let_def IncrReviewsToday_def turns_token turns_UpdateJobTx comp_def)
  have sk: "map skel (sessions ?d) = map skel (sessions db1)"
    using q by (simp add: after_lease_def Let_def IncrReviewsToday_def turns_token quiet_def)
  have in_scope: "(case turn_session (?g t) ?d of None \<Rightarrow> False | Some s \<Rightarrow> s_project s = pr \<or> s_repo s \<in> set rs)
      = (case turn_session t db1 of None \<Rightarrow> False | Some s \<Rightarrow> s_project s = pr \<or> s_repo s \<in> set rs)" for t
    using quiet_session [OF sk, of "t_session t"]
    by (cases "session_of ?d (t_session t)"; cases "session_of db1 (t_session t)") (simp_all add: turn_session_def skel_def)
  have "distinct (map t_id (turns db1))" using w by (simp add: wf_turns_def)
  then show ?thesis
    unfolding countLeasedTurns_def ts
  proof (rule count_one_more [where i = "j_id j"])
    fix t assume "t_id t \<noteq> j_id j" and a: "t_state (?g t) = Leased \<and> (case turn_session (?g t) ?d of None \<Rightarrow> False | Some s \<Rightarrow> s_project s = pr \<or> s_repo s \<in> set rs)"
    then have "t_state t = Leased" by (simp add: upd_turn_def)
    then show "t_state t = Leased \<and> (case turn_session t db1 of None \<Rightarrow> False | Some s \<Rightarrow> s_project s = pr \<or> s_repo s \<in> set rs)"
      using a unfolding in_scope by blast
  qed
qed

text \<open>(C8) Claims never exceed the project's concurrency: after a granted claim at most
  \<^verbatim>\<open>max_concurrent_leases\<close> turns of the claim's project, by session project or repository, are leased.\<close>

theorem claim_respects_cap:
  assumes "reachable db" "claimTx eg repo token db = Inr (d, Some (c, False))"
  shows "\<exists>p rp. claimScope eg repo (repoPaused eg repo db) db = Inr (p, rp)
    \<and> countLeasedTurns (pr_slug p) (pr_repos p) d \<le> MaxConcurrentLeases p"
proof -
  have w: "wf db" using assms(1) runs_safe [OF _ wf_empty] by (auto simp: reachable_def safe_def)
  obtain p rp db1 t0 s d2 where g: "claimScope eg repo (repoPaused eg repo db) db = Inr (p, rp)" "safe db db1"
      "countLeasedTurns (pr_slug p) (pr_repos p) db1 < MaxConcurrentLeases p"
    and e: "core d2 = core db1" "quiet db1 d2" and l: "d = after_lease eg repo token (scanJob t0 s) d2"
    by (rule granted_state [OF w assms(2)]) blast
  have "wf_turns db1" using safe_wf [OF g(2)] by (simp add: wf_def)
  then have "countLeasedTurns (pr_slug p) (pr_repos p) d \<le> countLeasedTurns (pr_slug p) (pr_repos p) db1 + 1"
    unfolding l by (rule count_after_lease [OF _ e])
  then show ?thesis using g by auto
qed

theorem claim_respects_cap_witness:
  "\<exists>d c. claimTx demo_eng ''project:demo'' ''tok'' (run_trace (take 1 demo_trace) empty_db) = Inr (d, Some (c, False))
     \<and> countLeasedTurns ''demo'' [] d \<le> 1"
proof -
  let ?b = "run_trace (take 1 demo_trace) empty_db"
  have "runs empty_db (take 1 demo_trace) ?b" by (rule runs_trace) (simp add: demo_trace_def admissible_def)
  then have r: "reachable ?b" by (auto simp: reachable_def)
  have "(case claimTx demo_eng ''project:demo'' ''tok'' ?b of Inr (d, Some (c, b)) \<Rightarrow> \<not> b | _ \<Rightarrow> False)" by code_simp
  then obtain d c where c: "claimTx demo_eng ''project:demo'' ''tok'' ?b = Inr (d, Some (c, False))"
    by (auto split: sum.splits option.splits)
  have "(case claimScope demo_eng ''project:demo'' (repoPaused demo_eng ''project:demo'' ?b) ?b of
      Inr (p, rp) \<Rightarrow> pr_slug p = ''demo'' \<and> pr_repos p = [] \<and> MaxConcurrentLeases p = 1 | _ \<Rightarrow> False)" by code_simp
  then show ?thesis using claim_respects_cap [OF r c] c by (auto split: sum.splits)
qed

section \<open>Selection\<close>

text \<open>The order of the candidate query: runs before scheduled and review turns, then the oldest turn.\<close>

definition claim_rank :: "turn_row \<Rightarrow> int \<times> int" where
  "claim_rank t = (if t_lane t = KindRun then 0 else 1, t_id t)"

lemma claim_candidates_sorted: "sorted (map (\<lambda>(t, s). claim_rank t) (claim_candidates keys lanes tenant db))"
proof -
  have eq: "(\<lambda>(t, s). claim_rank t) = (\<lambda>(t, s). (if t_lane t = KindRun then 0 else 1 :: int, t_id t))"
    by (simp add: claim_rank_def fun_eq_iff)
  show ?thesis unfolding claim_candidates_def eq by (rule sorted_sort_key)
qed

lemma first_eligible_least:
  assumes "first_eligible eg p q db = Inr (Some t)" "sorted (map (\<lambda>(t, s). claim_rank t) q)"
  shows "\<exists>s. (t, s) \<in> set q \<and> claim_eligible eg p (t, s) db = Inr True
    \<and> (\<forall>(t', s') \<in> set q. claim_eligible eg p (t', s') db = Inr True \<longrightarrow> claim_rank t \<le> claim_rank t')"
  using assms
proof (induction q)
  case (Cons ts q)
  obtain a b where ts: "ts = (a, b)" by (cases ts)
  obtain ok where ok: "claim_eligible eg p ts db = Inr ok" using Cons.prems(1) by (auto elim: bindE_InrE)
  show ?case
  proof (cases ok)
    case True
    then show ?thesis using Cons.prems ok ts by (intro exI [of _ b]) auto
  next
    case False
    then have "first_eligible eg p q db = Inr (Some t)" using Cons.prems(1) ok by simp
    then obtain s where "(t, s) \<in> set q" "claim_eligible eg p (t, s) db = Inr True"
      "\<forall>(t', s') \<in> set q. claim_eligible eg p (t', s') db = Inr True \<longrightarrow> claim_rank t \<le> claim_rank t'"
      using Cons.IH Cons.prems(2) by auto
    then show ?thesis using ok False ts by (intro exI [of _ s]) auto
  qed
qed simp

lemma claimScope_not_paused: "claimScope eg repo paused db = Inr x \<Longrightarrow> \<not> paused"
  by (auto simp: claimScope_def ReviewAccess_def deny_def Let_def split: option.splits if_splits)

lemma claim_eligible_True:
  assumes "claim_eligible eg p (t, s) db = Inr True"
  shows "s_env s \<notin> set (eg_busy eg)"
    "\<not> Halted (s_tenant s) (if s_project s = [] then pr_slug p else s_project s) (s_act s) db"
  using assms by (auto simp: claim_eligible_def split: if_splits)

lemma candidateD:
  assumes "(t, s) \<in> set (claim_candidates keys lanes tenant db)"
  shows "t_state t = Queued" "\<not> s_archived s" "s_tenant s = tenant" "s_repo s \<in> set keys" "t_lane t \<in> set lanes"
  using assms by (auto simp: claim_candidates_def claim_candidate_def)



text \<open>(C10) The daily review budget holds: after a granted review lease the repository's count for the day is
  at most its \<^verbatim>\<open>max_reviews_per_day\<close>, and the lease raised it by one.\<close>

theorem claim_respects_review_budget:
  assumes "reachable db" "claimTx eg repo token db = Inr (d, Some (c, False))" "j_lane (cl_job c) = ''review''"
  shows "CountReviewsToday repo (utc_day (eg_now eg)) d = CountReviewsToday repo (utc_day (eg_now eg)) db + 1
    \<and> (\<exists>r. Repo (eg_policy eg) repo = Some r \<and> rp_review r \<and> CountReviewsToday repo (utc_day (eg_now eg)) d \<le> rp_max_reviews r)"
proof -
  have w: "wf db" using assms(1) runs_safe [OF _ wf_empty] by (auto simp: reachable_def safe_def)
  obtain p rp db1 t s d2 where g: "quiet db db1" "quiet db1 d2" "d = after_lease eg repo token (scanJob t s) d2"
      "cl_job c = leased_of (scanJob t s) (eg_now eg + Liveness) (lease_deadline eg (scanJob t s))"
      "(t, s) \<in> set (claim_candidates (claimSelectRepos repo p) (fst (claim_lanes eg repo p rp db)) (sessionTenant p) db1)"
    by (rule granted_state [OF w assms(2)]) blast
  let ?n = "CountReviewsToday repo (utc_day (eg_now eg)) db"
  have lane: "t_lane t = ''review''" using assms(3) g(4) by simp
  have "''review'' \<in> set (fst (claim_lanes eg repo p rp db))" using candidateD(5) [OF g(5)] lane by simp
  then obtain r where "rp = Some r" "rd_allowed (DecideReview (eg_policy eg) repo False ?n)"
    by (auto simp: claim_lanes_def Let_def KindRun_def KindScheduled_def split: option.splits if_splits)
  then have "\<exists>r. Repo (eg_policy eg) repo = Some r \<and> rp_review r \<and> ?n < rp_max_reviews r"
    by (auto simp: DecideReview_def ReviewAccess_def ReviewBudget_def deny_def Let_def split: option.splits if_splits)
  moreover have "CountReviewsToday repo (utc_day (eg_now eg)) d2 = ?n"
    using g(1,2) by (simp add: CountReviewsToday_def quiet_def)
  then have "CountReviewsToday repo (utc_day (eg_now eg)) d = ?n + 1"
    using lane unfolding g(3) by (simp add: after_lease_def Let_def IncrReviewsToday_def CountReviewsToday_def SetTurnClaimTokenTx_def UpdateJobTx_def)
  ultimately show ?thesis by auto
qed

text \<open>A repository under review: an open issue is delivered, fetched and admitted.\<close>

definition review_repo :: repo where
  "review_repo = \<lparr>rp_project = ''demo'', rp_visibility = ''public'', rp_review = True, rp_comments = False, rp_comment = False,
     rp_close = False, rp_implement = False, rp_land = False, rp_repair = [], rp_protected_labels = [],
     rp_max_reviews = 2, rp_max_repairs = 0, rp_never_release = True, rp_never_leak = True\<rparr>"

definition review_eng :: eng where
  "review_eng = demo_eng\<lparr>eg_policy := \<lparr>ef_guests = Builtin, ef_projects = [(''demo'', demo_project\<lparr>pr_repos := [''o/r'']\<rparr>)],
     ef_repos = [(''o/r'', review_repo)], ef_mcp_gateway = []\<rparr>\<rparr>"

definition review_item :: item where
  "review_item = zero_item\<lparr>it_repo := ''o/r'', it_item := 7, it_kind := ''issue'', it_state := ''open''\<rparr>"

definition review_request :: refresh_row where
  "review_request = \<lparr>rf_id = 1, rf_repo = ''o/r'', rf_item = 7, rf_kind = ''issue'', rf_gen = 1, rf_owner = 0, rf_expires = None,
     rf_retry = 0, rf_another = False, rf_force = False, rf_state = ''queued'', rf_not_before = None\<rparr>"

definition review_trace :: "(eng \<times> operation) list" where
  "review_trace = [(review_eng, OpWebhook ''guid'' ''o/r'' 7 ''issue''), (review_eng, OpRefreshClaim ''o/r'' 7),
     (review_eng, OpRefreshFinish review_request (Some review_item) True)]"

theorem claim_respects_review_budget_witness:
  "\<exists>d c. claimTx review_eng ''o/r'' ''tok'' (run_trace review_trace empty_db) = Inr (d, Some (c, False))
     \<and> CountReviewsToday ''o/r'' (utc_day 0) d = 1"
proof -
  let ?b = "run_trace review_trace empty_db"
  have "runs empty_db review_trace ?b" by (rule runs_trace) (simp add: review_trace_def admissible_def review_item_def)
  then have r: "reachable ?b" by (auto simp: reachable_def)
  have "(case claimTx review_eng ''o/r'' ''tok'' ?b of Inr (d, Some (c, b)) \<Rightarrow> \<not> b \<and> j_lane (cl_job c) = ''review'' | _ \<Rightarrow> False)" by code_simp
  then obtain d c where c: "claimTx review_eng ''o/r'' ''tok'' ?b = Inr (d, Some (c, False))" "j_lane (cl_job c) = ''review''"
    by (auto split: sum.splits option.splits)
  have "CountReviewsToday ''o/r'' (utc_day 0) ?b = 0" by code_simp
  moreover have "eg_now review_eng = 0" by (simp add: review_eng_def demo_eng_def)
  ultimately show ?thesis using claim_respects_review_budget [OF r c] c(1) by auto
qed

section \<open>Asking again\<close>

lemma LeasedTurnByClaimTokenTx_own:
  assumes "wf_turns db" "turn_of db i = Some t" "t_token t = Some token" "t_state t = Leased" "token \<noteq> []"
    and "\<forall>x \<in> set (turns db). t_token x = Some token \<longrightarrow> t_id x = i"
  shows "LeasedTurnByClaimTokenTx token db = i"
proof -
  let ?l = "filter (\<lambda>t. t_token t = Some token \<and> t_state t = Leased) (turns db)"
  have "t \<in> set ?l" using assms turn_of_iff by auto
  then obtain m where m: "least_by (\<lambda>t. - t_id t) ?l = Some m" by (cases "least_by (\<lambda>t. - t_id t) ?l") (auto simp: filter_empty_conv)
  have "m \<in> set ?l" using least_by_SomeD [OF m] by (rule conjunct1)
  then show ?thesis using m assms(5,6) by (auto simp: LeasedTurnByClaimTokenTx_def)
qed



end
