(* ===== verification/Fencing.thy ===== *)
theory Fencing
  imports Frames
begin

text \<open>
  A runner acts on its lease by turn, generation and claimed revision. An operation is fenced
  (\<open>fenced\<close>) when it refuses a lease the turn no longer holds; heartbeat, complete and fail are. The
  receipt of a settled lease answers a repeated complete or fail.
\<close>

section \<open>Fenced operations\<close>

definition holds_lease :: "job \<Rightarrow> int \<Rightarrow> int \<Rightarrow> bool" where
  "holds_lease j gen claimed = (j_state j = Leased \<and> j_gen j = gen \<and> j_claimed j = claimed)"

locale fenced =
  fixes act :: "int \<Rightarrow> int \<Rightarrow> int \<Rightarrow> db \<Rightarrow> db \<times> 'r res"
  assumes refuses: "GetJobByIDTx jid db = Inr j \<Longrightarrow> \<not> holds_lease j gen claimed \<Longrightarrow> GetReceiptTx jid gen claimed db = None
    \<Longrightarrow> act jid gen claimed db = (db, Inl EReject)"
begin

text \<open>A lease whose generation the turn has left behind is refused in every later state.\<close>

lemma superseded:
  assumes "wf db" "turn_of db jid = Some t" "t_state t \<noteq> Leased \<or> t_gen t \<noteq> gen \<or> t_claimed t \<noteq> claimed"
    and "GetReceiptTx jid gen claimed db = None"
  shows "act jid gen claimed db = (db, Inl EReject)"
proof -
  have w: "wf_sess db" "wf_turns db" using assms(1) by (simp_all add: wf_def)
  have "t \<in> set (turns db)" using assms(2) turn_of_iff [OF w(2)] by simp
  then obtain s where "session_of db (t_session t) = Some s" using turn_session_ex [OF w] by blast
  then have "GetJobByIDTx jid db = Inr (scanJob t s)" using GetJobByIDTx_iff [OF w(2)] assms(2) by blast
  then show ?thesis using refuses [OF _ _ assms(4), of "scanJob t s"] assms(3) by (auto simp: holds_lease_def)
qed

end

lemma acceptLease_refuses: "\<not> holds_lease j gen claimed \<Longrightarrow> acceptLease now j gen claimed = Inl EReject"
  "\<not> holds_lease j gen claimed \<Longrightarrow> acceptLeaseIdentity j gen claimed = Inl EReject"
  by (auto simp: holds_lease_def acceptLease_def acceptLeaseIdentity_def)

interpretation heartbeat: fenced "\<lambda>jid gen claimed. HeartbeatSteerReceived eg jid gen claimed received" for eg received
  by unfold_locales (simp add: HeartbeatSteerReceived_def run_tx_def heartbeatTx_def acceptLease_refuses)

interpretation complete: fenced "\<lambda>jid gen claimed. CompleteWithSteers eg pid1 pid2 jid gen claimed art acks" for eg pid1 pid2 art acks
  by unfold_locales (simp add: CompleteWithSteers_def Let_def run_tx_def completeTx_def acceptLease_refuses)

interpretation fail: fenced "\<lambda>jid gen claimed. Fail eg jid gen claimed" for eg
  by unfold_locales (simp add: Fail_def run_tx_def failTx_def acceptLease_refuses)

section \<open>Receipts are kept\<close>

definition has_receipt :: "receipt_row \<Rightarrow> db \<Rightarrow> bool" where
  "has_receipt r d = (r \<in> set (receipts d))"

lemma has_receipt_core: "core d' = core d \<Longrightarrow> has_receipt r d \<Longrightarrow> has_receipt r d'"
  by (metis core_eqD(4) has_receipt_def)

interpretation receipted: core_frame "has_receipt r" for r
proof unfold_locales
  show "has_receipt r d \<Longrightarrow> has_receipt r (SetSessionPromptTx sid p d)" for d sid p
    by (rule has_receipt_core [OF core_session_setters(1)])
qed (auto simp: has_receipt_def dest: core_eqD(4))

lemma GetReceiptTx_unique:
  assumes "wf db" "r \<in> set (receipts db)" "receipt_key r = (jid, gen, claimed)"
  shows "GetReceiptTx jid gen claimed db = Some (r_kind r, r_payload r)"
proof -
  have d: "distinct (map (\<lambda>r. (r_job r, r_gen r)) (receipts db))" using assms(1) by (simp add: wf_def receipts_ok_def)
  have u: "x = r" if "x \<in> set (receipts db)" "receipt_key x = receipt_key r" for x
    using d that assms(2) by (auto simp: distinct_map receipt_key_def dest!: inj_onD)
  obtain x where x: "find (\<lambda>r. receipt_key r = (jid, gen, claimed)) (receipts db) = Some x"
    using assms(2,3) by (cases "find (\<lambda>r. receipt_key r = (jid, gen, claimed)) (receipts db)") (auto simp: find_None_iff)
  then have "x = r" using u assms(3) by (auto dest: find_Some_in)
  then show ?thesis using x by (simp add: GetReceiptTx_def)
qed

lemma insert_has_receipt:
  "post (InsertReceiptTx i g c k p d) (has_receipt \<lparr>r_job = i, r_gen = g, r_claimed = c, r_kind = k, r_payload = p\<rparr>)"
  by (simp add: InsertReceiptTx_def has_receipt_def)

lemma flight_has_receipt: "has_receipt r d \<Longrightarrow> post (recordFlightTx tid rid d) (has_receipt r)"
  unfolding recordFlightTx_def InsertFlightRecordTx_def
  by (intro post_get) (simp add: receipted.flights split: if_splits)

lemma recordCompleteTx_receipt:
  "post (recordCompleteTx eg pid1 pid2 j snap gen claimed art acks db)
     (\<lambda>(d, p). p \<noteq> JNull \<and> has_receipt \<lparr>r_job = j_id j, r_gen = gen, r_claimed = claimed, r_kind = ''complete'', r_payload = p\<rparr> d)"
  unfolding recordCompleteTx_def Let_def
  apply (rule post_get, rule post_get, rule post_get, rule post_pair)
  apply (rule post_bindI [OF insert_has_receipt])
  apply (rule post_bindI [OF flight_has_receipt], assumption)
  apply (rule post_bindI [OF receipted.promote], assumption, rule post_pair)
  apply (rule post_bindI [OF receipted.settleComplete])
   apply (auto intro: has_receipt_core [OF core_session_setters(4)])
  done

lemma finalize_receipt:
  "post (finalizeFailureTx eg j gen claimed db) (has_receipt \<lparr>r_job = j_id j, r_gen = gen, r_claimed = claimed, r_kind = ''fail'', r_payload = fail_receipt\<rparr>)"
  unfolding finalizeFailureTx_def Let_def
  apply (rule post_get, rule post_bindI [OF insert_has_receipt])
  apply (rule post_bindI [OF receipted.promote], assumption, rule post_pair, rule post_if)
   apply (simp add: receipted.row)
  apply (rule post_if)
   apply (rule receipted.settle_or_fail, simp)
  by (simp add: receipted.row)

section \<open>Properties\<close>

lemma reachable_is_wf: "reachable db \<Longrightarrow> wf db"
  using runs_safe [OF _ wf_empty] by (auto simp: reachable_def safe_def)

text \<open>The leased demonstration run, and the same run after its lease failed.\<close>

abbreviation demo_leased :: db where "demo_leased \<equiv> run_trace (take 2 demo_trace) empty_db"
abbreviation demo_failed :: db where "demo_failed \<equiv> run_trace demo_trace empty_db"

lemma demo_reachable: "reachable demo_leased" "reachable demo_failed"
  using runs_trace [of "take 2 demo_trace" empty_db] demo_runs by (auto simp: reachable_def demo_trace_def admissible_def)




text \<open>An answer to the demonstration run.\<close>

definition demo_answer :: artifact where
  "demo_answer = zero_artifact\<lparr>af_repo := ''project:demo'', af_item := -1, af_kind := ''run'', af_claimed := 1, af_snapshot := ''hash'',
     af_result := Some \<lparr>tr_schema = 1, tr_effort = [], tr_source = ''hash'', tr_candidate = [], tr_heads = [],
       tr_findings = [\<lparr>fi_title = ''t'', fi_body = ''b''\<rparr>], tr_checks = [], tr_blocked = [], tr_verified = False, tr_pull = 0,
       tr_publish = None, tr_draft = None, tr_published_sha = [], tr_outcome = [], tr_publisher = [], tr_pushed_ref = []\<rparr>\<rparr>"


text \<open>(C6) A settled lease is never settled differently: after a failure, cancellation or halt was recorded
  for a lease, completing it is rejected without effect, and failing it again only repeats the recorded
  receipt.\<close>

theorem settled_lease_not_completed:
  assumes "reachable db" "r \<in> set (receipts db)" "r_kind r \<noteq> ''complete''"
  shows "CompleteWithSteers eg pid1 pid2 (r_job r) (r_gen r) (r_claimed r) art acks db = (db, Inl EReject)
    \<and> Fail eg (r_job r) (r_gen r) (r_claimed r) db = (db, Inr (r_payload r))"
proof -
  have "GetReceiptTx (r_job r) (r_gen r) (r_claimed r) db = Some (r_kind r, r_payload r)"
    by (rule GetReceiptTx_unique [OF reachable_is_wf [OF assms(1)] assms(2)]) (simp add: receipt_key_def)
  then show ?thesis using assms(3)
    by (simp add: CompleteWithSteers_def Let_def run_tx_def completeTx_def Fail_def failTx_def)
qed

theorem settled_lease_not_completed_witness:
  "\<exists>r \<in> set (receipts demo_failed). r_kind r = ''fail''
     \<and> CompleteWithSteers demo_eng ''a'' ''b'' (r_job r) (r_gen r) (r_claimed r) demo_answer [] demo_failed = (demo_failed, Inl EReject)"
proof -
  have "list_ex (\<lambda>r. r_kind r = ''fail'') (receipts demo_failed)" by code_simp
  then obtain r where "r \<in> set (receipts demo_failed)" "r_kind r = ''fail''" by (auto simp: list_ex_iff)
  then show ?thesis using settled_lease_not_completed [OF demo_reachable(2), of r] by auto
qed

end
