(* ===== verification/Environments.thy ===== *)
theory Environments
  imports Plane
begin

text \<open>
  Session environments, \<^verbatim>\<open>engine/environment.go\<close>, \<^verbatim>\<open>engine/secrets.go\<close>, \<^verbatim>\<open>engine/size.go\<close> and
  \<^verbatim>\<open>store/environment.go\<close>: provisioning, sleeping, waking and replacing the environment a session's guest runs in.
  The drivers of \<^verbatim>\<open>internal/env\<close> act on processes and containers; the model takes what each call answers and keeps
  what it does to a guest that the engine relies on: which services run and which secrets it holds. Stored hook output
  and the details of receipts are left out.
\<close>

section \<open>Drivers and the plant\<close>

text \<open>What the calls on a handle answer; \<open>False\<close> is an error. \<open>dr_services\<close> and \<open>dr_keeper\<close> say whether the driver
  implements the optional interfaces; a driver without \<^verbatim>\<open>Resume\<close> has \<open>dr_resume\<close> always true.\<close>

record driver =
  dr_kind :: string
  dr_create :: "string \<Rightarrow> string option"
  dr_prepare :: "string \<Rightarrow> bool"
  dr_services :: bool
  dr_start :: "string \<Rightarrow> bool"
  dr_stop :: "string \<Rightarrow> bool"
  dr_sleep :: "string \<Rightarrow> bool"
  dr_wake :: "string \<Rightarrow> bool"
  dr_resume :: "string \<Rightarrow> bool"
  dr_keeper :: bool
  dr_put :: "string \<Rightarrow> string \<Rightarrow> bool"
  dr_delete :: "string \<Rightarrow> bool"

text \<open>The engine's configuration for environments. \<open>pc_env\<close> is whether \<^verbatim>\<open>Engine.Env\<close> is set; \<open>pc_process\<close> is what
  \<^verbatim>\<open>envDriver\<close> returns.\<close>

record plant_config =
  pc_env :: bool
  pc_process :: driver
  pc_container :: "driver option"
  pc_image :: string
  pc_hash :: "string \<Rightarrow> string \<Rightarrow> string"
  pc_secrets :: "(string \<times> string) list"
  pc_idle :: time

text \<open>The database with the tables only environments use, and the guests: \<open>pn_running\<close> are the handles whose services
  run, \<open>pn_held\<close> the secrets put into a handle.\<close>

record plant =
  pn_db :: db
  pn_terminals :: "(int \<times> time) list"
  pn_previews :: "(int \<times> time \<times> bool) list"
  pn_receipts :: "(int \<times> string \<times> string) list"
  pn_running :: "string list"
  pn_held :: "(string \<times> string) list"

definition EnvSleeping :: string where "EnvSleeping = ''sleeping''"
definition LocalEnvironmentName :: string where "LocalEnvironmentName = ''local''"
definition DefaultEnvironmentID :: int where "DefaultEnvironmentID = 1"

lemmas env_consts = EnvReady_def EnvExpired_def EnvSleeping_def

definition driverFor :: "plant_config \<Rightarrow> string \<Rightarrow> driver res" where
  "driverFor pc kind =
     (if kind = [] \<or> kind = ''process'' then Inr (pc_process pc)
      else if kind = ''container'' then
        (case pc_container pc of None \<Rightarrow> Inl (EText ''env: container driver not configured'') | Some d \<Rightarrow> Inr d)
      else Inl (EText ''env: unknown driver''))"

section \<open>Statements\<close>

definition env_of :: "db \<Rightarrow> int \<Rightarrow> env_row option" where
  "env_of db i = find (\<lambda>e. e_id e = i) (envs db)"

definition GetEnvironment :: "int \<Rightarrow> plant \<Rightarrow> env_row res" where
  "GetEnvironment i st = the_row (env_of (pn_db st) i)"

text \<open>The name and the id of a row never change.\<close>

definition UpdateEnvironment :: "env_row \<Rightarrow> plant \<Rightarrow> plant" where
  "UpdateEnvironment e st = st\<lparr>pn_db := (pn_db st)\<lparr>envs := sql_update (\<lambda>x. e_id x = e_id e)
     (\<lambda>x. e\<lparr>e_name := e_name x\<rparr>) (envs (pn_db st))\<rparr>\<rparr>"

definition InsertEnvironment :: "env_row \<Rightarrow> plant \<Rightarrow> (plant \<times> int) res" where
  "InsertEnvironment e st =
     (if e_name e \<in> e_name ` set (envs (pn_db st)) then Inl EConstraint
      else let i = next_id (map e_id (envs (pn_db st))) in
        Inr (st\<lparr>pn_db := (pn_db st)\<lparr>envs := envs (pn_db st) @ [e\<lparr>e_id := i\<rparr>]\<rparr>\<rparr>, i))"

definition InsertEnvironmentReceipt :: "int \<Rightarrow> string \<Rightarrow> string \<Rightarrow> plant \<Rightarrow> plant" where
  "InsertEnvironmentReceipt i kind state st = st\<lparr>pn_receipts := pn_receipts st @ [(i, kind, state)]\<rparr>"

definition RestoreEnvironmentReady :: "int \<Rightarrow> plant \<Rightarrow> plant" where
  "RestoreEnvironmentReady i st = st\<lparr>pn_db := (pn_db st)\<lparr>envs := sql_update
     (\<lambda>x. e_id x = i \<and> e_state x = EnvSleeping) (\<lambda>x. x\<lparr>e_state := EnvReady, e_slept := None\<rparr>) (envs (pn_db st))\<rparr>\<rparr>"

definition env_active :: "int \<Rightarrow> db \<Rightarrow> bool" where
  "env_active i db = list_ex (\<lambda>t. (t_state t = Queued \<or> t_state t = Leased)
     \<and> (case session_of db (t_session t) of None \<Rightarrow> False | Some s \<Rightarrow> s_env s = i)) (turns db)"

definition env_attached :: "int \<Rightarrow> time \<Rightarrow> plant \<Rightarrow> bool" where
  "env_attached i now st =
     (list_ex (\<lambda>(e, x). e = i \<and> \<not> stamp_le x now) (pn_terminals st)
      \<or> list_ex (\<lambda>(e, x, revoked). e = i \<and> \<not> revoked \<and> \<not> stamp_le x now) (pn_previews st))"

definition reserveEnvironmentSleep :: "int \<Rightarrow> time \<Rightarrow> time \<Rightarrow> time \<Rightarrow> plant \<Rightarrow> (plant \<times> bool) res" where
  "reserveEnvironmentSleep i now ttl idle st =
     bindE (GetEnvironment i st) (\<lambda>e.
       if e_state e \<noteq> EnvReady \<or> e_driver e = [] \<or> e_name e = LocalEnvironmentName then Inr (st, False)
       else if idle > 0 \<and> (case e_expires e of None \<Rightarrow> True | Some x \<Rightarrow> x > now + (ttl - idle)) then Inr (st, False)
       else if env_active i (pn_db st) then Inr (st, False)
       else if env_attached i now st then Inr (st, False)
       else Inr (st\<lparr>pn_db := (pn_db st)\<lparr>envs := sql_update (\<lambda>x. e_id x = i \<and> e_state x = EnvReady)
                (\<lambda>x. x\<lparr>e_state := EnvSleeping, e_slept := Some now\<rparr>) (envs (pn_db st))\<rparr>\<rparr>, True))"

definition ReserveEnvironmentSleep :: "int \<Rightarrow> time \<Rightarrow> plant \<Rightarrow> (plant \<times> bool) res" where
  "ReserveEnvironmentSleep i now = reserveEnvironmentSleep i now 0 0"

definition ReserveIdleEnvironmentSleep :: "int \<Rightarrow> time \<Rightarrow> time \<Rightarrow> time \<Rightarrow> plant \<Rightarrow> (plant \<times> bool) res" where
  "ReserveIdleEnvironmentSleep i now ttl idle st =
     (if idle \<le> 0 \<or> ttl \<le> idle then Inr (st, False) else reserveEnvironmentSleep i now ttl idle st)"

definition ListIdleContainerEnvironments :: "time \<Rightarrow> time \<Rightarrow> time \<Rightarrow> plant \<Rightarrow> env_row list" where
  "ListIdleContainerEnvironments now ttl idle st =
     (if idle \<le> 0 \<or> ttl \<le> idle then []
      else filter (\<lambda>e. e_name e \<noteq> LocalEnvironmentName \<and> e_driver e = ''container'' \<and> e_state e = EnvReady
             \<and> due (e_expires e) (now + (ttl - idle))) (envs (pn_db st)))"

definition ReplaceSessionEnvironment :: "int \<Rightarrow> int \<Rightarrow> int \<Rightarrow> plant \<Rightarrow> plant res" where
  "ReplaceSessionEnvironment sid old i st =
     (if list_ex (\<lambda>s. s_id s = sid \<and> s_env s = old) (sessions (pn_db st))
      then Inr (st\<lparr>pn_db := (pn_db st)\<lparr>sessions := sql_update (\<lambda>s. s_id s = sid \<and> s_env s = old)
                (\<lambda>s. s\<lparr>s_env := i\<rparr>) (sessions (pn_db st))\<rparr>,
             pn_receipts := pn_receipts st @ [(old, ''replace'', ''succeeded'')]\<rparr>)
      else Inl (EText ''session no longer names environment''))"

section \<open>Services, secrets, sizes\<close>

definition startServices :: "driver \<Rightarrow> string \<Rightarrow> plant \<Rightarrow> plant \<times> bool" where
  "startServices d h st =
     (if \<not> dr_services d then (st, True)
      else if dr_start d h then (st\<lparr>pn_running := List.insert h (pn_running st)\<rparr>, True)
      else (st, False))"

definition stopServices :: "driver \<Rightarrow> string \<Rightarrow> plant \<Rightarrow> plant \<times> bool" where
  "stopServices d h st =
     (if \<not> dr_services d then (st, True)
      else if dr_stop d h then (st\<lparr>pn_running := removeAll h (pn_running st)\<rparr>, True)
      else (st, False))"

definition resumeAndStart :: "driver \<Rightarrow> string \<Rightarrow> plant \<Rightarrow> plant \<times> bool" where
  "resumeAndStart d h st = (if \<not> dr_resume d h then (st, False) else startServices d h st)"

text \<open>A destroyed guest runs nothing and holds nothing.\<close>

definition destroy :: "string \<Rightarrow> plant \<Rightarrow> plant" where
  "destroy h st = st\<lparr>pn_running := removeAll h (pn_running st), pn_held := filter (\<lambda>(g, _). g \<noteq> h) (pn_held st)\<rparr>"

definition projectForSecretRepo :: "eng \<Rightarrow> string \<Rightarrow> project option" where
  "projectForSecretRepo eg repo =
     (if repo = [] then None
      else case ProjectForRepo (eg_policy eg) repo of
        Some p \<Rightarrow> Some p
      | None \<Rightarrow> (case ParseProjectKey repo of Some slug \<Rightarrow> Project (eg_policy eg) slug | None \<Rightarrow> None))"

definition GetSessionByEnvironment :: "int \<Rightarrow> db \<Rightarrow> sess_row option" where
  "GetSessionByEnvironment i db = find (\<lambda>s. s_env s = i) (sessions db)"

fun put_secrets :: "plant_config \<Rightarrow> driver \<Rightarrow> env_row \<Rightarrow> string list \<Rightarrow> plant \<Rightarrow> plant \<times> unit res" where
  "put_secrets pc d e [] st = (st, Inr ())"
| "put_secrets pc d e (k # ids) st =
     (case map_of (pc_secrets pc) k of
        None \<Rightarrow> put_secrets pc d e ids st
      | Some v \<Rightarrow>
          if v = [] then put_secrets pc d e ids st
          else if \<not> dr_put d (e_handle e) k then (st, Inl (EText ''put secret''))
          else put_secrets pc d e ids (InsertEnvironmentReceipt (e_id e) ''secret'' ''succeeded''
                 (st\<lparr>pn_held := pn_held st @ [(e_handle e, k)]\<rparr>)))"

definition injectSecrets :: "plant_config \<Rightarrow> eng \<Rightarrow> env_row \<Rightarrow> string \<Rightarrow> plant \<Rightarrow> plant \<times> unit res" where
  "injectSecrets pc eg e repo st =
     (if e_handle e = [] then (st, Inr ())
      else let repo = (if repo = [] then (case GetSessionByEnvironment (e_id e) (pn_db st) of
                          Some s \<Rightarrow> s_repo s | None \<Rightarrow> []) else repo)
      in case projectForSecretRepo eg repo of
           None \<Rightarrow> (st, Inr ())
         | Some p \<Rightarrow>
             (case checkRequestedSecrets eg p of
                Inl x \<Rightarrow> (st, Inl x)
              | Inr _ \<Rightarrow>
                  (case driverFor pc (e_driver e) of
                     Inl x \<Rightarrow> (st, Inl x)
                   | Inr d \<Rightarrow>
                       if \<not> dr_keeper d then (st, Inr ())
                       else put_secrets pc d e (if eg_requested eg \<noteq> [] then eg_requested eg else pr_secrets p) st)))"

definition stripSecrets :: "plant_config \<Rightarrow> env_row \<Rightarrow> plant \<Rightarrow> plant \<times> unit res" where
  "stripSecrets pc e st =
     (if e_handle e = [] then (st, Inr ())
      else case driverFor pc (e_driver e) of
        Inl x \<Rightarrow> (st, Inl x)
      | Inr d \<Rightarrow>
          if \<not> dr_keeper d then (st, Inr ())
          else if dr_delete d (e_handle e) then (st\<lparr>pn_held := filter (\<lambda>(g, _). g \<noteq> e_handle e) (pn_held st)\<rparr>, Inr ())
          else (st, Inl (EText ''delete secrets'')))"

text \<open>The CPU in millicores and the memory in bytes.\<close>

definition SizeLimits :: "string \<Rightarrow> int \<times> int" where
  "SizeLimits name =
     (let n = NormalizeSize name in
      if n = ''small'' then (1000, 2 * 2 ^ 30) else if n = ''large'' then (4000, 8 * 2 ^ 30) else (2000, 4 * 2 ^ 30))"

definition SessionSize :: "eng \<Rightarrow> sess_row \<Rightarrow> string" where
  "SessionSize eg s =
     (if s_size s \<noteq> [] \<and> NormalizeSize (s_size s) \<noteq> [] then NormalizeSize (s_size s)
      else case Project (eg_policy eg) (s_project s) of
        Some p \<Rightarrow> (if pr_size p \<noteq> [] then NormalizeSize (pr_size p) else
          (case ProjectForRepo (eg_policy eg) (s_repo s) of
             Some q \<Rightarrow> if pr_size q \<noteq> [] then NormalizeSize (pr_size q) else ''medium'' | None \<Rightarrow> ''medium''))
      | None \<Rightarrow>
          (case ProjectForRepo (eg_policy eg) (s_repo s) of
             Some q \<Rightarrow> if pr_size q \<noteq> [] then NormalizeSize (pr_size q) else ''medium'' | None \<Rightarrow> ''medium''))"

section \<open>Sleeping\<close>

definition failSleep :: "env_row \<Rightarrow> bool \<Rightarrow> plant \<Rightarrow> plant \<times> env_row res" where
  "failSleep e recovered st =
     (InsertEnvironmentReceipt (e_id e) ''sleep'' ''failed'' (if recovered then RestoreEnvironmentReady (e_id e) st else st),
      Inl (EText ''sleeping failed''))"

definition recover_sleep :: "plant_config \<Rightarrow> eng \<Rightarrow> driver \<Rightarrow> env_row \<Rightarrow> plant \<Rightarrow> plant \<times> bool" where
  "recover_sleep pc eg d e st =
     (if \<not> dr_wake d (e_handle e) then (st, False)
      else case resumeAndStart d (e_handle e) st of (st, ok) \<Rightarrow>
        if \<not> ok then (st, False)
        else case injectSecrets pc eg e [] st of (st, r) \<Rightarrow> (st, r = Inr ()))"

definition sleepReservedEnvironment :: "plant_config \<Rightarrow> eng \<Rightarrow> env_row \<Rightarrow> plant \<Rightarrow> plant \<times> env_row res" where
  "sleepReservedEnvironment pc eg row st =
     (case GetEnvironment (e_id row) st of
        Inl _ \<Rightarrow> failSleep row True st
      | Inr e \<Rightarrow>
     if e_state e \<noteq> EnvSleeping then (st, Inl (EText ''env: sleep reservation lost''))
     else case driverFor pc (e_driver e) of
        Inl _ \<Rightarrow> failSleep e True st
      | Inr d \<Rightarrow>
     (case stopServices d (e_handle e) st of (st, stopped) \<Rightarrow>
        if \<not> stopped then (case startServices d (e_handle e) st of (st, ok) \<Rightarrow> failSleep e ok st)
        else case stripSecrets pc e st of
          (st, Inl _) \<Rightarrow> failSleep e True st
        | (st, Inr _) \<Rightarrow>
            if \<not> dr_sleep d (e_handle e) then (case recover_sleep pc eg d e st of (st, ok) \<Rightarrow> failSleep e ok st)
            else let e = e\<lparr>e_state := EnvSleeping, e_slept := Some (eg_now eg)\<rparr>
                 in (InsertEnvironmentReceipt (e_id e) ''sleep'' ''succeeded'' (UpdateEnvironment e st), Inr e)))"

definition EBusy :: err where "EBusy = EText ''environment is busy''"

definition SleepEnvironment :: "plant_config \<Rightarrow> eng \<Rightarrow> int \<Rightarrow> plant \<Rightarrow> plant \<times> env_row res" where
  "SleepEnvironment pc eg i st =
     (if i \<in> set (eg_busy eg) then (st, Inl EBusy)
      else case GetEnvironment i st of
        Inl x \<Rightarrow> (st, Inl x)
      | Inr e \<Rightarrow>
          if e_name e = LocalEnvironmentName then (st, Inl (EText ''env: local environment is not slept''))
          else if e_state e \<noteq> EnvReady then (st, Inl (EText ''env: sleep requires ready''))
          else case ReserveEnvironmentSleep i (eg_now eg) st of
            Inl x \<Rightarrow> (st, Inl x)
          | Inr (st, reserved) \<Rightarrow> if \<not> reserved then (st, Inl EBusy) else sleepReservedEnvironment pc eg e st)"

definition sleepIdleEnvironment :: "plant_config \<Rightarrow> eng \<Rightarrow> env_row \<Rightarrow> plant \<Rightarrow> plant \<times> env_row res" where
  "sleepIdleEnvironment pc eg e st =
     (if e_id e \<in> set (eg_busy eg) then (st, Inl EBusy)
      else case ReserveIdleEnvironmentSleep (e_id e) (eg_now eg) (envTTL eg) (pc_idle pc) st of
        Inl x \<Rightarrow> (st, Inl x)
      | Inr (st, reserved) \<Rightarrow> if \<not> reserved then (st, Inl EBusy) else sleepReservedEnvironment pc eg e st)"

text \<open>Every idle environment is tried; errors are collected.\<close>

definition SleepIdleEnvironments :: "plant_config \<Rightarrow> eng \<Rightarrow> plant \<Rightarrow> plant \<times> err list" where
  "SleepIdleEnvironments pc eg st =
     (if pc_idle pc \<le> 0 then (st, [])
      else fold (\<lambda>e (st, errs). case sleepIdleEnvironment pc eg e st of
                   (st, Inl x) \<Rightarrow> (st, if x = EBusy then errs else errs @ [x])
                 | (st, Inr _) \<Rightarrow> (st, errs))
             (ListIdleContainerEnvironments (eg_now eg) (envTTL eg) (pc_idle pc) st) (st, []))"

section \<open>Waking\<close>

definition rollbackWake :: "driver \<Rightarrow> string \<Rightarrow> plant \<Rightarrow> plant" where
  "rollbackWake d h st = fst (stopServices d h st)"

definition failWake :: "env_row \<Rightarrow> plant \<Rightarrow> plant \<times> env_row res" where
  "failWake e st = (InsertEnvironmentReceipt (e_id e) ''wake'' ''failed'' st, Inl (EText ''wake failed in sleeping state''))"

definition wakeEnvironment :: "plant_config \<Rightarrow> eng \<Rightarrow> int \<Rightarrow> plant \<Rightarrow> plant \<times> env_row res" where
  "wakeEnvironment pc eg i st =
     (if i \<in> set (eg_busy eg) then (st, Inl EBusy)
      else case GetEnvironment i st of
        Inl x \<Rightarrow> (st, Inl x)
      | Inr e \<Rightarrow>
     if e_state e = EnvExpired then (st, Inl (EText ''env: expired''))
     else if e_state e \<noteq> EnvSleeping then (st, Inl (EText ''env: wake requires sleeping''))
     else case driverFor pc (e_driver e) of
        Inl _ \<Rightarrow> failWake e st
      | Inr d \<Rightarrow>
     if \<not> dr_wake d (e_handle e) then failWake e (rollbackWake d (e_handle e) st)
     else case resumeAndStart d (e_handle e) st of (st, ok) \<Rightarrow>
     if \<not> ok then failWake e (rollbackWake d (e_handle e) st)
     else case injectSecrets pc eg e [] st of
       (st, Inl _) \<Rightarrow> failWake e (rollbackWake d (e_handle e) (fst (stripSecrets pc e st)))
     | (st, Inr _) \<Rightarrow>
         let e = e\<lparr>e_state := EnvReady, e_slept := None, e_expires := Some (eg_now eg + envTTL eg)\<rparr>
         in (InsertEnvironmentReceipt (e_id e) ''wake'' ''succeeded'' (UpdateEnvironment e st), Inr e))"

section \<open>Provisioning and replacing\<close>

definition prepareWorkspace :: "driver \<Rightarrow> string \<Rightarrow> string \<Rightarrow> bool" where
  "prepareWorkspace d h repo = (IsProjectKey repo \<or> dr_prepare d h)"

record env_spec =
  sp_name :: string
  sp_kind :: string
  sp_hash :: string
  sp_repo :: string

definition ProvisionEnvironment :: "plant_config \<Rightarrow> eng \<Rightarrow> env_spec \<Rightarrow> plant \<Rightarrow> plant \<times> env_row res" where
  "ProvisionEnvironment pc eg sp st =
     (if sp_name sp = [] \<or> sp_name sp = LocalEnvironmentName then (st, Inl (EText ''env: name reserved''))
      else case driverFor pc (sp_kind sp) of
        Inl x \<Rightarrow> (st, Inl x)
      | Inr d \<Rightarrow>
     (case dr_create d (sp_name sp) of
        None \<Rightarrow> (st, Inl (EText ''create''))
      | Some h \<Rightarrow>
     if \<not> prepareWorkspace d h (sp_repo sp) then (destroy h st, Inl (EText ''prepare''))
     else case startServices d h st of (st, ok) \<Rightarrow>
     if \<not> ok then (destroy h st, Inl (EText ''services''))
     else let e = \<lparr>e_id = 0, e_name = sp_name sp, e_driver = dr_kind d, e_state = EnvReady, e_handle = h,
                   e_source = sp_hash sp, e_expires = Some (eg_now eg + envTTL eg), e_slept = None\<rparr>
          in case InsertEnvironment e st of
               Inl x \<Rightarrow> (destroy h st, Inl x)
             | Inr (st, i) \<Rightarrow> (st, GetEnvironment i st)))"

definition replaceSessionEnvironment :: "plant_config \<Rightarrow> eng \<Rightarrow> int \<Rightarrow> env_row \<Rightarrow> env_spec \<Rightarrow> plant \<Rightarrow> plant \<times> unit res" where
  "replaceSessionEnvironment pc eg sid old sp st =
     (case ProvisionEnvironment pc eg sp st of
        (st, Inl x) \<Rightarrow> (st, Inl x)
      | (st, Inr e) \<Rightarrow>
          (case ReplaceSessionEnvironment sid (e_id old) (e_id e) st of
             Inl x \<Rightarrow>
               (let st = (case driverFor pc (e_driver e) of Inl _ \<Rightarrow> st
                   | Inr d \<Rightarrow> destroy (e_handle e) (fst (stopServices d (e_handle e) st)))
                in (UpdateEnvironment (e\<lparr>e_state := EnvExpired, e_handle := []\<rparr>) st, Inl x))
           | Inr st \<Rightarrow> injectSecrets pc eg e (sp_repo sp) st))"

text \<open>\<^verbatim>\<open>strconv.ParseUint(s, 10, 64)\<close> succeeds.\<close>

definition digit_value :: "char \<Rightarrow> int" where
  "digit_value c = of_char c - 48"

definition is_uint64 :: "string \<Rightarrow> bool" where
  "is_uint64 s = (s \<noteq> [] \<and> list_all (\<lambda>c. 48 \<le> (of_char c :: nat) \<and> (of_char c :: nat) \<le> 57) s
     \<and> foldl (\<lambda>n c. 10 * n + digit_value c) 0 s < 2 ^ 64)"

text \<open>The text before and after the last \<^verbatim>\<open>-r\<close>.\<close>

fun split_last_r :: "string \<Rightarrow> (string \<times> string) option" where
  "split_last_r [] = None"
| "split_last_r (c # s) =
     (case split_last_r s of
        Some (a, b) \<Rightarrow> Some (c # a, b)
      | None \<Rightarrow> if c = CHR ''-'' \<and> has_prefix s ''r'' then Some ([], tl s) else None)"

definition replacementName :: "string \<Rightarrow> int \<Rightarrow> string" where
  "replacementName name i =
     ((case split_last_r name of
         Some (a, b) \<Rightarrow> if a \<noteq> [] \<and> is_uint64 b then a else name
       | None \<Rightarrow> name) @ ''-r'' @ show_int i)"

definition SessionGuest :: "eng \<Rightarrow> int \<Rightarrow> db \<Rightarrow> db \<times> (string \<times> entry) res" where
  "SessionGuest eg sid db =
     (case GetSessionTx sid db of
        Inl x \<Rightarrow> (db, Inl x)
      | Inr s \<Rightarrow>
          let project = (if s_project s \<noteq> [] then s_project s
                else case ProjectForRepo (eg_policy eg) (s_repo s) of Some p \<Rightarrow> pr_slug p | None \<Rightarrow> [])
          in run_tx (bindSessionGuestTx eg sid project []) db)"

definition create_in_place :: "plant_config \<Rightarrow> eng \<Rightarrow> string \<Rightarrow> env_row \<Rightarrow> string \<Rightarrow> string \<Rightarrow> plant \<Rightarrow> plant \<times> unit res" where
  "create_in_place pc eg kind e repo hash st =
     (case driverFor pc kind of
        Inl x \<Rightarrow> (st, Inl x)
      | Inr d \<Rightarrow>
     (case dr_create d (e_name e) of
        None \<Rightarrow> (st, Inl (EText ''create''))
      | Some h \<Rightarrow>
     if \<not> prepareWorkspace d h repo then (destroy h st, Inl (EText ''prepare''))
     else case startServices d h st of (st, ok) \<Rightarrow>
     if \<not> ok then (destroy h st, Inl (EText ''services''))
     else let e = e\<lparr>e_driver := dr_kind d, e_state := EnvReady, e_handle := h, e_source := hash,
                   e_expires := Some (eg_now eg + envTTL eg)\<rparr>
          in case injectSecrets pc eg e repo st of
               (st, Inl x) \<Rightarrow> (destroy h (fst (stopServices d h (fst (stripSecrets pc e st)))), Inl x)
             | (st, Inr _) \<Rightarrow> (UpdateEnvironment e st, Inr ())))"

text \<open>The cases of \<^verbatim>\<open>EnsureSessionEnvironment\<close> once the session's row and the source hash are known.\<close>

definition ensure_env :: "plant_config \<Rightarrow> eng \<Rightarrow> sess_row \<Rightarrow> item \<Rightarrow> string \<Rightarrow> env_row \<Rightarrow> plant \<Rightarrow> plant \<times> unit res" where
  "ensure_env pc eg s it hash e st =
     (let kind = (if pc_container pc \<noteq> None then ''container'' else ''process'');
          sp = (\<lambda>name. \<lparr>sp_name = name, sp_kind = kind, sp_hash = hash, sp_repo = it_repo it\<rparr>)
      in if e_handle e \<noteq> [] \<and> e_source e = hash then
           (if e_state e = EnvSleeping then
              (case wakeEnvironment pc eg (e_id e) st of (st, r) \<Rightarrow> (st, bindE r (\<lambda>_. Inr ())))
            else if e_state e \<noteq> EnvReady then (st, Inl (EText ''env: session environment''))
            else case injectSecrets pc eg e (it_repo it) st of
              (st, Inl x) \<Rightarrow> (st, Inl x)
            | (st, Inr _) \<Rightarrow> (UpdateEnvironment (e\<lparr>e_expires := Some (eg_now eg + envTTL eg)\<rparr>) st, Inr ()))
         else if e_handle e \<noteq> [] then
           (case driverFor pc (e_driver e) of
              Inl x \<Rightarrow> (st, Inl x)
            | Inr d \<Rightarrow>
                let st = destroy (e_handle e) (fst (stopServices d (e_handle e) st));
                    e = e\<lparr>e_state := EnvExpired, e_handle := []\<rparr>;
                    st = InsertEnvironmentReceipt (e_id e) ''expire'' ''succeeded'' (UpdateEnvironment e st)
                in replaceSessionEnvironment pc eg (s_id s) e (sp (e_name e @ ''-'' @ take 12 (GitPin it))) st)
         else if e_state e = EnvExpired then
           replaceSessionEnvironment pc eg (s_id s) e (sp (replacementName (e_name e) (e_id e))) st
         else create_in_place pc eg kind e (it_repo it) hash st)"

definition EnsureSessionEnvironment :: "plant_config \<Rightarrow> eng \<Rightarrow> int \<Rightarrow> item \<Rightarrow> plant \<Rightarrow> plant \<times> unit res" where
  "EnsureSessionEnvironment pc eg tid it st =
     (if pc_container pc = None \<and> \<not> pc_env pc then (st, Inr ())
      else if GitPin it = [] \<and> \<not> IsProjectKey (it_repo it) then (st, Inr ())
      else case bindE (GetTurnTx tid (pn_db st)) (\<lambda>t. GetSessionTx (t_session t) (pn_db st)) of
        Inl x \<Rightarrow> (st, Inl x)
      | Inr s \<Rightarrow>
     if s_archived s then (st, Inl EArchived)
     else if s_env s = DefaultEnvironmentID then (st, Inr ())
     else case GetEnvironment (s_env s) st of
        Inl x \<Rightarrow> (st, Inl x)
      | Inr e \<Rightarrow>
     (case SessionGuest eg (s_id s) (pn_db st) of
        (db, Inl x) \<Rightarrow> (st\<lparr>pn_db := db\<rparr>, Inl x)
      | (db, Inr (_, entry)) \<Rightarrow>
          let image = (if en_image entry = [] then pc_image pc else en_image entry)
          in ensure_env pc eg s it (pc_hash pc image (GitPin it)) e (st\<lparr>pn_db := db\<rparr>)))"

end
