(* ===== verification/Plant.thy ===== *)
theory Plant
  imports Environments
begin

text \<open>
  What the environment operations keep. Acting on a guest changes no table (\<open>guest_only\<close>); the other steps change
  environment rows, and a row that has expired is final (\<open>finished\<close>).
\<close>

section \<open>Acting on a guest\<close>

definition guest_only :: "plant \<Rightarrow> plant \<Rightarrow> bool" where
  "guest_only st st' = (pn_db st' = pn_db st \<and> pn_terminals st' = pn_terminals st \<and> pn_previews st' = pn_previews st)"

lemma guest_only_refl [simp]: "guest_only st st"
  by (simp add: guest_only_def)

lemma guest_only_trans: "guest_only a b \<Longrightarrow> guest_only b c \<Longrightarrow> guest_only a c"
  by (simp add: guest_only_def)

lemma guest_only_upd [simp]:
  "guest_only a (st\<lparr>pn_running := x\<rparr>) = guest_only a st"
  "guest_only a (st\<lparr>pn_held := y\<rparr>) = guest_only a st"
  "guest_only a (st\<lparr>pn_receipts := z\<rparr>) = guest_only a st"
  "guest_only a (InsertEnvironmentReceipt i kind state st) = guest_only a st"
  "guest_only a (destroy h st) = guest_only a st"
  by (simp_all add: guest_only_def InsertEnvironmentReceipt_def destroy_def)

lemma startServices_guest [simp]: "guest_only a (fst (startServices d h st)) = guest_only a st"
  by (simp add: startServices_def)

lemma stopServices_guest [simp]: "guest_only a (fst (stopServices d h st)) = guest_only a st"
  by (simp add: stopServices_def)

lemma resumeAndStart_guest [simp]: "guest_only a (fst (resumeAndStart d h st)) = guest_only a st"
  by (simp add: resumeAndStart_def)

lemma stripSecrets_guest [simp]: "guest_only a (fst (stripSecrets pc e st)) = guest_only a st"
  by (simp add: stripSecrets_def split: sum.splits)

lemma put_secrets_guest [simp]: "guest_only a (fst (put_secrets pc d e ids st)) = guest_only a st"
  by (induction pc d e ids st rule: put_secrets.induct) (simp_all split: option.splits)

lemma injectSecrets_guest [simp]: "guest_only a (fst (injectSecrets pc eg e repo st)) = guest_only a st"
  by (simp add: injectSecrets_def Let_def split: option.splits sum.splits)

lemma recover_sleep_guest [simp]: "guest_only a (fst (recover_sleep pc eg d e st)) = guest_only a st"
  by (simp add: recover_sleep_def split_beta)

lemma rollbackWake_guest [simp]: "guest_only a (rollbackWake d h st) = guest_only a st"
  by (simp add: rollbackWake_def)

lemma failWake_guest [simp]: "guest_only a (fst (failWake e st)) = guest_only a st"
  by (simp add: failWake_def)

lemma wake_failure_guest: "snd (wakeEnvironment pc eg i st) = Inl x \<Longrightarrow> guest_only st (fst (wakeEnvironment pc eg i st))"
  unfolding wakeEnvironment_def
  by (auto simp: Let_def split_beta split: sum.splits if_splits)

section \<open>Environment rows\<close>

text \<open>Row ids are distinct and an expired row has no handle.\<close>

definition env_ok :: "plant \<Rightarrow> bool" where
  "env_ok st = (distinct (map e_id (envs (pn_db st)))
     \<and> (\<forall>e \<in> set (envs (pn_db st)). e_state e = EnvExpired \<longrightarrow> e_handle e = []))"

text \<open>From \<open>st\<close> to \<open>st'\<close> no expired row changed, and the rest of the store that leases depend on is the same.\<close>

definition finished :: "plant \<Rightarrow> plant \<Rightarrow> bool" where
  "finished st st' = (env_ok st' \<and> core (pn_db st') = core (pn_db st)
     \<and> (\<forall>i e. env_of (pn_db st) i = Some e \<and> e_state e = EnvExpired \<longrightarrow> env_of (pn_db st') i = Some e))"

lemma finished_refl: "env_ok st \<Longrightarrow> finished st st"
  by (simp add: finished_def)

lemma finished_trans: "finished a b \<Longrightarrow> finished b c \<Longrightarrow> finished a c"
  by (auto simp: finished_def)

lemma finished_guest: "env_ok st \<Longrightarrow> guest_only st st' \<Longrightarrow> finished st st'"
  by (simp add: finished_def guest_only_def env_ok_def)

lemma env_of_iff: "distinct (map e_id (envs db)) \<Longrightarrow> env_of db i = Some e \<longleftrightarrow> e \<in> set (envs db) \<and> e_id e = i"
  unfolding env_of_def by (rule find_key_iff)

lemma env_of_mem: "env_of db i = Some e \<Longrightarrow> e \<in> set (envs db) \<and> e_id e = i"
  unfolding env_of_def using find_Some_in by fastforce

text \<open>Writing rows that are not expired keeps the expired ones.\<close>

lemma finished_update:
  assumes ok: "env_ok st"
    and id: "\<And>x. P x \<Longrightarrow> e_id (f x) = e_id x"
    and live: "\<And>x. x \<in> set (envs (pn_db st)) \<Longrightarrow> P x \<Longrightarrow> e_state x \<noteq> EnvExpired"
    and gone: "\<And>x. x \<in> set (envs (pn_db st)) \<Longrightarrow> P x \<Longrightarrow> e_state (f x) = EnvExpired \<Longrightarrow> e_handle (f x) = []"
  shows "finished st (st\<lparr>pn_db := (pn_db st)\<lparr>envs := sql_update P f (envs (pn_db st))\<rparr>\<rparr>)"
proof -
  let ?es = "sql_update P f (envs (pn_db st))"
  have ids: "map e_id ?es = map e_id (envs (pn_db st))" using id by (simp add: sql_update_def)
  have mem: "x \<in> set ?es \<longleftrightarrow> (\<exists>y \<in> set (envs (pn_db st)). x = (if P y then f y else y))" for x
    by (auto simp: sql_update_def)
  have "env_ok (st\<lparr>pn_db := (pn_db st)\<lparr>envs := ?es\<rparr>\<rparr>)"
    using ok ids gone by (auto simp: env_ok_def mem)
  moreover have "e \<in> set ?es" if "e \<in> set (envs (pn_db st))" "e_state e = EnvExpired" for e
    unfolding mem using that live by force
  ultimately show ?thesis
    using ok ids by (auto simp: finished_def core_def env_ok_def env_of_iff dest!: env_of_mem)
qed

lemma finished_UpdateEnvironment:
  assumes "env_ok st" "env_of (pn_db st) (e_id e) = Some x" "e_state x \<noteq> EnvExpired"
    "e_state e = EnvExpired \<Longrightarrow> e_handle e = []"
  shows "finished st (UpdateEnvironment e st)"
  unfolding UpdateEnvironment_def
proof (rule finished_update)
  fix y assume "y \<in> set (envs (pn_db st))" "e_id y = e_id e"
  then have "env_of (pn_db st) (e_id e) = Some y" using assms(1) by (simp add: env_ok_def env_of_iff)
  then have "y = x" using assms(2) by simp
  then show "e_state y \<noteq> EnvExpired" using assms(3) by simp
qed (use assms in auto)

lemma finished_InsertEnvironment:
  assumes ok: "env_ok st" and i: "InsertEnvironment e st = Inr (st', i)" and "e_state e \<noteq> EnvExpired"
  shows "finished st st'"
proof -
  have st': "st' = st\<lparr>pn_db := (pn_db st)\<lparr>envs := envs (pn_db st) @ [e\<lparr>e_id := i\<rparr>]\<rparr>\<rparr>"
    and fresh: "i \<notin> set (map e_id (envs (pn_db st)))"
    using i by (auto simp: InsertEnvironment_def Let_def split: if_splits simp del: set_map)
  then have "env_ok st'" using ok assms(3) by (auto simp: env_ok_def)
  then show ?thesis using ok by (auto simp: finished_def core_def env_ok_def env_of_iff st' dest!: env_of_mem)
qed

lemma finished_receipt [simp]:
  "finished a (InsertEnvironmentReceipt i kind state st) = finished a st"
  "env_ok (InsertEnvironmentReceipt i kind state st) = env_ok st"
  by (simp_all add: finished_def env_ok_def InsertEnvironmentReceipt_def)

lemma finished_Restore: "env_ok st \<Longrightarrow> finished st (RestoreEnvironmentReady i st)"
  unfolding RestoreEnvironmentReady_def by (rule finished_update) (auto simp: env_consts)

lemma finished_then: "finished a b \<Longrightarrow> (env_ok b \<Longrightarrow> finished b c) \<Longrightarrow> finished a c"
  using finished_trans by (auto simp: finished_def)

lemma finished_failSleep: "env_ok st \<Longrightarrow> finished st (fst (failSleep e recovered st))"
  by (simp add: failSleep_def finished_Restore finished_refl)

section \<open>Every operation\<close>

lemma GetEnvironment_Inr: "GetEnvironment i st = Inr e \<longleftrightarrow> env_of (pn_db st) i = Some e"
  by (simp add: GetEnvironment_def the_row_def split: option.splits)

lemma guest_env_ok: "guest_only st st' \<Longrightarrow> env_ok st' = env_ok st"
  by (simp add: guest_only_def env_ok_def)

lemma guest_env_of: "guest_only st st' \<Longrightarrow> env_of (pn_db st') i = env_of (pn_db st) i"
  by (simp add: guest_only_def)

lemma finished_reserve:
  assumes "env_ok st" "reserveEnvironmentSleep i now ttl idle st = Inr (st', b)"
  shows "finished st st'"
proof (cases b)
  case False
  then show ?thesis using assms by (auto simp: reserveEnvironmentSleep_def bindE_eq_Inr finished_refl split: if_splits)
next
  case True
  then have "st' = st\<lparr>pn_db := (pn_db st)\<lparr>envs := sql_update (\<lambda>x. e_id x = i \<and> e_state x = EnvReady)
                (\<lambda>x. x\<lparr>e_state := EnvSleeping, e_slept := Some now\<rparr>) (envs (pn_db st))\<rparr>\<rparr>"
    using assms(2) by (auto simp: reserveEnvironmentSleep_def bindE_eq_Inr split: if_splits)
  then show ?thesis by (simp only:) (rule finished_update [OF assms(1)], auto simp: env_consts)
qed

text \<open>Writing a row that was read before guests were acted on.\<close>

lemma finished_write:
  assumes "env_ok st" "guest_only st st'" "env_of (pn_db st) (e_id e) = Some x" "e_state x \<noteq> EnvExpired"
    "e_state e = EnvExpired \<Longrightarrow> e_handle e = []"
  shows "finished st (UpdateEnvironment e st')"
proof (rule finished_trans [OF finished_guest [OF assms(1,2)]])
  show "finished st' (UpdateEnvironment e st')"
    using assms by (intro finished_UpdateEnvironment [of st' e x]) (auto simp: guest_env_ok guest_env_of)
qed

lemma finished_sleepReserved: "env_ok st \<Longrightarrow> finished st (fst (sleepReservedEnvironment pc eg row st))"
proof -
  assume ok: "env_ok st"
  have fail: "finished st (fst (failSleep e r st'))" if "guest_only st st'" for e r st'
    using finished_trans [OF finished_guest [OF ok that] finished_failSleep] ok that by (simp add: guest_env_ok)
  have wr: "finished st (UpdateEnvironment (x\<lparr>e_state := EnvSleeping, e_slept := Some (eg_now eg)\<rparr>) st')"
    if "guest_only st st'" "env_of (pn_db st) (e_id row) = Some x" "e_state x = EnvSleeping" for x st'
    using that env_of_mem [OF that(2)] by (intro finished_write [OF ok that(1), of _ x]) (auto simp: env_consts)
  show ?thesis unfolding sleepReservedEnvironment_def
    by (auto simp: split_beta Let_def GetEnvironment_Inr ok finished_refl intro!: fail wr split: sum.splits)
qed

lemma finished_wake: "env_ok st \<Longrightarrow> finished st (fst (wakeEnvironment pc eg i st))"
proof -
  assume ok: "env_ok st"
  have fail: "finished st (fst (failWake e st'))" if "guest_only st st'" for e st'
    using that ok by (intro finished_guest) simp_all
  have wr: "finished st (UpdateEnvironment (x\<lparr>e_state := EnvReady, e_slept := None, e_expires := z\<rparr>) st')"
    if "guest_only st st'" "env_of (pn_db st) i = Some x" "e_state x = EnvSleeping" for x st' z
    using that env_of_mem [OF that(2)] by (intro finished_write [OF ok that(1), of _ x]) (auto simp: env_consts)
  show ?thesis unfolding wakeEnvironment_def
    by (auto simp: split_beta Let_def GetEnvironment_Inr ok finished_refl intro!: fail wr split: sum.splits)
qed

lemma finished_sleep: "env_ok st \<Longrightarrow> finished st (fst (SleepEnvironment pc eg i st))"
  unfolding SleepEnvironment_def ReserveEnvironmentSleep_def
  by (auto simp: split_beta finished_refl split: sum.splits
      intro: finished_then [OF finished_reserve finished_sleepReserved] finished_reserve)

lemma finished_idle: "env_ok st \<Longrightarrow> finished st (fst (sleepIdleEnvironment pc eg e st))"
  unfolding sleepIdleEnvironment_def ReserveIdleEnvironmentSleep_def
  by (auto simp: split_beta finished_refl split: sum.splits if_splits
      intro: finished_then [OF finished_reserve finished_sleepReserved] finished_reserve)

lemma finished_idle_all: "env_ok st \<Longrightarrow> finished st (fst (SleepIdleEnvironments pc eg st))"
proof -
  assume ok: "env_ok st"
  let ?f = "\<lambda>e (st, errs). case sleepIdleEnvironment pc eg e st of
      (st, Inl x) \<Rightarrow> (st, if x = EBusy then errs else errs @ [x]) | (st, Inr _) \<Rightarrow> (st, errs)"
  have step: "fst (?f e (s, errs)) = fst (sleepIdleEnvironment pc eg e s)" for e s errs
    by (simp add: split_beta split: sum.splits)
  have "finished st (fst a) \<Longrightarrow> finished st (fst (fold ?f es a))" for es a
  proof (induction es arbitrary: a)
    case (Cons e es)
    have "finished st (fst (?f e (fst a, snd a)))"
      unfolding step by (rule finished_then [OF Cons.prems finished_idle])
    then show ?case using Cons.IH [of "?f e a"] by simp
  qed simp
  from this [of "(st, [])"] show ?thesis using ok by (simp add: SleepIdleEnvironments_def finished_refl)
qed

lemma ProvisionEnvironment_cases:
  assumes ok: "env_ok st"
  shows "finished st (fst (ProvisionEnvironment pc eg sp st))
    \<and> (\<forall>e. snd (ProvisionEnvironment pc eg sp st) = Inr e \<longrightarrow>
         env_of (pn_db (fst (ProvisionEnvironment pc eg sp st))) (e_id e) = Some e \<and> e_state e \<noteq> EnvExpired)"
proof -
  have g: "finished st st'" if "guest_only st st'" for st' by (rule finished_guest [OF ok that])
  have ins: "finished st st2 \<and> (\<forall>e. GetEnvironment i st2 = Inr e \<longrightarrow> env_of (pn_db st2) (e_id e) = Some e \<and> e_state e \<noteq> EnvExpired)"
    if q: "guest_only st st1" "InsertEnvironment x st1 = Inr (st2, i)" "e_state x = EnvReady" for st1 st2 i x
  proof -
    have o1: "env_ok st1" using ok q(1) by (simp add: guest_env_ok)
    have f: "finished st st2"
      using finished_trans [OF g [OF q(1)] finished_InsertEnvironment [OF o1 q(2)]] q(3) by (simp add: env_consts)
    have st2: "envs (pn_db st2) = envs (pn_db st1) @ [x\<lparr>e_id := i\<rparr>]" and fr: "i \<notin> e_id ` set (envs (pn_db st1))"
      using q(2) by (auto simp: InsertEnvironment_def Let_def simp flip: set_map split: if_splits)
    have "env_of (pn_db st2) i = Some (x\<lparr>e_id := i\<rparr>)"
      using f st2 by (simp add: finished_def env_ok_def env_of_iff)
    then show ?thesis using f q(3) by (auto simp: GetEnvironment_Inr env_consts)
  qed
  show ?thesis
    unfolding ProvisionEnvironment_def
    by (auto simp: split_beta Let_def ok finished_refl intro: g dest!: ins [rotated] split: sum.splits option.splits)
qed

lemma finished_ReplaceSession:
  "env_ok st \<Longrightarrow> ReplaceSessionEnvironment sid old i st = Inr st' \<Longrightarrow> finished st st' \<and> envs (pn_db st') = envs (pn_db st)"
  by (auto simp: ReplaceSessionEnvironment_def finished_def env_ok_def env_of_def core_def sql_update_def skey_def split: if_splits)

lemma finished_replace: "env_ok st \<Longrightarrow> finished st (fst (replaceSessionEnvironment pc eg sid old sp st))"
proof -
  assume ok: "env_ok st"
  obtain s1 r where p: "ProvisionEnvironment pc eg sp st = (s1, r)" by (cases "ProvisionEnvironment pc eg sp st")
  have f1: "finished st s1" and new: "\<And>e. r = Inr e \<Longrightarrow> env_of (pn_db s1) (e_id e) = Some e \<and> e_state e \<noteq> EnvExpired"
    using ProvisionEnvironment_cases [OF ok, of pc eg sp] p by auto
  have ok1: "env_ok s1" using f1 by (simp add: finished_def)
  have undo: "finished s1 (UpdateEnvironment (e\<lparr>e_state := EnvExpired, e_handle := []\<rparr>) s2)"
    if "r = Inr e" "guest_only s1 s2" for e s2
    using new [OF that(1)] by (intro finished_write [OF ok1 that(2), of _ e]) auto
  have inj: "finished s1 (fst (injectSecrets pc eg e repo s2))"
    if "ReplaceSessionEnvironment sid (e_id old) (e_id e) s1 = Inr s2" for e s2 repo
    using finished_ReplaceSession [OF ok1 that] finished_then finished_guest by (metis guest_only_refl injectSecrets_guest)
  have "finished s1 (fst (replaceSessionEnvironment pc eg sid old sp st))"
    unfolding replaceSessionEnvironment_def p
    by (auto simp: Let_def ok1 finished_refl intro!: undo inj split: sum.splits)
  then show ?thesis by (rule finished_trans [OF f1])
qed

lemma finished_create:
  assumes ok: "env_ok st" and e: "env_of (pn_db st) (e_id e) = Some e" "e_state e \<noteq> EnvExpired"
  shows "finished st (fst (create_in_place pc eg kind e repo hash st))"
proof -
  have g: "finished st st'" if "guest_only st st'" for st' by (rule finished_guest [OF ok that])
  have wr: "finished st (UpdateEnvironment (e\<lparr>e_driver := a, e_state := EnvReady, e_handle := h, e_source := hash, e_expires := x\<rparr>) st')"
    if "guest_only st st'" for st' a h x
    using e by (intro finished_write [OF ok that, of _ e]) (auto simp: env_consts)
  show ?thesis unfolding create_in_place_def
    by (auto simp: split_beta Let_def ok finished_refl intro: g wr split: sum.splits option.splits)
qed

lemma finished_ensure_env:
  assumes ok: "env_ok st" and e: "env_of (pn_db st) i = Some e"
  shows "finished st (fst (ensure_env pc eg s it hash e st))"
proof -
  have id: "e_id e = i" and mem: "e \<in> set (envs (pn_db st))" using env_of_mem [OF e] by simp_all
  have live: "e_handle e \<noteq> [] \<Longrightarrow> e_state e \<noteq> EnvExpired" using ok mem by (auto simp: env_ok_def)
  have g: "finished st st'" if "guest_only st st'" for st' by (rule finished_guest [OF ok that])
  have touch: "finished st (UpdateEnvironment (e\<lparr>e_expires := x\<rparr>) st')" if "guest_only st st'" "e_handle e \<noteq> []" for st' x
    using e id live [OF that(2)] by (intro finished_write [OF ok that(1), of _ e]) auto
  have gone: "finished st (fst (replaceSessionEnvironment pc eg sid old sp (InsertEnvironmentReceipt k kd sd
      (UpdateEnvironment (e\<lparr>e_state := EnvExpired, e_handle := []\<rparr>) st'))))"
    if "guest_only st st'" "e_handle e \<noteq> []" for st' sid old sp k kd sd
    by (rule finished_then [OF _ finished_replace], simp, rule finished_write [OF ok that(1), of _ e])
      (use e id live [OF that(2)] in auto)
  have "finished st (fst (create_in_place pc eg kind e repo hash st))" if "e_state e \<noteq> EnvExpired" for kind repo
    using finished_create [OF ok] e id that by simp
  then show ?thesis unfolding ensure_env_def
    by (auto simp: split_beta Let_def ok finished_refl finished_replace finished_wake intro: g touch gone split: sum.splits)
qed

lemma SessionGuest_frame: "envs (fst (SessionGuest eg sid db)) = envs db \<and> core (fst (SessionGuest eg sid db)) = core db"
proof -
  have b: "post (bindSessionGuestTx eg sid p r db) (\<lambda>(d, x). envs d = envs db \<and> core d = core db)" for p r
    unfolding bindSessionGuestTx_def
    by (rule post_get, simp add: post_bind)
      (auto simp: post_def SetSessionGuestTx_def set_session_def core_def sql_update_def skey_def split_beta
        split: option.splits if_splits)
  have "envs (fst (run_tx (bindSessionGuestTx eg sid p r) db)) = envs db \<and> core (fst (run_tx (bindSessionGuestTx eg sid p r) db)) = core db" for p r
    using b [of p r] by (auto simp: run_tx_def post_def split: sum.splits prod.splits)
  then show ?thesis by (simp add: SessionGuest_def Let_def split: sum.splits)
qed

lemma finished_db: "env_ok st \<Longrightarrow> envs db = envs (pn_db st) \<Longrightarrow> core db = core (pn_db st) \<Longrightarrow> finished st (st\<lparr>pn_db := db\<rparr>)"
  by (simp add: finished_def env_ok_def env_of_def)

lemma finished_ensure: "env_ok st \<Longrightarrow> finished st (fst (EnsureSessionEnvironment pc eg tid it st))"
proof -
  assume ok: "env_ok st"
  have g: "finished st (st\<lparr>pn_db := fst (SessionGuest eg sid (pn_db st))\<rparr>)" for sid
    using finished_db [OF ok] SessionGuest_frame by simp
  have en: "finished st (fst (ensure_env pc eg s it hash e (st\<lparr>pn_db := fst (SessionGuest eg sid (pn_db st))\<rparr>)))"
    if "GetEnvironment i st = Inr e" for s hash e sid i
  proof (rule finished_then [OF g])
    assume "env_ok (st\<lparr>pn_db := fst (SessionGuest eg sid (pn_db st))\<rparr>)"
    then show "finished (st\<lparr>pn_db := fst (SessionGuest eg sid (pn_db st))\<rparr>)
        (fst (ensure_env pc eg s it hash e (st\<lparr>pn_db := fst (SessionGuest eg sid (pn_db st))\<rparr>)))"
      using that SessionGuest_frame [of eg sid "pn_db st"]
      by (intro finished_ensure_env [of _ i]) (auto simp: GetEnvironment_Inr env_of_def)
  qed
  show ?thesis unfolding EnsureSessionEnvironment_def
    by (auto simp: split_beta Let_def ok finished_refl intro: g en split: sum.splits)
qed

section \<open>Runs of environment operations\<close>

datatype env_operation =
    EnvSleep int
  | EnvSleepIdle
  | EnvWake int
  | EnvEnsure int item
  | EnvProvision env_spec

fun env_perform :: "plant_config \<Rightarrow> eng \<Rightarrow> env_operation \<Rightarrow> plant \<Rightarrow> plant" where
  "env_perform pc eg (EnvSleep i) st = fst (SleepEnvironment pc eg i st)"
| "env_perform pc eg EnvSleepIdle st = fst (SleepIdleEnvironments pc eg st)"
| "env_perform pc eg (EnvWake i) st = fst (wakeEnvironment pc eg i st)"
| "env_perform pc eg (EnvEnsure tid it) st = fst (EnsureSessionEnvironment pc eg tid it st)"
| "env_perform pc eg (EnvProvision sp) st = fst (ProvisionEnvironment pc eg sp st)"

text \<open>Each operation may meet its own configuration, clock and driver answers.\<close>

inductive env_runs :: "plant \<Rightarrow> plant \<Rightarrow> bool" where
  env_runs_nil: "env_runs st st"
| env_runs_cons: "env_runs (env_perform pc eg op st) st' \<Longrightarrow> env_runs st st'"

lemma env_perform_finished: "env_ok st \<Longrightarrow> finished st (env_perform pc eg op st)"
  by (cases op) (simp_all add: finished_sleep finished_idle_all finished_wake finished_ensure ProvisionEnvironment_cases)

lemma env_runs_finished: "env_runs st st' \<Longrightarrow> env_ok st \<Longrightarrow> finished st st'"
proof (induction rule: env_runs.induct)
  case (env_runs_cons pc eg op st st')
  show ?case
    by (rule finished_then [OF env_perform_finished [OF env_runs_cons.prems] env_runs_cons.IH])
qed (rule finished_refl)

section \<open>Sleeping safely\<close>

lemma sleepReserved_Inr:
  assumes "sleepReservedEnvironment pc eg row st = (st', Inr x)"
  obtains e d st1 st2 where "env_of (pn_db st) (e_id row) = Some e" "e_state e = EnvSleeping"
    "driverFor pc (e_driver e) = Inr d" "stopServices d (e_handle e) st = (st1, True)"
    "stripSecrets pc e st1 = (st2, Inr ())" "dr_sleep d (e_handle e)"
    "x = e\<lparr>e_state := EnvSleeping, e_slept := Some (eg_now eg)\<rparr>"
    "st' = InsertEnvironmentReceipt (e_id e) ''sleep'' ''succeeded'' (UpdateEnvironment x st2)"
  using assms unfolding sleepReservedEnvironment_def
  by (auto simp: failSleep_def GetEnvironment_Inr Let_def split: sum.splits if_splits prod.splits)

lemma SleepEnvironment_Inr:
  assumes "SleepEnvironment pc eg i st = (st', Inr x)"
  obtains e st1 where "env_of (pn_db st) i = Some e" "e_state e = EnvReady" "e_name e \<noteq> LocalEnvironmentName"
    "\<not> env_active i (pn_db st)" "\<not> env_attached i (eg_now eg) st"
    "st1 = st\<lparr>pn_db := (pn_db st)\<lparr>envs := sql_update (\<lambda>x. e_id x = i \<and> e_state x = EnvReady)
       (\<lambda>x. x\<lparr>e_state := EnvSleeping, e_slept := Some (eg_now eg)\<rparr>) (envs (pn_db st))\<rparr>\<rparr>"
    "sleepReservedEnvironment pc eg e st1 = (st', Inr x)"
  using assms unfolding SleepEnvironment_def ReserveEnvironmentSleep_def reserveEnvironmentSleep_def
  by (auto simp: GetEnvironment_Inr bindE_eq_Inr bindE_eq_Inl split: sum.splits if_splits prod.splits)

lemma env_of_update:
  assumes "\<And>x. e_id x = i \<Longrightarrow> e_id (f x) = i" "env_of db i = Some e" "P e"
  shows "env_of (db\<lparr>envs := sql_update (\<lambda>x. e_id x = i \<and> P x) f (envs db)\<rparr>) i = Some (f e)"
proof -
  have "find (\<lambda>x. e_id x = i) es = Some e \<Longrightarrow> P e
      \<Longrightarrow> find (\<lambda>x. e_id x = i) (sql_update (\<lambda>x. e_id x = i \<and> P x) f es) = Some (f e)" for es
    using assms(1) by (induction es) (auto simp: sql_update_def split: if_splits)
  then show ?thesis using assms(2,3) by (simp add: env_of_def)
qed

lemma stopServices_stopped: "stopServices d h st = (st', True) \<Longrightarrow> dr_services d \<Longrightarrow> h \<notin> set (pn_running st')"
  by (auto simp: stopServices_def split: if_splits)

lemma stripSecrets_stripped:
  "stripSecrets pc e st = (st', Inr ()) \<Longrightarrow> driverFor pc (e_driver e) = Inr d \<Longrightarrow> dr_keeper d \<Longrightarrow> e_handle e \<noteq> []
     \<Longrightarrow> (e_handle e, k) \<notin> set (pn_held st') \<and> pn_running st' = pn_running st"
  by (auto simp: stripSecrets_def split: if_splits)

lemma stripSecrets_running: "stripSecrets pc e st = (st', r) \<Longrightarrow> pn_running st' = pn_running st"
  by (auto simp: stripSecrets_def split: if_splits sum.splits)

text \<open>
  (C0) Only an idle environment goes to sleep, and it leaves nothing behind. When \<^verbatim>\<open>SleepEnvironment\<close> succeeds the
  environment was ready and not the local one, no turn of its sessions was queued or leased, no terminal and no preview
  was open; afterwards its row is sleeping, its services are stopped and the guest holds no secret.
\<close>
theorem sleep_only_idle:
  assumes "SleepEnvironment pc eg i st = (st', Inr x)"
  shows "\<exists>e d. env_of (pn_db st) i = Some e \<and> e_state e = EnvReady \<and> e_name e \<noteq> LocalEnvironmentName
    \<and> \<not> env_active i (pn_db st) \<and> \<not> env_attached i (eg_now eg) st
    \<and> env_of (pn_db st') i = Some x \<and> e_state x = EnvSleeping
    \<and> driverFor pc (e_driver e) = Inr d
    \<and> (dr_services d \<longrightarrow> e_handle e \<notin> set (pn_running st'))
    \<and> (dr_keeper d \<and> e_handle e \<noteq> [] \<longrightarrow> (\<forall>k. (e_handle e, k) \<notin> set (pn_held st')))"
proof -
  from assms obtain e st1 where e: "env_of (pn_db st) i = Some e" "e_state e = EnvReady" "e_name e \<noteq> LocalEnvironmentName"
      "\<not> env_active i (pn_db st)" "\<not> env_attached i (eg_now eg) st"
    and st1: "st1 = st\<lparr>pn_db := (pn_db st)\<lparr>envs := sql_update (\<lambda>x. e_id x = i \<and> e_state x = EnvReady)
       (\<lambda>x. x\<lparr>e_state := EnvSleeping, e_slept := Some (eg_now eg)\<rparr>) (envs (pn_db st))\<rparr>\<rparr>"
    and sl: "sleepReservedEnvironment pc eg e st1 = (st', Inr x)" by (rule SleepEnvironment_Inr)
  have id: "e_id e = i" using env_of_mem [OF e(1)] by simp
  from sl obtain f d st2 st3 where f: "env_of (pn_db st1) (e_id e) = Some f" "e_state f = EnvSleeping"
      "driverFor pc (e_driver f) = Inr d" "stopServices d (e_handle f) st1 = (st2, True)"
      "stripSecrets pc f st2 = (st3, Inr ())" "dr_sleep d (e_handle f)"
    and x: "x = f\<lparr>e_state := EnvSleeping, e_slept := Some (eg_now eg)\<rparr>"
    and st': "st' = InsertEnvironmentReceipt (e_id f) ''sleep'' ''succeeded'' (UpdateEnvironment x st3)" by (rule sleepReserved_Inr)
  have fe: "f = e\<lparr>e_state := EnvSleeping, e_slept := Some (eg_now eg)\<rparr>"
    using env_of_update [of i "\<lambda>x. x\<lparr>e_state := EnvSleeping, e_slept := Some (eg_now eg)\<rparr>" "pn_db st" e "\<lambda>x. e_state x = EnvReady"]
      e(1,2) f(1) by (simp add: st1 id)
  have db3: "pn_db st3 = pn_db st1"
    using stopServices_guest [of st1 d "e_handle f" st1] stripSecrets_guest [of st1 pc f st2] f(4,5) by (simp add: guest_only_def)
  have "env_of (pn_db st') i = Some x"
    using env_of_update [of i "\<lambda>y. x\<lparr>e_name := e_name y\<rparr>" "pn_db st3" f "\<lambda>_. True"] f(1) fe id x db3
    by (simp add: st' InsertEnvironmentReceipt_def UpdateEnvironment_def env_of_def)
  moreover have "dr_services d \<longrightarrow> e_handle e \<notin> set (pn_running st')"
    using stopServices_stopped [OF f(4)] stripSecrets_running [OF f(5)] fe
    by (auto simp: st' InsertEnvironmentReceipt_def UpdateEnvironment_def)
  moreover have "dr_keeper d \<and> e_handle e \<noteq> [] \<longrightarrow> (\<forall>k. (e_handle e, k) \<notin> set (pn_held st'))"
    using stripSecrets_stripped [OF f(5,3)] fe by (auto simp: st' InsertEnvironmentReceipt_def UpdateEnvironment_def)
  ultimately show ?thesis using e x f(3) fe by auto
qed

text \<open>A plant with an expired, a ready and a sleeping environment, on a driver whose calls succeed.\<close>

definition demo_driver :: driver where
  "demo_driver = \<lparr>dr_kind = ''container'', dr_create = (\<lambda>n. Some (''h-'' @ n)), dr_prepare = (\<lambda>h. True), dr_services = True,
     dr_start = (\<lambda>h. True), dr_stop = (\<lambda>h. True), dr_sleep = (\<lambda>h. True), dr_wake = (\<lambda>h. True), dr_resume = (\<lambda>h. True),
     dr_keeper = True, dr_put = (\<lambda>h k. True), dr_delete = (\<lambda>h. True)\<rparr>"

definition demo_config :: plant_config where
  "demo_config = \<lparr>pc_env = False, pc_process = demo_driver, pc_container = Some demo_driver, pc_image = ''img'',
     pc_hash = (\<lambda>i p. i @ p), pc_secrets = [(''npm'', ''v'')], pc_idle = hour\<rparr>"

definition demo_env :: "int \<Rightarrow> string \<Rightarrow> string \<Rightarrow> env_row" where
  "demo_env i state h = \<lparr>e_id = i, e_name = ''env'' @ show_int i, e_driver = ''container'', e_state = state, e_handle = h,
     e_source = [], e_expires = Some (5 * minute), e_slept = None\<rparr>"

definition demo_plant :: plant where
  "demo_plant = \<lparr>pn_db = empty_db\<lparr>envs := [demo_env 2 EnvExpired [], demo_env 3 EnvReady ''h3'', demo_env 4 EnvSleeping ''h4'']\<rparr>,
     pn_terminals = [(3, 0)], pn_previews = [], pn_receipts = [], pn_running = [''h3''], pn_held = [(''h3'', ''npm'')]\<rparr>"

theorem sleep_only_idle_witness:
  "\<exists>x. SleepEnvironment demo_config demo_eng 3 demo_plant = (env_perform demo_config demo_eng (EnvSleep 3) demo_plant, Inr x)
     \<and> \<not> env_active 3 (pn_db demo_plant)
     \<and> env_of (pn_db (env_perform demo_config demo_eng (EnvSleep 3) demo_plant)) 3 = Some x \<and> e_state x = EnvSleeping"
proof -
  have "\<not> isl (snd (SleepEnvironment demo_config demo_eng 3 demo_plant))" by code_simp
  then obtain x where "SleepEnvironment demo_config demo_eng 3 demo_plant = (env_perform demo_config demo_eng (EnvSleep 3) demo_plant, Inr x)"
    by (metis env_perform.simps(1) prod.collapse sum.collapse(2))
  then show ?thesis using sleep_only_idle by blast
qed

text \<open>
  (C0) A sleep that fails while removing secrets leaves a ready environment without its services. The services are
  already stopped when \<^verbatim>\<open>stripSecrets\<close> fails, the row goes back to ready as recovered, and nothing starts them again.
\<close>
theorem failed_strip_leaves_services_stopped:
  assumes e: "env_of (pn_db st) i = Some e" "e_state e = EnvReady" "e_name e \<noteq> LocalEnvironmentName" "e_handle e \<noteq> []"
    and idle: "i \<notin> set (eg_busy eg)" "\<not> env_active i (pn_db st)" "\<not> env_attached i (eg_now eg) st"
    and d: "e_driver e \<noteq> []" "driverFor pc (e_driver e) = Inr d" "dr_services d" "dr_stop d (e_handle e)"
      "dr_keeper d" "\<not> dr_delete d (e_handle e)"
  shows "\<exists>st' x y. SleepEnvironment pc eg i st = (st', Inl x)
    \<and> env_of (pn_db st') i = Some y \<and> e_state y = EnvReady \<and> e_handle y = e_handle e \<and> e_handle e \<notin> set (pn_running st')"
proof -
  define f where "f = e\<lparr>e_state := EnvSleeping, e_slept := Some (eg_now eg)\<rparr>"
  define st1 where "st1 = st\<lparr>pn_db := (pn_db st)\<lparr>envs := sql_update (\<lambda>x. e_id x = i \<and> e_state x = EnvReady)
       (\<lambda>x. x\<lparr>e_state := EnvSleeping, e_slept := Some (eg_now eg)\<rparr>) (envs (pn_db st))\<rparr>\<rparr>"
  have id: "e_id e = i" using env_of_mem [OF e(1)] by simp
  have r: "ReserveEnvironmentSleep i (eg_now eg) st = Inr (st1, True)"
    using e idle d(1) by (simp add: ReserveEnvironmentSleep_def reserveEnvironmentSleep_def GetEnvironment_def the_row_def st1_def)
  have g: "env_of (pn_db st1) i = Some f"
    using env_of_update [of i "\<lambda>x. x\<lparr>e_state := EnvSleeping, e_slept := Some (eg_now eg)\<rparr>" "pn_db st" e "\<lambda>x. e_state x = EnvReady"] e(1,2)
    by (simp add: st1_def f_def)
  define st2 where "st2 = st1\<lparr>pn_running := removeAll (e_handle e) (pn_running st1)\<rparr>"
  have "SleepEnvironment pc eg i st = failSleep f True st2"
    using e idle d g id r by (simp add: SleepEnvironment_def GetEnvironment_def the_row_def sleepReservedEnvironment_def f_def
        stopServices_def stripSecrets_def st2_def EnvSleeping_def)
  moreover have "env_of (pn_db (RestoreEnvironmentReady i st2)) i = Some (f\<lparr>e_state := EnvReady, e_slept := None\<rparr>)"
    using env_of_update [of i "\<lambda>x. x\<lparr>e_state := EnvReady, e_slept := None\<rparr>" "pn_db st2" f "\<lambda>x. e_state x = EnvSleeping"] g
    by (simp add: RestoreEnvironmentReady_def st2_def f_def)
  moreover have "e_id f = i" "e_handle f = e_handle e" by (simp_all add: f_def id)
  ultimately show ?thesis
    by (simp add: failSleep_def InsertEnvironmentReceipt_def) (simp add: RestoreEnvironmentReady_def st2_def)
qed

definition stuck_config :: plant_config where
  "stuck_config = demo_config\<lparr>pc_container := Some (demo_driver\<lparr>dr_delete := (\<lambda>h. False)\<rparr>)\<rparr>"

theorem failed_strip_leaves_services_stopped_witness:
  "\<exists>st' x y. SleepEnvironment stuck_config demo_eng 3 demo_plant = (st', Inl x)
    \<and> env_of (pn_db st') 3 = Some y \<and> e_state y = EnvReady \<and> e_handle y = e_handle (demo_env 3 EnvReady ''h3'')
    \<and> e_handle (demo_env 3 EnvReady ''h3'') \<notin> set (pn_running st')"
proof (rule failed_strip_leaves_services_stopped)
  show "env_of (pn_db demo_plant) 3 = Some (demo_env 3 EnvReady ''h3'')" by code_simp
  show "driverFor stuck_config (e_driver (demo_env 3 EnvReady ''h3'')) = Inr (demo_driver\<lparr>dr_delete := (\<lambda>h. False)\<rparr>)"
    by (simp add: driverFor_def stuck_config_def demo_config_def demo_env_def)
qed (code_simp)+

text \<open>
  (C0) An expired environment is final. Whatever sleeps, wakes, provisions and replacements follow, with whatever driver
  failures, its row stays exactly as it was: its id never names another guest.
\<close>
theorem expired_environment_is_final:
  assumes "env_runs st st'" "env_ok st" "env_of (pn_db st) i = Some e" "e_state e = EnvExpired"
  shows "env_of (pn_db st') i = Some e"
  using env_runs_finished [OF assms(1,2)] assms(3,4) by (simp add: finished_def)

lemma demo_env_runs:
  "env_runs demo_plant (env_perform demo_config demo_eng (EnvSleep 3) (env_perform demo_config demo_eng (EnvWake 4) demo_plant))"
  by (rule env_runs_cons [of demo_config demo_eng "EnvWake 4"], rule env_runs_cons [of demo_config demo_eng "EnvSleep 3"])
    (rule env_runs_nil)

lemma demo_plant_ok: "env_ok demo_plant"
  by (simp add: env_ok_def demo_plant_def demo_env_def env_consts)

theorem expired_environment_is_final_witness:
  "env_ok demo_plant \<and> env_of (pn_db demo_plant) 2 = Some (demo_env 2 EnvExpired [])
   \<and> env_of (pn_db (env_perform demo_config demo_eng (EnvSleep 3) (env_perform demo_config demo_eng (EnvWake 4) demo_plant))) 2
       = Some (demo_env 2 EnvExpired [])"
proof -
  have e: "env_of (pn_db demo_plant) 2 = Some (demo_env 2 EnvExpired [])" by code_simp
  then show ?thesis
    using expired_environment_is_final [OF demo_env_runs demo_plant_ok e] demo_plant_ok by (simp add: demo_env_def)
qed

text \<open>
  (C0) Environment operations leave the lease protocol alone. From a well-formed store every run of them ends in a
  well-formed store with the same turns, receipts, reviews, snapshots, prompts and flight records.
\<close>
theorem environments_keep_leases:
  assumes "env_runs st st'" "env_ok st" "wf (pn_db st)"
  shows "wf (pn_db st') \<and> turns (pn_db st') = turns (pn_db st) \<and> receipts (pn_db st') = receipts (pn_db st)
    \<and> reviews (pn_db st') = reviews (pn_db st) \<and> snaps (pn_db st') = snaps (pn_db st)
    \<and> followups (pn_db st') = followups (pn_db st) \<and> steers (pn_db st') = steers (pn_db st)
    \<and> flights (pn_db st') = flights (pn_db st)"
proof -
  have c: "core (pn_db st') = core (pn_db st)" using env_runs_finished [OF assms(1,2)] by (simp add: finished_def)
  then have "wf (pn_db st')" using assms(3) by (rule wf_core)
  with c show ?thesis by (simp add: core_def)
qed

theorem environments_keep_leases_witness:
  "wf (pn_db demo_plant)
   \<and> wf (pn_db (env_perform demo_config demo_eng (EnvSleep 3) (env_perform demo_config demo_eng (EnvWake 4) demo_plant)))"
proof -
  have "core (pn_db demo_plant) = core empty_db" by (simp add: demo_plant_def core_def)
  then have "wf (pn_db demo_plant)" using wf_empty by (rule wf_core)
  then show ?thesis using environments_keep_leases [OF demo_env_runs demo_plant_ok] by simp
qed

section \<open>Names of replacements\<close>

lemma nth_digit:
  assumes "m < 10"
  shows "digit_value (''0123456789'' ! m) = int m \<and> 48 \<le> (of_char (''0123456789'' ! m) :: nat) \<and> (of_char (''0123456789'' ! m) :: nat) \<le> 57"
proof -
  have "m = 0 \<or> m = 1 \<or> m = 2 \<or> m = 3 \<or> m = 4 \<or> m = 5 \<or> m = 6 \<or> m = 7 \<or> m = 8 \<or> m = 9" using assms by presburger
  then show ?thesis by (elim disjE) (simp_all add: digit_value_def)
qed

definition is_digit :: "char \<Rightarrow> bool" where
  "is_digit c = (48 \<le> (of_char c :: nat) \<and> (of_char c :: nat) \<le> 57)"

lemma show_nat_rev_digits: "list_all is_digit (show_nat_rev k n)"
  by (induction k arbitrary: n) (use nth_digit in \<open>simp_all add: is_digit_def\<close>)

lemma show_nat_rev_value:
  "n \<le> k \<Longrightarrow> foldl (\<lambda>n c. 10 * n + digit_value c) 0 (rev (show_nat_rev (Suc k) n)) = int n"
proof (induction k arbitrary: n)
  case (Suc k)
  show ?case
  proof (cases "n div 10 = 0")
    case True
    then show ?thesis using nth_digit [of n] by (simp add: div_eq_0_iff)
  next
    case False
    then have "n div 10 \<le> k" using Suc.prems by linarith
    note ih = Suc.IH [OF this]
    have r: "rev (show_nat_rev (Suc (Suc k)) n) = rev (show_nat_rev (Suc k) (n div 10)) @ [''0123456789'' ! (n mod 10)]"
      using False by (simp only: show_nat_rev.simps(2) [of "Suc k" n] if_False rev.simps)
    have "10 * int (n div 10) + int (n mod 10) = int n" by (simp only: zdiv_int zmod_int of_nat_numeral mult_div_mod_eq)
    then show ?thesis
      using nth_digit [of "n mod 10"] unfolding r by (simp only: foldl_append ih foldl.simps)
  qed
qed (simp add: digit_value_def)

lemma show_int_uint64: "0 \<le> i \<Longrightarrow> i < 2 ^ 64 \<Longrightarrow> is_uint64 (show_int i)"
  using show_nat_rev_digits [of "Suc (nat i)" "nat i"] show_nat_rev_value [of "nat i" "nat i"]
  by (simp add: is_uint64_def show_int_def is_digit_def list_all_iff)

lemma split_last_r_none: "list_all is_digit s \<Longrightarrow> split_last_r s = None"
  by (induction s) (auto simp: is_digit_def)

lemma split_last_r_digits: "list_all is_digit s \<Longrightarrow> split_last_r (m @ ''-r'' @ s) = Some (m, s)"
proof (induction m)
  case Nil
  have "\<not> is_digit (CHR ''r'')" by (simp add: is_digit_def)
  then show ?case using split_last_r_none [OF Nil] by simp
qed simp

text \<open>
  (C0) Repeated replacement keeps environment names bounded: the name that replaces a replacement's name is the one
  that would have replaced the original, so only one \<^verbatim>\<open>-r<id>\<close> suffix is ever there.
\<close>
theorem replacement_names_do_not_grow:
  assumes "name \<noteq> []" "0 \<le> i" "i < 2 ^ 63"
  shows "replacementName (replacementName name i) j = replacementName name j"
proof -
  define m where "m = (case split_last_r name of Some (a, b) \<Rightarrow> if a \<noteq> [] \<and> is_uint64 b then a else name | None \<Rightarrow> name)"
  have "m \<noteq> []" using assms(1) by (auto simp: m_def split: option.splits)
  have digits: "list_all is_digit (show_int i)"
    using show_nat_rev_digits [of "Suc (nat i)" "nat i"] assms(2) by (simp add: show_int_def)
  have r: "replacementName name k = m @ ''-r'' @ show_int k" for k by (simp add: replacementName_def m_def)
  have "is_uint64 (show_int i)" using assms by (intro show_int_uint64) simp_all
  then show ?thesis
    using split_last_r_digits [OF digits, of m] \<open>m \<noteq> []\<close> unfolding r [of i] by (simp add: replacementName_def [of "m @ _"] r)
qed

theorem replacement_names_do_not_grow_witness:
  "''run-1'' \<noteq> [] \<and> replacementName (replacementName ''run-1'' 7) 12 = replacementName ''run-1'' 12"
  using replacement_names_do_not_grow [of "''run-1''" 7 12] by simp

end
