(* ===== verification/Shell.thy ===== *)
theory Shell
  imports Types "HOL-Library.Sublist"
begin

text \<open>
  Shell lines of guest tool calls, \<^verbatim>\<open>acp/fence.go\<close>: the lexer that splits a line into commands and the
  fence over \<^verbatim>\<open>git\<close> and \<^verbatim>\<open>gh\<close>. A rune is a \<open>char\<close>; lower-casing is the ASCII one.
\<close>

section \<open>The lexer\<close>

text \<open>The variables of \<^verbatim>\<open>lexCommands\<close>.\<close>

record lexer =
  lx_cmds :: "string list list"
  lx_words :: "string list"
  lx_cur :: string
  lx_in :: bool

definition lex0 :: lexer where
  "lex0 = \<lparr>lx_cmds = [], lx_words = [], lx_cur = [], lx_in = False\<rparr>"

definition flushWord :: "lexer \<Rightarrow> lexer" where
  "flushWord st = (if lx_in st then st\<lparr>lx_words := lx_words st @ [lx_cur st], lx_cur := [], lx_in := False\<rparr> else st)"

definition flushCmd :: "lexer \<Rightarrow> lexer" where
  "flushCmd st = (let st = flushWord st in
     if lx_words st \<noteq> [] then st\<lparr>lx_cmds := lx_cmds st @ [lx_words st], lx_words := []\<rparr> else st)"

definition write_rune :: "char \<Rightarrow> lexer \<Rightarrow> lexer" where
  "write_rune c st = st\<lparr>lx_cur := lx_cur st @ [c], lx_in := True\<rparr>"

text \<open>The text inside and after a parenthesis whose depth is \<open>d\<close>; \<^verbatim>\<open>matchParen\<close> returns the index between
  the two.\<close>

fun matchParen :: "nat \<Rightarrow> string \<Rightarrow> string \<times> string" where
  "matchParen d [] = ([], [])"
| "matchParen d (c # r) =
     (if c = CHR ''('' then (case matchParen (Suc d) r of (a, b) \<Rightarrow> (c # a, b))
      else if c = CHR '')'' then (if d - 1 = 0 then ([], r) else (case matchParen (d - 1) r of (a, b) \<Rightarrow> (c # a, b)))
      else (case matchParen d r of (a, b) \<Rightarrow> (c # a, b)))"

lemma matchParen_length: "length (fst (matchParen d r)) \<le> length r" "length (snd (matchParen d r)) \<le> length r"
  by (induction d r rule: matchParen.induct) (auto split: prod.splits)

definition until :: "char \<Rightarrow> string \<Rightarrow> string \<times> string" where
  "until q r = (takeWhile (\<lambda>c. c \<noteq> q) r, drop 1 (dropWhile (\<lambda>c. c \<noteq> q) r))"

lemma until_length: "length (fst (until q r)) \<le> length r" "length (snd (until q r)) \<le> length r"
  by (induction r) (auto simp: until_def)

definition separators :: "char list" where
  "separators = [CHR '';'', CHR ''&'', CHR ''|'', CHR 0x0A, CHR 0x60, CHR ''('', CHR '')'', CHR ''{'', CHR ''}'']"

text \<open>The loop of \<^verbatim>\<open>lexCommands\<close>. \<open>True\<close> is the inner loop inside double quotes, whose substitutions are
  lexed on their own.\<close>

function (sequential) lex :: "bool \<Rightarrow> string \<Rightarrow> lexer \<Rightarrow> lexer" where
  "lex quoted [] st = st"
| "lex True (c # r) st =
     (if c = CHR 0x22 then lex False r st
      else if c = CHR 0x5C \<and> r \<noteq> [] then lex True (tl r) (write_rune (hd r) st)
      else if c = CHR ''$'' \<and> r \<noteq> [] \<and> hd r = CHR ''('' then
        lex True (snd (matchParen 1 (tl r)))
          (st\<lparr>lx_cmds := lx_cmds st @ lx_cmds (flushCmd (lex False (fst (matchParen 1 (tl r))) lex0))\<rparr>)
      else if c = CHR 0x60 then
        lex True (snd (until (CHR 0x60) r))
          (st\<lparr>lx_cmds := lx_cmds st @ lx_cmds (flushCmd (lex False (fst (until (CHR 0x60) r)) lex0))\<rparr>)
      else lex True r (write_rune c st))"
| "lex False (c # r) st =
     (if c = CHR 0x5C \<and> r \<noteq> [] then lex False (tl r) (if hd r = CHR 0x0A then st else write_rune (hd r) st)
      else if c = CHR 0x27 then
        lex False (snd (until (CHR 0x27) r)) (st\<lparr>lx_cur := lx_cur st @ fst (until (CHR 0x27) r), lx_in := True\<rparr>)
      else if c = CHR 0x22 then lex True r (st\<lparr>lx_in := True\<rparr>)
      else if c = CHR '' '' \<or> c = CHR 0x09 then lex False r (flushWord st)
      else if c \<in> set separators then lex False r (flushCmd st)
      else if c = CHR ''$'' \<and> r \<noteq> [] \<and> hd r = CHR ''('' then lex False (tl r) (flushCmd st)
      else lex False r (write_rune c st))"
  by pat_completeness auto
termination
  by (relation "measure (\<lambda>(q, s, st). length s)")
    (auto simp: less_Suc_eq_le le_diff_conv intro: le_trans [OF matchParen_length(1)] le_trans [OF matchParen_length(2)] until_length)

definition lexCommands :: "string \<Rightarrow> string list list" where
  "lexCommands line = lx_cmds (flushCmd (lex False line lex0))"

section \<open>The fence\<close>

text \<open>\<^verbatim>\<open>path.Base\<close>.\<close>

definition pathBase :: "string \<Rightarrow> string" where
  "pathBase p = (if p = [] then ''.''
     else let q = rev (dropWhile (\<lambda>c. c = CHR ''/'') (rev p)); b = rev (takeWhile (\<lambda>c. c \<noteq> CHR ''/'') (rev q))
       in if b = [] then ''/'' else b)"

definition equalPrefix :: "string list \<Rightarrow> string list \<Rightarrow> bool" where
  "equalPrefix args p = (take (length p) args = p)"

definition fencedGH :: "string list list" where
  "fencedGH = [[''pr'', ''merge''], [''pr'', ''close''], [''pr'', ''review''],
     [''release''], [''repo''], [''workflow''], [''secret''], [''variable''], [''ruleset''],
     [''alias'', ''set''], [''alias'', ''import''], [''extension'']]"

definition protectedBranches :: "string list" where
  "protectedBranches = [''main'', ''master'']"

definition shells :: "string list" where
  "shells = [''sh'', ''bash'', ''zsh'', ''dash'', ''ksh'']"

definition gitGlobalsWithValue :: "string list" where
  "gitGlobalsWithValue = [''-c'', ''--git-dir'', ''--work-tree'', ''--namespace'', ''--exec-path'', ''--config-env'']"

fun skipGitGlobals :: "string list \<Rightarrow> string list" where
  "skipGitGlobals [] = []"
| "skipGitGlobals (a # args) =
     (if \<not> has_prefix a ''-'' then a # args
      else if a \<in> set gitGlobalsWithValue then (case args of [] \<Rightarrow> [] | _ # rest \<Rightarrow> skipGitGlobals rest)
      else skipGitGlobals args)"

fun gitAliasGlobal :: "string list \<Rightarrow> bool" where
  "gitAliasGlobal [] = False"
| "gitAliasGlobal (a # args) =
     (if \<not> has_prefix a ''-'' then False
      else if a \<in> set gitGlobalsWithValue then
        (case args of [] \<Rightarrow> False | v # rest \<Rightarrow> has_prefix v ''alias.'' \<or> gitAliasGlobal rest)
      else if has_prefix a ''--config-env=alias.'' then True
      else gitAliasGlobal args)"

definition gitAliasKey :: "string list \<Rightarrow> bool" where
  "gitAliasKey args = list_ex (\<lambda>a. has_prefix a ''alias.'') args"

definition api_write :: "string \<Rightarrow> bool" where
  "api_write a = (a \<in> set [''-x'', ''--method'', ''-f'', ''--field'', ''--raw-field'', ''--input'']
     \<or> has_prefix a ''-x'' \<or> has_prefix a ''--method='' \<or> has_prefix a ''--field=''
     \<or> has_prefix a ''--raw-field='' \<or> has_prefix a ''--input='')"

definition fencedGHArgs :: "string list \<Rightarrow> bool" where
  "fencedGHArgs args =
     (if length args \<ge> 2 \<and> args ! 0 = ''pr'' \<and> (args ! 1 = ''create'' \<or> args ! 1 = ''edit'') then True
      else if list_ex (\<lambda>p. length args \<ge> length p \<and> equalPrefix args p) fencedGH then True
      else if length args \<ge> 3 \<and> args ! 0 = ''pr'' \<and> args ! 1 = ''ready'' \<and> ''--undo'' \<in> set (drop 2 args) then True
      else length args \<ge> 1 \<and> args ! 0 = ''api'' \<and> list_ex api_write (drop 1 args))"

text \<open>The branch a refspec writes: after the last colon, without \<^verbatim>\<open>refs/heads/\<close>.\<close>

definition push_dst :: "string \<Rightarrow> string" where
  "push_dst a = (let d = (if CHR '':'' \<in> set a then rev (takeWhile (\<lambda>c. c \<noteq> CHR '':'') (rev a)) else a)
     in if has_prefix d ''refs/heads/'' then drop 11 d else d)"

text \<open>One argument of \<^verbatim>\<open>git push\<close>. \<open>i = 0\<close> in the code means that the last colon is the first character.\<close>

definition fenced_push_arg :: "string \<Rightarrow> bool" where
  "fenced_push_arg a =
     (if a \<in> set [''-f'', ''--force'', ''--delete'', ''-d'', ''--mirror'', ''--all'', ''--prune''] \<or> has_prefix a ''--force'' then True
      else if has_prefix a ''+'' then True
      else if has_prefix a ''-'' then False
      else if has_prefix a '':'' \<and> CHR '':'' \<notin> set (tl a) then True
      else push_dst a \<in> set protectedBranches)"

definition fencedPush :: "string list \<Rightarrow> bool" where
  "fencedPush args = list_ex fenced_push_arg args"

text \<open>The payload of a shell's first \<^verbatim>\<open>-c\<close> flag that has one.\<close>

fun shell_payload :: "string list \<Rightarrow> string option" where
  "shell_payload (a # b # rest) =
     (if has_prefix a ''-'' \<and> \<not> has_prefix a ''--'' \<and> CHR ''c'' \<in> set a then Some b else shell_payload (b # rest))"
| "shell_payload _ = None"

definition join_space :: "string list \<Rightarrow> string" where
  "join_space ws = concat (case ws of [] \<Rightarrow> [] | w # r \<Rightarrow> w # map (\<lambda>x. CHR '' '' # x) r)"

definition git_fenced :: "string list \<Rightarrow> bool" where
  "git_fenced args = (let rest = skipGitGlobals args in
     gitAliasGlobal args
     \<or> (rest \<noteq> [] \<and> hd rest = ''push'' \<and> fencedPush (tl rest))
     \<or> (length rest > 1 \<and> hd rest = ''config'' \<and> gitAliasKey (tl rest)))"

text \<open>\<^verbatim>\<open>fencedSegment\<close>, with the check of a nested line as an argument.\<close>

fun fencedSegment :: "(string \<Rightarrow> bool) \<Rightarrow> string list \<Rightarrow> bool" where
  "fencedSegment nested [] = False"
| "fencedSegment nested (w # rest) =
     ((let base = pathBase w in
       if base \<in> set shells then (case shell_payload rest of None \<Rightarrow> False | Some l \<Rightarrow> nested l)
       else if base = ''eval'' then nested (join_space rest)
       else if base = ''gh'' then fencedGHArgs rest
       else if base = ''git'' then git_fenced rest
       else False)
      \<or> fencedSegment nested rest)"

text \<open>Four nested lines are checked; a fifth is refused unread.\<close>

fun fenced_within :: "nat \<Rightarrow> string \<Rightarrow> bool" where
  "fenced_within 0 line = True"
| "fenced_within (Suc n) line = list_ex (fencedSegment (fenced_within n)) (lexCommands (to_lower line))"

definition fencedLine :: "string \<Rightarrow> int \<Rightarrow> bool" where
  "fencedLine line depth = fenced_within (nat (5 - depth)) line"

definition FencedCommand :: "string \<Rightarrow> bool" where
  "FencedCommand line = fencedLine line 0"

section \<open>Quoting and the lexer\<close>

text \<open>POSIX quoting of a word, a command and a list of commands: what a caller writes to pass any words at all.\<close>

definition quote_char :: "char \<Rightarrow> string" where
  "quote_char c = (if c = CHR 0x27 then [CHR 0x27, CHR 0x5C, CHR 0x27, CHR 0x27] else [c])"

definition sh_quote :: "string \<Rightarrow> string" where
  "sh_quote w = CHR 0x27 # concat (map quote_char w) @ [CHR 0x27]"

fun print_words :: "string list \<Rightarrow> string" where
  "print_words [] = []"
| "print_words [w] = sh_quote w"
| "print_words (w # ws) = sh_quote w @ CHR '' '' # print_words ws"

definition shell_text :: "string list list \<Rightarrow> string" where
  "shell_text cs = concat (map (\<lambda>ws. print_words ws @ [CHR '';'']) cs)"

lemma until_quote: "CHR 0x27 \<notin> set w \<Longrightarrow> until (CHR 0x27) (w @ CHR 0x27 # r) = (w, r)"
  by (induction w) (auto simp: until_def)

lemma quote_plain: "CHR 0x27 \<notin> set w \<Longrightarrow> concat (map quote_char w) = w"
  by (induction w) (auto simp: quote_char_def)

lemma lex_quoted_plain:
  "CHR 0x27 \<notin> set w \<Longrightarrow>
     lex False (CHR 0x27 # w @ CHR 0x27 # r) st = lex False r (st\<lparr>lx_cur := lx_cur st @ w, lx_in := True\<rparr>)"
  by (simp add: until_quote)

lemma lex_sh_quote:
  "lex False (sh_quote w @ r) st = lex False r (st\<lparr>lx_cur := lx_cur st @ w, lx_in := True\<rparr>)"
proof (induction w arbitrary: st rule: length_induct)
  case (1 w)
  show ?case
  proof (cases "CHR 0x27 \<in> set w")
    case False
    have "sh_quote w @ r = CHR 0x27 # w @ CHR 0x27 # r" by (simp add: sh_quote_def quote_plain [OF False])
    then show ?thesis by (simp only: lex_quoted_plain [OF False])
  next
    case True
    then obtain a b where w: "w = a @ CHR 0x27 # b" and a: "CHR 0x27 \<notin> set a" by (meson split_list_first)
    let ?st = "st\<lparr>lx_cur := lx_cur st @ a, lx_in := True\<rparr>"
    have "lex False (sh_quote w @ r) st
        = lex False (CHR 0x27 # a @ CHR 0x27 # (CHR 0x5C # CHR 0x27 # sh_quote b @ r)) st"
      by (simp add: sh_quote_def w quote_plain [OF a] quote_char_def)
    also have "\<dots> = lex False (CHR 0x5C # CHR 0x27 # sh_quote b @ r) ?st"
      by (simp only: lex_quoted_plain [OF a])
    also have "\<dots> = lex False (sh_quote b @ r) (write_rune (CHR 0x27) ?st)" by simp
    also have "\<dots> = lex False r ((write_rune (CHR 0x27) ?st)\<lparr>lx_cur := lx_cur (write_rune (CHR 0x27) ?st) @ b, lx_in := True\<rparr>)"
      using 1 w by simp
    finally show ?thesis by (simp add: write_rune_def w)
  qed
qed

lemma lex_words_separator:
  "ws \<noteq> [] \<Longrightarrow> lex False (print_words ws @ CHR '';'' # r) \<lparr>lx_cmds = cs, lx_words = us, lx_cur = [], lx_in = False\<rparr>
     = lex False r \<lparr>lx_cmds = cs @ [us @ ws], lx_words = [], lx_cur = [], lx_in = False\<rparr>"
  by (induction ws arbitrary: us rule: print_words.induct)
    (simp_all add: lex_sh_quote flushCmd_def flushWord_def separators_def)

lemma lex_words_end:
  "ws \<noteq> [] \<Longrightarrow> flushCmd (lex False (print_words ws) \<lparr>lx_cmds = cs, lx_words = us, lx_cur = [], lx_in = False\<rparr>)
     = \<lparr>lx_cmds = cs @ [us @ ws], lx_words = [], lx_cur = [], lx_in = False\<rparr>"
proof (induction ws arbitrary: us rule: print_words.induct)
  case (2 w)
  show ?case using lex_sh_quote [of w "[]"] by (simp add: flushCmd_def flushWord_def)
qed (simp_all add: lex_sh_quote flushWord_def)

lemma lexCommands_print_words: "ws \<noteq> [] \<Longrightarrow> lexCommands (print_words ws) = [ws]"
  by (simp add: lexCommands_def lex0_def lex_words_end)

lemma lex_shell_text:
  "[] \<notin> set cmds \<Longrightarrow> lex False (shell_text cmds) \<lparr>lx_cmds = cs, lx_words = [], lx_cur = [], lx_in = False\<rparr>
     = \<lparr>lx_cmds = cs @ cmds, lx_words = [], lx_cur = [], lx_in = False\<rparr>"
proof (induction cmds arbitrary: cs)
  case (Cons a cmds)
  then have "a \<noteq> []" by auto
  then show ?case using Cons by (simp add: shell_text_def lex_words_separator)
qed (simp add: shell_text_def)

lemma lexCommands_shell_text: "[] \<notin> set cmds \<Longrightarrow> lexCommands (shell_text cmds) = cmds"
  by (simp add: lexCommands_def lex0_def lex_shell_text flushCmd_def flushWord_def)

text \<open>Lower-casing commutes with quoting.\<close>

lemma lower_below: "(of_char d :: nat) < 65 \<or> (of_char d :: nat) = 92 \<Longrightarrow> lower_char c = d \<longleftrightarrow> c = d"
proof
  assume d: "(of_char d :: nat) < 65 \<or> (of_char d :: nat) = 92" and l: "lower_char c = d"
  have "lower_char c = char_of (of_char c + 32 :: nat) \<Longrightarrow> of_char c \<le> (90 :: nat) \<Longrightarrow> of_char d = (of_char c + 32 :: nat)"
    using l by auto
  then show "c = d" using d l by (auto simp: lower_char_def split: if_splits)
qed (auto simp: lower_char_def)

lemma lower_quote [simp]: "lower_char c = CHR 0x27 \<longleftrightarrow> c = CHR 0x27"
  by (rule lower_below) simp

lemma lower_punctuation [simp]: "lower_char (CHR 0x27) = CHR 0x27" "lower_char (CHR 0x5C) = CHR 0x5C" "lower_char (CHR '' '') = CHR '' ''"
  by (simp_all add: lower_below)

lemma to_lower_sh_quote: "to_lower (sh_quote w) = sh_quote (to_lower w)"
  by (induction w) (auto simp: sh_quote_def to_lower_def quote_char_def)

lemma to_lower_print_words: "to_lower (print_words ws) = print_words (map to_lower ws)"
  by (induction ws rule: print_words.induct) (simp_all add: to_lower_sh_quote [symmetric], simp_all add: to_lower_def)

lemma lower_char_idem [simp]: "lower_char (lower_char c) = lower_char c"
proof (cases "65 \<le> (of_char c :: nat) \<and> (of_char c :: nat) \<le> 90")
  case True
  then have "lower_char c = char_of (of_char c + 32 :: nat)" by (simp add: lower_char_def)
  moreover have "of_char (char_of (of_char c + 32 :: nat) :: char) = (of_char c + 32 :: nat)" using True by simp
  ultimately have "\<not> (of_char (lower_char c) :: nat) \<le> 90" using True by simp
  then show ?thesis by (simp add: lower_char_def [of "lower_char c"])
qed (auto simp: lower_char_def)

lemma to_lower_idem [simp]: "to_lower (to_lower s) = to_lower s"
  by (simp add: to_lower_def)

lemma fenced_within_lower [simp]: "fenced_within n (to_lower line) = fenced_within n line"
  by (cases n) simp_all

section \<open>What the fence refuses\<close>

text \<open>A line handed to a shell as the payload of \<^verbatim>\<open>-c\<close>, quoted.\<close>

definition wrap_shell :: "string \<Rightarrow> string \<Rightarrow> string" where
  "wrap_shell sh line = print_words [sh, ''-c'', line]"

lemma fencedSegment_single: "\<not> nested [] \<Longrightarrow> \<not> fencedSegment nested [w]"
  by (simp add: Let_def join_space_def fencedGHArgs_def fencedGH_def equalPrefix_def git_fenced_def)

lemma fenced_within_empty: "\<not> fenced_within (Suc n) []"
  by (simp add: lexCommands_def lex0_def to_lower_def flushCmd_def flushWord_def)

lemma shells_lower: "sh \<in> set shells \<Longrightarrow> to_lower sh = sh \<and> pathBase sh = sh"
  unfolding shells_def by (auto simp: to_lower_def lower_char_def pathBase_def)

lemma fenced_wrap:
  assumes "sh \<in> set shells"
  shows "fenced_within (Suc n) (wrap_shell sh line) = fenced_within n line"
proof -
  have c: "to_lower ''-c'' = ''-c''" "pathBase ''-c'' = ''-c''" by code_simp+
  have lx: "lexCommands (to_lower (wrap_shell sh line)) = [[sh, ''-c'', to_lower line]]"
    using shells_lower [OF assms] c by (simp del: print_words.simps add: wrap_shell_def to_lower_print_words lexCommands_print_words)
  have "fencedSegment (fenced_within n) [sh, ''-c'', to_lower line]
      = (fenced_within n line \<or> fencedSegment (fenced_within n) [to_lower line])"
    using shells_lower [OF assms] assms c by (simp add: Let_def shells_def del: fencedSegment.simps(2) add: fencedSegment.simps(2) [of _ sh] fencedSegment.simps(2) [of _ "''-c''"])
  moreover have "n \<noteq> 0 \<Longrightarrow> \<not> fencedSegment (fenced_within n) [to_lower line]"
    using fencedSegment_single fenced_within_empty by (cases n) blast+
  ultimately show ?thesis using lx by (cases n) auto
qed

text \<open>
  (C17) The fence looks through shell wrappers. A line wrapped \<open>n\<close> times in \<^verbatim>\<open>sh -c '...'\<close>, with its quotes
  escaped at every level, is fenced exactly when \<open>fencedLine\<close> fences the line itself at depth \<open>n\<close>; from the
  fifth wrapper on that is always.
\<close>
theorem fence_unwraps_shells:
  assumes "sh \<in> set shells"
  shows "FencedCommand ((wrap_shell sh ^^ n) line) = fencedLine line (int n)"
proof -
  have "fenced_within (m + n) ((wrap_shell sh ^^ n) line) = fenced_within m line" for m
    by (induction n) (simp_all del: fenced_within.simps(2) add: fenced_wrap [OF assms])
  from this [of "5 - n"] have "n \<le> 5 \<Longrightarrow> ?thesis"
    by (simp add: FencedCommand_def fencedLine_def nat_diff_distrib)
  moreover have "5 \<le> k \<Longrightarrow> fenced_within 5 ((wrap_shell sh ^^ k) line)" for k
  proof -
    assume "5 \<le> k"
    then obtain i where k: "k = 5 + i" using le_Suc_ex by blast
    have "fenced_within (0 + j) ((wrap_shell sh ^^ j) l) = fenced_within 0 l" for j l
      by (induction j) (simp_all del: fenced_within.simps(2) add: fenced_wrap [OF assms])
    from this [of 5 "(wrap_shell sh ^^ i) line"] show ?thesis by (simp add: k funpow_add)
  qed
  ultimately show ?thesis by (cases "n \<le> 5") (simp_all add: FencedCommand_def fencedLine_def)
qed

theorem fence_unwraps_shells_witness:
  "''bash'' \<in> set shells \<and> FencedCommand ((wrap_shell ''bash'' ^^ 2) ''gh pr merge 1'') = fencedLine ''gh pr merge 1'' 2
     \<and> fencedLine ''gh pr merge 1'' 2 \<and> \<not> fencedLine ''gh pr view 1'' 2"
proof -
  have "''bash'' \<in> set shells" "fencedLine ''gh pr merge 1'' 2" "\<not> fencedLine ''gh pr view 1'' 2" by code_simp+
  then show ?thesis using fence_unwraps_shells [of "''bash''" 2 "''gh pr merge 1''"] by simp
qed

text \<open>
  (C18) The lexer inverts shell quoting: whatever words the commands of a line consist of, empty words,
  separators, quotes and substitutions inside a word included, lexing the quoted line gives back those commands.
\<close>
theorem lexCommands_roundtrip: "[] \<notin> set cmds \<Longrightarrow> lexCommands (shell_text cmds) = cmds"
  by (rule lexCommands_shell_text)

theorem lexCommands_roundtrip_witness:
  "[] \<notin> set [[''git'', ''a;b'', []], [[CHR 0x27], ''$(gh pr merge)'']]
     \<and> lexCommands (shell_text [[''git'', ''a;b'', []], [[CHR 0x27], ''$(gh pr merge)'']])
         = [[''git'', ''a;b'', []], [[CHR 0x27], ''$(gh pr merge)'']]"
  using lexCommands_roundtrip [of "[[''git'', ''a;b'', []], [[CHR 0x27], ''$(gh pr merge)'']]"] by simp

lemma fencedSegment_append: "fencedSegment nested ws \<Longrightarrow> fencedSegment nested (pre @ ws)"
  by (induction pre) simp_all

lemma fenced_git:
  "pathBase g = ''git'' \<Longrightarrow> git_fenced rest \<Longrightarrow> fencedSegment nested (pre @ g # rest)"
  by (rule fencedSegment_append) (simp add: shells_def)

lemma fenced_push_arg_False:
  assumes "\<not> fenced_push_arg a"
  shows "a \<notin> {''-f'', ''-d'', ''--delete'', ''--mirror'', ''--all'', ''--prune''} \<and> \<not> has_prefix a ''--force''
    \<and> \<not> has_prefix a ''+''
    \<and> (has_prefix a ''-'' \<or> push_dst a \<notin> {''main'', ''master''} \<and> (\<forall>b. a = CHR '':'' # b \<longrightarrow> CHR '':'' \<in> set b))"
proof -
  have flags: "a \<notin> set [''-f'', ''--force'', ''--delete'', ''-d'', ''--mirror'', ''--all'', ''--prune'']" "\<not> has_prefix a ''--force''"
    and plus: "\<not> has_prefix a ''+''"
    and spec: "has_prefix a ''-'' \<or> \<not> (has_prefix a '':'' \<and> CHR '':'' \<notin> set (tl a)) \<and> push_dst a \<notin> set protectedBranches"
    using assms unfolding fenced_push_arg_def by argo+
  have "a = CHR '':'' # b \<Longrightarrow> has_prefix a '':'' \<and> set (tl a) = set b" for b by simp
  with spec have "has_prefix a ''-'' \<or> push_dst a \<notin> {''main'', ''master''} \<and> (\<forall>b. a = CHR '':'' # b \<longrightarrow> CHR '':'' \<in> set b)"
    unfolding protectedBranches_def list.set by blast
  moreover have "a \<notin> {''-f'', ''-d'', ''--delete'', ''--mirror'', ''--all'', ''--prune''}" using flags(1) by simp
  ultimately show ?thesis using flags(2) plus by (intro conjI)
qed



end
