(* ===== verification/Gates.thy ===== *)
theory Gates
  imports Shell Complete
begin

text \<open>
  Answering a guest's permission requests: the policy rules (\<^verbatim>\<open>acp/rules.go\<close>), the gates around them
  (\<^verbatim>\<open>acp/permission.go\<close>, \<^verbatim>\<open>acp/space_read.go\<close>, \<^verbatim>\<open>acp/retention.go\<close>, \<^verbatim>\<open>FenceGate\<close> of
  \<^verbatim>\<open>acp/fence.go\<close>), their stack (\<^verbatim>\<open>permissionGate\<close> of \<^verbatim>\<open>runner/acp.go\<close>) and the answer
  (\<^verbatim>\<open>answerPermission\<close> of \<^verbatim>\<open>acp/client.go\<close>). A gate is a function from requests to decisions. A \<^verbatim>\<open>Live\<close>
  callback is \<open>None\<close> when unset and otherwise what it returns, \<open>None\<close> inside for an error.
\<close>

section \<open>Requests and decisions\<close>

record perm_option =
  po_id :: string
  po_name :: string
  po_kind :: string

text \<open>\<open>pm_call\<close> is what \<^verbatim>\<open>json.Unmarshal\<close> makes of the raw tool call \<open>pm_raw\<close>, \<open>None\<close> when it is no JSON text.\<close>

record permission =
  pm_session :: string
  pm_raw :: string
  pm_call :: "jval option"
  pm_options :: "perm_option list"

record decision =
  dc_matched :: bool
  dc_allow :: bool

type_synonym gate = "permission \<Rightarrow> decision"

abbreviation denied :: decision where
  "denied \<equiv> \<lparr>dc_matched = True, dc_allow = False\<rparr>"

abbreviation unmatched :: decision where
  "unmatched \<equiv> \<lparr>dc_matched = False, dc_allow = False\<rparr>"

abbreviation granted :: decision where
  "granted \<equiv> \<lparr>dc_matched = True, dc_allow = True\<rparr>"

definition DenyUnmatched :: gate where
  "DenyUnmatched p = unmatched"

definition jstring :: "jval \<Rightarrow> string \<Rightarrow> string" where
  "jstring m k = (case jget m k of Some (JStr s) \<Rightarrow> s | _ \<Rightarrow> [])"

text \<open>Decoding into a map succeeds for an object and for \<^verbatim>\<open>null\<close>.\<close>

definition toolCallFields :: "permission \<Rightarrow> string \<times> string \<times> string" where
  "toolCallFields p =
     (case pm_call p of
        Some m \<Rightarrow>
          (if (case m of JNull \<Rightarrow> True | JObj _ \<Rightarrow> True | _ \<Rightarrow> False) then
             let title = jstring m ''title'';
                 title = (if title = [] then jstring m ''toolName'' else title);
                 cmd = jstring m ''command'';
                 cmd = (if cmd = [] then jstring m ''title'' else cmd)
             in (title, jstring m ''kind'', cmd)
           else ([], [], pm_raw p))
      | None \<Rightarrow> ([], [], pm_raw p))"

section \<open>Rules\<close>

text \<open>\<^verbatim>\<open>strings.Fields\<close>.\<close>

function Fields :: "string \<Rightarrow> string list" where
  "Fields s = (let t = dropWhile is_space s in
     if t = [] then [] else takeWhile (\<lambda>c. \<not> is_space c) t # Fields (dropWhile (\<lambda>c. \<not> is_space c) t))"
  by pat_completeness auto
termination
proof (relation "measure length", simp)
  fix s :: string and t
  assume t: "t = dropWhile is_space s" and n: "t \<noteq> []"
  have "\<not> is_space (hd t)" using n unfolding t by (rule hd_dropWhile)
  then have "length (dropWhile (\<lambda>c. \<not> is_space c) t) < length t"
    using n by (cases t) (auto intro: le_imp_less_Suc length_dropWhile_le)
  then show "(dropWhile (\<lambda>c. \<not> is_space c) t, s) \<in> measure length"
    using length_dropWhile_le [of is_space s] unfolding t by simp
qed

declare Fields.simps [simp del]

definition fieldMatch :: "string \<Rightarrow> string \<Rightarrow> bool" where
  "fieldMatch want got =
     (if want = [] \<or> got = [] then False
      else to_lower want = to_lower got \<or> contains (to_lower got) (to_lower want))"

fun inOrder :: "string list \<Rightarrow> string list \<Rightarrow> bool" where
  "inOrder want [] = (want = [])"
| "inOrder [] (w # got) = True"
| "inOrder (x # want) (w # got) = inOrder (if w = x then want else x # want) got"

fun reject_segment :: "string list \<Rightarrow> string list \<Rightarrow> bool" where
  "reject_segment words [] = False"
| "reject_segment words (w # seg) =
     ((pathBase w = hd words \<and> inOrder (tl words) seg) \<or> reject_segment words seg)"

definition rejectCommand :: "string list \<Rightarrow> string list list \<Rightarrow> bool" where
  "rejectCommand words segs = (words \<noteq> [] \<and> list_ex (reject_segment words) segs)"

definition allowCommand :: "string list list \<Rightarrow> string list list \<Rightarrow> bool" where
  "allowCommand pres segs =
     (segs \<noteq> [] \<and> list_all (\<lambda>seg. \<not> list_ex (\<lambda>w. contains w ''>'') seg
        \<and> list_ex (\<lambda>p. length seg \<ge> length p \<and> equalPrefix seg p) pres) segs)"

definition fieldsMatch :: "allow_rule \<Rightarrow> string \<Rightarrow> string \<Rightarrow> bool" where
  "fieldsMatch r title kind =
     (if ar_tool r \<noteq> [] \<and> \<not> fieldMatch (ar_tool r) title \<and> \<not> fieldMatch (ar_tool r) kind then False
      else ar_kind r = [] \<or> fieldMatch (ar_kind r) kind \<or> fieldMatch (ar_kind r) title)"

definition RuleReject :: string where
  "RuleReject = ''reject''"

definition ruleMatches :: "allow_rule \<Rightarrow> string \<Rightarrow> string \<Rightarrow> string \<Rightarrow> bool" where
  "ruleMatches r title kind cmd =
     (if ar_tool r = [] \<and> ar_kind r = [] \<and> ar_command r = [] then ar_action r \<noteq> RuleReject
      else if \<not> fieldsMatch r title kind then False
      else if ar_command r = [] then True
      else let words = Fields (to_lower (ar_command r)) in
        rejectCommand words (lexCommands (to_lower cmd))
        \<or> (title \<noteq> cmd \<and> rejectCommand words (lexCommands (to_lower title))))"

fun rules_allow :: "allow_rule list \<Rightarrow> string \<Rightarrow> string \<Rightarrow> string \<Rightarrow> string list list \<Rightarrow> bool" where
  "rules_allow [] title kind cmd pres = allowCommand pres (lexCommands (to_lower cmd))"
| "rules_allow (r # rules) title kind cmd pres =
     (if ar_action r = RuleReject \<or> \<not> fieldsMatch r title kind then rules_allow rules title kind cmd pres
      else if ar_command r = [] then True
      else let words = Fields (to_lower (ar_command r)) in
        rules_allow rules title kind cmd (if words \<noteq> [] then pres @ [words] else pres))"

definition RulesGate :: "allow_rule list \<Rightarrow> gate" where
  "RulesGate rules p =
     (if rules = [] then unmatched
      else case toolCallFields p of (title, kind, cmd) \<Rightarrow>
        if list_ex (\<lambda>r. ar_action r = RuleReject \<and> ruleMatches r title kind cmd) rules then denied
        else if rules_allow rules title kind cmd [] then granted
        else unmatched)"

section \<open>The gates around the rules\<close>

definition ReadKinds :: "string list" where
  "ReadKinds = [''read'', ''search'', ''fetch'', ''think'']"

definition ToolKind :: "permission \<Rightarrow> string" where
  "ToolKind p = (case toolCallFields p of (_, kind, _) \<Rightarrow>
     let k = to_lower (trim_space kind) in if k = [] then ''execute'' else k)"

definition WriteCapable :: "permission \<Rightarrow> bool" where
  "WriteCapable p = (ToolKind p \<notin> set ReadKinds)"

definition hasToolGrant :: "string list \<Rightarrow> string \<Rightarrow> bool" where
  "hasToolGrant gs kind =
     list_ex (\<lambda>g. let t = to_lower (trim_space g) in t = ''write'' \<or> t = to_lower (trim_space kind)) gs"

definition SpaceReadGate :: "string list \<Rightarrow> string list option option \<Rightarrow> gate \<Rightarrow> gate" where
  "SpaceReadGate gs live inner p =
     (case live of
        Some None \<Rightarrow> if WriteCapable p then denied else inner p
      | _ \<Rightarrow>
          let now = (case live of Some (Some g) \<Rightarrow> g | _ \<Rightarrow> gs) in
          if WriteCapable p \<and> \<not> hasToolGrant now (ToolKind p) then denied else inner p)"

definition indefiniteRetention :: "string \<Rightarrow> bool" where
  "indefiniteRetention class = (class = ''indefinite'')"

definition RetentionWriteGate :: "string \<Rightarrow> bool \<Rightarrow> (string \<times> bool) option option \<Rightarrow> gate \<Rightarrow> gate" where
  "RetentionWriteGate class override live inner p =
     (if live = Some None \<and> WriteCapable p then denied
      else let (class, override) = (case live of Some (Some l) \<Rightarrow> l | _ \<Rightarrow> (class, override)) in
        if \<not> indefiniteRetention class then inner p
        else if \<not> WriteCapable p then inner p
        else if override then inner p
        else denied)"

definition FenceGate :: "gate \<Rightarrow> gate" where
  "FenceGate inner p = (case toolCallFields p of (title, _, cmd) \<Rightarrow>
     if FencedCommand cmd \<or> (title \<noteq> cmd \<and> FencedCommand title) then denied else inner p)"

section \<open>The stack and the answer\<close>

text \<open>The fields of \<^verbatim>\<open>runner.Assignment\<close> that the gates read.\<close>

record assignment =
  as_permissions :: "allow_rule list"
  as_exec_mode :: string
  as_tools :: "string list"
  as_live_tools :: "string list option option"
  as_retention :: string
  as_override :: bool
  as_live_retention :: "(string \<times> bool) option option"
  as_token :: string
  as_publication :: string

definition permissionGate :: "assignment option \<Rightarrow> gate" where
  "permissionGate ao =
     (case ao of
        None \<Rightarrow> DenyUnmatched
      | Some a \<Rightarrow>
          let gate = (if as_permissions a \<noteq> [] then RulesGate (as_permissions a) else DenyUnmatched);
              gate = (if NormalizeExecutionMode (as_exec_mode a) = ''space''
                      then SpaceReadGate (as_tools a) (as_live_tools a) gate else gate);
              gate = RetentionWriteGate (as_retention a) (as_override a) (as_live_retention a) gate
          in if as_token a \<noteq> [] \<or> as_publication a = ''plane'' then FenceGate gate else gate)"

definition looksLike :: "perm_option \<Rightarrow> string list \<Rightarrow> bool" where
  "looksLike opt words = list_ex (\<lambda>w. contains (to_lower (po_id opt)) w \<or> contains (to_lower (po_kind opt)) w) words"

definition pickOption :: "perm_option list \<Rightarrow> bool \<Rightarrow> string" where
  "pickOption opts allow =
     (if \<not> allow then
        (case find (\<lambda>opt. looksLike opt [''reject'', ''deny''] \<and> \<not> looksLike opt [''allow'']) opts of
           Some opt \<Rightarrow> po_id opt | None \<Rightarrow> ''reject-once'')
      else
        (case find (\<lambda>opt. looksLike opt [''allow'']) opts of Some opt \<Rightarrow> po_id opt | None \<Rightarrow> ''allow-once''))"

text \<open>
  The world of \<^verbatim>\<open>answerPermission\<close>: the id of the approval receipt, \<open>None\<close> when recording
  failed, the operator's answer
  for it when the client has a \<^verbatim>\<open>Wait\<close>, and whether the prompt's context has ended after the wait and when the
  answer is written. The result is the receipts recorded, as type and reason, and the option, \<open>None\<close> for
  \<^verbatim>\<open>cancelled\<close>.
\<close>

record answering =
  an_receipt :: "string option"
  an_wait :: "(string \<Rightarrow> decision) option"
  an_ended_waiting :: bool
  an_ended :: bool

definition settle_permission :: "gate \<Rightarrow> answering \<Rightarrow> permission \<Rightarrow> decision \<times> bool \<times> (string \<times> string) list" where
  "settle_permission gate an p =
     (let d = gate p in
      if \<not> dc_matched d then
        (case (an_receipt an, an_wait an) of
           (Some i, Some w) \<Rightarrow>
             (if an_ended_waiting an then unmatched else w i, an_ended_waiting an, [(''acp.approval'', ''permission_unmatched'')])
         | _ \<Rightarrow> (d, False, [(''acp.approval'', ''permission_unmatched'')]))
      else if \<not> dc_allow d then (d, False, [(''acp.approval'', ''denied'')])
      else (d, False, []))"

definition answerPermission :: "gate \<Rightarrow> answering \<Rightarrow> permission \<Rightarrow> string option \<times> (string \<times> string) list" where
  "answerPermission gate an p =
     (case settle_permission gate an p of (d, cancelled, recs) \<Rightarrow>
        let allow = dc_matched d \<and> dc_allow d;
            opt = pickOption (pm_options p) allow;
            opt = (if allow \<and> contains (to_lower opt) ''always'' then ''allow-once'' else opt)
        in (if cancelled \<or> an_ended an then None else Some opt, (''acp.session.request_permission'', ''recorded'') # recs))"

text \<open>\<^verbatim>\<open>claudeDecide\<close>, for a provider that offers options by id only; the first is the one that allows. Without a
  recorder the receipt's id is empty.\<close>

definition claudeDecide :: "assignment option \<Rightarrow> answering \<Rightarrow> string list \<Rightarrow> permission \<Rightarrow> string \<times> bool" where
  "claudeDecide ao an options p =
     (let d = permissionGate ao p;
          d = (if \<not> dc_matched d then
                 (case (an_receipt an, an_wait an) of (Some i, Some w) \<Rightarrow> w i | _ \<Rightarrow> d)
               else d)
      in if dc_matched d \<and> dc_allow d \<and> options \<noteq> [] then (hd options, True) else (''deny'', False))"

section \<open>Layers only narrow\<close>

text \<open>The contract of a gate put in front of another: it passes the request on or denies it.\<close>

locale gate_layer =
  fixes layer :: "gate \<Rightarrow> gate"
  assumes narrows: "layer g p = g p \<or> layer g p = denied"
begin

lemma layer_allow: "dc_allow (layer g p) \<Longrightarrow> layer g p = g p"
  using narrows [of g p] by auto

lemma layer_unmatched: "\<not> dc_matched (layer g p) \<Longrightarrow> layer g p = g p"
  using narrows [of g p] by auto

lemma layer_denies: "g p = denied \<Longrightarrow> layer g p = denied"
  using narrows [of g p] by auto

end

locale gate_stack = outer: gate_layer outer + inner: gate_layer inner
  for outer :: "gate \<Rightarrow> gate" and inner :: "gate \<Rightarrow> gate"

sublocale gate_stack \<subseteq> both: gate_layer "\<lambda>g. outer (inner g)"
  using outer.narrows inner.narrows by unfold_locales metis

interpretation space_layer: gate_layer "SpaceReadGate gs live" for gs live
  by unfold_locales (auto simp: SpaceReadGate_def Let_def split: option.splits)

interpretation retention_layer: gate_layer "RetentionWriteGate cl override live" for cl override live
  by unfold_locales (auto simp: RetentionWriteGate_def Let_def split: option.splits)

interpretation fence_layer: gate_layer FenceGate
  by unfold_locales (auto simp: FenceGate_def split: prod.splits)

interpretation fenced_retention: gate_stack FenceGate "RetentionWriteGate cl override live" for cl override live
  by unfold_locales

section \<open>What an allowed request satisfies\<close>

lemma inOrder_subseq: "inOrder want got = subseq want got"
  by (induction want got rule: inOrder.induct) auto

lemma reject_segment_iff:
  "reject_segment words seg \<longleftrightarrow> (\<exists>pre w rest. seg = pre @ w # rest \<and> pathBase w = hd words \<and> subseq (tl words) rest)"
proof (induction seg)
  case (Cons v seg)
  have "(\<exists>pre w rest. v # seg = pre @ w # rest \<and> pathBase w = hd words \<and> subseq (tl words) rest)
    \<longleftrightarrow> (pathBase v = hd words \<and> subseq (tl words) seg)
        \<or> (\<exists>pre w rest. seg = pre @ w # rest \<and> pathBase w = hd words \<and> subseq (tl words) rest)"
    by (auto simp: Cons_eq_append_conv)
  then show ?case by (simp only: reject_segment.simps inOrder_subseq Cons.IH)
qed simp

text \<open>
  (C19) Reject rules see through wrappers. The greedy scan of \<open>rejectCommand\<close> finds a rule's words exactly when some
  command of the line has the first word, or a path ending in it, anywhere, and the other words after it as a
  subsequence, so that environment assignments and flags in between do not matter.
\<close>
theorem reject_is_subsequence:
  "rejectCommand words segs \<longleftrightarrow> words \<noteq> [] \<and> (\<exists>seg \<in> set segs. \<exists>pre w rest.
     seg = pre @ w # rest \<and> pathBase w = hd words \<and> subseq (tl words) rest)"
  by (simp add: rejectCommand_def list_ex_iff reject_segment_iff)

lemma equalPrefix_iff: "length p \<le> length seg \<and> equalPrefix seg p \<longleftrightarrow> prefix p seg"
  by (auto simp: equalPrefix_def prefix_def) (metis append_take_drop_id)

definition rule_applies :: "string \<Rightarrow> string \<Rightarrow> allow_rule \<Rightarrow> bool" where
  "rule_applies title kind r = (ar_action r \<noteq> RuleReject \<and> fieldsMatch r title kind)"

lemma rules_allow_iff:
  "rules_allow rules title kind cmd pres \<longleftrightarrow>
     (\<exists>r \<in> set rules. rule_applies title kind r \<and> ar_command r = [])
     \<or> allowCommand (pres @ filter (\<lambda>ws. ws \<noteq> []) (map (\<lambda>r. Fields (to_lower (ar_command r)))
           (filter (\<lambda>r. rule_applies title kind r) rules))) (lexCommands (to_lower cmd))"
  by (induction rules arbitrary: pres) (auto simp: Let_def rule_applies_def)

lemma allowCommand_iff:
  "allowCommand pres segs \<longleftrightarrow> segs \<noteq> [] \<and> (\<forall>seg \<in> set segs.
     (\<forall>w \<in> set seg. CHR ''>'' \<notin> set w) \<and> (\<exists>p \<in> set pres. prefix p seg))"
proof -
  have c: "contains w [c] \<longleftrightarrow> c \<in> set w" for w c
    by (auto simp: contains_iff in_set_conv_decomp)
  show ?thesis
    by (auto simp: allowCommand_def list_all_iff list_ex_iff equalPrefix_iff c)
qed

text \<open>
  (C14) What the policy rules allow. When the rules allow a request, no reject rule matches it, and either an allow
  rule without a command matches its tool and kind, or the command line is not empty and every command in it begins
  with the words of an allow rule that matches and redirects nothing.
\<close>
theorem rules_gate_sound:
  assumes "dc_allow (RulesGate rules p)" and "toolCallFields p = (title, kind, cmd)"
  shows "(\<forall>r \<in> set rules. ar_action r = RuleReject \<longrightarrow> \<not> ruleMatches r title kind cmd)
    \<and> ((\<exists>r \<in> set rules. rule_applies title kind r \<and> ar_command r = [])
      \<or> lexCommands (to_lower cmd) \<noteq> []
        \<and> (\<forall>seg \<in> set (lexCommands (to_lower cmd)). (\<forall>w \<in> set seg. CHR ''>'' \<notin> set w)
           \<and> (\<exists>r \<in> set rules. rule_applies title kind r
                \<and> Fields (to_lower (ar_command r)) \<noteq> [] \<and> prefix (Fields (to_lower (ar_command r))) seg)))"
  using assms by (auto simp: RulesGate_def list_ex_iff rules_allow_iff allowCommand_iff split: if_splits)

text \<open>A request for a shell tool, and the rules of a project that allows its tests and rejects publishing.\<close>

definition demo_call :: "string \<Rightarrow> string \<Rightarrow> permission" where
  "demo_call kind cmd = \<lparr>pm_session = ''s'', pm_raw = [],
     pm_call = Some (JObj [(''title'', JStr ''Shell''), (''kind'', JStr kind), (''command'', JStr cmd)]),
     pm_options = [\<lparr>po_id = ''allow_always'', po_name = ''Always'', po_kind = ''allow_always''\<rparr>,
       \<lparr>po_id = ''no'', po_name = ''No'', po_kind = ''reject_once''\<rparr>]\<rparr>"

definition demo_rules :: "allow_rule list" where
  "demo_rules = [\<lparr>ar_tool = [], ar_kind = ''execute'', ar_command = ''npm test'', ar_action = ''allow''\<rparr>,
     \<lparr>ar_tool = [], ar_kind = [], ar_command = ''npm publish'', ar_action = ''reject''\<rparr>]"

theorem rules_gate_sound_witness:
  "dc_allow (RulesGate demo_rules (demo_call ''execute'' ''npm test a && npm test b''))
   \<and> [''npm'', ''test'', ''b''] \<in> set (lexCommands (to_lower ''npm test a && npm test b''))
   \<and> (\<exists>r \<in> set demo_rules. prefix (Fields (to_lower (ar_command r))) [''npm'', ''test'', ''b''])"
proof -
  let ?p = "demo_call ''execute'' ''npm test a && npm test b''"
  have a: "dc_allow (RulesGate demo_rules ?p)" by code_simp
  have f: "toolCallFields ?p = (''Shell'', ''execute'', ''npm test a && npm test b'')" by code_simp
  have "\<forall>r \<in> set demo_rules. ar_command r \<noteq> []" by (simp add: demo_rules_def)
  moreover have l: "[''npm'', ''test'', ''b''] \<in> set (lexCommands (to_lower ''npm test a && npm test b''))" by code_simp
  ultimately show ?thesis using rules_gate_sound [OF a f] a by blast
qed

text \<open>Which grants and which retention a decision is made with.\<close>

definition live_grants :: "assignment \<Rightarrow> string list" where
  "live_grants a = (case as_live_tools a of Some (Some g) \<Rightarrow> g | Some None \<Rightarrow> [] | None \<Rightarrow> as_tools a)"

definition live_retention :: "assignment \<Rightarrow> string \<times> bool" where
  "live_retention a = (case as_live_retention a of Some (Some l) \<Rightarrow> l | _ \<Rightarrow> (as_retention a, as_override a))"

lemma SpaceReadGate_allow:
  "dc_allow (SpaceReadGate gs live g p) \<Longrightarrow> WriteCapable p
     \<Longrightarrow> hasToolGrant (case live of Some (Some g) \<Rightarrow> g | Some None \<Rightarrow> [] | None \<Rightarrow> gs) (ToolKind p)"
  by (auto simp: SpaceReadGate_def Let_def split: option.splits if_splits)

lemma RetentionWriteGate_allow:
  "dc_allow (RetentionWriteGate cl override live g p) \<Longrightarrow> WriteCapable p
     \<Longrightarrow> case (case live of Some (Some l) \<Rightarrow> l | _ \<Rightarrow> (cl, override)) of (c, ok) \<Rightarrow> c = ''indefinite'' \<longrightarrow> ok"
  by (auto simp: RetentionWriteGate_def indefiniteRetention_def Let_def split: option.splits if_splits)

lemma FenceGate_allow:
  "dc_allow (FenceGate g p) \<Longrightarrow> toolCallFields p = (title, kind, cmd) \<Longrightarrow> \<not> FencedCommand cmd \<and> \<not> FencedCommand title"
  by (auto simp: FenceGate_def split: if_splits)

text \<open>
  (C13) The gate stack only narrows policy. A request that the runner's gates allow is allowed by the project's rules;
  a write-capable one, in a space-mode session, has a live tool grant for its kind or for \<^verbatim>\<open>write\<close>, and, under
  indefinite retention, a live override; and in a publishing session neither its command nor its title is fenced.
\<close>
theorem permission_gate_narrows:
  assumes "dc_allow (permissionGate (Some a) p)" and "toolCallFields p = (title, kind, cmd)"
  shows "dc_allow (RulesGate (as_permissions a) p)
    \<and> (WriteCapable p \<longrightarrow> NormalizeExecutionMode (as_exec_mode a) = ''space'' \<longrightarrow> hasToolGrant (live_grants a) (ToolKind p))
    \<and> (WriteCapable p \<longrightarrow> fst (live_retention a) = ''indefinite'' \<longrightarrow> snd (live_retention a))
    \<and> (as_token a \<noteq> [] \<or> as_publication a = ''plane'' \<longrightarrow> \<not> FencedCommand cmd \<and> \<not> FencedCommand title)"
proof -
  define rules where "rules = (if as_permissions a \<noteq> [] then RulesGate (as_permissions a) else DenyUnmatched)"
  define space where "space = (if NormalizeExecutionMode (as_exec_mode a) = ''space''
      then SpaceReadGate (as_tools a) (as_live_tools a) rules else rules)"
  define ret where "ret = RetentionWriteGate (as_retention a) (as_override a) (as_live_retention a) space"
  have g: "permissionGate (Some a) = (if as_token a \<noteq> [] \<or> as_publication a = ''plane'' then FenceGate ret else ret)"
    by (simp add: permissionGate_def rules_def space_def ret_def Let_def)
  have r: "dc_allow (ret p)"
    using assms(1) fence_layer.layer_allow [of ret p] by (auto simp: g split: if_splits)
  then have s: "dc_allow (space p)" using retention_layer.layer_allow [of _ _ _ space p] by (simp add: ret_def)
  then have d: "dc_allow (rules p)"
    using space_layer.layer_allow [of "as_tools a" "as_live_tools a" rules p] by (simp add: space_def split: if_splits)
  have "dc_allow (RulesGate (as_permissions a) p)" using d by (auto simp: rules_def DenyUnmatched_def split: if_splits)
  moreover have "WriteCapable p \<Longrightarrow> NormalizeExecutionMode (as_exec_mode a) = ''space'' \<Longrightarrow> hasToolGrant (live_grants a) (ToolKind p)"
    using SpaceReadGate_allow [of "as_tools a" "as_live_tools a" rules p] s by (simp add: space_def live_grants_def)
  moreover have "WriteCapable p \<Longrightarrow> fst (live_retention a) = ''indefinite'' \<Longrightarrow> snd (live_retention a)"
    using RetentionWriteGate_allow [OF r [unfolded ret_def]] by (simp add: live_retention_def split_beta)
  moreover have "as_token a \<noteq> [] \<or> as_publication a = ''plane'' \<Longrightarrow> \<not> FencedCommand cmd \<and> \<not> FencedCommand title"
    using assms(1) FenceGate_allow [OF _ assms(2), of ret] by (simp add: g)
  ultimately show ?thesis by blast
qed

definition demo_assignment :: assignment where
  "demo_assignment = \<lparr>as_permissions = demo_rules, as_exec_mode = [], as_tools = [], as_live_tools = Some (Some [''Execute'']),
     as_retention = ''short'', as_override = False, as_live_retention = Some (Some (''indefinite'', True)),
     as_token = [], as_publication = ''plane''\<rparr>"

theorem permission_gate_narrows_witness:
  "dc_allow (permissionGate (Some demo_assignment) (demo_call ''execute'' ''npm test''))
   \<and> dc_allow (RulesGate demo_rules (demo_call ''execute'' ''npm test'')) \<and> \<not> FencedCommand ''npm test''
   \<and> hasToolGrant (live_grants demo_assignment) (ToolKind (demo_call ''execute'' ''npm test''))"
proof -
  let ?p = "demo_call ''execute'' ''npm test''"
  have a: "dc_allow (permissionGate (Some demo_assignment) ?p)" by code_simp
  have f: "toolCallFields ?p = (''Shell'', ''execute'', ''npm test'')" by code_simp
  have "as_permissions demo_assignment = demo_rules" "as_publication demo_assignment = ''plane''" by (simp_all add: demo_assignment_def)
  moreover have "WriteCapable ?p" "NormalizeExecutionMode (as_exec_mode demo_assignment) = ''space''" by code_simp+
  ultimately show ?thesis using permission_gate_narrows [OF a f] a by simp
qed

lemma pickOption_denied: "\<not> contains (to_lower (pickOption opts False)) ''allow''"
proof (cases "find (\<lambda>opt. looksLike opt [''reject'', ''deny''] \<and> \<not> looksLike opt [''allow'']) opts")
  case None
  moreover have "\<not> contains (to_lower ''reject-once'') ''allow''" by code_simp
  ultimately show ?thesis by (simp add: pickOption_def)
next
  case (Some opt)
  then have "\<not> looksLike opt [''allow'']" by (auto simp: find_Some_iff)
  with Some show ?thesis by (simp add: pickOption_def looksLike_def)
qed


definition demo_answering :: answering where
  "demo_answering = \<lparr>an_receipt = Some ''act-1'', an_wait = Some (\<lambda>i. granted), an_ended_waiting = False, an_ended = False\<rparr>"




end
