(* ===== verification/Retention.thy ===== *)
theory Retention
  imports Plant Frames Gates "HOL-Library.AList"
begin

text \<open>
  What may be done in a session and how long its data is kept: write-tool grants (\<^verbatim>\<open>store/tool_grant.go\<close>), the
  validity of a recorded approval (\<^verbatim>\<open>allowStillValid\<close> of \<^verbatim>\<open>server/approvals.go\<close>), archiving a session and its
  children (\<^verbatim>\<open>engine/archive.go\<close>) and removing the data of an expired one (\<^verbatim>\<open>engine/retention.go\<close>,
  \<^verbatim>\<open>store/retention.go\<close>). The table \<open>tools\<close> holds the grants that are not revoked; the attachment files on disk are
  not modelled.
\<close>

section \<open>Tool grants\<close>

definition NormalizeTool :: "string \<Rightarrow> string" where
  "NormalizeTool name = to_lower (trim_space name)"

definition GrantSessionTool :: "int \<Rightarrow> string \<Rightarrow> string \<Rightarrow> db \<Rightarrow> db \<times> unit res" where
  "GrantSessionTool sid tool by db =
     (case GetSessionTx sid db of
        Inl x \<Rightarrow> (db, Inl x)
      | Inr s \<Rightarrow>
          if NormalizeExecutionMode (s_exec_mode s) = ''user'' then (db, Inl (EText ''user-mode sessions do not use space tool grants''))
          else run_tx (\<lambda>db. bindE (GrantSessionToolTx sid tool by db) (\<lambda>db. Inr (db, ()))) db)"

definition RevokeSessionToolTx :: "int \<Rightarrow> string \<Rightarrow> db \<Rightarrow> (db \<times> unit) res" where
  "RevokeSessionToolTx sid tool db =
     (let t = NormalizeTool tool in
      if list_ex (\<lambda>(s, n, _). s = sid \<and> n = t) (tools db)
      then Inr (db\<lparr>tools := filter (\<lambda>(s, n, _). \<not> (s = sid \<and> n = t)) (tools db)\<rparr>, ())
      else Inl (EText ''unknown tool grant''))"

definition RevokeSessionTool :: "int \<Rightarrow> string \<Rightarrow> db \<Rightarrow> db \<times> unit res" where
  "RevokeSessionTool sid tool = run_tx (RevokeSessionToolTx sid tool)"

definition SessionToolGrantNames :: "int \<Rightarrow> db \<Rightarrow> string list" where
  "SessionToolGrantNames sid db = map (\<lambda>(_, n, _). n) (filter (\<lambda>(s, _). s = sid) (tools db))"

definition SessionHasToolGrant :: "int \<Rightarrow> string \<Rightarrow> db \<Rightarrow> bool" where
  "SessionHasToolGrant sid tool db =
     list_ex (\<lambda>(s, n, _). s = sid \<and> (n = NormalizeTool tool \<or> n = ''write'')) (tools db)"

fun add_tools :: "string list \<Rightarrow> string list \<Rightarrow> string list" where
  "add_tools out [] = out"
| "add_tools out (g # gs) =
     (let t = NormalizeTool g in add_tools (if t = [] \<or> t \<in> set out then out else out @ [t]) gs)"

definition SpaceToolSet :: "string \<Rightarrow> string list \<Rightarrow> string list" where
  "SpaceToolSet mode gs =
     (if NormalizeExecutionMode mode = ''user'' then [''user'']
      else add_tools [''read'', ''search'', ''fetch'', ''think''] gs)"

section \<open>Approvals\<close>

text \<open>\<^verbatim>\<open>fillSessionRetention\<close>: class and override of a session, its expiry and whether it has expired.\<close>

definition session_retention :: "int \<Rightarrow> db \<Rightarrow> string \<times> bool \<times> time option \<times> bool" where
  "session_retention sid db =
     (case retention_of sid db of
        None \<Rightarrow> (RetentionShort, False, None, False)
      | Some r \<Rightarrow> (NormalizeRetention (rt_class r), rt_override r, rt_expires r, rt_expired r))"

definition refuses :: "decision \<Rightarrow> bool" where
  "refuses d = (dc_matched d \<and> \<not> dc_allow d)"

text \<open>\<open>params\<close> is what the action's body decodes to; a body that does not decode leaves an empty request.\<close>

definition allowStillValid :: "eng \<Rightarrow> (jval \<Rightarrow> permission) \<Rightarrow> string \<Rightarrow> db \<Rightarrow> bool" where
  "allowStillValid eg params aid db =
     (case find (\<lambda>a. a_id a = aid) (actions db) of
        None \<Rightarrow> False
      | Some act \<Rightarrow>
     (case a_turn act of
        None \<Rightarrow> False
      | Some tid \<Rightarrow>
     (case turn_of db tid of
        None \<Rightarrow> False
      | Some t \<Rightarrow>
          if t_state t \<noteq> Leased then False
          else case session_of db (t_session t) of
            None \<Rightarrow> False
          | Some s \<Rightarrow>
              let p = params (a_body act);
                  (class, override, _, _) = session_retention (s_id s) db
              in \<not> Paused (s_project s) db
                 \<and> \<not> (NormalizeExecutionMode (s_exec_mode s) = ''space''
                       \<and> refuses (SpaceReadGate (SessionToolGrantNames (s_id s) db) None DenyUnmatched p))
                 \<and> \<not> refuses (RetentionWriteGate class override None DenyUnmatched p)
                 \<and> \<not> (ImplementTask eg s db \<noteq> None \<and> refuses (FenceGate (RulesGate []) p))
                 \<and> (case Project (eg_policy eg) (s_project s) of
                      None \<Rightarrow> True
                    | Some pr \<Rightarrow> \<not> refuses (RulesGate (pr_permissions pr) p)))))"

section \<open>Archiving\<close>

definition SetSessionArchived :: "int \<Rightarrow> bool \<Rightarrow> db \<Rightarrow> db" where
  "SetSessionArchived sid on = set_session sid (\<lambda>s. s\<lparr>s_archived := on\<rparr>)"

definition archive_turn :: "eng \<Rightarrow> int \<Rightarrow> db \<Rightarrow> db res" where
  "archive_turn eg tid db =
     bindE (cancelTurnTx eg tid db) (\<lambda>db.
     bindE (GetJobByIDTx tid db) (\<lambda>j.
       if j_state j \<noteq> Queued then Inr db
       else finishMeasurementTx (j_id j) Failed zero_artifact (eg_now eg) (UpdateJobTx (j\<lparr>j_state := Failed\<rparr>) db)))"

definition failArchivedTurns :: "eng \<Rightarrow> int \<Rightarrow> db \<Rightarrow> db \<times> unit res" where
  "failArchivedTurns eg sid db =
     run_tx (\<lambda>d. bindE (for_each (\<lambda>t. archive_turn eg (t_id t)) (listTurnsForSession sid db) d) (\<lambda>d. Inr (d, ()))) db"

definition ListChildSessionIDs :: "int \<Rightarrow> db \<Rightarrow> int list" where
  "ListChildSessionIDs sid db = map s_id (filter (\<lambda>s. s_parent s = sid) (sessions db))"

text \<open>The database part of archiving one session, before its children: the first error ends it.\<close>

definition archive_one :: "eng \<Rightarrow> sess_row \<Rightarrow> db \<Rightarrow> db \<times> unit res" where
  "archive_one eg s db =
     (let db = (if s_archived s then db else SetSessionArchived (s_id s) True db) in
      if listTurnsForSession (s_id s) db = [] then (db, Inr ())
      else case DropQueuedPrompts eg (s_id s) db of
        (db, Inl x) \<Rightarrow> (db, Inl x)
      | (db, Inr _) \<Rightarrow> failArchivedTurns eg (s_id s) db)"

definition archive_env :: "plant_config \<Rightarrow> eng \<Rightarrow> int \<Rightarrow> plant \<Rightarrow> plant \<times> err list" where
  "archive_env pc eg i st =
     (case GetEnvironment i st of
        Inl x \<Rightarrow> (st, [x])
      | Inr e \<Rightarrow>
          if e_name e = LocalEnvironmentName \<or> e_handle e = [] \<or> e_state e \<noteq> EnvReady then (st, [])
          else let st = st\<lparr>pn_terminals := filter (\<lambda>(k, _). k \<noteq> i) (pn_terminals st),
                          pn_previews := map (\<lambda>(k, x, r). (k, x, r \<or> k = i)) (pn_previews st)\<rparr>
               in case SleepEnvironment pc eg i st of
                    (st, Inl x) \<Rightarrow> (st, if x = EBusy then [] else [x])
                  | (st, Inr _) \<Rightarrow> (st, []))"

text \<open>Archiving recurs into the children; errors of the children and of the environment are joined. \<open>n\<close> bounds the
  depth of the session tree.\<close>

primrec ArchiveSession :: "nat \<Rightarrow> plant_config \<Rightarrow> eng \<Rightarrow> int \<Rightarrow> plant \<Rightarrow> plant \<times> err list" where
  "ArchiveSession 0 pc eg sid st = (st, [EText ''session tree too deep''])"
| "ArchiveSession (Suc n) pc eg sid st =
     (case GetSessionTx sid (pn_db st) of
        Inl x \<Rightarrow> (st, [x])
      | Inr s \<Rightarrow>
     (case archive_one eg s (pn_db st) of
        (db, Inl x) \<Rightarrow> (st\<lparr>pn_db := db\<rparr>, [x])
      | (db, Inr _) \<Rightarrow>
     (case fold (\<lambda>c (st, errs). case ArchiveSession n pc eg c st of (st, e) \<Rightarrow> (st, errs @ e))
            (ListChildSessionIDs sid db) (st\<lparr>pn_db := db\<rparr>, []) of
        (st, errs) \<Rightarrow> (case archive_env pc eg (s_env s) st of (st, e) \<Rightarrow> (st, errs @ e)))))"

definition UnarchiveSession :: "int \<Rightarrow> db \<Rightarrow> db \<times> unit res" where
  "UnarchiveSession sid db =
     (case GetSessionTx sid db of
        Inl x \<Rightarrow> (db, Inl x)
      | Inr s \<Rightarrow>
          if \<not> s_archived s then (db, Inr ())
          else case session_retention sid db of (_, _, _, expired) \<Rightarrow>
            if expired then (db, Inl ERetentionExpired) else (SetSessionArchived sid False db, Inr ()))"

section \<open>Removing session data\<close>

definition jset :: "string \<Rightarrow> jval \<Rightarrow> jval \<Rightarrow> jval" where
  "jset k v j = (case j of JObj kvs \<Rightarrow> JObj (AList.update k v kvs) | _ \<Rightarrow> j)"

text \<open>A body that is no object is not decoded; \<^verbatim>\<open>null\<close> decodes to a nil map, and assigning to that panics.\<close>

definition scrubActionPromptBody :: "string \<Rightarrow> jval \<Rightarrow> jval res" where
  "scrubActionPromptBody typ body =
     (case body of
        JObj _ \<Rightarrow>
          if typ = ''operator.steer'' then Inr (jset ''prompt'' (JStr []) body)
          else if typ = ''acp.session.update'' then
            (case jget body ''update'' of
               Some (JObj u) \<Rightarrow>
                 if jstring (JObj u) ''sessionUpdate'' \<notin> set [''user_message_chunk'', ''agent_message_chunk''] then Inr body
                 else (case jget (JObj u) ''content'' of
                         Some (JObj c) \<Rightarrow> Inr (jset ''update'' (jset ''content'' (jset ''text'' (JStr []) (JObj c)) (JObj u)) body)
                       | _ \<Rightarrow> Inr body)
             | _ \<Rightarrow> Inr body)
          else Inr body
      | JNull \<Rightarrow> if typ = ''operator.steer'' then Inl (EText ''assignment to entry in nil map'') else Inr body
      | _ \<Rightarrow> if typ = ''operator.steer'' then Inr (JObj [(''prompt'', JStr [])]) else Inr body)"

definition prompt_bearing :: "int \<Rightarrow> action_row \<Rightarrow> bool" where
  "prompt_bearing sid a = (a_session a = Some sid \<and> a_type a \<in> set [''operator.steer'', ''acp.session.update''])"

fun scrub_actions :: "int \<Rightarrow> action_row list \<Rightarrow> action_row list res" where
  "scrub_actions sid [] = Inr []"
| "scrub_actions sid (a # as) =
     bindE (if prompt_bearing sid a then bindE (scrubActionPromptBody (a_type a) (a_body a)) (\<lambda>b. Inr (a\<lparr>a_body := b\<rparr>)) else Inr a)
       (\<lambda>a. bindE (scrub_actions sid as) (\<lambda>as. Inr (a # as)))"

definition scrub_snapshots :: "sess_row \<Rightarrow> db \<Rightarrow> db" where
  "scrub_snapshots s db =
     (if s_kind s \<in> set [SessionKindRun, SessionKindScheduled, ''local'']
      then db\<lparr>snaps := sql_update (\<lambda>n. sn_repo n = s_repo s \<and> sn_item n = s_item s)
             (\<lambda>n. n\<lparr>sn_payload := (sn_payload n)\<lparr>it_body := []\<rparr>\<rparr>) (snaps db)\<rparr>
      else db)"

definition ClearSessionDataTx :: "int \<Rightarrow> db \<Rightarrow> db res" where
  "ClearSessionDataTx sid db =
     (let db = set_session sid (\<lambda>s. s\<lparr>s_prompt := [], s_guest_config := None, s_guest_pin := [], s_guest_session := []\<rparr>) db;
          db = db\<lparr>followups := sql_update (\<lambda>f. f_session f = sid) (\<lambda>f. f\<lparr>f_prompt := []\<rparr>) (followups db),
                  steers := sql_update (\<lambda>x. st_session x = sid) (\<lambda>x. x\<lparr>st_prompt := []\<rparr>) (steers db),
                  tasks := sql_update (\<lambda>t. tk_session t = sid) (\<lambda>t. t\<lparr>tk_prompt := []\<rparr>) (tasks db)\<rparr>
      in bindE (scrub_actions sid (actions db)) (\<lambda>as.
         let db = db\<lparr>actions := as\<rparr> in
         bindE (GetSessionTx sid db) (\<lambda>s.
         let db = scrub_snapshots s db in
         Inr (db\<lparr>attachs := filter (\<lambda>a. at_session a \<noteq> sid) (attachs db),
                 flights := filter (\<lambda>(tid, _). case turn_of db tid of None \<Rightarrow> True | Some t \<Rightarrow> t_session t \<noteq> sid) (flights db)\<rparr>))))"

definition MarkRetentionExpiredTx :: "int \<Rightarrow> db \<Rightarrow> db" where
  "MarkRetentionExpiredTx sid db =
     db\<lparr>retention := sql_update (\<lambda>r. rt_session r = sid) (\<lambda>r. r\<lparr>rt_expired := True\<rparr>) (retention db)\<rparr>"

definition dueForExpiry :: "int \<Rightarrow> time \<Rightarrow> db \<Rightarrow> bool" where
  "dueForExpiry sid now db = (case session_retention sid db of (class, _, expires, expired) \<Rightarrow>
     \<not> expired \<and> class = RetentionShort \<and> (case expires of None \<Rightarrow> False | Some t \<Rightarrow> \<not> t > now))"

definition retention_action :: "eng \<Rightarrow> int \<Rightarrow> string \<Rightarrow> string \<Rightarrow> string \<Rightarrow> action_row" where
  "retention_action eg sid typ sentence class =
     \<lparr>a_id = typ @ ''-'' @ show_int sid @ ''-'' @ show_int (eg_now eg), a_session = Some sid, a_turn = None, a_review = None,
      a_repo = [], a_item = 0, a_type = typ, a_reason = ''recorded'', a_class = ''plane_observed'', a_limit = sentence,
      a_body = JObj [(''retention'', JStr class)]\<rparr>"

definition finishRetentionTx :: "eng \<Rightarrow> int \<Rightarrow> string \<Rightarrow> string \<Rightarrow> bool \<Rightarrow> db \<Rightarrow> (db \<times> unit) res" where
  "finishRetentionTx eg sid typ sentence require_due db =
     bindE (GetSessionTx sid db) (\<lambda>_.
       case session_retention sid db of (class, _, _, expired) \<Rightarrow>
         if expired then Inr (db, ())
         else if require_due \<and> \<not> dueForExpiry sid (eg_now eg) db then Inr (db, ())
         else bindE (ClearSessionDataTx sid db) (\<lambda>db.
              bindE (InsertActionTx (retention_action eg sid typ sentence class) (MarkRetentionExpiredTx sid db)) (\<lambda>db. Inr (db, ()))))"

definition finishRetention :: "nat \<Rightarrow> plant_config \<Rightarrow> eng \<Rightarrow> int \<Rightarrow> string \<Rightarrow> string \<Rightarrow> bool \<Rightarrow> plant \<Rightarrow> plant \<times> err list" where
  "finishRetention n pc eg sid typ sentence require_due st =
     (case run_tx (finishRetentionTx eg sid typ sentence require_due) (pn_db st) of
        (db, Inl x) \<Rightarrow> (st\<lparr>pn_db := db\<rparr>, [x])
      | (db, Inr _) \<Rightarrow>
          (let st = st\<lparr>pn_db := db\<rparr> in
           case session_retention sid db of (_, _, _, expired) \<Rightarrow>
             if \<not> expired then (st, []) else ArchiveSession n pc eg sid st))"

definition ExpireSession :: "nat \<Rightarrow> plant_config \<Rightarrow> eng \<Rightarrow> int \<Rightarrow> plant \<Rightarrow> plant \<times> err list" where
  "ExpireSession n pc eg sid =
     finishRetention n pc eg sid ''retention.expire'' ''Short-lived session data was removed after the retention TTL.'' True"

definition DeleteSessionRetention :: "nat \<Rightarrow> plant_config \<Rightarrow> eng \<Rightarrow> int \<Rightarrow> plant \<Rightarrow> plant \<times> err list" where
  "DeleteSessionRetention n pc eg sid =
     finishRetention n pc eg sid ''retention.delete'' ''Session data was removed by an explicit retention deletion.'' False"

definition ListDueRetentionSessionIDs :: "time \<Rightarrow> db \<Rightarrow> int list" where
  "ListDueRetentionSessionIDs now db =
     map rt_session (filter (\<lambda>r. rt_class r = RetentionShort \<and> \<not> rt_expired r
        \<and> (case rt_expires r of None \<Rightarrow> False | Some t \<Rightarrow> \<not> t > now)) (retention db))"

definition ExpireRetainedSessions :: "nat \<Rightarrow> plant_config \<Rightarrow> eng \<Rightarrow> plant \<Rightarrow> plant \<times> err list" where
  "ExpireRetainedSessions n pc eg st =
     fold (\<lambda>sid (st, errs). case ExpireSession n pc eg sid st of (st, e) \<Rightarrow> (st, errs @ e))
       (ListDueRetentionSessionIDs (eg_now eg) (pn_db st)) (st, [])"

end
