(* ===== verification/Spec2Isabelle.thy ===== *)
theory Spec2Isabelle
  imports Claiming Fencing Retention
begin

text \<open>
  Rusui is a self-hosted environment plane for coding agents. A policy file says which projects,
  repositories, guests and permissions exist; sessions and their turns are stored in SQLite and leased
  to runners.
\<close>

end
